(* ===== verification/Prelude.thy ===== *)
theory Prelude
  imports Main
begin

text \<open>
  What every component of the model shares: Go's error values, HTTP responses as the
  handlers build them, log records, and the generic list lemmas.

  A Go error is a value that may wrap others (\<open>fmt.Errorf\<close> with the \<open>%w\<close> verb,
  \<open>errors.Join\<close>); \<open>errors.Is\<close> asks whether a sentinel occurs anywhere in the tree.
  The text of a message is kept as its format string, shortened to its first clause, next to
  the arguments it is formatted with.
\<close>

named_theorems resp_simps \<comment> \<open>the canned responses and what is in them\<close>

section \<open>Errors\<close>

datatype sentinel =
    ErrInvalidCredential | ErrCredentialUnavailable | ErrKeyNotFound
  | ErrSessionNotFound | ErrCacheMiss | ErrUnusableRecord | ErrNoRows
  | ErrReservedMetadata | ErrOrderNotFound | ErrRepoOrderNotFound

text \<open>The contract violations of restkit; they are errors as well.\<close>

datatype violation =
    MissingAuthorization string string            \<comment> \<open>method, path\<close>
  | UndeclaredAuthorization string string string string
                                                  \<comment> \<open>method, path, declared type, passed type\<close>
  | DeclarationDrift string string int            \<comment> \<open>method, path, status\<close>

datatype goerr =
    Sentinel sentinel
  | Errorf string "string list" "goerr list"      \<comment> \<open>format, arguments, what \<open>%w\<close> wraps\<close>
  | HTTPErr int string string                     \<comment> \<open>restkit's httpError: status, code, message\<close>
  | Violation violation

fun errors_is :: "goerr \<Rightarrow> sentinel \<Rightarrow> bool" where
  "errors_is (Sentinel t) s = (t = s)"
| "errors_is (Errorf f as es) s = (\<exists>e \<in> set es. errors_is e s)"
| "errors_is (HTTPErr n c m) s = False"
| "errors_is (Violation v) s = False"

lemma errors_is_wrap [simp]: "errors_is (Errorf f as [Sentinel s, e]) s"
  by simp

section \<open>Results\<close>

text \<open>\<open>(value, error)\<close> pairs: \<open>Inl\<close> is the error.\<close>

type_synonym 'a result = "goerr + 'a"

fun is_ok :: "'a result \<Rightarrow> bool" where
  "is_ok (Inr x) = True"
| "is_ok (Inl e) = False"

lemma is_ok_iff: "is_ok r \<longleftrightarrow> (\<exists>x. r = Inr x)"
  by (cases r) auto

section \<open>Log records\<close>

datatype level = Info | Warn | Error

type_synonym logs = "(level \<times> string) list"  \<comment> \<open>level and the record's \<open>type\<close>\<close>

section \<open>Lists\<close>

text \<open>
  Appending what a \<open>seen\<close> map has not met: the map of the source holds exactly the
  elements of the list that is built, so membership in that list is the test.
\<close>

definition add_new :: "'a list \<Rightarrow> 'a \<Rightarrow> 'a list" where
  "add_new out x = (if x \<in> set out then out else out @ [x])"

lemma add_new_in: "x \<in> set out \<Longrightarrow> add_new out x = out"
  and add_new_out: "x \<notin> set out \<Longrightarrow> add_new out x = out @ [x]"
  by (simp_all add: add_new_def)

lemma set_add_new [simp]: "set (add_new out x) = insert x (set out)"
  by (auto simp: add_new_def)

lemma distinct_add_new [simp]: "distinct (add_new out x) = distinct out"
  by (auto simp: add_new_def)

lemma set_foldl_add_new [simp]: "set (foldl add_new out xs) = set out \<union> set xs"
  by (induction xs arbitrary: out) auto

lemma distinct_foldl_add_new [simp]: "distinct (foldl add_new out xs) = distinct out"
  by (induction xs arbitrary: out) auto

lemma foldl_add_new_id: "set xs \<subseteq> set out \<Longrightarrow> foldl add_new out xs = out"
  by (induction xs) (auto simp: add_new_def)

lemma foldl_add_new_ext: "\<exists>zs. foldl add_new out xs = out @ zs \<and> distinct zs \<and> set zs \<inter> set out = {}"
proof (induction xs arbitrary: out)
  case (Cons x xs)
  obtain zs where zs: "foldl add_new (add_new out x) xs = add_new out x @ zs"
    "distinct zs" "set zs \<inter> set (add_new out x) = {}"
    using Cons by blast
  show ?case
  proof (cases "x \<in> set out")
    case True
    with Cons show ?thesis by (simp add: add_new_in)
  next
    case False
    with zs have "foldl add_new out (x # xs) = out @ (x # zs)" "distinct (x # zs)"
      "set (x # zs) \<inter> set out = {}"
      by (auto simp: add_new_out)
    then show ?thesis by blast
  qed
qed simp

text \<open>\<open>slices.Contains\<close> is \<open>x \<in> set xs\<close>; \<open>m[k]\<close> on a missing key is the zero value.\<close>

definition lookup_or :: "'v \<Rightarrow> ('k \<times> 'v) list \<Rightarrow> 'k \<Rightarrow> 'v" where
  "lookup_or d m k = (case map_of m k of None \<Rightarrow> d | Some v \<Rightarrow> v)"

text \<open>Writing a key of an association list: replaced where it stands, appended otherwise.\<close>

fun put :: "'k \<Rightarrow> 'v \<Rightarrow> ('k \<times> 'v) list \<Rightarrow> ('k \<times> 'v) list" where
  "put k v [] = [(k, v)]"
| "put k v ((k', v') # m) = (if k' = k then (k, v) # m else (k', v') # put k v m)"

lemma map_of_put [simp]: "map_of (put k v m) = (map_of m)(k \<mapsto> v)"
  by (induction m) auto

lemma put_not_Nil [simp]: "put k v m \<noteq> []"
  by (induction k v m rule: put.induct) (auto split: if_splits)

lemma keys_put: "fst ` set (put k v m) = insert k (fst ` set m)"
  by (induction k v m rule: put.induct) auto

lemma lookup_or_put [simp]:
  "lookup_or d (put k v m) k' = (if k' = k then v else lookup_or d m k')"
  by (simp add: lookup_or_def)

lemma set_keys_put: "set (map fst (put k v m)) = insert k (set (map fst m))"
  by (simp add: keys_put)

lemma distinct_put: "distinct (map fst m) \<Longrightarrow> distinct (map fst (put k v m))"
  by (induction k v m rule: put.induct) (auto simp: set_keys_put simp del: set_map)

end
