(* ===== verification/GoStrings.thy ===== *)
theory GoStrings
  imports Prelude "HOL-Library.Word" "HOL-Library.Sublist"
begin

text \<open>
  What the code uses of Go's \<open>strings\<close> and \<open>strconv\<close> packages, on strings as sequences of
  bytes.

  \<open>unicode.IsSpace\<close> holds of six ASCII bytes and of the encodings listed in
  \<open>space_seqs\<close>. No lead byte of those encodings occurs inside another well-formed rune, and an
  invalid byte is one rune of its own, so comparing byte sequences finds exactly the runes the
  decoder finds.
\<close>

named_theorems string_simps \<comment> \<open>evaluating the string routines on literals\<close>

section \<open>White space\<close>

definition space_seqs :: "string list" where
  "space_seqs =
     [[CHR 0x09], [CHR 0x0A], [CHR 0x0B], [CHR 0x0C], [CHR 0x0D], [CHR 0x20],
      [CHR 0xC2, CHR 0x85], [CHR 0xC2, CHR 0xA0], [CHR 0xE1, CHR 0x9A, CHR 0x80]] @
     map (\<lambda>c. [CHR 0xE2, CHR 0x80, c])
       [CHR 0x80, CHR 0x81, CHR 0x82, CHR 0x83, CHR 0x84, CHR 0x85, CHR 0x86, CHR 0x87, CHR 0x88,
        CHR 0x89, CHR 0x8A, CHR 0xA8, CHR 0xA9, CHR 0xAF] @
     [[CHR 0xE2, CHR 0x81, CHR 0x9F], [CHR 0xE3, CHR 0x80, CHR 0x80]]"

text \<open>The sequence of the list a string starts with, if any.\<close>

definition starts :: "string list \<Rightarrow> string \<Rightarrow> string option" where
  "starts seqs s = find (\<lambda>w. w \<noteq> [] \<and> take (length w) s = w) seqs"

lemma starts_Some:
  assumes "starts seqs s = Some w"
  shows "w \<noteq> []" "take (length w) s = w" "w \<in> set seqs"
  using assms by (auto simp: starts_def find_Some_iff)

lemma starts_length: "starts seqs s = Some w \<Longrightarrow> length (drop (length w) s) < length s"
  using starts_Some(1,2) [of seqs s w] by (cases s; cases w) auto

function strip :: "string list \<Rightarrow> string \<Rightarrow> string" where
  "strip seqs s = (case starts seqs s of None \<Rightarrow> s | Some w \<Rightarrow> strip seqs (drop (length w) s))"
  by pat_completeness auto
termination by (relation "measure (length \<circ> snd)") (auto dest: starts_length)

declare strip.simps [simp del]

definition TrimSpace :: "string \<Rightarrow> string" where
  "TrimSpace s = rev (strip (map rev space_seqs) (rev (strip space_seqs s)))"

text \<open>\<open>strings.Fields\<close>: the maximal runs between white space; \<open>cur\<close> is the run being read.\<close>

definition flush :: "string \<Rightarrow> string list" where
  "flush cur = (if cur = [] then [] else [cur])"

function fields_from :: "string \<Rightarrow> string \<Rightarrow> string list" where
  "fields_from cur s =
     (case s of
        [] \<Rightarrow> flush cur
      | c # cs \<Rightarrow>
          (case starts space_seqs s of
             None \<Rightarrow> fields_from (cur @ [c]) cs
           | Some w \<Rightarrow> flush cur @ fields_from [] (drop (length w) s)))"
  by pat_completeness auto
termination by (relation "measure (length \<circ> snd)") (auto dest: starts_length)

declare fields_from.simps [simp del]

definition Fields :: "string \<Rightarrow> string list" where
  "Fields s = fields_from [] s"

lemma strip_suffix: "suffix (strip seqs s) s"
proof (induction seqs s rule: strip.induct)
  case (1 seqs s)
  then show ?case
    by (subst strip.simps) (auto split: option.splits intro: suffix_order.trans suffix_drop)
qed

lemma strip_length: "length (strip seqs s) \<le> length s"
  using strip_suffix suffix_length_le by blast

lemma strip_done: "starts seqs (strip seqs s) = None"
proof (induction seqs s rule: strip.induct)
  case (1 seqs s)
  then show ?case by (subst strip.simps) (auto split: option.splits simp: strip.simps [of seqs s])
qed

lemma strip_id: "starts seqs s = None \<Longrightarrow> strip seqs s = s"
  by (simp add: strip.simps)

lemma strip_idem [simp]: "strip seqs (strip seqs s) = strip seqs s"
  by (rule strip_id) (rule strip_done)

lemma TrimSpace_Nil [simp]: "TrimSpace [] = []"
  by (simp add: TrimSpace_def strip_id starts_def find_None_iff)

lemma TrimSpace_length: "length (TrimSpace s) \<le> length s"
  unfolding TrimSpace_def using strip_length by (metis length_rev le_trans)

text \<open>Every field is a non-empty run, and no run starts with white space.\<close>

lemma fields_from_nonempty: "[] \<notin> set (fields_from cur s)"
proof (induction cur s rule: fields_from.induct)
  case (1 cur s)
  then show ?case
    by (subst fields_from.simps) (auto simp: flush_def split: list.splits option.splits)
qed

lemma Fields_nonempty: "[] \<notin> set (Fields s)"
  by (simp add: Fields_def fields_from_nonempty)

section \<open>Prefixes, splitting, cases\<close>

definition HasPrefix :: "string \<Rightarrow> string \<Rightarrow> bool" where
  "HasPrefix s p = (take (length p) s = p)"

lemma HasPrefix_iff: "HasPrefix s p \<longleftrightarrow> (\<exists>t. s = p @ t)"
  by (auto simp: HasPrefix_def) (metis append_take_drop_id)

text \<open>\<open>strings.Split\<close> at a separator of one byte: always at least one part.\<close>

fun split_at :: "char \<Rightarrow> string \<Rightarrow> string list" where
  "split_at d [] = [[]]"
| "split_at d (c # cs) =
     (if c = d then [] # split_at d cs
      else case split_at d cs of [] \<Rightarrow> [[c]] | part # parts \<Rightarrow> (c # part) # parts)"

lemma split_at_not_Nil [simp]: "split_at d s \<noteq> []"
  by (cases s) (auto split: list.splits)

lemma split_at_no_sep: "d \<notin> set s \<Longrightarrow> split_at d s = [s]"
  by (induction s) auto

lemma split_at_append: "d \<notin> set s \<Longrightarrow> split_at d (s @ d # t) = s # split_at d t"
  by (induction s) auto

lemma split_at_join: "split_at d (s @ d # t) = split_at d s @ split_at d t"
  by (induction s) (auto split: list.splits)

lemma split_at_parts: "part \<in> set (split_at d s) \<Longrightarrow> d \<notin> set part"
  by (induction s arbitrary: part) (auto split: if_splits list.splits)

definition lower_byte :: "char \<Rightarrow> char" where
  "lower_byte c = (if 65 \<le> (of_char c :: nat) \<and> (of_char c :: nat) \<le> 90 then char_of ((of_char c :: nat) + 32) else c)"

text \<open>
  \<open>strings.ToLower\<close> and \<open>strings.EqualFold\<close> on ASCII. Beyond ASCII the code's uses compare
  with ASCII names only: the two runes outside ASCII that fold onto a letter (the Kelvin sign
  onto k, the long s onto s) are written out in \<open>fold_runes\<close>.
\<close>

fun fold_runes :: "string \<Rightarrow> string" where
  "fold_runes [] = []"
| "fold_runes (a # b # c # s) =
     (if a = CHR 0xE2 \<and> b = CHR 0x84 \<and> c = CHR 0xAA then CHR ''k'' # fold_runes s
      else if a = CHR 0xC5 \<and> b = CHR 0xBF then CHR ''s'' # fold_runes (c # s)
      else lower_byte a # fold_runes (b # c # s))"
| "fold_runes [a, b] =
     (if a = CHR 0xC5 \<and> b = CHR 0xBF then [CHR ''s''] else [lower_byte a, lower_byte b])"
| "fold_runes [a] = [lower_byte a]"

definition EqualFold :: "string \<Rightarrow> string \<Rightarrow> bool" where
  "EqualFold s t = (fold_runes s = fold_runes t)"

lemma EqualFold_refl [simp]: "EqualFold s s"
  by (simp add: EqualFold_def)

section \<open>Integers in decimal\<close>

definition digit_of :: "char \<Rightarrow> int option" where
  "digit_of c = (let n = of_char c :: nat in if 48 \<le> n \<and> n \<le> 57 then Some (int n - 48) else None)"

fun digits :: "int \<Rightarrow> string \<Rightarrow> int option" where
  "digits acc [] = Some acc"
| "digits acc (c # cs) =
     (case digit_of c of None \<Rightarrow> None | Some d \<Rightarrow> digits (10 * acc + d) cs)"

text \<open>
  \<open>strconv.ParseInt(s, 10, 64)\<close>: an optional sign, at least one digit, and the range of the
  width; \<open>decimal\<close> is the integer such a text writes, whatever its size.
\<close>

definition decimal :: "string \<Rightarrow> int option" where
  "decimal s =
     (let neg = (s \<noteq> [] \<and> hd s = CHR ''-'');
          body = (if s \<noteq> [] \<and> hd s \<in> {CHR ''-'', CHR ''+''} then tl s else s)
      in if body = [] then None else map_option (\<lambda>n. if neg then - n else n) (digits 0 body))"

definition ParseInt :: "string \<Rightarrow> 64 word option" where
  "ParseInt s =
     (case decimal s of
        None \<Rightarrow> None
      | Some v \<Rightarrow> if - (2 ^ 63) \<le> v \<and> v < 2 ^ 63 then Some (word_of_int v) else None)"

lemma sint_word_of_int_64:
  "- (2 ^ 63) \<le> v \<Longrightarrow> v < 2 ^ 63 \<Longrightarrow> sint (word_of_int v :: 64 word) = v"
  by (simp add: signed_take_bit_int_eq_self sint_sbintrunc')

lemma ParseInt_Some_iff:
  "ParseInt s = Some n \<longleftrightarrow> (\<exists>v. decimal s = Some v \<and> - (2 ^ 63) \<le> v \<and> v < 2 ^ 63 \<and> n = word_of_int v)"
  by (auto simp: ParseInt_def split: option.splits if_splits)

lemma ParseInt_Some: "ParseInt s = Some n \<Longrightarrow> decimal s = Some (sint n)"
  using sint_word_of_int_64 by (auto simp: ParseInt_Some_iff)

end
