(* ===== verification/Claims.thy ===== *)
theory Claims
  imports GoStrings Complex_Main
begin

text \<open>
  The typed accessors over a credential's claims (\<open>internal/plamo/authkit/claims.go\<close>).

  A claim is a Go value of any kind; \<open>goval\<close> lists the kinds the accessors tell apart by
  \<open>reflect\<close>: every signed kind is read as an int64 and every unsigned kind as a uint64, so one
  constructor stands for each. A float64 is its exact rational value or one of the three values
  that have none. \<open>strconv.ParseFloat\<close> is a parameter (\<open>pf\<close>): decimal-to-binary rounding plays no
  part in what is proved, only that a failure is reported.
\<close>

datatype f64 = NaN | PosInf | NegInf | Fin rat

datatype goval =
    GNil
  | GString string
  | GJSONNumber string
  | GBool bool
  | GInt "64 word"
  | GUint "64 word"
  | GFloat f64
  | GSlice "goval list"
  | GOther                       \<comment> \<open>maps, structs, pointers, functions\<close>

type_synonym claims = "(string \<times> goval) list"
type_synonym parse_float = "string \<Rightarrow> f64 option"

section \<open>float64 conversions\<close>

text \<open>
  \<open>float64(i)\<close> rounds to the nearest float64, ties to even: 53 significant bits are kept, so
  \<open>excess\<close> low bits are rounded away.
\<close>

fun excess :: "nat \<Rightarrow> nat" where
  "excess n = (if n < 2 ^ 53 then 0 else Suc (excess (n div 2)))"

declare excess.simps [simp del]

definition round_half_even :: "nat \<Rightarrow> nat \<Rightarrow> nat" where
  "round_half_even n k =
     (let q = n div 2 ^ k; r = n mod 2 ^ k in
      if 2 ^ k < 2 * r \<or> (2 * r = 2 ^ k \<and> odd q) then Suc q else q)"

definition float_of_int :: "int \<Rightarrow> rat" where
  "float_of_int i =
     (let n = nat \<bar>i\<bar>; k = excess n; m = int (round_half_even n k * 2 ^ k) in
      of_int (if i < 0 then - m else m))"

lemma excess_small: "n < 2 ^ 53 \<Longrightarrow> excess n = 0"
  by (simp add: excess.simps)

lemma rounded_exact: "n \<le> 2 ^ 53 \<Longrightarrow> round_half_even n (excess n) * 2 ^ excess n = n"
proof (cases "n = 2 ^ 53")
  case True
  have "excess (2 ^ 53) = 1" by (simp add: excess.simps)
  with True show ?thesis by (simp add: round_half_even_def)
next
  case False
  assume "n \<le> 2 ^ 53"
  with False show ?thesis by (simp add: excess_small round_half_even_def)
qed

lemma float_of_int_exact:
  assumes "\<bar>i\<bar> \<le> 2 ^ 53"
  shows "float_of_int i = of_int i"
proof -
  let ?n = "nat \<bar>i\<bar>"
  have "?n \<le> 2 ^ 53" using assms by simp
  then have m: "int (round_half_even ?n (excess ?n) * 2 ^ excess ?n) = \<bar>i\<bar>"
    by (simp only: rounded_exact)
  show ?thesis unfolding float_of_int_def Let_def m by simp
qed

section \<open>stringOf, floatOf, intOf\<close>

fun stringOf :: "goval \<Rightarrow> string option" where
  "stringOf (GString s) = Some s"
| "stringOf _ = None"

fun floatOf :: "parse_float \<Rightarrow> goval \<Rightarrow> f64 option" where
  "floatOf pf (GJSONNumber s) = pf s"
| "floatOf pf (GFloat f) = Some f"
| "floatOf pf (GInt w) = Some (Fin (float_of_int (sint w)))"
| "floatOf pf (GUint w) = Some (Fin (float_of_int (uint w)))"
| "floatOf pf _ = None"

definition maxExactInteger :: int where
  "maxExactInteger = 2 ^ 53"

fun intFromFloat :: "f64 \<Rightarrow> 64 word option" where
  "intFromFloat (Fin q) =
     (if q \<noteq> of_int \<lfloor>q\<rfloor> then None
      else if q > of_int maxExactInteger \<or> q < - of_int maxExactInteger then None
      else Some (word_of_int \<lfloor>q\<rfloor>))"
| "intFromFloat _ = None"

definition maxInt64 :: int where
  "maxInt64 = 2 ^ 63 - 1"

fun intOf :: "parse_float \<Rightarrow> goval \<Rightarrow> 64 word option" where
  "intOf pf (GJSONNumber s) =
     (case ParseInt s of
        Some n \<Rightarrow> Some n
      | None \<Rightarrow> (case pf s of None \<Rightarrow> None | Some f \<Rightarrow> intFromFloat f))"
| "intOf pf (GInt w) = Some w"
| "intOf pf (GUint w) = (if uint w > maxInt64 then None else Some w)"
| "intOf pf (GFloat f) = intFromFloat f"
| "intOf pf _ = None"

section \<open>The accessors\<close>

definition claim_with :: "(goval \<Rightarrow> 'a option) \<Rightarrow> claims \<Rightarrow> string \<Rightarrow> 'a option" where
  "claim_with f c name = (case map_of c name of None \<Rightarrow> None | Some v \<Rightarrow> f v)"

definition Claims_String :: "claims \<Rightarrow> string \<Rightarrow> string option" where
  "Claims_String c name = (case map_of c name of None \<Rightarrow> None | Some v \<Rightarrow> stringOf v)"

definition Claims_Bool :: "claims \<Rightarrow> string \<Rightarrow> bool option" where
  "Claims_Bool c name =
     (case map_of c name of None \<Rightarrow> None | Some v \<Rightarrow> (case v of GBool b \<Rightarrow> Some b | _ \<Rightarrow> None))"

definition Claims_Number :: "parse_float \<Rightarrow> claims \<Rightarrow> string \<Rightarrow> f64 option" where
  "Claims_Number pf c name = (case map_of c name of None \<Rightarrow> None | Some v \<Rightarrow> floatOf pf v)"

definition Claims_Int :: "parse_float \<Rightarrow> claims \<Rightarrow> string \<Rightarrow> 64 word option" where
  "Claims_Int pf c name = (case map_of c name of None \<Rightarrow> None | Some v \<Rightarrow> intOf pf v)"

fun strings_of :: "string list \<Rightarrow> goval list \<Rightarrow> string list option" where
  "strings_of values [] = Some values"
| "strings_of values (v # vs) =
     (case stringOf v of None \<Rightarrow> None | Some s \<Rightarrow> strings_of (values @ [s]) vs)"

definition Claims_StringSlice :: "claims \<Rightarrow> string \<Rightarrow> string list option" where
  "Claims_StringSlice c name =
     (case map_of c name of
        None \<Rightarrow> None
      | Some v \<Rightarrow> (case v of GSlice vs \<Rightarrow> strings_of [] vs | _ \<Rightarrow> None))"

section \<open>What they read\<close>

lemma stringOf_Some_iff: "stringOf v = Some s \<longleftrightarrow> v = GString s"
  by (cases v) auto

lemma intFromFloat_Some:
  "intFromFloat f = Some n \<Longrightarrow> f = Fin (of_int (sint n)) \<and> \<bar>sint n\<bar> \<le> 2 ^ 53"
proof (cases f)
  case (Fin q)
  assume "intFromFloat f = Some n"
  with Fin have q: "q = of_int \<lfloor>q\<rfloor>" "q \<le> of_int (2 ^ 53)" "- of_int (2 ^ 53) \<le> q" "n = word_of_int \<lfloor>q\<rfloor>"
    by (auto simp: maxExactInteger_def split: if_splits)
  then have b: "\<lfloor>q\<rfloor> \<le> 2 ^ 53" "- (2 ^ 53) \<le> \<lfloor>q\<rfloor>"
    by (metis of_int_le_iff, metis of_int_le_iff of_int_minus)
  then have "sint n = \<lfloor>q\<rfloor>" using sint_word_of_int_64 [of "\<lfloor>q\<rfloor>"] q(4) by simp
  with Fin q(1) b show ?thesis by (auto simp: abs_le_iff)
qed auto

lemma intFromFloat_exact: "\<bar>i\<bar> \<le> 2 ^ 53 \<Longrightarrow> intFromFloat (Fin (of_int i)) = Some (word_of_int i)"
  by (auto simp: maxExactInteger_def abs_le_iff)

lemma strings_of_Some_iff: "strings_of acc vs = Some ss \<longleftrightarrow> (\<exists>ts. ss = acc @ ts \<and> vs = map GString ts)"
proof (induction vs arbitrary: acc)
  case (Cons v vs)
  show ?case
  proof (cases "stringOf v")
    case None
    then show ?thesis by (cases v) auto
  next
    case (Some s)
    then have "v = GString s" by (simp add: stringOf_Some_iff)
    with Some Cons show ?thesis by (auto simp: Cons_eq_map_conv)
  qed
qed auto

text \<open>The whole number a claim stands for, where it stands for one.\<close>

fun denotes :: "goval \<Rightarrow> int \<Rightarrow> bool" where
  "denotes (GInt w) i = (i = sint w)"
| "denotes (GUint w) i = (i = uint w)"
| "denotes (GFloat f) i = (f = Fin (of_int i))"
| "denotes (GJSONNumber s) i = (decimal s = Some i)"
| "denotes _ i = False"

lemma sint_eq_uint_64:
  assumes "uint (w :: 64 word) \<le> maxInt64"
  shows "sint w = uint w"
proof -
  have "- (2 ^ 63) \<le> uint w" by (rule order_trans [of _ 0]) simp_all
  with sint_word_of_int_64 [of "uint w"] assms show ?thesis by (simp add: maxInt64_def)
qed

lemma intOf_sound:
  "intOf pf v = Some n \<Longrightarrow>
     denotes v (sint n) \<or> (\<exists>s. v = GJSONNumber s \<and> pf s = Some (Fin (of_int (sint n))))"
  by (cases v)
    (auto simp: ParseInt_Some sint_eq_uint_64 dest: intFromFloat_Some split: option.splits if_splits)

lemma intOf_complete:
  assumes "denotes v i" "- (2 ^ 63) \<le> i" "i < 2 ^ 63" "\<forall>f. v = GFloat f \<longrightarrow> \<bar>i\<bar> \<le> 2 ^ 53"
  shows "intOf pf v = Some (word_of_int i)"
proof (cases v)
  case (GJSONNumber s)
  with assms have "ParseInt s = Some (word_of_int i)" by (simp add: ParseInt_Some_iff)
  with GJSONNumber show ?thesis by simp
next
  case (GFloat f)
  with assms show ?thesis using intFromFloat_exact [of i] by simp
qed (use assms in \<open>auto simp: maxInt64_def\<close>)

text \<open>
  What \<open>Int\<close> returns is the whole number the claim holds, digit for digit: an integer of any
  width, an integral float64 of at most 2^53, a decimal json.Number, or a json.Number whose
  float64 is that number. And every such number that an int64 holds is returned, so a claim is
  refused only when it holds no whole number the accessor can vouch for.
\<close>

theorem Claims_Int_exact:
  shows "(Claims_Int pf c name = Some n \<longrightarrow>
      (\<exists>v. map_of c name = Some v \<and>
        (denotes v (sint n) \<or> (\<exists>s. v = GJSONNumber s \<and> pf s = Some (Fin (of_int (sint n))))))) \<and>
    (map_of c name = Some v \<and> denotes v i \<and> - (2 ^ 63) \<le> i \<and> i < 2 ^ 63 \<and>
       (\<forall>f. v = GFloat f \<longrightarrow> \<bar>i\<bar> \<le> 2 ^ 53) \<longrightarrow>
     (\<exists>n. Claims_Int pf c name = Some n \<and> sint n = i))"
proof (intro conjI impI)
  assume "Claims_Int pf c name = Some n"
  then show "\<exists>v. map_of c name = Some v \<and>
      (denotes v (sint n) \<or> (\<exists>s. v = GJSONNumber s \<and> pf s = Some (Fin (of_int (sint n)))))"
    using intOf_sound by (auto simp: Claims_Int_def split: option.splits)
next
  assume "map_of c name = Some v \<and> denotes v i \<and> - (2 ^ 63) \<le> i \<and> i < 2 ^ 63 \<and>
    (\<forall>f. v = GFloat f \<longrightarrow> \<bar>i\<bar> \<le> 2 ^ 53)"
  then show "\<exists>n. Claims_Int pf c name = Some n \<and> sint n = i"
    using intOf_complete [of v i pf] sint_word_of_int_64 [of i] by (auto simp: Claims_Int_def)
qed

lemma Claims_Int_exact_witness:
  "\<exists>n. Claims_Int (\<lambda>_. None) [(''org'', GString ''acme''), (''level'', GFloat (Fin 3))] ''level'' = Some n \<and> sint n = 3"
  using Claims_Int_exact [of "\<lambda>_. None" "[(''org'', GString ''acme''), (''level'', GFloat (Fin 3))]" "''level''" 3 "GFloat (Fin 3)" 3]
  by simp

text \<open>
  \<open>StringSlice\<close> is all or nothing: it answers exactly when the claim is a list of strings,
  and with that list whole and in order.
\<close>

theorem Claims_StringSlice_whole:
  "Claims_StringSlice c name = Some ss \<longleftrightarrow> map_of c name = Some (GSlice (map GString ss))"
  by (auto simp: Claims_StringSlice_def strings_of_Some_iff split: option.splits goval.splits)

end
