(* ===== verification/SessionConfig.thy ===== *)
theory SessionConfig
  imports Claims
begin

text \<open>
  Browser sessions, the parts without a store: the configuration
  (\<open>internal/plamo/sessionkit/config.go\<close>), the cookie (\<open>cookie.go\<close>), the session id
  (\<open>id.go\<close>) and the records (\<open>session.go\<close>).

  A \<open>time.Time\<close> is its nanosecond since the Unix epoch, an \<open>int\<close>; a \<open>time.Duration\<close> is a
  count of nanoseconds of 64 bits, so \<open>Sub\<close> saturates as the library's does.
\<close>

type_synonym time = int
type_synonym duration = int

definition maxDuration :: duration where "maxDuration = 2 ^ 63 - 1"
definition minDuration :: duration where "minDuration = - (2 ^ 63)"

definition time_sub :: "time \<Rightarrow> time \<Rightarrow> duration" where
  "time_sub t u = max minDuration (min maxDuration (t - u))"

text \<open>\<open>time.Time{}\<close>: the first instant of year 1.\<close>

definition zero_time :: time where
  "zero_time = - 62135596800000000000"

definition second :: duration where
  "second = 1000000000"

lemma time_sub_pos: "0 < time_sub t u \<longleftrightarrow> u < t"
  by (auto simp: time_sub_def minDuration_def maxDuration_def)

lemma time_sub_le: "0 < time_sub t u \<Longrightarrow> u + time_sub t u \<le> t"
  by (auto simp: time_sub_def minDuration_def maxDuration_def max_def min_def split: if_splits)

section \<open>Configuration\<close>

datatype same_site = SameSiteUnset | SameSiteLaxMode | SameSiteStrictMode

record config =
  CookieName :: string
  CookieSameSite :: same_site
  CookieSecure :: bool
  AbsoluteTTL :: duration
  PersistentAbsoluteTTL :: duration
  IdleTTL :: duration

text \<open>\<open>appconfig.AuthSession\<close>, as far as it is read.\<close>

record auth_session =
  as_CookieName :: string
  as_CookieSameSite :: string
  as_CookieSecure :: bool
  as_AbsoluteTTL :: duration
  as_PersistentAbsoluteTTL :: duration
  as_IdleTTL :: duration

definition hostCookiePrefix :: string where
  "hostCookiePrefix = ''__Host-''"

definition cookiePath :: string where
  "cookiePath = ''/''"

definition idleRefreshDivisor :: int where
  "idleRefreshDivisor = 10"

definition sameSiteOf :: "string \<Rightarrow> same_site result" where
  "sameSiteOf value =
     (if value = ''lax'' then Inr SameSiteLaxMode
      else if value = ''strict'' then Inr SameSiteStrictMode
      else Inl (Errorf ''sessionkit: unknown SameSite %q'' [value, ''lax'', ''strict''] []))"

fun first_nonpositive :: "(string \<times> string \<times> duration) list \<Rightarrow> goerr option" where
  "first_nonpositive [] = None"
| "first_nonpositive ((name, key, value) # ttls) =
     (if value \<le> 0 then Some (Errorf ''sessionkit: %s is %s: set %s to a positive duration'' [name, key] [])
      else first_nonpositive ttls)"

definition Validate :: "config option \<Rightarrow> goerr option" where
  "Validate config =
     (case config of
        None \<Rightarrow> Some (Errorf ''sessionkit: no session configuration'' [] [])
      | Some c \<Rightarrow>
          if CookieName c = [] then Some (Errorf ''sessionkit: the session cookie has no name'' [] [])
          else if HasPrefix (CookieName c) hostCookiePrefix \<and> \<not> CookieSecure c then
            Some (Errorf ''sessionkit: the session cookie is named %q but Secure is off''
              [CookieName c, hostCookiePrefix, hostCookiePrefix] [])
          else first_nonpositive
            [(''the absolute lifetime'', ''AUTH_SESSION_ABSOLUTE_TTL'', AbsoluteTTL c),
             (''the persistent absolute lifetime'', ''AUTH_SESSION_PERSISTENT_ABSOLUTE_TTL'', PersistentAbsoluteTTL c),
             (''the idle limit'', ''AUTH_SESSION_IDLE_TTL'', IdleTTL c)])"

definition NewConfig :: "auth_session option \<Rightarrow> config result" where
  "NewConfig settings =
     (case settings of
        None \<Rightarrow> Inl (Errorf ''sessionkit: sessions are not configured'' [] [])
      | Some cfg \<Rightarrow>
          (case sameSiteOf (as_CookieSameSite cfg) of
             Inl e \<Rightarrow> Inl e
           | Inr sameSite \<Rightarrow>
               let resolved = \<lparr>CookieName = as_CookieName cfg, CookieSameSite = sameSite,
                     CookieSecure = as_CookieSecure cfg, AbsoluteTTL = as_AbsoluteTTL cfg,
                     PersistentAbsoluteTTL = as_PersistentAbsoluteTTL cfg, IdleTTL = as_IdleTTL cfg\<rparr>
               in case Validate (Some resolved) of Some e \<Rightarrow> Inl e | None \<Rightarrow> Inr resolved))"

definition AbsoluteTTLFor :: "config \<Rightarrow> bool \<Rightarrow> duration" where
  "AbsoluteTTLFor c persistent = (if persistent then PersistentAbsoluteTTL c else AbsoluteTTL c)"

definition maxAbsoluteTTL :: "config \<Rightarrow> duration" where
  "maxAbsoluteTTL c = max (AbsoluteTTL c) (PersistentAbsoluteTTL c)"

text \<open>Go's division truncates; a validated idle limit is positive, where it is HOL's \<open>div\<close>.\<close>

definition idleRefreshInterval :: "config \<Rightarrow> duration" where
  "idleRefreshInterval c = (if IdleTTL c < 0 then - (- IdleTTL c div idleRefreshDivisor) else IdleTTL c div idleRefreshDivisor)"

lemma AbsoluteTTLFor_le: "AbsoluteTTLFor c persistent \<le> maxAbsoluteTTL c"
  by (simp add: AbsoluteTTLFor_def maxAbsoluteTTL_def)

text \<open>What a configuration that passed has.\<close>

definition config_ok :: "config \<Rightarrow> bool" where
  "config_ok c = (CookieName c \<noteq> [] \<and> (HasPrefix (CookieName c) hostCookiePrefix \<longrightarrow> CookieSecure c) \<and>
     0 < AbsoluteTTL c \<and> 0 < PersistentAbsoluteTTL c \<and> 0 < IdleTTL c)"

lemma Validate_None_iff: "Validate (Some c) = None \<longleftrightarrow> config_ok c"
  by (auto simp: Validate_def config_ok_def)

lemma AbsoluteTTLFor_pos: "config_ok c \<Longrightarrow> 0 < AbsoluteTTLFor c persistent"
  by (simp add: config_ok_def AbsoluteTTLFor_def)

section \<open>Snapshots and sessions\<close>

record snapshot =
  Subject :: string
  Scopes :: "string list"
  Claims_of :: claims

definition Clone :: "snapshot option \<Rightarrow> snapshot option" where
  "Clone s = (case s of None \<Rightarrow> None
     | Some s \<Rightarrow> Some \<lparr>Subject = Subject s, Scopes = Scopes s, Claims_of = Claims_of s\<rparr>)"

record session =
  ID :: string
  Snapshot :: "snapshot option"
  Persistent :: bool
  CreatedAt :: time
  ExpiresAt :: time
  LastSeenAt :: time

lemma Clone_id [simp]: "Clone s = s"
  by (cases s) (simp_all add: Clone_def)

section \<open>The cookie\<close>

record cookie =
  Name :: string
  Value :: string
  Path :: string
  HttpOnly :: bool
  Secure :: bool
  SameSite :: same_site
  MaxAge :: int

definition discardMaxAge :: int where
  "discardMaxAge = -1"

definition base :: "config \<Rightarrow> cookie" where
  "base cfg = \<lparr>Name = CookieName cfg, Value = [], Path = cookiePath, HttpOnly = True,
     Secure = CookieSecure cfg, SameSite = CookieSameSite cfg, MaxAge = 0\<rparr>"

definition trunc_div :: "int \<Rightarrow> int \<Rightarrow> int" where
  "trunc_div a b = sgn a * sgn b * (\<bar>a\<bar> div \<bar>b\<bar>)"

definition Issue :: "config \<Rightarrow> session \<Rightarrow> cookie" where
  "Issue cfg s =
     (let cookie = (base cfg)\<lparr>Value := ID s\<rparr> in
      if Persistent s then cookie\<lparr>MaxAge := trunc_div (AbsoluteTTLFor cfg True) second\<rparr> else cookie)"

definition Discard :: "config \<Rightarrow> cookie" where
  "Discard cfg = (base cfg)\<lparr>Value := [], MaxAge := discardMaxAge\<rparr>"

text \<open>What makes two cookies the same one to a browser, and the attributes that go with it.\<close>

definition same_cookie :: "cookie \<Rightarrow> cookie \<Rightarrow> bool" where
  "same_cookie a b = (a = b\<lparr>Value := Value a, MaxAge := MaxAge a\<rparr>)"

text \<open>
  A configuration that resolves is usable: the cookie has a name, a \<open>__Host-\<close> name comes with
  Secure, and every lifetime is positive; \<open>NewConfig\<close> refuses everything else. Under it the
  instruction to drop the cookie names the very cookie that was issued, HttpOnly, with
  Path=/ and a negative Max-Age, and a session that is not persistent gets no Max-Age.
\<close>

theorem NewConfig_and_cookies:
  "(NewConfig settings = Inr c \<longrightarrow> config_ok c \<and> CookieSameSite c \<noteq> SameSiteUnset) \<and>
   same_cookie (Discard c) (Issue c s) \<and> MaxAge (Discard c) < 0 \<and> HttpOnly (Issue c s) \<and>
   Path (Issue c s) = ''/'' \<and> Value (Issue c s) = ID s \<and> (\<not> Persistent s \<longrightarrow> MaxAge (Issue c s) = 0)"
  by (auto simp: NewConfig_def Let_def Validate_None_iff sameSiteOf_def Discard_def Issue_def base_def
      same_cookie_def discardMaxAge_def cookiePath_def split: option.splits sum.splits if_splits)

lemma NewConfig_and_cookies_witness:
  "config_ok \<lparr>CookieName = ''__Host-session'', CookieSameSite = SameSiteLaxMode, CookieSecure = True,
     AbsoluteTTL = 12 * 3600 * second, PersistentAbsoluteTTL = 720 * 3600 * second, IdleTTL = 168 * 3600 * second\<rparr>"
  using NewConfig_and_cookies [of "Some \<lparr>as_CookieName = ''__Host-session'', as_CookieSameSite = ''lax'', as_CookieSecure = True,
     as_AbsoluteTTL = 12 * 3600 * second, as_PersistentAbsoluteTTL = 720 * 3600 * second, as_IdleTTL = 168 * 3600 * second\<rparr>"
    "\<lparr>CookieName = ''__Host-session'', CookieSameSite = SameSiteLaxMode, CookieSecure = True,
     AbsoluteTTL = 12 * 3600 * second, PersistentAbsoluteTTL = 720 * 3600 * second, IdleTTL = 168 * 3600 * second\<rparr>"]
  by (simp add: NewConfig_def sameSiteOf_def Validate_def hostCookiePrefix_def HasPrefix_def second_def)

section \<open>The session id\<close>

definition idBytes :: nat where
  "idBytes = 32"

text \<open>\<open>base64.RawURLEncoding\<close>: six bits a character, no padding.\<close>

definition b64_alphabet :: string where
  "b64_alphabet = ''ABCDEFGHIJKLMNOPQRSTUVWXYZabcdefghijklmnopqrstuvwxyz0123456789-_''"

definition b64 :: "nat \<Rightarrow> char" where
  "b64 n = b64_alphabet ! (n mod 64)"

fun RawURLEncode :: "nat list \<Rightarrow> string" where
  "RawURLEncode [] = []"
| "RawURLEncode [a] = [b64 (a div 4), b64 (a * 16)]"
| "RawURLEncode [a, b] = [b64 (a div 4), b64 (a * 16 + b div 16), b64 (b * 4)]"
| "RawURLEncode (a # b # c # r) =
     b64 (a div 4) # b64 (a * 16 + b div 16) # b64 (b * 4 + c div 64) # b64 c # RawURLEncode r"

text \<open>\<open>random\<close> is what reading the operating system's randomness gave.\<close>

definition newID :: "nat list result \<Rightarrow> string result" where
  "newID random =
     (case random of
        Inl e \<Rightarrow> Inl (Errorf ''sessionkit: generating a session id: %w'' [] [e])
      | Inr buf \<Rightarrow> Inr (RawURLEncode buf))"

lemma RawURLEncode_length: "length (RawURLEncode bs) = (length bs * 4 + 2) div 3"
  by (induction bs rule: RawURLEncode.induct) auto

lemma b64_alphabet_length: "length b64_alphabet = 64"
  by (simp add: b64_alphabet_def)

lemma b64_in: "b64 n \<in> set b64_alphabet"
  by (simp add: b64_def b64_alphabet_length)

lemma RawURLEncode_alphabet: "set (RawURLEncode bs) \<subseteq> set b64_alphabet"
  by (induction bs rule: RawURLEncode.induct) (auto simp: b64_in)

lemma b64_inj: "b64 m = b64 n \<longleftrightarrow> m mod 64 = n mod 64"
proof -
  have "distinct b64_alphabet" by code_simp
  then show ?thesis by (simp add: b64_def nth_eq_iff_index_eq b64_alphabet_length)
qed

text \<open>How the characters split the bytes: every bit can be read back.\<close>

lemma mul_mod: "(a::nat) * m mod (m * n) = m * (a mod n)"
  by (metis mult.commute mult_mod_right)

lemma mul_add_mod:
  fixes a d m n :: nat
  assumes "d < m" "0 < n"
  shows "(a * m + d) mod (m * n) = m * (a mod n) + d"
proof -
  have "Suc (a mod n) \<le> n" using assms by (simp add: Suc_leI)
  then have "m * Suc (a mod n) \<le> m * n" by (rule mult_le_mono2)
  with assms have "m * (a mod n) + d < m * n" by simp
  then show ?thesis by (metis mod_add_left_eq mod_less mul_mod)
qed

lemma mul_add_eq:
  fixes x d m :: nat
  assumes "m * x + d = m * x' + d'" "d < m" "d' < m"
  shows "x = x' \<and> d = d'"
proof -
  have "x = (m * x + d) div m" "x' = (m * x' + d') div m" using assms(2,3) by auto
  with assms(1) show ?thesis by auto
qed

lemma div_mod_eq: "(a::nat) div n = a' div n \<Longrightarrow> a mod n = a' mod n \<Longrightarrow> a = a'"
  by (metis div_mult_mod_eq)

lemma b64_high: "a < 256 \<Longrightarrow> a' < 256 \<Longrightarrow> b64 (a div 4) = b64 (a' div 4) \<longleftrightarrow> a div 4 = a' div 4"
  by (simp add: b64_inj)

lemma b64_second:
  assumes "b < 256" "b' < 256" "b64 (a * 16 + b div 16) = b64 (a' * 16 + b' div 16)"
  shows "a mod 4 = a' mod 4 \<and> b div 16 = b' div 16"
  using assms mul_add_mod [of "b div 16" 16 4 a] mul_add_mod [of "b' div 16" 16 4 a']
    mul_add_eq [of 16 "a mod 4" "b div 16" "a' mod 4" "b' div 16"]
  by (simp add: b64_inj)

lemma b64_third:
  assumes "c < 256" "c' < 256" "b64 (b * 4 + c div 64) = b64 (b' * 4 + c' div 64)"
  shows "b mod 16 = b' mod 16 \<and> c div 64 = c' div 64"
  using assms mul_add_mod [of "c div 64" 4 16 b] mul_add_mod [of "c' div 64" 4 16 b']
    mul_add_eq [of 4 "b mod 16" "c div 64" "b' mod 16" "c' div 64"]
  by (simp add: b64_inj)

lemma b64_group:
  assumes "a < 256" "b < 256" "c < 256" "a' < 256" "b' < 256" "c' < 256"
    and "b64 (a div 4) = b64 (a' div 4)" "b64 (a * 16 + b div 16) = b64 (a' * 16 + b' div 16)"
    and "b64 (b * 4 + c div 64) = b64 (b' * 4 + c' div 64)" "b64 c = b64 c'"
  shows "a = a' \<and> b = b' \<and> c = c'"
proof -
  have a: "a div 4 = a' div 4" using assms b64_high by blast
  note ab = b64_second [OF assms(2,5,8)] and bc = b64_third [OF assms(3,6,9)]
  have c: "c mod 64 = c' mod 64" using assms(10) by (simp add: b64_inj)
  show ?thesis using a ab bc c div_mod_eq by blast
qed

lemma RawURLEncode_inj:
  "length xs = length ys \<Longrightarrow> \<forall>x \<in> set xs \<union> set ys. x < 256 \<Longrightarrow>
     RawURLEncode xs = RawURLEncode ys \<Longrightarrow> xs = ys"
proof (induction xs arbitrary: ys rule: RawURLEncode.induct)
  case 1
  then show ?case by simp
next
  case (2 a)
  then obtain a' where "ys = [a']" by (cases ys rule: RawURLEncode.cases) auto
  with 2 have e: "ys = [a']" "a < 256" "a' < 256" "b64 (a div 4) = b64 (a' div 4)"
    "b64 (a * 16) = b64 (a' * 16)" by auto
  from b64_second [of 0 0 a a'] e have "a mod 4 = a' mod 4" by simp
  moreover have "a div 4 = a' div 4" using e b64_high by blast
  ultimately show ?case using e(1) div_mod_eq by blast
next
  case (3 a b)
  then obtain a' b' where "ys = [a', b']" by (cases ys rule: RawURLEncode.cases) auto
  with 3 have e: "ys = [a', b']" "a < 256" "a' < 256" "b < 256" "b' < 256" "b64 (a div 4) = b64 (a' div 4)"
    "b64 (a * 16 + b div 16) = b64 (a' * 16 + b' div 16)" "b64 (b * 4) = b64 (b' * 4)" by auto
  note ab = b64_second [OF e(4,5,7)]
  from b64_third [of 0 0 b b'] e have "b mod 16 = b' mod 16" by simp
  moreover have "a div 4 = a' div 4" using e b64_high by blast
  ultimately have "a = a'" "b = b'" using ab div_mod_eq by blast+
  then show ?case using e(1) by simp
next
  case (4 a b c r)
  then obtain a' b' c' r' where "ys = a' # b' # c' # r'" by (cases ys rule: RawURLEncode.cases) auto
  with 4(3,4) have e: "ys = a' # b' # c' # r'" "a < 256" "b < 256" "c < 256" "a' < 256" "b' < 256" "c' < 256"
    "b64 (a div 4) = b64 (a' div 4)" "b64 (a * 16 + b div 16) = b64 (a' * 16 + b' div 16)"
    "b64 (b * 4 + c div 64) = b64 (b' * 4 + c' div 64)" "b64 c = b64 c'"
    "RawURLEncode r = RawURLEncode r'" by auto
  have "r = r'" using 4 e(1,12) by auto
  with b64_group [OF e(2-11)] e(1) show ?case by simp
qed

text \<open>
  A session id is 43 characters of the base64url alphabet, and two draws of randomness give
  the same id only when they are the same draw: the encoding loses none of the 256 bits.
\<close>

theorem newID_faithful:
  assumes "newID (Inr bs) = Inr i" "newID (Inr bs') = Inr i'"
    "length bs = idBytes" "length bs' = idBytes" "\<forall>b \<in> set bs \<union> set bs'. b < 256"
  shows "length i = 43 \<and> set i \<subseteq> set b64_alphabet \<and> (i = i' \<longleftrightarrow> bs = bs')"
  using assms RawURLEncode_inj [of bs bs'] RawURLEncode_alphabet
  by (auto simp: newID_def RawURLEncode_length idBytes_def)

lemma newID_faithful_witness:
  "length (RawURLEncode (replicate 32 255)) = 43 \<and>
   RawURLEncode (replicate 32 255) \<noteq> RawURLEncode (replicate 31 255 @ [254])"
proof -
  have "last (replicate 32 255) \<noteq> last (replicate 31 255 @ [254 :: nat])" by simp
  then have "replicate 32 255 \<noteq> replicate 31 255 @ [254 :: nat]" by metis
  then show ?thesis
    using newID_faithful [of "replicate 32 255" "RawURLEncode (replicate 32 255)"
        "replicate 31 255 @ [254]" "RawURLEncode (replicate 31 255 @ [254])"]
    by (simp add: newID_def idBytes_def)
qed

end
