(* ===== verification/SessionStore.thy ===== *)
theory SessionStore
  imports SessionConfig
begin

text \<open>
  The session store over a cache (\<open>internal/plamo/sessionkit/store.go\<close>).

  The cache is a package of its own, so it is a parameter: \<open>cache_ops\<close> are the calls the store
  makes, each with the instant it is made at, and \<open>cache_laws\<close> is what its documentation
  promises of them (\<open>view\<close> is what a cache holds, with the instant each entry expires). A call
  may fail, and a failed write may or may not have been applied. \<open>codec\<close> is the
  trip through JSON, which may change the Go type of a claim's value and nothing else.
\<close>

datatype stored = Record "session option" | Marker time

record 'c cache_ops =
  cget :: "time \<Rightarrow> 'c \<Rightarrow> string \<Rightarrow> stored result"
  cset :: "time \<Rightarrow> 'c \<Rightarrow> string \<Rightarrow> stored \<Rightarrow> duration \<Rightarrow> goerr option \<times> 'c"
  cdelete :: "time \<Rightarrow> 'c \<Rightarrow> string \<Rightarrow> goerr option \<times> 'c"

definition recordKeyPrefix :: string where "recordKeyPrefix = ''session:''"
definition revokedKeyPrefix :: string where "revokedKeyPrefix = ''revoked:''"

section \<open>The operations\<close>

definition redactedIDPrefix :: nat where
  "redactedIDPrefix = 8"

text \<open>The three bytes of U+2026.\<close>

definition ellipsis :: string where
  "ellipsis = [CHR 0xE2, CHR 0x80, CHR 0xA6]"

definition redacted :: "string \<Rightarrow> string" where
  "redacted i = (if length i \<le> redactedIDPrefix then ellipsis else take redactedIDPrefix i @ ellipsis)"

definition NewStore :: "'c cache_ops option \<Rightarrow> config option \<Rightarrow> ('c cache_ops \<times> config) result" where
  "NewStore ops cfg =
     (case ops of
        None \<Rightarrow> Inl (Errorf ''sessionkit: no cache to keep sessions in'' [] [])
      | Some ops \<Rightarrow>
          (case Validate cfg of
             Some e \<Rightarrow> Inl e
           | None \<Rightarrow>
               (case cfg of
                  None \<Rightarrow> Inl (Errorf ''sessionkit: no session configuration'' [] [])
                | Some c \<Rightarrow> Inr (ops, c))))"

definition idleDeadline :: "config \<Rightarrow> session \<Rightarrow> time" where
  "idleDeadline cfg s = LastSeenAt s + IdleTTL cfg"

definition remaining :: "config \<Rightarrow> session \<Rightarrow> time \<Rightarrow> duration" where
  "remaining cfg s now = min (time_sub (ExpiresAt s) now) (time_sub (idleDeadline cfg s) now)"

definition subject_of :: "session \<Rightarrow> string" where
  "subject_of s = (case Snapshot s of None \<Rightarrow> [] | Some p \<Rightarrow> Subject p)"

definition write_session :: "'c cache_ops \<Rightarrow> config \<Rightarrow> session \<Rightarrow> time \<Rightarrow> 'c \<Rightarrow> goerr option \<times> 'c" where
  "write_session ops cfg s now c =
     (let ttl = remaining cfg s now in
      if ttl \<le> 0 then
        (Some (Errorf ''sessionkit: the session for %q is already past its deadline'' [subject_of s] []), c)
      else case cset ops now c (recordKeyPrefix @ ID s) (Record (Some s)) ttl of
        (Some e, c') \<Rightarrow> (Some (Errorf ''sessionkit: storing session %s: %w'' [redacted (ID s)] [e]), c')
      | (None, c') \<Rightarrow> (None, c'))"

definition Create :: "'c cache_ops \<Rightarrow> config \<Rightarrow> time \<Rightarrow> nat list result \<Rightarrow> snapshot option \<Rightarrow> bool
    \<Rightarrow> 'c \<Rightarrow> session result \<times> 'c" where
  "Create ops cfg now random snap persistent c =
     (case snap of
        None \<Rightarrow> (Inl (Errorf ''sessionkit: a session needs a subject to belong to'' [] []), c)
      | Some p \<Rightarrow>
          if Subject p = [] then (Inl (Errorf ''sessionkit: a session needs a subject to belong to'' [] []), c)
          else case newID random of
            Inl e \<Rightarrow> (Inl e, c)
          | Inr i \<Rightarrow>
              let s = \<lparr>ID = i, Snapshot = Clone (Some p), Persistent = persistent, CreatedAt = now,
                       ExpiresAt = now + AbsoluteTTLFor cfg persistent, LastSeenAt = now\<rparr>
              in case write_session ops cfg s now c of
                (Some e, c') \<Rightarrow> (Inl e, c')
              | (None, c') \<Rightarrow> (Inr s, c'))"

definition forget :: "'c cache_ops \<Rightarrow> time \<Rightarrow> string \<Rightarrow> 'c \<Rightarrow> goerr \<times> 'c" where
  "forget ops now i c = (Sentinel ErrSessionNotFound, snd (cdelete ops now c (recordKeyPrefix @ i)))"

definition revokedAt :: "'c cache_ops \<Rightarrow> time \<Rightarrow> string \<Rightarrow> 'c \<Rightarrow> time result" where
  "revokedAt ops now subject c =
     (case cget ops now c (revokedKeyPrefix @ subject) of
        Inl e \<Rightarrow>
          if errors_is e ErrCacheMiss then Inr zero_time
          else Inl (Errorf ''sessionkit: reading the revocation marker for %q: %w'' [subject] [e])
      | Inr (Marker t) \<Rightarrow> Inr t
      | Inr (Record s) \<Rightarrow> Inl (Errorf ''sessionkit: reading the revocation marker for %q: %w'' [subject] []))"

text \<open>
  \<open>Lookup\<close> up to the write that moves the idle deadline, and that write. The two are one call in
  the code; a request of another process can run between them.
\<close>

definition lookup_live :: "'c cache_ops \<Rightarrow> config \<Rightarrow> time \<Rightarrow> string \<Rightarrow> 'c \<Rightarrow> session result \<times> 'c" where
  "lookup_live ops cfg now i c =
     (if i = [] then (Inl (Sentinel ErrSessionNotFound), c)
      else case cget ops now c (recordKeyPrefix @ i) of
        Inl e \<Rightarrow>
          (Inl (if errors_is e ErrCacheMiss then Sentinel ErrSessionNotFound
                else Errorf ''sessionkit: reading session %s: %w'' [redacted i] [e]), c)
      | Inr (Marker t) \<Rightarrow> (Inl (Errorf ''sessionkit: reading session %s: %w'' [redacted i] []), c)
      | Inr (Record None) \<Rightarrow> (Inl (Sentinel ErrSessionNotFound), c)
      | Inr (Record (Some s)) \<Rightarrow>
          (case Snapshot s of
             None \<Rightarrow> (Inl (Sentinel ErrSessionNotFound), c)
           | Some p \<Rightarrow>
               if \<not> now < ExpiresAt s \<or> \<not> now < idleDeadline cfg s then
                 (case forget ops now i c of (e, c') \<Rightarrow> (Inl e, c'))
               else (case revokedAt ops now (Subject p) c of
                 Inl e \<Rightarrow> (Inl e, c)
               | Inr revoked \<Rightarrow>
                   if revoked \<noteq> zero_time \<and> \<not> revoked < CreatedAt s then
                     (case forget ops now i c of (e, c') \<Rightarrow> (Inl e, c'))
                   else (Inr s, c))))"

definition touch :: "'c cache_ops \<Rightarrow> config \<Rightarrow> session \<Rightarrow> time \<Rightarrow> 'c \<Rightarrow> session result \<times> 'c" where
  "touch ops cfg s now c =
     (if time_sub now (LastSeenAt s) < idleRefreshInterval cfg then (Inr s, c)
      else let s' = s\<lparr>LastSeenAt := now\<rparr> in
        case write_session ops cfg s' now c of
          (Some e, c') \<Rightarrow> (Inl e, c')
        | (None, c') \<Rightarrow> (Inr s', c'))"

definition Lookup :: "'c cache_ops \<Rightarrow> config \<Rightarrow> time \<Rightarrow> string \<Rightarrow> 'c \<Rightarrow> session result \<times> 'c" where
  "Lookup ops cfg now i c =
     (case lookup_live ops cfg now i c of
        (Inl e, c') \<Rightarrow> (Inl e, c')
      | (Inr s, c') \<Rightarrow> touch ops cfg s now c')"

definition Revoke :: "'c cache_ops \<Rightarrow> time \<Rightarrow> string \<Rightarrow> 'c \<Rightarrow> goerr option \<times> 'c" where
  "Revoke ops now i c =
     (if i = [] then (None, c)
      else case cdelete ops now c (recordKeyPrefix @ i) of
        (Some e, c') \<Rightarrow> (Some (Errorf ''sessionkit: ending session %s: %w'' [redacted i] [e]), c')
      | (None, c') \<Rightarrow> (None, c'))"

definition RevokeSubject :: "'c cache_ops \<Rightarrow> config \<Rightarrow> time \<Rightarrow> string \<Rightarrow> 'c \<Rightarrow> goerr option \<times> 'c" where
  "RevokeSubject ops cfg now subject c =
     (if subject = [] then (Some (Errorf ''sessionkit: no subject to revoke sessions for'' [] []), c)
      else case cset ops now c (revokedKeyPrefix @ subject) (Marker now) (maxAbsoluteTTL cfg) of
        (Some e, c') \<Rightarrow> (Some (Errorf ''sessionkit: revoking the sessions of %q: %w'' [subject] [e]), c')
      | (None, c') \<Rightarrow> (None, c'))"

section \<open>What the cache documents\<close>

type_synonym 'c view = "'c \<Rightarrow> string \<Rightarrow> (stored \<times> time) option"

definition codec_ok :: "(stored \<Rightarrow> stored) \<Rightarrow> bool" where
  "codec_ok codec = ((\<forall>t. codec (Marker t) = Marker t) \<and> codec (Record None) = Record None \<and>
     (\<forall>s. \<exists>f. codec (Record (Some s)) =
        Record (Some (s\<lparr>Snapshot := map_option (\<lambda>p. p\<lparr>Claims_of := f\<rparr>) (Snapshot s)\<rparr>))))"

definition get_law :: "'c view \<Rightarrow> time \<Rightarrow> 'c \<Rightarrow> string \<Rightarrow> stored result \<Rightarrow> bool" where
  "get_law view now c k r =
     (case r of
        Inr v \<Rightarrow> (\<exists>x. view c k = Some (v, x) \<and> now < x)
      | Inl e \<Rightarrow> \<not> errors_is e ErrSessionNotFound \<and>
          (errors_is e ErrCacheMiss \<longrightarrow> (case view c k of None \<Rightarrow> True | Some (v, x) \<Rightarrow> x \<le> now)))"

definition set_law :: "'c view \<Rightarrow> 'c \<Rightarrow> string \<Rightarrow> stored \<Rightarrow> time \<Rightarrow> goerr option \<times> 'c \<Rightarrow> bool" where
  "set_law view c k v x r =
     (case r of (e, c') \<Rightarrow>
        (\<forall>k'. k' \<noteq> k \<longrightarrow> view c' k' = view c k') \<and>
        (view c' k = view c k \<or> view c' k = Some (v, x)) \<and>
        (case e of None \<Rightarrow> view c' k = Some (v, x) | Some e' \<Rightarrow> \<not> errors_is e' ErrSessionNotFound))"

definition delete_law :: "'c view \<Rightarrow> 'c \<Rightarrow> string \<Rightarrow> goerr option \<times> 'c \<Rightarrow> bool" where
  "delete_law view c k r =
     (case r of (e, c') \<Rightarrow>
        (\<forall>k'. k' \<noteq> k \<longrightarrow> view c' k' = view c k') \<and>
        (view c' k = view c k \<or> view c' k = None) \<and> (e = None \<longrightarrow> view c' k = None))"

definition cache_laws :: "'c cache_ops \<Rightarrow> 'c view \<Rightarrow> (stored \<Rightarrow> stored) \<Rightarrow> bool" where
  "cache_laws ops view codec =
     ((\<forall>now c k. get_law view now c k (cget ops now c k)) \<and>
      (\<forall>now c k v ttl. 0 < ttl \<longrightarrow> set_law view c k (codec v) (now + ttl) (cset ops now c k v ttl)) \<and>
      (\<forall>now c k. delete_law view c k (cdelete ops now c k)) \<and> codec_ok codec)"

text \<open>
  A cache over an association list that keeps every law, for the witnesses. It never fails and
  stores what it is given.
\<close>

type_synonym mem = "(string \<times> stored \<times> time) list"

definition mem_ops :: "mem cache_ops" where
  "mem_ops = \<lparr>
     cget = \<lambda>now c k. (case map_of c k of
         None \<Rightarrow> Inl (Sentinel ErrCacheMiss)
       | Some (v, x) \<Rightarrow> if now < x then Inr v else Inl (Sentinel ErrCacheMiss)),
     cset = \<lambda>now c k v ttl. (None, if ttl \<le> 0 then filter (\<lambda>p. fst p \<noteq> k) c else put k (v, now + ttl) c),
     cdelete = \<lambda>now c k. (None, filter (\<lambda>p. fst p \<noteq> k) c)\<rparr>"

lemma map_of_filter_key: "map_of (filter (\<lambda>p. fst p \<noteq> k) c) k' = (if k' = k then None else map_of c k')"
  by (induction c) auto

lemma codec_id_ok: "codec_ok (\<lambda>v. v)"
proof -
  have "\<exists>f. s = s\<lparr>Snapshot := map_option (\<lambda>p. p\<lparr>Claims_of := f\<rparr>) (Snapshot s)\<rparr>" for s :: session
  proof (cases "Snapshot s")
    case None
    then show ?thesis by (cases s) simp
  next
    case (Some p)
    then show ?thesis by (intro exI [of _ "Claims_of p"]) (cases s, simp)
  qed
  then show ?thesis by (simp add: codec_ok_def)
qed

lemma mem_laws: "cache_laws mem_ops map_of (\<lambda>v. v)"
  unfolding cache_laws_def using codec_id_ok
  by (auto simp: mem_ops_def get_law_def set_law_def delete_law_def map_of_filter_key
      split: option.splits if_splits)

section \<open>Reading the laws\<close>

lemma law_get:
  "cache_laws ops view codec \<Longrightarrow> get_law view now c k (cget ops now c k)"
  by (simp add: cache_laws_def)

lemma law_set:
  "cache_laws ops view codec \<Longrightarrow> 0 < ttl \<Longrightarrow>
     set_law view c k (codec v) (now + ttl) (cset ops now c k v ttl)"
  by (simp add: cache_laws_def)

lemma law_delete:
  "cache_laws ops view codec \<Longrightarrow> delete_law view c k (cdelete ops now c k)"
  by (simp add: cache_laws_def)

lemma law_codec:
  "cache_laws ops view codec \<Longrightarrow> codec (Marker t) = Marker t"
  "cache_laws ops view codec \<Longrightarrow> \<exists>s'. codec (Record (Some s)) = Record (Some s') \<and> ID s' = ID s \<and>
     subject_of s' = subject_of s \<and> Persistent s' = Persistent s \<and> CreatedAt s' = CreatedAt s \<and>
     ExpiresAt s' = ExpiresAt s \<and> LastSeenAt s' = LastSeenAt s \<and>
     (Snapshot s' = None \<longleftrightarrow> Snapshot s = None) \<and>
     (\<forall>p. Snapshot s = Some p \<longrightarrow> (\<exists>f. Snapshot s' = Some (p\<lparr>Claims_of := f\<rparr>)))"
proof -
  assume "cache_laws ops view codec"
  then have c: "codec_ok codec" by (simp add: cache_laws_def)
  then show "codec (Marker t) = Marker t" by (simp add: codec_ok_def)
  from c obtain f where "codec (Record (Some s)) =
      Record (Some (s\<lparr>Snapshot := map_option (\<lambda>p. p\<lparr>Claims_of := f\<rparr>) (Snapshot s)\<rparr>))"
    unfolding codec_ok_def by blast
  then show "\<exists>s'. codec (Record (Some s)) = Record (Some s') \<and> ID s' = ID s \<and>
     subject_of s' = subject_of s \<and> Persistent s' = Persistent s \<and> CreatedAt s' = CreatedAt s \<and>
     ExpiresAt s' = ExpiresAt s \<and> LastSeenAt s' = LastSeenAt s \<and>
     (Snapshot s' = None \<longleftrightarrow> Snapshot s = None) \<and>
     (\<forall>p. Snapshot s = Some p \<longrightarrow> (\<exists>f. Snapshot s' = Some (p\<lparr>Claims_of := f\<rparr>)))"
    by (cases "Snapshot s") (auto simp: subject_of_def)
qed

lemma keys_apart [simp]:
  "recordKeyPrefix @ i \<noteq> revokedKeyPrefix @ j" "revokedKeyPrefix @ j \<noteq> recordKeyPrefix @ i"
  by (simp_all add: recordKeyPrefix_def revokedKeyPrefix_def)

section \<open>What a lookup that answers has established\<close>

definition live :: "config \<Rightarrow> time \<Rightarrow> session \<Rightarrow> bool" where
  "live cfg now s = (now < ExpiresAt s \<and> now < idleDeadline cfg s)"

lemma lookup_live_Inr:
  assumes "lookup_live ops cfg now i c = (Inr s, c')"
  shows "c' = c \<and> i \<noteq> [] \<and> cget ops now c (recordKeyPrefix @ i) = Inr (Record (Some s)) \<and>
    Snapshot s \<noteq> None \<and> live cfg now s \<and>
    (\<exists>r. revokedAt ops now (subject_of s) c = Inr r \<and> (r = zero_time \<or> r < CreatedAt s))"
  using assms unfolding lookup_live_def
  by (auto simp: live_def subject_of_def forget_def split: if_splits sum.splits stored.splits option.splits)

lemma lookup_live_Inl:
  assumes "lookup_live ops cfg now i c = (Inl e, c')"
  shows "c' = c \<or> c' = snd (cdelete ops now c (recordKeyPrefix @ i))"
  using assms unfolding lookup_live_def
  by (auto simp: forget_def split: if_splits sum.splits stored.splits option.splits)

lemma touch_Inr:
  assumes "touch ops cfg s now c = (Inr s', c')"
  shows "s' = s\<lparr>LastSeenAt := LastSeenAt s'\<rparr> \<and>
    (s' = s \<and> c' = c \<or> LastSeenAt s' = now \<and> write_session ops cfg s' now c = (None, c'))"
  using assms unfolding touch_def
  by (auto simp: Let_def split: if_splits prod.splits option.splits)

lemma Lookup_Inr:
  assumes "Lookup ops cfg now i c = (Inr s', c')"
  obtains s where "lookup_live ops cfg now i c = (Inr s, c)" "touch ops cfg s now c = (Inr s', c')"
proof -
  obtain r c1 where l: "lookup_live ops cfg now i c = (r, c1)" by (cases "lookup_live ops cfg now i c")
  with assms obtain s where "r = Inr s" by (cases r) (auto simp: Lookup_def)
  with l assms that lookup_live_Inr show thesis by (force simp: Lookup_def)
qed

section \<open>What the operations leave in the cache\<close>

text \<open>
  Each operation's effect on what is held: a key is untouched, loses its entry, or receives the
  record or the marker the operation writes.
\<close>

lemma write_view:
  assumes "cache_laws ops view codec" "write_session ops cfg s now c = (e, c')"
  shows "k \<noteq> recordKeyPrefix @ ID s \<Longrightarrow> view c' k = view c k"
    and "view c' k = view c k \<or> k = recordKeyPrefix @ ID s \<and> (\<exists>x. view c' k = Some (codec (Record (Some s)), x))"
    and "e = None \<Longrightarrow> 0 < remaining cfg s now \<and>
      view c' (recordKeyPrefix @ ID s) = Some (codec (Record (Some s)), now + remaining cfg s now)"
proof -
  have *: "(k \<noteq> recordKeyPrefix @ ID s \<longrightarrow> view c' k = view c k) \<and>
    (view c' k = view c k \<or> k = recordKeyPrefix @ ID s \<and> (\<exists>x. view c' k = Some (codec (Record (Some s)), x))) \<and>
    (e = None \<longrightarrow> 0 < remaining cfg s now \<and>
      view c' (recordKeyPrefix @ ID s) = Some (codec (Record (Some s)), now + remaining cfg s now))" for k
  proof (cases "0 < remaining cfg s now")
    case True
    from law_set [OF assms(1) this, of c "recordKeyPrefix @ ID s" "Record (Some s)" now] assms(2) True
    show ?thesis
      by (cases "k = recordKeyPrefix @ ID s")
        (auto simp: write_session_def set_law_def Let_def split: prod.splits option.splits)
  next
    case False
    with assms(2) show ?thesis by (auto simp: write_session_def)
  qed
  then show "k \<noteq> recordKeyPrefix @ ID s \<Longrightarrow> view c' k = view c k"
    "view c' k = view c k \<or> k = recordKeyPrefix @ ID s \<and> (\<exists>x. view c' k = Some (codec (Record (Some s)), x))"
    "e = None \<Longrightarrow> 0 < remaining cfg s now \<and>
      view c' (recordKeyPrefix @ ID s) = Some (codec (Record (Some s)), now + remaining cfg s now)"
    by blast+
qed

lemma delete_view:
  assumes "cache_laws ops view codec" "cdelete ops now c k = (e, c')"
  shows "view c' k' = view c k' \<or> k' = k \<and> view c' k' = None"
  using law_delete [OF assms(1), of c k now] assms(2) by (cases "k' = k") (auto simp: delete_law_def)

text \<open>What a record must be when it appears: as \<open>Create\<close> makes it, or one that was there already.\<close>

definition record_ok :: "config \<Rightarrow> session \<Rightarrow> bool" where
  "record_ok cfg s = (ExpiresAt s \<le> CreatedAt s + maxAbsoluteTTL cfg)"

definition store_inv :: "'c view \<Rightarrow> config \<Rightarrow> 'c \<Rightarrow> bool" where
  "store_inv view cfg c = (\<forall>i s x. view c (recordKeyPrefix @ i) = Some (Record (Some s), x) \<longrightarrow>
     ID s = i \<and> record_ok cfg s)"

lemma store_invD:
  "store_inv view cfg c \<Longrightarrow> view c (recordKeyPrefix @ i) = Some (Record (Some s), x) \<Longrightarrow> ID s = i \<and> record_ok cfg s"
  unfolding store_inv_def by blast

lemma write_inv:
  assumes "cache_laws ops view codec" "write_session ops cfg s now c = (e, c')" "store_inv view cfg c" "record_ok cfg s"
  shows "store_inv view cfg c'"
  unfolding store_inv_def
proof (intro allI impI)
  fix i s' x
  assume v: "view c' (recordKeyPrefix @ i) = Some (Record (Some s'), x)"
  from write_view(2) [OF assms(1,2), of "recordKeyPrefix @ i"]
  show "ID s' = i \<and> record_ok cfg s'"
  proof
    assume "view c' (recordKeyPrefix @ i) = view c (recordKeyPrefix @ i)"
    with v assms(3) show ?thesis using store_invD by metis
  next
    assume "recordKeyPrefix @ i = recordKeyPrefix @ ID s \<and>
      (\<exists>x. view c' (recordKeyPrefix @ i) = Some (codec (Record (Some s)), x))"
    with v law_codec(2) [OF assms(1), of s] assms(4) show ?thesis by (auto simp: record_ok_def)
  qed
qed

lemma delete_inv:
  assumes "cache_laws ops view codec" "store_inv view cfg c"
  shows "store_inv view cfg (snd (cdelete ops now c k))"
proof -
  obtain e c' where d: "cdelete ops now c k = (e, c')" by (cases "cdelete ops now c k")
  show ?thesis unfolding store_inv_def
  proof (intro allI impI)
    fix i s x
    assume "view (snd (cdelete ops now c k)) (recordKeyPrefix @ i) = Some (Record (Some s), x)"
    with delete_view [OF assms(1) d, of "recordKeyPrefix @ i"] d
    have "view c (recordKeyPrefix @ i) = Some (Record (Some s), x)" by auto
    with assms(2) show "ID s = i \<and> record_ok cfg s" by (rule store_invD)
  qed
qed

text \<open>A lookup changes at most its own record, and writes back what it read with a later last use.\<close>

lemma Lookup_cache:
  assumes "Lookup ops cfg now i c = (r, c')"
  shows "c' = c \<or> c' = snd (cdelete ops now c (recordKeyPrefix @ i)) \<or>
    (\<exists>s e. cget ops now c (recordKeyPrefix @ i) = Inr (Record (Some s)) \<and>
       write_session ops cfg (s\<lparr>LastSeenAt := now\<rparr>) now c = (e, c'))"
proof -
  obtain r1 c1 where l: "lookup_live ops cfg now i c = (r1, c1)" by (cases "lookup_live ops cfg now i c")
  show ?thesis
  proof (cases r1)
    case (Inl e)
    with l assms lookup_live_Inl [of ops cfg now i c e c1] show ?thesis by (auto simp: Lookup_def)
  next
    case (Inr s)
    with l assms lookup_live_Inr [of ops cfg now i c s c1] show ?thesis
      by (auto simp: Lookup_def touch_def Let_def split: if_splits prod.splits option.splits)
  qed
qed

lemma Lookup_inv:
  assumes laws: "cache_laws ops view codec" and inv: "store_inv view cfg c"
    and l: "Lookup ops cfg now i c = (r, c')"
  shows "store_inv view cfg c'"
  using Lookup_cache [OF l]
proof (elim disjE exE conjE)
  fix s e
  assume g: "cget ops now c (recordKeyPrefix @ i) = Inr (Record (Some s))"
    and w: "write_session ops cfg (s\<lparr>LastSeenAt := now\<rparr>) now c = (e, c')"
  from law_get [OF laws, of now c "recordKeyPrefix @ i"] g inv
  have "record_ok cfg s" by (auto simp: get_law_def store_inv_def)
  then show ?thesis using write_inv [OF laws w inv] by (simp add: record_ok_def)
qed (use inv laws delete_inv in auto)

lemma Create_inv:
  assumes "cache_laws ops view codec" "store_inv view cfg c"
    "Create ops cfg now random snap persistent c = (r, c')"
  shows "store_inv view cfg c'"
  using assms(3) write_inv [OF assms(1) _ assms(2)] assms(2) AbsoluteTTLFor_le [of cfg persistent]
  by (auto simp: Create_def Let_def record_ok_def split: option.splits if_splits sum.splits prod.splits)

lemma Revoke_inv:
  assumes "cache_laws ops view codec" "store_inv view cfg c" "Revoke ops now i c = (r, c')"
  shows "store_inv view cfg c'"
  using assms(3) delete_inv [OF assms(1,2), of now "recordKeyPrefix @ i"] assms(2)
  by (auto simp: Revoke_def split: if_splits option.splits prod.splits)

lemma RevokeSubject_view:
  assumes "cache_laws ops view codec" "config_ok cfg" "RevokeSubject ops cfg now subject c = (e, c')"
  shows "view c' k = view c k \<or>
      k = revokedKeyPrefix @ subject \<and> view c' k = Some (Marker now, now + maxAbsoluteTTL cfg)"
    and "e = None \<Longrightarrow> view c' (revokedKeyPrefix @ subject) = Some (Marker now, now + maxAbsoluteTTL cfg)"
proof -
  have pos: "0 < maxAbsoluteTTL cfg" using assms(2) by (auto simp: config_ok_def maxAbsoluteTTL_def)
  have *: "(view c' k = view c k \<or>
      k = revokedKeyPrefix @ subject \<and> view c' k = Some (Marker now, now + maxAbsoluteTTL cfg)) \<and>
     (e = None \<longrightarrow> view c' (revokedKeyPrefix @ subject) = Some (Marker now, now + maxAbsoluteTTL cfg))" for k
    using law_set [OF assms(1) pos, of c "revokedKeyPrefix @ subject" "Marker now" now] assms(3)
      law_codec(1) [OF assms(1)]
    by (cases "k = revokedKeyPrefix @ subject")
      (auto simp: RevokeSubject_def set_law_def split: if_splits prod.splits option.splits)
  show "view c' k = view c k \<or>
      k = revokedKeyPrefix @ subject \<and> view c' k = Some (Marker now, now + maxAbsoluteTTL cfg)"
    "e = None \<Longrightarrow> view c' (revokedKeyPrefix @ subject) = Some (Marker now, now + maxAbsoluteTTL cfg)"
    using * by blast+
qed

section \<open>Runs of the store\<close>

text \<open>
  Any number of processes share the cache; each operation is one step, at the instant the run
  has reached, and time passes between them. The event says what ran and what it answered.
\<close>

datatype event =
    Created "nat list result" "session result"   \<comment> \<open>the randomness drawn, the answer\<close>
  | LookedUp string "session result"
  | Revoked string "goerr option"
  | SubjectRevoked string "goerr option"
  | Elapsed

inductive store_step :: "'c cache_ops \<Rightarrow> config \<Rightarrow> time \<times> 'c \<Rightarrow> event \<Rightarrow> time \<times> 'c \<Rightarrow> bool"
  for ops cfg where
  create: "Create ops cfg now random snap persistent c = (r, c') \<Longrightarrow>
    store_step ops cfg (now, c) (Created random r) (now, c')"
| lookup: "Lookup ops cfg now i c = (r, c') \<Longrightarrow> store_step ops cfg (now, c) (LookedUp i r) (now, c')"
| revoke: "Revoke ops now i c = (e, c') \<Longrightarrow> store_step ops cfg (now, c) (Revoked i e) (now, c')"
| revoke_subject: "RevokeSubject ops cfg now subject c = (e, c') \<Longrightarrow>
    store_step ops cfg (now, c) (SubjectRevoked subject e) (now, c')"
| elapse: "now \<le> now' \<Longrightarrow> store_step ops cfg (now, c) Elapsed (now', c)"

inductive store_run :: "'c cache_ops \<Rightarrow> config \<Rightarrow> time \<times> 'c \<Rightarrow> event list \<Rightarrow> time \<times> 'c \<Rightarrow> bool"
  for ops cfg where
  stop: "store_run ops cfg st [] st"
| more: "store_step ops cfg st ev st' \<Longrightarrow> store_run ops cfg st' evs st'' \<Longrightarrow>
    store_run ops cfg st (ev # evs) st''"

inductive_cases store_stepE: "store_step ops cfg (now, c) ev (now', c')"
inductive_simps store_run_simps:
  "store_run ops cfg st [] st'"
  "store_run ops cfg st (ev # evs) st'"

lemma step_inv:
  assumes "cache_laws ops view codec" "store_inv view cfg c" "store_step ops cfg (now, c) ev (now', c')"
    "config_ok cfg"
  shows "store_inv view cfg c' \<and> now \<le> now'"
  using assms(3)
proof (rule store_stepE)
  fix subject e
  assume "RevokeSubject ops cfg now subject c = (e, c')" "now' = now"
  then show ?thesis
    using RevokeSubject_view(1) [OF assms(1,4)] assms(2)
    unfolding store_inv_def by (metis keys_apart(1) order_refl)
qed (use Create_inv [OF assms(1,2)] Lookup_inv [OF assms(1,2)] Revoke_inv [OF assms(1,2)] assms(2) in auto)

text \<open>A key that is not a session record changes only by a subject's revocation.\<close>

lemma step_marker:
  assumes laws: "cache_laws ops view codec" and ok: "config_ok cfg" and inv: "store_inv view cfg c"
    and step: "store_step ops cfg (now, c) ev (now', c')"
  shows "view c' (revokedKeyPrefix @ j) = view c (revokedKeyPrefix @ j) \<or>
    view c' (revokedKeyPrefix @ j) = Some (Marker now, now + maxAbsoluteTTL cfg)"
  using step
proof (rule store_stepE)
  fix random snap persistent r
  assume "Create ops cfg now random snap persistent c = (r, c')"
  then show ?thesis
    using write_view(1) [OF laws, of cfg _ now c _ c' "revokedKeyPrefix @ j"]
    by (auto simp: Create_def Let_def split: option.splits if_splits sum.splits prod.splits)
next
  fix i r
  assume "Lookup ops cfg now i c = (r, c')"
  from Lookup_cache [OF this] show ?thesis
  proof (elim disjE exE conjE)
    assume "c' = snd (cdelete ops now c (recordKeyPrefix @ i))"
    then show ?thesis
      using delete_view [OF laws, of now c "recordKeyPrefix @ i" _ c' "revokedKeyPrefix @ j"]
      by (metis keys_apart(1) prod.collapse)
  qed (use write_view(1) [OF laws] in force)+
next
  fix i e
  assume "Revoke ops now i c = (e, c')"
  then show ?thesis
    using delete_view [OF laws, of now c "recordKeyPrefix @ i" _ c' "revokedKeyPrefix @ j"]
    by (auto simp: Revoke_def split: if_splits prod.splits option.splits)
next
  fix subject e
  assume "RevokeSubject ops cfg now subject c = (e, c')"
  then show ?thesis using RevokeSubject_view(1) [OF laws ok] by blast
qed auto

definition marked :: "'c view \<Rightarrow> config \<Rightarrow> string \<Rightarrow> time \<Rightarrow> 'c \<Rightarrow> bool" where
  "marked view cfg subject t c =
     (\<exists>m. view c (revokedKeyPrefix @ subject) = Some (Marker m, m + maxAbsoluteTTL cfg) \<and> t \<le> m)"

lemma step_marked:
  assumes "cache_laws ops view codec" "config_ok cfg" "store_inv view cfg c"
    "store_step ops cfg (now, c) ev (now', c')" "marked view cfg subject t c" "t \<le> now"
  shows "marked view cfg subject t c'"
  using step_marker [OF assms(1-4), of subject] assms(5,6) by (auto simp: marked_def)

lemma run_marked:
  assumes "store_run ops cfg st evs st'" "cache_laws ops view codec" "config_ok cfg"
    "store_inv view cfg (snd st)" "marked view cfg subject t (snd st)" "t \<le> fst st"
  shows "store_inv view cfg (snd st') \<and> marked view cfg subject t (snd st') \<and> fst st \<le> fst st'"
  using assms
proof (induction rule: store_run.induct)
  case (more st ev st' evs st'')
  then have s: "store_step ops cfg (fst st, snd st) ev (fst st', snd st')" by simp
  note i = step_inv [OF more.prems(1,3) s more.prems(2)]
    and m = step_marked [OF more.prems(1,2,3) s more.prems(4,5)]
  with more show ?case by auto
qed simp

text \<open>Under a marker no session created before it is live, for as long as any could be.\<close>

lemma marked_lookup:
  assumes laws: "cache_laws ops view codec" and inv: "store_inv view cfg c"
    and m: "marked view cfg subject t c" and t: "zero_time < t"
    and l: "Lookup ops cfg now i c = (Inr s, c')" and sub: "subject_of s = subject"
  shows "t < CreatedAt s"
proof -
  obtain s0 where l0: "lookup_live ops cfg now i c = (Inr s0, c)" and th: "touch ops cfg s0 now c = (Inr s, c')"
    using Lookup_Inr [OF l] .
  from touch_Inr [OF th] have eq: "s = s0\<lparr>LastSeenAt := LastSeenAt s\<rparr>" by blast
  have s0: "CreatedAt s = CreatedAt s0" "subject_of s0 = subject"
    by (subst eq; simp) (use sub in \<open>subst (asm) eq; simp add: subject_of_def\<close>)
  from lookup_live_Inr [OF l0] obtain r where
    get: "cget ops now c (recordKeyPrefix @ i) = Inr (Record (Some s0))" and lv: "now < ExpiresAt s0"
    and r: "revokedAt ops now subject c = Inr r" "r = zero_time \<or> r < CreatedAt s0"
    using s0 by (auto simp: live_def)
  have "record_ok cfg s0"
    using law_get [OF laws, of now c "recordKeyPrefix @ i"] get inv
    by (auto simp: get_law_def dest: store_invD)
  then have bound: "now < CreatedAt s0 + maxAbsoluteTTL cfg" using lv by (simp add: record_ok_def)
  from m obtain m' where v: "view c (revokedKeyPrefix @ subject) = Some (Marker m', m' + maxAbsoluteTTL cfg)" "t \<le> m'"
    by (auto simp: marked_def)
  have "m' = r \<or> m' + maxAbsoluteTTL cfg \<le> now"
    using law_get [OF laws, of now c "revokedKeyPrefix @ subject"] v r(1)
    by (auto simp: get_law_def revokedAt_def split: sum.splits stored.splits if_splits)
  with bound r(2) v(2) t s0 show ?thesis by auto
qed

text \<open>
  C1. Revoking a subject reaches every session it holds. Once \<open>RevokeSubject\<close> has answered without
  an error, no lookup after it, whatever other processes do meanwhile and however long one waits,
  answers with a session of that subject that was created at or before the revocation. The marker
  may expire: it outlives every such session.
\<close>

theorem RevokeSubject_effective:
  assumes "cache_laws ops view codec" "config_ok cfg" "store_inv view cfg c0" "zero_time < t0"
    and "RevokeSubject ops cfg t0 subject c0 = (None, c1)"
    and "store_run ops cfg (t0, c1) evs (now, c)"
    and "Lookup ops cfg now i c = (Inr s, c')" "subject_of s = subject"
  shows "t0 < CreatedAt s"
proof -
  have "store_step ops cfg (t0, c0) (SubjectRevoked subject None) (t0, c1)"
    using assms(5) by (rule revoke_subject)
  then have "store_inv view cfg c1" using step_inv [OF assms(1,3) _ assms(2)] by blast
  moreover have "marked view cfg subject t0 c1"
    using RevokeSubject_view(2) [OF assms(1,2,5)] by (auto simp: marked_def)
  ultimately have "store_inv view cfg c" "marked view cfg subject t0 c"
    using run_marked [OF assms(6,1,2)] by auto
  then show ?thesis using marked_lookup [OF assms(1) _ _ assms(4,7,8)] by blast
qed

text \<open>A small deployment the witnesses share.\<close>

definition demo_config :: config where
  "demo_config = \<lparr>CookieName = ''s'', CookieSameSite = SameSiteLaxMode, CookieSecure = True,
     AbsoluteTTL = 1000, PersistentAbsoluteTTL = 5000, IdleTTL = 300\<rparr>"

definition demo_session :: "time \<Rightarrow> session" where
  "demo_session t = \<lparr>ID = ''AA'', Snapshot = Some \<lparr>Subject = ''u'', Scopes = [], Claims_of = []\<rparr>,
     Persistent = False, CreatedAt = t, ExpiresAt = t + 1000, LastSeenAt = t\<rparr>"

lemma demo_config_ok: "config_ok demo_config"
  by code_simp

lemma RevokeSubject_effective_witness: "100 < CreatedAt (demo_session 101)"
proof -
  let ?c1 = "[(''revoked:u'', Marker 100, 5100)]"
  let ?c2 = "[(''revoked:u'', Marker 100, 5100), (''session:AA'', Record (Some (demo_session 101)), 401)]"
  have "RevokeSubject mem_ops demo_config 100 ''u'' [] = (None, ?c1)" by code_simp
  moreover have "Create mem_ops demo_config 101 (Inr [0]) (Some \<lparr>Subject = ''u'', Scopes = [], Claims_of = []\<rparr>) False ?c1 =
      (Inr (demo_session 101), ?c2)" by code_simp
  then have "store_run mem_ops demo_config (100, ?c1) [Elapsed, Created (Inr [0]) (Inr (demo_session 101))] (101, ?c2)"
    by (intro store_run.more [OF store_step.elapse] store_run.more [OF store_step.create]) (simp_all add: store_run_simps)
  moreover have "Lookup mem_ops demo_config 101 ''AA'' ?c2 = (Inr (demo_session 101), ?c2)" by code_simp
  ultimately show ?thesis
    using RevokeSubject_effective [OF mem_laws demo_config_ok, of "[]" 100 "''u''" ?c1 _ 101 ?c2 "''AA''" "demo_session 101" ?c2]
    by (simp add: store_inv_def zero_time_def demo_session_def subject_of_def)
qed

section \<open>One session's revocation\<close>

text \<open>What a step can put under a record key: only \<open>Create\<close> makes an entry where there was none.\<close>

lemma step_absent:
  assumes laws: "cache_laws ops view codec" and ok: "config_ok cfg" and inv: "store_inv view cfg c"
    and step: "store_step ops cfg (now, c) ev (now', c')" and gone: "view c (recordKeyPrefix @ i) = None"
    and fresh: "\<forall>bs r. ev = Created (Inr bs) r \<longrightarrow> RawURLEncode bs \<noteq> i"
  shows "view c' (recordKeyPrefix @ i) = None"
  using step
proof (rule store_stepE)
  fix random snap persistent r
  assume "ev = Created random r" "Create ops cfg now random snap persistent c = (r, c')"
  then show ?thesis
    using write_view(1) [OF laws, of cfg _ now c _ c' "recordKeyPrefix @ i"] gone fresh
    by (auto simp: Create_def Let_def newID_def split: option.splits if_splits sum.splits prod.splits)
next
  fix j r
  assume "Lookup ops cfg now j c = (r, c')"
  from Lookup_cache [OF this] show ?thesis
  proof (elim disjE exE conjE)
    assume "c' = snd (cdelete ops now c (recordKeyPrefix @ j))"
    then show ?thesis
      using delete_view [OF laws, of now c "recordKeyPrefix @ j" _ c' "recordKeyPrefix @ i"] gone
      by (metis prod.collapse)
  next
    fix s e
    assume g: "cget ops now c (recordKeyPrefix @ j) = Inr (Record (Some s))"
      and w: "write_session ops cfg (s\<lparr>LastSeenAt := now\<rparr>) now c = (e, c')"
    from law_get [OF laws, of now c "recordKeyPrefix @ j"] g
    obtain x where v: "view c (recordKeyPrefix @ j) = Some (Record (Some s), x)" by (auto simp: get_law_def)
    with inv gone have "ID s = j" "j \<noteq> i" using store_invD by fastforce+
    then show ?thesis using write_view(1) [OF laws w, of "recordKeyPrefix @ i"] gone by simp
  qed (use gone in simp)
next
  fix j e
  assume "Revoke ops now j c = (e, c')"
  then show ?thesis
    using delete_view [OF laws, of now c "recordKeyPrefix @ j" _ c' "recordKeyPrefix @ i"] gone
    by (auto simp: Revoke_def split: if_splits prod.splits option.splits)
next
  fix subject e
  assume "RevokeSubject ops cfg now subject c = (e, c')"
  then show ?thesis using RevokeSubject_view(1) [OF laws ok, of now subject c e c' "recordKeyPrefix @ i"] gone by simp
qed (use gone in simp)

lemma run_absent:
  assumes "store_run ops cfg st evs st'" "cache_laws ops view codec" "config_ok cfg"
    "store_inv view cfg (snd st)" "view (snd st) (recordKeyPrefix @ i) = None"
    "\<forall>bs r. Created (Inr bs) r \<in> set evs \<longrightarrow> RawURLEncode bs \<noteq> i"
  shows "view (snd st') (recordKeyPrefix @ i) = None"
  using assms
proof (induction rule: store_run.induct)
  case (more st ev st' evs st'')
  then have s: "store_step ops cfg (fst st, snd st) ev (fst st', snd st')" by simp
  note i = step_inv [OF more.prems(1,3) s more.prems(2)]
    and a = step_absent [OF more.prems(1,2,3) s more.prems(4)]
  with more show ?case by auto
qed simp

lemma Revoke_absent:
  assumes "cache_laws ops view codec" "store_inv view cfg c" "Revoke ops now i c = (None, c')" "i \<noteq> []"
  shows "view c' (recordKeyPrefix @ i) = None \<and> store_inv view cfg c'"
proof -
  from assms(3,4) have "cdelete ops now c (recordKeyPrefix @ i) = (None, c')"
    by (auto simp: Revoke_def split: prod.splits option.splits)
  with law_delete [OF assms(1), of c "recordKeyPrefix @ i" now] Revoke_inv [OF assms(1,2,3)]
  show ?thesis by (simp add: delete_law_def)
qed

lemma absent_lookup:
  assumes "cache_laws ops view codec" "view c (recordKeyPrefix @ i) = None"
  shows "Lookup ops cfg now i c \<noteq> (Inr s, c')"
proof
  assume "Lookup ops cfg now i c = (Inr s, c')"
  then obtain s0 where "lookup_live ops cfg now i c = (Inr s0, c)" by (rule Lookup_Inr)
  with law_get [OF assms(1), of now c "recordKeyPrefix @ i"] assms(2) lookup_live_Inr show False
    by (fastforce simp: get_law_def)
qed

text \<open>
  C4. Signing out is final: once \<open>Revoke\<close> has answered without an error, no later lookup of that
  id answers with a session, whatever operations run in between one after the other, unless the
  randomness happens to draw the same id again.
\<close>

theorem Revoke_final:
  assumes "cache_laws ops view codec" "config_ok cfg" "store_inv view cfg c0" "i \<noteq> []"
    and "Revoke ops t0 i c0 = (None, c1)" "store_run ops cfg (t0, c1) evs (now, c)"
    and "\<forall>bs r. Created (Inr bs) r \<in> set evs \<longrightarrow> RawURLEncode bs \<noteq> i"
  shows "\<nexists>s. fst (Lookup ops cfg now i c) = Inr s"
proof -
  have "view c (recordKeyPrefix @ i) = None"
    using run_absent [OF assms(6,1,2) _ _ assms(7)] Revoke_absent [OF assms(1,3,5,4)] by simp
  then show ?thesis
    using absent_lookup [OF assms(1)] by (metis prod.collapse)
qed

lemma Revoke_final_witness:
  "\<nexists>s. fst (Lookup mem_ops demo_config 100 ''AA'' []) = Inr s"
proof -
  have "Revoke mem_ops 100 ''AA'' [(''session:AA'', Record (Some (demo_session 50)), 350)] = (None, [])"
    by code_simp
  then show ?thesis
    using Revoke_final [OF mem_laws demo_config_ok, of "[(''session:AA'', Record (Some (demo_session 50)), 350)]"
        "''AA''" 100 "[]" "[]" 100 "[]"]
    by (simp add: store_run_simps store_inv_def recordKeyPrefix_def demo_session_def record_ok_def maxAbsoluteTTL_def demo_config_def)
qed

text \<open>
  It is final only between whole operations. A lookup that has read its record when the
  session is revoked writes the record back when it moves the idle deadline, and the session that
  was signed out answers again.
\<close>

theorem Revoke_undone_by_lookup:
  "\<exists>s c1 c2 s'.
     lookup_live mem_ops demo_config 100 ''AA'' [(''session:AA'', Record (Some (demo_session 50)), 350)] =
       (Inr s, [(''session:AA'', Record (Some (demo_session 50)), 350)]) \<and>
     Revoke mem_ops 101 ''AA'' [(''session:AA'', Record (Some (demo_session 50)), 350)] = (None, c1) \<and>
     touch mem_ops demo_config s 100 c1 = (Inr s', c2) \<and>
     fst (Lookup mem_ops demo_config 102 ''AA'' c2) = Inr s'"
proof -
  let ?c = "[(''session:AA'', Record (Some (demo_session 50)), 350)]"
  let ?s = "(demo_session 50)\<lparr>LastSeenAt := 100\<rparr>"
  have "lookup_live mem_ops demo_config 100 ''AA'' ?c = (Inr (demo_session 50), ?c)"
    "Revoke mem_ops 101 ''AA'' ?c = (None, [])"
    "touch mem_ops demo_config (demo_session 50) 100 [] = (Inr ?s, [(''session:AA'', Record (Some ?s), 400)])"
    "fst (Lookup mem_ops demo_config 102 ''AA'' [(''session:AA'', Record (Some ?s), 400)]) = Inr ?s"
    by code_simp+
  then show ?thesis by blast
qed

section \<open>What a lookup answers\<close>

text \<open>
  C2. A session a lookup answers with is one the cache holds under that id, before both its
  deadlines and created after any revocation of its subject; only its last use may have moved, to
  now, and then the entry is stored to expire no later than either deadline.
\<close>

theorem Lookup_sound:
  assumes "cache_laws ops view codec" "store_inv view cfg c" "Lookup ops cfg now i c = (Inr s', c')"
  shows "\<exists>s x. view c (recordKeyPrefix @ i) = Some (Record (Some s), x) \<and> now < x \<and> i \<noteq> [] \<and> ID s' = i \<and>
    s' = s\<lparr>LastSeenAt := LastSeenAt s'\<rparr> \<and> live cfg now s \<and> Snapshot s \<noteq> None \<and>
    (\<exists>r. revokedAt ops now (subject_of s) c = Inr r \<and> (r = zero_time \<or> r < CreatedAt s)) \<and>
    (s' = s \<and> c' = c \<or> LastSeenAt s' = now \<and>
      (\<exists>x'. view c' (recordKeyPrefix @ i) = Some (codec (Record (Some s')), x') \<and>
        now < x' \<and> x' \<le> ExpiresAt s \<and> x' \<le> idleDeadline cfg s'))"
proof -
  obtain s where l: "lookup_live ops cfg now i c = (Inr s, c)" and t: "touch ops cfg s now c = (Inr s', c')"
    using Lookup_Inr [OF assms(3)] .
  note l' = lookup_live_Inr [OF l] and t' = touch_Inr [OF t]
  from l' law_get [OF assms(1), of now c "recordKeyPrefix @ i"]
  obtain x where v: "view c (recordKeyPrefix @ i) = Some (Record (Some s), x)" "now < x"
    by (auto simp: get_law_def)
  have i: "ID s = i" using store_invD [OF assms(2) v(1)] by simp
  from t' have eq: "s' = s\<lparr>LastSeenAt := LastSeenAt s'\<rparr>" by (rule conjunct1)
  have e: "ExpiresAt s' = ExpiresAt s" "ID s' = i" by (subst eq, simp add: i)+
  have "\<exists>x'. view c' (recordKeyPrefix @ i) = Some (codec (Record (Some s')), x') \<and>
        now < x' \<and> x' \<le> ExpiresAt s \<and> x' \<le> idleDeadline cfg s'"
    if "write_session ops cfg s' now c = (None, c')"
    using write_view(3) [OF assms(1) that] e
      time_sub_le [of "ExpiresAt s" now] time_sub_le [of "idleDeadline cfg s'" now]
    by (auto simp: remaining_def)
  with l' t' v eq e show ?thesis by blast
qed

lemma Lookup_sound_witness:
  "ID ((demo_session 50)\<lparr>LastSeenAt := 100\<rparr>) = ''AA''"
proof -
  have "Lookup mem_ops demo_config 100 ''AA'' [(''session:AA'', Record (Some (demo_session 50)), 350)] =
      (Inr ((demo_session 50)\<lparr>LastSeenAt := 100\<rparr>),
       [(''session:AA'', Record (Some ((demo_session 50)\<lparr>LastSeenAt := 100\<rparr>)), 400)])"
    by code_simp
  from Lookup_sound [OF mem_laws _ this] show ?thesis
    by (auto simp: store_inv_def recordKeyPrefix_def demo_session_def record_ok_def maxAbsoluteTTL_def demo_config_def
        split: if_splits)
qed

text \<open>The one benign outcome: there is no live session with that id.\<close>

definition gone :: "'c cache_ops \<Rightarrow> 'c view \<Rightarrow> config \<Rightarrow> time \<Rightarrow> string \<Rightarrow> 'c \<Rightarrow> bool" where
  "gone ops view cfg now i c =
     (i = [] \<or>
      (case view c (recordKeyPrefix @ i) of
         None \<Rightarrow> True
       | Some (v, x) \<Rightarrow> x \<le> now \<or> v = Record None \<or>
           (\<exists>s. v = Record (Some s) \<and>
             (Snapshot s = None \<or> \<not> live cfg now s \<or>
              (\<exists>r. revokedAt ops now (subject_of s) c = Inr r \<and> r \<noteq> zero_time \<and> CreatedAt s \<le> r)))))"

lemma revokedAt_foreign:
  assumes "cache_laws ops view codec" "revokedAt ops now subject c = Inl e"
  shows "\<not> errors_is e ErrSessionNotFound"
  using law_get [OF assms(1), of now c "revokedKeyPrefix @ subject"] assms(2)
  by (auto simp: revokedAt_def get_law_def split: sum.splits stored.splits if_splits)

lemma touch_foreign:
  assumes "cache_laws ops view codec" "touch ops cfg s now c = (Inl e, c')"
  shows "\<not> errors_is e ErrSessionNotFound"
proof -
  obtain r c1 where w: "cset ops now c (recordKeyPrefix @ ID s) (Record (Some (s\<lparr>LastSeenAt := now\<rparr>)))
      (remaining cfg (s\<lparr>LastSeenAt := now\<rparr>) now) = (r, c1)" by fastforce
  show ?thesis
  proof (cases "0 < remaining cfg (s\<lparr>LastSeenAt := now\<rparr>) now")
    case True
    from law_set [OF assms(1) this, of c "recordKeyPrefix @ ID s" "Record (Some (s\<lparr>LastSeenAt := now\<rparr>))" now] w True assms(2)
    show ?thesis
      by (auto simp: touch_def write_session_def set_law_def Let_def split: if_splits option.splits)
  next
    case False
    with assms(2) show ?thesis by (auto simp: touch_def write_session_def Let_def split: if_splits)
  qed
qed

lemma lookup_live_gone:
  assumes "cache_laws ops view codec" "lookup_live ops cfg now i c = (Inl e, c')"
    "errors_is e ErrSessionNotFound"
  shows "gone ops view cfg now i c"
proof (cases "i = []")
  case False
  show ?thesis
  proof (cases "cget ops now c (recordKeyPrefix @ i)")
    case (Inl e')
    with law_get [OF assms(1), of now c "recordKeyPrefix @ i"] assms False show ?thesis
      by (auto simp: gone_def get_law_def lookup_live_def split: if_splits option.splits)
  next
    case (Inr v)
    with law_get [OF assms(1), of now c "recordKeyPrefix @ i"]
    obtain x where x: "view c (recordKeyPrefix @ i) = Some (v, x)" by (auto simp: get_law_def)
    show ?thesis
    proof (rule ccontr)
      assume ng: "\<not> gone ops view cfg now i c"
      with x False have "v \<noteq> Record None" by (simp add: gone_def)
      with assms(2,3) Inr False obtain s where v: "v = Record (Some s)"
        by (cases v) (auto simp: lookup_live_def split: option.splits)
      with ng x False have s: "Snapshot s \<noteq> None" "live cfg now s"
        "\<And>r. revokedAt ops now (subject_of s) c = Inr r \<Longrightarrow> r = zero_time \<or> r < CreatedAt s"
        by (auto simp: gone_def not_le)
      then obtain p where p: "Snapshot s = Some p" "subject_of s = Subject p" by (auto simp: subject_of_def)
      show False
      proof (cases "revokedAt ops now (Subject p) c")
        case (Inl e')
        with \<open>cget ops now c (recordKeyPrefix @ i) = Inr v\<close> v p s(2) False assms(2)
        have "e = e'" by (simp add: lookup_live_def live_def)
        with revokedAt_foreign [OF assms(1) Inl] assms(3) show False by simp
      next
        case (Inr r)
        with \<open>cget ops now c (recordKeyPrefix @ i) = Inr v\<close> v p s False assms(2)
        show False by (auto simp: lookup_live_def live_def split: if_splits)
      qed
    qed
  qed
qed (simp add: gone_def)

text \<open>
  C5. A lookup reports \<open>ErrSessionNotFound\<close> only when there is no live session with that id:
  never when the cache could not be asked, whichever of its calls failed. So an outage never
  looks like a sign-out.
\<close>

theorem Lookup_not_found_means_gone:
  assumes "cache_laws ops view codec" "Lookup ops cfg now i c = (Inl e, c')"
    "errors_is e ErrSessionNotFound"
  shows "gone ops view cfg now i c"
proof -
  obtain r c1 where l: "lookup_live ops cfg now i c = (r, c1)" by (cases "lookup_live ops cfg now i c")
  show ?thesis
  proof (cases r)
    case (Inl e')
    with l assms lookup_live_gone [OF assms(1)] show ?thesis by (auto simp: Lookup_def)
  next
    case (Inr s)
    with l assms touch_foreign [OF assms(1)] show ?thesis by (auto simp: Lookup_def)
  qed
qed

lemma Lookup_not_found_means_gone_witness:
  "gone mem_ops map_of demo_config 2000 ''AA'' [(''session:AA'', Record (Some (demo_session 50)), 3000)]"
proof -
  have "Lookup mem_ops demo_config 2000 ''AA'' [(''session:AA'', Record (Some (demo_session 50)), 3000)] =
      (Inl (Sentinel ErrSessionNotFound), [])" by code_simp
  from Lookup_not_found_means_gone [OF mem_laws this] show ?thesis by simp
qed

end
