(* ===== verification/SessionSpec.thy ===== *)
theory SessionSpec
  imports SessionStore
begin

text \<open>
  What the session store is for, without a cache: a table of sessions and, for each subject, the
  instant it was last signed out everywhere. Expiry is a question asked of a session, never an event,
  and nothing is ever cleaned up. The store over a cache that is up refines it
  (\<open>internal/plamo/sessionkit/store.go\<close>): no expiry of a record or of a marker is ever seen from outside.

  The values of the claims are left out of the comparison: JSON may change their types.
\<close>

section \<open>The table\<close>

record signins =
  signed_in :: "string \<Rightarrow> session option"
  cut :: "string \<Rightarrow> time option"

definition nobody :: signins where
  "nobody = \<lparr>signed_in = (\<lambda>_. None), cut = (\<lambda>_. None)\<rparr>"

definition bare :: "session \<Rightarrow> session" where
  "bare s = s\<lparr>Snapshot := map_option (\<lambda>p. p\<lparr>Claims_of := []\<rparr>) (Snapshot s)\<rparr>"

definition cut_off :: "signins \<Rightarrow> session \<Rightarrow> bool" where
  "cut_off a s = (case cut a (subject_of s) of None \<Rightarrow> False | Some m \<Rightarrow> CreatedAt s \<le> m)"

definition answers :: "config \<Rightarrow> signins \<Rightarrow> time \<Rightarrow> string \<Rightarrow> session option" where
  "answers cfg a t i =
     (case signed_in a i of None \<Rightarrow> None | Some s \<Rightarrow> if live cfg t s \<and> \<not> cut_off a s then Some s else None)"

definition seen :: "config \<Rightarrow> time \<Rightarrow> session \<Rightarrow> session" where
  "seen cfg now s = (if time_sub now (LastSeenAt s) < idleRefreshInterval cfg then s else s\<lparr>LastSeenAt := now\<rparr>)"

datatype call =
    SignIn "nat list" snapshot bool
  | Resolve string
  | SignOut string
  | SignOutEverywhere string
  | Wait nat

datatype reply = Session "session option" | Ended bool | Waited

fun spec_call :: "config \<Rightarrow> call \<Rightarrow> time \<times> signins \<Rightarrow> reply \<times> time \<times> signins" where
  "spec_call cfg (SignIn bytes p persistent) (now, a) =
     (if Subject p = [] then (Session None, now, a)
      else
        let i = RawURLEncode bytes;
            s = bare \<lparr>ID = i, Snapshot = Some p, Persistent = persistent, CreatedAt = now,
              ExpiresAt = now + AbsoluteTTLFor cfg persistent, LastSeenAt = now\<rparr>
        in (Session (Some s), now, a\<lparr>signed_in := (signed_in a)(i \<mapsto> s)\<rparr>))"
| "spec_call cfg (Resolve i) (now, a) =
     (case answers cfg a now i of
        None \<Rightarrow> (Session None, now, a)
      | Some s \<Rightarrow> (Session (Some (seen cfg now s)), now, a\<lparr>signed_in := (signed_in a)(i \<mapsto> seen cfg now s)\<rparr>))"
| "spec_call cfg (SignOut i) (now, a) = (Ended True, now, a\<lparr>signed_in := (signed_in a)(i := None)\<rparr>)"
| "spec_call cfg (SignOutEverywhere subject) (now, a) =
     (if subject = [] then (Ended False, now, a) else (Ended True, now, a\<lparr>cut := (cut a)(subject \<mapsto> now)\<rparr>))"
| "spec_call cfg (Wait n) (now, a) = (Waited, now + int n, a)"

section \<open>The store, call by call\<close>

fun store_call :: "'c cache_ops \<Rightarrow> config \<Rightarrow> call \<Rightarrow> time \<times> 'c \<Rightarrow> reply \<times> time \<times> 'c" where
  "store_call ops cfg (SignIn bytes p persistent) (now, c) =
     (case Create ops cfg now (Inr bytes) (Some p) persistent c of
        (Inr s, c') \<Rightarrow> (Session (Some (bare s)), now, c')
      | (Inl e, c') \<Rightarrow> (Session None, now, c'))"
| "store_call ops cfg (Resolve i) (now, c) =
     (case Lookup ops cfg now i c of
        (Inr s, c') \<Rightarrow> (Session (Some (bare s)), now, c')
      | (Inl e, c') \<Rightarrow> (Session None, now, c'))"
| "store_call ops cfg (SignOut i) (now, c) = (case Revoke ops now i c of (e, c') \<Rightarrow> (Ended (e = None), now, c'))"
| "store_call ops cfg (SignOutEverywhere subject) (now, c) =
     (case RevokeSubject ops cfg now subject c of (e, c') \<Rightarrow> (Ended (e = None), now, c'))"
| "store_call ops cfg (Wait n) (now, c) = (Waited, now + int n, c)"

fun calls :: "(call \<Rightarrow> 'st \<Rightarrow> reply \<times> 'st) \<Rightarrow> call list \<Rightarrow> 'st \<Rightarrow> reply list \<times> 'st" where
  "calls f [] st = ([], st)"
| "calls f (k # ks) st = (case f k st of (r, st') \<Rightarrow> (case calls f ks st' of (rs, st'') \<Rightarrow> (r # rs, st'')))"

text \<open>An id is drawn from some bytes.\<close>

fun drawn :: "call \<Rightarrow> bool" where
  "drawn (SignIn bytes p persistent) = (bytes \<noteq> [])"
| "drawn _ = True"

section \<open>A cache that is up\<close>

locale reliable_cache =
  fixes ops :: "'c cache_ops" and view :: "'c view" and codec :: "stored \<Rightarrow> stored"
  assumes get_hit: "view c k = Some (v, x) \<Longrightarrow> now < x \<Longrightarrow> cget ops now c k = Inr v"
    and get_miss: "(\<And>v x. view c k = Some (v, x) \<Longrightarrow> x \<le> now) \<Longrightarrow> \<exists>e. cget ops now c k = Inl e \<and> errors_is e ErrCacheMiss"
    and set_ok: "0 < ttl \<Longrightarrow> \<exists>c'. cset ops now c k v ttl = (None, c') \<and> view c' = (view c)(k \<mapsto> (codec v, now + ttl))"
    and delete_ok: "\<exists>c'. cdelete ops now c k = (None, c') \<and> view c' = (view c)(k := None)"
    and codec: "codec_ok codec"

interpretation mem_cache: reliable_cache mem_ops map_of "\<lambda>v. v"
  by unfold_locales
    (auto simp: mem_ops_def codec_id_ok map_of_filter_key fun_eq_iff split: option.splits prod.splits)

section \<open>The simulation\<close>

lemma bare_simps [simp]:
  "bare (s\<lparr>LastSeenAt := t\<rparr>) = bare s\<lparr>LastSeenAt := t\<rparr>" "live cfg t (bare s) = live cfg t s" "subject_of (bare s) = subject_of s"
  "cut_off a (bare s) = cut_off a s" "LastSeenAt (bare s) = LastSeenAt s" "CreatedAt (bare s) = CreatedAt s"
  "seen cfg now (bare s) = bare (seen cfg now s)"
  by (auto simp: bare_def live_def idleDeadline_def subject_of_def cut_off_def seen_def split: option.splits)

lemma answers_antitone:
  "answers cfg a t i = None \<Longrightarrow> t \<le> t' \<Longrightarrow> answers cfg a t' i = None"
  by (auto simp: answers_def live_def split: option.splits if_splits)

definition held :: "'c view \<Rightarrow> 'c \<Rightarrow> string \<Rightarrow> session option" where
  "held view c i = (case view c (recordKeyPrefix @ i) of Some (Record (Some s), _) \<Rightarrow> Some s | _ \<Rightarrow> None)"

definition record_entry_ok :: "config \<Rightarrow> string \<Rightarrow> (stored \<times> time) option \<Rightarrow> bool" where
  "record_entry_ok cfg i entry =
     (case entry of
        None \<Rightarrow> True
      | Some (Record (Some s), x) \<Rightarrow> x = min (ExpiresAt s) (idleDeadline cfg s) \<and> ID s = i \<and> record_ok cfg s \<and> Snapshot s \<noteq> None
      | _ \<Rightarrow> False)"

definition simulates :: "'c view \<Rightarrow> config \<Rightarrow> time \<Rightarrow> 'c \<Rightarrow> signins \<Rightarrow> bool" where
  "simulates view cfg now c a \<longleftrightarrow>
     zero_time < now \<and> view c recordKeyPrefix = None \<and>
     (\<forall>i. record_entry_ok cfg i (view c (recordKeyPrefix @ i))) \<and>
     (\<forall>subject. view c (revokedKeyPrefix @ subject) = map_option (\<lambda>m. (Marker m, m + maxAbsoluteTTL cfg)) (cut a subject)) \<and>
     (\<forall>subject m. cut a subject = Some m \<longrightarrow> zero_time < m \<and> m \<le> now) \<and>
     (\<forall>t i. now \<le> t \<longrightarrow> answers cfg a t i =
        (case held view c i of None \<Rightarrow> None | Some s \<Rightarrow> if live cfg t s \<and> \<not> cut_off a s then Some (bare s) else None))"

lemma simulatesD:
  assumes "simulates view cfg now c a"
  shows "zero_time < now" "view c recordKeyPrefix = None" "record_entry_ok cfg i (view c (recordKeyPrefix @ i))"
    "view c (revokedKeyPrefix @ subject) = map_option (\<lambda>m. (Marker m, m + maxAbsoluteTTL cfg)) (cut a subject)"
    "cut a subject = Some m \<Longrightarrow> zero_time < m \<and> m \<le> now"
    "now \<le> t \<Longrightarrow> answers cfg a t i =
        (case held view c i of None \<Rightarrow> None | Some s \<Rightarrow> if live cfg t s \<and> \<not> cut_off a s then Some (bare s) else None)"
  using assms unfolding simulates_def by blast+

lemma held_Some:
  assumes "simulates view cfg now c a" "held view c i = Some s"
  shows "i \<noteq> []" "view c (recordKeyPrefix @ i) = Some (Record (Some s), min (ExpiresAt s) (idleDeadline cfg s))"
    "record_ok cfg s" "Snapshot s \<noteq> None" "ID s = i"
  using simulatesD(2) [OF assms(1)] simulatesD(3) [OF assms(1), of i] assms(2)
  by (auto simp: held_def record_entry_ok_def split: option.splits prod.splits stored.splits)

lemma held_None:
  assumes "simulates view cfg now c a" "held view c i = None"
  shows "view c (recordKeyPrefix @ i) = None"
  using simulatesD(3) [OF assms(1), of i] assms(2)
  by (auto simp: held_def record_entry_ok_def split: option.splits prod.splits stored.splits)

lemma simulates_later: "simulates view cfg now c a \<Longrightarrow> now \<le> now' \<Longrightarrow> simulates view cfg now' c a"
  unfolding simulates_def by fastforce


lemma cut_off_signed_in [simp]: "cut_off (a\<lparr>signed_in := m\<rparr>) s = cut_off a s"
  by (simp add: cut_off_def)

text \<open>The record of one id is replaced, on both sides, by a session the ids agree on.\<close>

lemma simulates_put:
  assumes sim: "simulates view cfg now c a" and "i \<noteq> []"
    and v: "view c' = (view c)(recordKeyPrefix @ i \<mapsto> (Record (Some s), min (ExpiresAt s) (idleDeadline cfg s)))"
    and s: "record_ok cfg s" "Snapshot s \<noteq> None" "ID s = i"
  shows "simulates view cfg now c' (a\<lparr>signed_in := (signed_in a)(i \<mapsto> bare s)\<rparr>)"
proof -
  have other: "answers cfg (a\<lparr>signed_in := (signed_in a)(i \<mapsto> bare s)\<rparr>) t j =
      (if j = i then if live cfg t s \<and> \<not> cut_off a s then Some (bare s) else None else answers cfg a t j)" for t j
    by (simp add: answers_def cong: option.case_cong)
  have h: "held view c' j = (if j = i then Some s else held view c j)" for j
    by (simp add: held_def v)
  show ?thesis
    unfolding simulates_def
    using simulatesD [OF sim] assms(2) s by (auto simp: v h other record_entry_ok_def cong: option.case_cong)
qed

text \<open>The record of one id goes, and so does what it answers.\<close>

lemma simulates_drop:
  assumes sim: "simulates view cfg now c a" and v: "view c' = (view c)(recordKeyPrefix @ i := None)"
    and a: "cut a' = cut a" "\<And>t j. now \<le> t \<Longrightarrow> answers cfg a' t j = (if j = i then None else answers cfg a t j)"
  shows "simulates view cfg now c' a'"
proof -
  have h: "held view c' j = (if j = i then None else held view c j)" for j
    by (simp add: held_def v)
  have co: "cut_off a' s' = cut_off a s'" for s' by (simp add: cut_off_def a(1))
  show ?thesis
    unfolding simulates_def
    using simulatesD [OF sim] by (auto simp: v h co a record_entry_ok_def cong: option.case_cong)
qed

text \<open>A deadline as the cache keeps it: \<open>remaining\<close> from the instant the session was last used.\<close>

lemma remaining_deadline:
  assumes "LastSeenAt s = now" "IdleTTL cfg \<le> maxDuration" "0 < IdleTTL cfg" "now < ExpiresAt s"
  shows "0 < remaining cfg s now" "now + remaining cfg s now = min (ExpiresAt s) (idleDeadline cfg s)"
  using assms by (auto simp: remaining_def idleDeadline_def time_sub_def minDuration_def maxDuration_def min_def max_def)

context reliable_cache
begin

lemma codec_session:
  obtains s' where "codec (Record (Some s)) = Record (Some s')" "bare s' = bare s" "record_ok cfg s' = record_ok cfg s"
    "Snapshot s' = None \<longleftrightarrow> Snapshot s = None" "ExpiresAt s' = ExpiresAt s" "idleDeadline cfg s' = idleDeadline cfg s" "ID s' = ID s"
proof -
  from codec obtain f where f: "codec (Record (Some s)) =
      Record (Some (s\<lparr>Snapshot := map_option (\<lambda>p. p\<lparr>Claims_of := f\<rparr>) (Snapshot s)\<rparr>))"
    unfolding codec_ok_def by blast
  show ?thesis
    by (rule that [OF f]) (auto simp: bare_def record_ok_def idleDeadline_def option.map_comp comp_def)
qed

text \<open>Writing a session that was just used.\<close>

lemma write_simulates:
  assumes sim: "simulates view cfg now c a" and cfg: "IdleTTL cfg \<le> maxDuration" "0 < IdleTTL cfg"
    and s: "LastSeenAt s = now" "now < ExpiresAt s" "record_ok cfg s" "Snapshot s \<noteq> None" "ID s \<noteq> []"
  shows "\<exists>c'. write_session ops cfg s now c = (None, c') \<and>
    simulates view cfg now c' (a\<lparr>signed_in := (signed_in a)(ID s \<mapsto> bare s)\<rparr>)"
proof -
  note r = remaining_deadline [OF s(1) cfg s(2)]
  obtain c' where c': "cset ops now c (recordKeyPrefix @ ID s) (Record (Some s)) (remaining cfg s now) = (None, c')"
    "view c' = (view c)(recordKeyPrefix @ ID s \<mapsto> (codec (Record (Some s)), now + remaining cfg s now))"
    using set_ok [OF r(1)] by blast
  obtain s' where s': "codec (Record (Some s)) = Record (Some s')" "bare s' = bare s" "record_ok cfg s' = record_ok cfg s"
    "Snapshot s' = None \<longleftrightarrow> Snapshot s = None" "ExpiresAt s' = ExpiresAt s" "idleDeadline cfg s' = idleDeadline cfg s" "ID s' = ID s"
    by (rule codec_session)
  from simulates_put [OF sim s(5), of c' s'] c'(2) s' s(3,4) r(2)
  have "simulates view cfg now c' (a\<lparr>signed_in := (signed_in a)(ID s \<mapsto> bare s)\<rparr>)" by simp
  with c'(1) r(1) show ?thesis by (simp add: write_session_def)
qed

text \<open>Whether a marker is still there when it matters.\<close>

lemma revokedAt_cut:
  assumes sim: "simulates view cfg now c a" and "record_ok cfg s" "now < ExpiresAt s"
  shows "\<exists>r. revokedAt ops now (subject_of s) c = Inr r \<and> (r \<noteq> zero_time \<and> \<not> r < CreatedAt s \<longleftrightarrow> cut_off a s)"
proof (cases "cut a (subject_of s)")
  case None
  with simulatesD(4) [OF sim, of "subject_of s"] get_miss [of c "revokedKeyPrefix @ subject_of s" now]
  show ?thesis by (auto simp: revokedAt_def cut_off_def)
next
  case (Some m)
  with simulatesD(4) [OF sim, of "subject_of s"]
  have v: "view c (revokedKeyPrefix @ subject_of s) = Some (Marker m, m + maxAbsoluteTTL cfg)" by simp
  note m = simulatesD(5) [OF sim Some]
  show ?thesis
  proof (cases "now < m + maxAbsoluteTTL cfg")
    case True
    from get_hit [OF v True] m Some show ?thesis by (auto simp: revokedAt_def cut_off_def)
  next
    case False
    obtain e where "cget ops now c (revokedKeyPrefix @ subject_of s) = Inl e" "errors_is e ErrCacheMiss"
      using get_miss [of c "revokedKeyPrefix @ subject_of s" now] v False by auto
    with Some False assms(2,3) show ?thesis by (auto simp: revokedAt_def cut_off_def record_ok_def)
  qed
qed

lemma lookup_live_table:
  assumes sim: "simulates view cfg now c a"
  shows "(\<exists>s. held view c i = Some s \<and> answers cfg a now i = Some (bare s) \<and> now < ExpiresAt s \<and> lookup_live ops cfg now i c = (Inr s, c)) \<or>
    (answers cfg a now i = None \<and> (\<exists>c'. lookup_live ops cfg now i c = (Inl (Sentinel ErrSessionNotFound), c') \<and> (c' = c \<or> view c' = (view c)(recordKeyPrefix @ i := None))))"
proof (cases "held view c i")
  case None
  from simulatesD(6) [OF sim order_refl, of i] None have "answers cfg a now i = None" by simp
  moreover have "lookup_live ops cfg now i c = (Inl (Sentinel ErrSessionNotFound), c)"
    using held_None [OF sim None] get_miss [of c "recordKeyPrefix @ i" now] by (auto simp: lookup_live_def)
  ultimately show ?thesis by blast
next
  case (Some s)
  note h = held_Some [OF sim Some]
  have ans: "answers cfg a now i = (if live cfg now s \<and> \<not> cut_off a s then Some (bare s) else None)"
    using simulatesD(6) [OF sim order_refl, of i] Some by simp
  show ?thesis
  proof (cases "live cfg now s")
    case False
    then have "min (ExpiresAt s) (idleDeadline cfg s) \<le> now" by (auto simp: live_def)
    then obtain e where "cget ops now c (recordKeyPrefix @ i) = Inl e" "errors_is e ErrCacheMiss"
      using get_miss [of c "recordKeyPrefix @ i" now] h(2) by auto
    with ans False show ?thesis by (auto simp: lookup_live_def)
  next
    case True
    then have l: "now < ExpiresAt s" "now < idleDeadline cfg s" by (simp_all add: live_def)
    then have g: "cget ops now c (recordKeyPrefix @ i) = Inr (Record (Some s))" by (intro get_hit [OF h(2)]) simp
    obtain p where p: "Snapshot s = Some p" "subject_of s = Subject p" using h(4) by (auto simp: subject_of_def)
    obtain r where r: "revokedAt ops now (Subject p) c = Inr r" "r \<noteq> zero_time \<and> \<not> r < CreatedAt s \<longleftrightarrow> cut_off a s"
      using revokedAt_cut [OF sim h(3) l(1)] p(2) by auto
    obtain c' where d: "cdelete ops now c (recordKeyPrefix @ i) = (None, c')" "view c' = (view c)(recordKeyPrefix @ i := None)"
      using delete_ok by blast
    have "lookup_live ops cfg now i c = (if cut_off a s then (Inl (Sentinel ErrSessionNotFound), c') else (Inr s, c))"
      using h(1) g p(1) l r d(1) by (auto simp: lookup_live_def forget_def)
    with ans True Some l d(2) show ?thesis by (cases "cut_off a s") auto
  qed
qed


lemma Lookup_simulates:
  assumes sim: "simulates view cfg now c a" and cfg: "config_ok cfg" "IdleTTL cfg \<le> maxDuration"
  shows "case answers cfg a now i of
      None \<Rightarrow> \<exists>c'. Lookup ops cfg now i c = (Inl (Sentinel ErrSessionNotFound), c') \<and> simulates view cfg now c' a
    | Some s \<Rightarrow> \<exists>s' c'. Lookup ops cfg now i c = (Inr s', c') \<and> bare s' = seen cfg now s \<and>
        simulates view cfg now c' (a\<lparr>signed_in := (signed_in a)(i \<mapsto> seen cfg now s)\<rparr>)"
  using lookup_live_table [OF sim, of i]
proof (elim disjE exE conjE)
  fix s assume s: "held view c i = Some s" "answers cfg a now i = Some (bare s)" "now < ExpiresAt s" "lookup_live ops cfg now i c = (Inr s, c)"
  note h = held_Some [OF sim s(1)]
  show ?thesis
  proof (cases "time_sub now (LastSeenAt s) < idleRefreshInterval cfg")
    case True
    have "signed_in a i = Some (bare s)" using s(2) by (auto simp: answers_def split: option.splits if_splits)
    then have "a\<lparr>signed_in := (signed_in a)(i \<mapsto> bare s)\<rparr> = a" by (simp add: fun_upd_idem)
    with True s sim show ?thesis by (simp add: Lookup_def touch_def seen_def)
  next
    case False
    have "record_ok cfg (s\<lparr>LastSeenAt := now\<rparr>)" using h(3) by (simp add: record_ok_def)
    with write_simulates [OF sim cfg(2), of "s\<lparr>LastSeenAt := now\<rparr>"] cfg(1) s(3) h obtain c' where
      "write_session ops cfg (s\<lparr>LastSeenAt := now\<rparr>) now c = (None, c')"
      "simulates view cfg now c' (a\<lparr>signed_in := (signed_in a)(i \<mapsto> bare (s\<lparr>LastSeenAt := now\<rparr>))\<rparr>)"
      by (auto simp: config_ok_def)
    with False s show ?thesis by (simp add: Lookup_def touch_def seen_def Let_def)
  qed
next
  fix c' assume n: "answers cfg a now i = None" "lookup_live ops cfg now i c = (Inl (Sentinel ErrSessionNotFound), c')" "c' = c"
  with sim show ?thesis by (simp add: Lookup_def)
next
  fix c' assume n: "answers cfg a now i = None" "lookup_live ops cfg now i c = (Inl (Sentinel ErrSessionNotFound), c')" "view c' = (view c)(recordKeyPrefix @ i := None)"
  from simulates_drop [OF sim n(3) refl] answers_antitone [OF n(1)] have "simulates view cfg now c' a" by simp
  with n(1,2) show ?thesis by (simp add: Lookup_def)
qed

lemma Create_simulates:
  assumes sim: "simulates view cfg now c a" and cfg: "config_ok cfg" "IdleTTL cfg \<le> maxDuration" and "bytes \<noteq> []" "Subject p \<noteq> []"
  shows "\<exists>s c'. Create ops cfg now (Inr bytes) (Some p) persistent c = (Inr s, c') \<and>
    bare s = bare \<lparr>ID = RawURLEncode bytes, Snapshot = Some p, Persistent = persistent, CreatedAt = now,
      ExpiresAt = now + AbsoluteTTLFor cfg persistent, LastSeenAt = now\<rparr> \<and>
    simulates view cfg now c' (a\<lparr>signed_in := (signed_in a)(RawURLEncode bytes \<mapsto> bare s)\<rparr>)"
proof -
  let ?s = "\<lparr>ID = RawURLEncode bytes, Snapshot = Some p, Persistent = persistent, CreatedAt = now,
      ExpiresAt = now + AbsoluteTTLFor cfg persistent, LastSeenAt = now\<rparr> :: session"
  have "RawURLEncode bytes \<noteq> []"
  proof
    assume "RawURLEncode bytes = []"
    with RawURLEncode_length [of bytes] assms(4) show False by (cases bytes) simp_all
  qed
  moreover have "record_ok cfg ?s" using AbsoluteTTLFor_le [of cfg persistent] by (simp add: record_ok_def)
  moreover have "0 < IdleTTL cfg" using cfg(1) by (simp add: config_ok_def)
  ultimately obtain c' where "write_session ops cfg ?s now c = (None, c')"
    "simulates view cfg now c' (a\<lparr>signed_in := (signed_in a)(RawURLEncode bytes \<mapsto> bare ?s)\<rparr>)"
    using write_simulates [OF sim cfg(2), of ?s] AbsoluteTTLFor_pos [OF cfg(1), of persistent] by auto
  with assms(5) show ?thesis by (auto simp: Create_def newID_def Clone_id Let_def)
qed

lemma Revoke_simulates:
  assumes sim: "simulates view cfg now c a"
  shows "\<exists>c'. Revoke ops now i c = (None, c') \<and> simulates view cfg now c' (a\<lparr>signed_in := (signed_in a)(i := None)\<rparr>)"
proof -
  have gone: "answers cfg (a\<lparr>signed_in := (signed_in a)(i := None)\<rparr>) t j = (if j = i then None else answers cfg a t j)" for t j
    by (simp add: answers_def cong: option.case_cong)
  show ?thesis
  proof (cases "i = []")
    case True
    have none: "held view c [] = None" using simulatesD(2) [OF sim] by (simp add: held_def)
    have "view c = (view c)(recordKeyPrefix @ [] := None)" using simulatesD(2) [OF sim] by auto
    from simulates_drop [OF sim this, where a' = "a\<lparr>signed_in := (signed_in a)([] := None)\<rparr>"] gone [unfolded True] True
    show ?thesis by (simp add: Revoke_def)
  next
    case False
    obtain c' where d: "cdelete ops now c (recordKeyPrefix @ i) = (None, c')" "view c' = (view c)(recordKeyPrefix @ i := None)"
      using delete_ok by blast
    from simulates_drop [OF sim d(2), where a' = "a\<lparr>signed_in := (signed_in a)(i := None)\<rparr>"] gone d(1) False
    show ?thesis by (simp add: Revoke_def)
  qed
qed

lemma RevokeSubject_simulates:
  assumes sim: "simulates view cfg now c a" and cfg: "config_ok cfg" and "subject \<noteq> []"
  shows "\<exists>c'. RevokeSubject ops cfg now subject c = (None, c') \<and> simulates view cfg now c' (a\<lparr>cut := (cut a)(subject \<mapsto> now)\<rparr>)"
proof -
  have "0 < maxAbsoluteTTL cfg" using cfg by (auto simp: config_ok_def maxAbsoluteTTL_def)
  from set_ok [OF this, of now c "revokedKeyPrefix @ subject" "Marker now"] codec obtain c' where
    c': "cset ops now c (revokedKeyPrefix @ subject) (Marker now) (maxAbsoluteTTL cfg) = (None, c')"
      "view c' = (view c)(revokedKeyPrefix @ subject \<mapsto> (Marker now, now + maxAbsoluteTTL cfg))"
    by (auto simp: codec_ok_def)
  have apart: "recordKeyPrefix \<noteq> revokedKeyPrefix @ subject" using keys_apart(1) [of "[]" subject] by simp
  have h: "held view c' j = held view c j" for j by (simp add: held_def c'(2))
  let ?a = "a\<lparr>cut := (cut a)(subject \<mapsto> now)\<rparr>"
  have mono: "cut_off ?a s" if "cut_off a s" for s
    using that simulatesD(5) [OF sim, of subject] by (auto simp: cut_off_def split: option.splits if_splits)
  have less: "answers cfg ?a t i = (case answers cfg a t i of None \<Rightarrow> None | Some s \<Rightarrow> if cut_off ?a s then None else Some s)" for t i
    using mono by (auto simp: answers_def split: option.split)
  have "answers cfg (a\<lparr>cut := (cut a)(subject \<mapsto> now)\<rparr>) t i =
      (case held view c i of None \<Rightarrow> None
       | Some s \<Rightarrow> if live cfg t s \<and> \<not> cut_off (a\<lparr>cut := (cut a)(subject \<mapsto> now)\<rparr>) s then Some (bare s) else None)"
    if "now \<le> t" for t i
    using simulatesD(6) [OF sim that, of i] mono by (auto simp: less split: option.split)
  then have "simulates view cfg now c' (a\<lparr>cut := (cut a)(subject \<mapsto> now)\<rparr>)"
    unfolding simulates_def
    using simulatesD(1-5) [OF sim] by (auto simp: apart h c'(2) cong: option.case_cong)
  with c'(1) assms(3) show ?thesis by (simp add: RevokeSubject_def)
qed


lemma call_simulates:
  assumes sim: "simulates view cfg now c a" and cfg: "config_ok cfg" "IdleTTL cfg \<le> maxDuration" and "drawn k"
  shows "\<exists>r now' c' a'. store_call ops cfg k (now, c) = (r, now', c') \<and> spec_call cfg k (now, a) = (r, now', a') \<and>
    simulates view cfg now' c' a'"
proof (cases k)
  case (SignIn bytes p persistent)
  show ?thesis
  proof (cases "Subject p = []")
    case True
    with SignIn sim show ?thesis by (simp add: Create_def)
  next
    case False
    from SignIn assms(4) have "bytes \<noteq> []" by simp
    from Create_simulates [OF sim cfg this False, of persistent] obtain s c' where
      "Create ops cfg now (Inr bytes) (Some p) persistent c = (Inr s, c')"
      "bare s = bare \<lparr>ID = RawURLEncode bytes, Snapshot = Some p, Persistent = persistent, CreatedAt = now,
        ExpiresAt = now + AbsoluteTTLFor cfg persistent, LastSeenAt = now\<rparr>"
      "simulates view cfg now c' (a\<lparr>signed_in := (signed_in a)(RawURLEncode bytes \<mapsto> bare s)\<rparr>)" by blast
    with SignIn False show ?thesis by (simp add: Let_def)
  qed
next
  case (Resolve i)
  with Lookup_simulates [OF sim cfg, of i] show ?thesis by (auto split: option.splits)
next
  case (SignOut i)
  with Revoke_simulates [OF sim, of i] show ?thesis by auto
next
  case (SignOutEverywhere subject)
  show ?thesis
  proof (cases "subject = []")
    case True
    with SignOutEverywhere sim show ?thesis by (simp add: RevokeSubject_def)
  next
    case False
    with SignOutEverywhere RevokeSubject_simulates [OF sim cfg(1) False] show ?thesis by auto
  qed
next
  case (Wait n)
  with simulates_later [OF sim, of "now + int n"] show ?thesis by simp
qed

lemma calls_simulate:
  assumes "simulates view cfg now c a" "config_ok cfg" "IdleTTL cfg \<le> maxDuration" "\<forall>k \<in> set ks. drawn k"
  shows "fst (calls (store_call ops cfg) ks (now, c)) = fst (calls (spec_call cfg) ks (now, a))"
  using assms
proof (induction ks arbitrary: now c a)
  case (Cons k ks)
  obtain r now' c' a' where k: "store_call ops cfg k (now, c) = (r, now', c')" "spec_call cfg k (now, a) = (r, now', a')"
    "simulates view cfg now' c' a'"
    using call_simulates [OF Cons.prems(1-3), of k] Cons.prems(4) by auto
  from Cons.IH [OF k(3) Cons.prems(2,3)] Cons.prems(4) k(1,2) show ?case by (simp add: split_beta)
qed simp

end

text \<open>
  C14. The store is a table of sign-ins. Over a cache that is up and starts empty, any sequence of
  sign-ins, lookups, sign-outs and sign-outs everywhere, with any time between them, answers exactly
  what the table answers, in which nothing expires or is cleaned up: no record or marker ever leaves
  the cache while it could still matter.
\<close>

theorem store_refines_table:
  assumes "reliable_cache ops view codec" "view c = (\<lambda>_. None)"
    and "config_ok cfg" "IdleTTL cfg \<le> maxDuration" "zero_time < now" "\<forall>k \<in> set ks. drawn k"
  shows "fst (calls (store_call ops cfg) ks (now, c)) = fst (calls (spec_call cfg) ks (now, nobody))"
proof -
  have "simulates view cfg now c nobody"
    using assms(2,5) by (simp add: simulates_def nobody_def record_entry_ok_def answers_def held_def)
  from reliable_cache.calls_simulate [OF assms(1) this assms(3,4,6)] show ?thesis .
qed

lemma store_refines_table_witness:
  "fst (calls (store_call mem_ops demo_config) [SignIn [0] \<lparr>Subject = ''u'', Scopes = [], Claims_of = []\<rparr> False, Resolve ''AA'',
     Wait 200, SignOutEverywhere ''u'', Resolve ''AA''] (100, [])) =
   [Session (Some (demo_session 100)), Session (Some (demo_session 100)), Waited, Ended True, Session None]"
proof -
  let ?ks = "[SignIn [0] \<lparr>Subject = ''u'', Scopes = [], Claims_of = []\<rparr> False, Resolve ''AA'', Wait 200, SignOutEverywhere ''u'', Resolve ''AA'']"
  have ok: "IdleTTL demo_config \<le> maxDuration" "zero_time < (100 :: time)" "\<forall>k \<in> set ?ks. drawn k"
    by (simp_all add: demo_config_def maxDuration_def zero_time_def)
  have "map_of [] = (\<lambda>_. None)" by simp
  from store_refines_table [OF mem_cache.reliable_cache_axioms this demo_config_ok ok]
  have "fst (calls (store_call mem_ops demo_config) ?ks (100, [])) = fst (calls (spec_call demo_config) ?ks (100, nobody))" .
  also have "\<dots> = [Session (Some (demo_session 100)), Session (Some (demo_session 100)), Waited, Ended True, Session None]"
    by code_simp
  finally show ?thesis .
qed

end
