(* ===== verification/Scopes.thy ===== *)
theory Scopes
  imports Prelude "HOL-Library.List_Lexorder" "HOL-Library.Char_ord"
begin

text \<open>
  The scope policy (\<open>internal/plamo/authkit/scope.go\<close>): a table of implications is
  normalised, then resolved once into its transitive closure by a depth-first walk that
  memoises and refuses a cycle, and \<open>Expand\<close> adds to what a caller holds.

  A Go map ranged over has no order of its own, so a table is the list of its entries in the
  order one run visits them; every theorem holds for each such list.
\<close>

type_synonym table = "(string \<times> string list) list"

section \<open>normalize\<close>

text \<open>
  The inner loop keeps each implied name once and drops the scope itself: the \<open>seen\<close> map,
  seeded with the scope, holds the scope and what was kept.
\<close>

fun keep_names :: "string \<Rightarrow> string list \<Rightarrow> string list \<Rightarrow> string list result" where
  "keep_names scope kept [] = Inr kept"
| "keep_names scope kept (name # names) =
     (if name = [] then Inl (Errorf ''authkit: scope %q implies an empty scope name'' [scope] [])
      else if name = scope \<or> name \<in> set kept then keep_names scope kept names
      else keep_names scope (kept @ [name]) names)"

fun normalize :: "table \<Rightarrow> table result" where
  "normalize [] = Inr []"
| "normalize ((scope, implied) # rest) =
     (if scope = [] then
        Inl (Errorf ''authkit: a scope implication has no scope on its left-hand side'' [] [])
      else case keep_names scope [] implied of
        Inl e \<Rightarrow> Inl e
      | Inr kept \<Rightarrow>
          (case normalize rest of Inl e \<Rightarrow> Inl e | Inr direct \<Rightarrow> Inr ((scope, kept) # direct)))"

section \<open>resolve\<close>

datatype mark = Unvisited | Visiting | Resolved

text \<open>What the walk threads through: the memo (\<open>closure\<close>) and the marks (\<open>state\<close>).\<close>

record walk =
  closure :: "(string \<times> string list) list"
  state :: "(string \<times> mark) list"

definition mark_of :: "walk \<Rightarrow> string \<Rightarrow> mark" where
  "mark_of w x = lookup_or Unvisited (state w) x"

definition implied_by :: "walk \<Rightarrow> string \<Rightarrow> string list" where
  "implied_by w x = lookup_or [] (closure w) x"

text \<open>
  The walk and its loop over the directly implied names. The fuel bounds the depth of the
  recursion; \<open>None\<close> is running out of it, which \<open>NewScopeImplications\<close> never does
  (\<open>resolve_enough\<close> below). The error of a cycle carries the route that closes it.
\<close>

definition cycle_error :: "string list \<Rightarrow> goerr" where
  "cycle_error route = Errorf ''authkit: the scope implications contain a cycle'' route []"

fun resolve :: "nat \<Rightarrow> table \<Rightarrow> string \<Rightarrow> string list \<Rightarrow> walk \<Rightarrow> (string list result \<times> walk) option"
  and resolve_each :: "nat \<Rightarrow> table \<Rightarrow> string list \<Rightarrow> string list \<Rightarrow> string list \<Rightarrow> walk
      \<Rightarrow> (string list result \<times> walk) option" where
  "resolve 0 direct scope path w = None"
| "resolve (Suc n) direct scope path w =
     (case mark_of w scope of
        Resolved \<Rightarrow> Some (Inr (implied_by w scope), w)
      | Visiting \<Rightarrow> Some (Inl (cycle_error (path @ [scope])), w)
      | Unvisited \<Rightarrow>
          (case resolve_each n direct (lookup_or [] direct scope) (path @ [scope]) []
                  (w\<lparr>state := put scope Visiting (state w)\<rparr>) of
             None \<Rightarrow> None
           | Some (Inl e, w') \<Rightarrow> Some (Inl e, w')
           | Some (Inr out, w') \<Rightarrow>
               Some (Inr (sort out),
                 w'\<lparr>closure := put scope (sort out) (closure w'),
                    state := put scope Resolved (state w')\<rparr>)))"
| "resolve_each n direct [] path out w = Some (Inr out, w)"
| "resolve_each n direct (name # names) path out w =
     (case resolve n direct name path w of
        None \<Rightarrow> None
      | Some (Inl e, w') \<Rightarrow> Some (Inl e, w')
      | Some (Inr implied, w') \<Rightarrow>
          resolve_each n direct names path (foldl add_new (add_new out name) implied) w')"

section \<open>NewScopeImplications\<close>

record scope_implications =
  closure_of :: "(string \<times> string list) list"

definition empty_walk :: walk where
  "empty_walk = \<lparr>closure = [], state = []\<rparr>"

fun resolve_keys :: "nat \<Rightarrow> table \<Rightarrow> string list \<Rightarrow> walk \<Rightarrow> walk result option" where
  "resolve_keys n direct [] w = Some (Inr w)"
| "resolve_keys n direct (scope # scopes) w =
     (case resolve n direct scope [] w of
        None \<Rightarrow> None
      | Some (Inl e, w') \<Rightarrow> Some (Inl e)
      | Some (Inr _, w') \<Rightarrow> resolve_keys n direct scopes w')"

text \<open>Every scope the table names, and fuel for a walk along distinct ones.\<close>

definition nodes :: "table \<Rightarrow> string list" where
  "nodes direct = remdups (concat (map (\<lambda>(x, ys). x # ys) direct))"

definition walk_fuel :: "table \<Rightarrow> nat" where
  "walk_fuel direct = Suc (length (nodes direct))"

definition NewScopeImplications :: "table \<Rightarrow> scope_implications result option" where
  "NewScopeImplications table =
     (case normalize table of
        Inl e \<Rightarrow> Some (Inl e)
      | Inr direct \<Rightarrow>
          (case resolve_keys (walk_fuel direct) direct (sort (map fst direct)) empty_walk of
             None \<Rightarrow> None
           | Some (Inl e) \<Rightarrow> Some (Inl e)
           | Some (Inr w) \<Rightarrow> Some (Inr \<lparr>closure_of = closure w\<rparr>)))"

section \<open>Expand and Closure\<close>

text \<open>\<open>None\<close> is the nil receiver. What is appended was not held and is appended once.\<close>

definition Expand :: "scope_implications option \<Rightarrow> string list \<Rightarrow> string list" where
  "Expand s held =
     (case s of
        None \<Rightarrow> held
      | Some t \<Rightarrow>
          if held = [] then held
          else foldl (\<lambda>out scope. foldl add_new out (lookup_or [] (closure_of t) scope)) held held)"

definition Closure :: "scope_implications option \<Rightarrow> (string \<times> string list) list" where
  "Closure s = (case s of None \<Rightarrow> [] | Some t \<Rightarrow> filter (\<lambda>(scope, implied). implied \<noteq> []) (closure_of t))"

section \<open>The relation a table states\<close>

definition edges :: "table \<Rightarrow> (string \<times> string) set" where
  "edges direct = {(x, y). y \<in> set (lookup_or [] direct x)}"

definition states :: "table \<Rightarrow> (string \<times> string) set" where
  "states table = {(x, y). \<exists>ys. (x, ys) \<in> set table \<and> y \<in> set ys \<and> x \<noteq> y}"

definition has_empty_name :: "table \<Rightarrow> bool" where
  "has_empty_name table = (\<exists>(x, ys) \<in> set table. x = [] \<or> [] \<in> set ys)"

text \<open>A route that closes a cycle: a walk along the relation that ends where it has been.\<close>

definition is_cycle :: "(string \<times> string) set \<Rightarrow> string list \<Rightarrow> bool" where
  "is_cycle r route =
     (\<exists>path x. route = path @ [x] \<and> x \<in> set path \<and> successively (\<lambda>a b. (a, b) \<in> r) route)"

lemma edges_nodes:
  assumes "(x, y) \<in> edges direct"
  shows "x \<in> set (nodes direct)" "y \<in> set (nodes direct)"
proof -
  obtain ys where "map_of direct x = Some ys" "y \<in> set ys"
    using assms by (cases "map_of direct x") (auto simp: edges_def lookup_or_def)
  then show "x \<in> set (nodes direct)" "y \<in> set (nodes direct)"
    by (force dest: map_of_SomeD simp: nodes_def)+
qed

lemma successively_trancl:
  "successively (\<lambda>a b. (a, b) \<in> r) (x # xs) \<Longrightarrow> y \<in> set xs \<Longrightarrow> (x, y) \<in> r\<^sup>+"
proof (induction xs arbitrary: x)
  case (Cons z zs)
  then have "(x, z) \<in> r" "y = z \<or> (z, y) \<in> r\<^sup>+" by auto
  then show ?case by (auto intro: trancl_into_trancl2)
qed simp

lemma is_cycle_not_acyclic: "is_cycle r route \<Longrightarrow> \<not> acyclic r"
proof -
  assume "is_cycle r route"
  then obtain path x where r: "route = path @ [x]" "x \<in> set path"
    "successively (\<lambda>a b. (a, b) \<in> r) route"
    by (auto simp: is_cycle_def)
  from r(2) obtain as bs where "path = as @ x # bs" by (meson split_list)
  with r have "successively (\<lambda>a b. (a, b) \<in> r) (x # (bs @ [x]))"
    by (simp add: successively_append_iff)
  then have "(x, x) \<in> r\<^sup>+" by (rule successively_trancl) simp
  then show ?thesis by (auto simp: acyclic_def)
qed

lemma trancl_closed_set: "(x, y) \<in> r\<^sup>+ \<Longrightarrow> r `` R \<subseteq> R \<Longrightarrow> x \<in> R \<Longrightarrow> y \<in> R"
  by (induction rule: trancl_induct) auto

lemma trancl_Image_unfold: "r\<^sup>+ `` {x} = r `` {x} \<union> r\<^sup>+ `` (r `` {x})"
  by (auto intro: trancl_into_trancl2) (metis Image_singleton_iff ImageI tranclD rtranclD)

section \<open>What the walk keeps true\<close>

definition resolved_ok :: "table \<Rightarrow> walk \<Rightarrow> string \<Rightarrow> bool" where
  "resolved_ok direct w x =
     (set (implied_by w x) = (edges direct)\<^sup>+ `` {x} \<and> sorted (implied_by w x) \<and>
      distinct (implied_by w x) \<and> (\<forall>y. (x, y) \<in> edges direct \<longrightarrow> mark_of w y = Resolved) \<and>
      (x, x) \<notin> (edges direct)\<^sup>+)"

definition walk_ok :: "table \<Rightarrow> string list \<Rightarrow> walk \<Rightarrow> bool" where
  "walk_ok direct path w =
     ((\<forall>x. mark_of w x = Resolved \<longrightarrow> resolved_ok direct w x) \<and>
      (\<forall>x. mark_of w x = Visiting \<longleftrightarrow> x \<in> set path) \<and>
      (\<forall>x. mark_of w x = Unvisited \<longrightarrow> implied_by w x = []) \<and>
      distinct path \<and> set path \<subseteq> set (nodes direct) \<and>
      successively (\<lambda>a b. (a, b) \<in> edges direct) path)"

definition keeps_resolved :: "walk \<Rightarrow> walk \<Rightarrow> bool" where
  "keeps_resolved w w' = (\<forall>x. mark_of w x = Resolved \<longrightarrow> mark_of w' x = Resolved)"

definition resolve_post :: "table \<Rightarrow> string \<Rightarrow> string list \<Rightarrow> walk \<Rightarrow> string list result \<Rightarrow> walk \<Rightarrow> bool" where
  "resolve_post direct scope path w r w' =
     (case r of
        Inl e \<Rightarrow> \<exists>route. e = cycle_error route \<and> is_cycle (edges direct) route
      | Inr out \<Rightarrow> walk_ok direct path w' \<and> keeps_resolved w w' \<and>
          mark_of w' scope = Resolved \<and> out = implied_by w' scope)"

definition each_post :: "table \<Rightarrow> string list \<Rightarrow> string list \<Rightarrow> string list \<Rightarrow> walk \<Rightarrow> string list result \<Rightarrow> walk \<Rightarrow> bool" where
  "each_post direct names path out w r w' =
     (case r of
        Inl e \<Rightarrow> \<exists>route. e = cycle_error route \<and> is_cycle (edges direct) route
      | Inr out' \<Rightarrow> walk_ok direct path w' \<and> keeps_resolved w w' \<and>
          (\<forall>y \<in> set names. mark_of w' y = Resolved) \<and> (distinct out \<longrightarrow> distinct out') \<and>
          set out' = set out \<union> set names \<union> (edges direct)\<^sup>+ `` set names)"

text \<open>Entering a scope and leaving it again.\<close>

lemma walk_ok_enter:
  assumes ok: "walk_ok direct path w" and un: "mark_of w x = Unvisited"
    and node: "x \<in> set (nodes direct)"
    and chain: "successively (\<lambda>a b. (a, b) \<in> edges direct) (path @ [x])"
  shows "walk_ok direct (path @ [x]) (w\<lparr>state := put x Visiting (state w)\<rparr>)"
proof -
  let ?w = "w\<lparr>state := put x Visiting (state w)\<rparr>"
  have m: "mark_of ?w y = (if y = x then Visiting else mark_of w y)" for y
    by (simp add: mark_of_def)
  have i: "implied_by ?w y = implied_by w y" for y by (simp add: implied_by_def)
  have "x \<notin> set path" using ok un by (metis mark.distinct(1) walk_ok_def)
  moreover have "resolved_ok direct ?w y" if "mark_of ?w y = Resolved" for y
  proof -
    from that have y: "mark_of w y = Resolved" by (auto simp: m split: if_splits)
    with ok have "resolved_ok direct w y" by (simp add: walk_ok_def)
    with un show ?thesis by (auto simp: resolved_ok_def i m)
  qed
  ultimately show ?thesis using ok node chain by (auto simp: walk_ok_def m i)
qed

lemma walk_ok_leave:
  assumes ok: "walk_ok direct (path @ [x]) w"
    and succ: "\<forall>y. (x, y) \<in> edges direct \<longrightarrow> mark_of w y = Resolved"
    and out: "set out = (edges direct)\<^sup>+ `` {x}" "distinct out"
  defines "w' \<equiv> w\<lparr>closure := put x (sort out) (closure w), state := put x Resolved (state w)\<rparr>"
  shows "walk_ok direct path w'" "mark_of w' x = Resolved" "implied_by w' x = sort out"
    "keeps_resolved w w'"
proof -
  have m: "mark_of w' y = (if y = x then Resolved else mark_of w y)" for y
    by (simp add: mark_of_def w'_def)
  have i: "implied_by w' y = (if y = x then sort out else implied_by w y)" for y
    by (simp add: implied_by_def w'_def)
  show "mark_of w' x = Resolved" "implied_by w' x = sort out" "keeps_resolved w w'"
    by (simp_all add: m i keeps_resolved_def)
  have vis: "mark_of w x = Visiting" and np: "x \<notin> set path"
    using ok by (auto simp: walk_ok_def)
  have closed: "edges direct `` {y. mark_of w y = Resolved} \<subseteq> {y. mark_of w y = Resolved}"
    using ok by (auto simp: walk_ok_def resolved_ok_def)
  have nc: "(x, x) \<notin> (edges direct)\<^sup>+"
  proof
    assume "(x, x) \<in> (edges direct)\<^sup>+"
    then obtain y where y: "(x, y) \<in> edges direct" "y = x \<or> (y, x) \<in> (edges direct)\<^sup>+"
      by (metis tranclD rtranclD)
    with succ vis have "(y, x) \<in> (edges direct)\<^sup>+" by auto
    from trancl_closed_set [OF this closed] succ y(1) have "mark_of w x = Resolved" by simp
    with vis show False by simp
  qed
  have "resolved_ok direct w' y" if "mark_of w' y = Resolved" for y
  proof (cases "y = x")
    case True
    with succ out nc show ?thesis by (auto simp: resolved_ok_def i m)
  next
    case False
    with that ok have "resolved_ok direct w y" by (auto simp: walk_ok_def m)
    with False show ?thesis by (auto simp: resolved_ok_def i m)
  qed
  with ok np vis show "walk_ok direct path w'"
    by (auto simp: walk_ok_def m i successively_append_iff)
qed

section \<open>The walk is correct and its fuel is enough\<close>

lemma implied_resolved:
  "walk_ok direct path w \<Longrightarrow> mark_of w x = Resolved \<Longrightarrow>
     set (implied_by w x) = (edges direct)\<^sup>+ `` {x} \<and> distinct (implied_by w x)"
  by (simp add: walk_ok_def resolved_ok_def)

lemma keeps_resolved_trans:
  "keeps_resolved u v \<Longrightarrow> keeps_resolved v w \<Longrightarrow> keeps_resolved u w"
  by (simp add: keeps_resolved_def)

lemma walk_ok_length: "walk_ok direct path w \<Longrightarrow> length path \<le> length (nodes direct)"
  unfolding walk_ok_def nodes_def
  by (metis card_mono distinct_card distinct_remdups finite_set)

text \<open>One name of the loop: what its walk returned joins what the rest contributes.\<close>

lemma each_post_step:
  assumes r: "resolve_post direct name path w (Inr implied) w'"
    and e: "each_post direct names path (foldl add_new (add_new out name) implied) w' r' w''"
  shows "each_post direct (name # names) path out w r' w''"
proof (cases r')
  case (Inl e)
  with assms show ?thesis by (simp add: each_post_def)
next
  case (Inr out')
  have i: "set implied = (edges direct)\<^sup>+ `` {name}"
    using r implied_resolved by (auto simp: resolve_post_def)
  have "set out' = insert name (set out \<union> (edges direct)\<^sup>+ `` {name}) \<union> set names \<union> (edges direct)\<^sup>+ `` set names"
    using e Inr i by (auto simp: each_post_def)
  then have "set out' = set out \<union> set (name # names) \<union> (edges direct)\<^sup>+ `` set (name # names)"
    by auto
  moreover have "mark_of w'' name = Resolved" "keeps_resolved w w''"
    using r e Inr by (auto simp: resolve_post_def each_post_def keeps_resolved_def)
  ultimately show ?thesis using e Inr by (simp add: each_post_def)
qed

text \<open>Leaving a scope turns what its loop established into what its walk promises.\<close>

lemma resolve_post_leave:
  assumes e: "each_post direct (lookup_or [] direct scope) (path @ [scope]) []
      (w\<lparr>state := put scope Visiting (state w)\<rparr>) (Inr out) w'"
    and un: "mark_of w scope = Unvisited"
  shows "resolve_post direct scope path w (Inr (sort out))
    (w'\<lparr>closure := put scope (sort out) (closure w'), state := put scope Resolved (state w')\<rparr>)"
proof -
  have img: "set (lookup_or [] direct scope) = edges direct `` {scope}"
    by (auto simp: edges_def)
  have ok: "walk_ok direct (path @ [scope]) w'"
    and succ: "\<forall>y. (scope, y) \<in> edges direct \<longrightarrow> mark_of w' y = Resolved"
    and out: "set out = (edges direct)\<^sup>+ `` {scope}" "distinct out"
    using e img trancl_Image_unfold [of "edges direct" scope] by (auto simp: each_post_def)
  have "keeps_resolved w (w\<lparr>state := put scope Visiting (state w)\<rparr>)"
    using un by (simp add: keeps_resolved_def mark_of_def)
  then have "keeps_resolved w w'"
    using e keeps_resolved_trans by (auto simp: each_post_def)
  then show ?thesis
    using walk_ok_leave [OF ok succ out] keeps_resolved_trans by (auto simp: resolve_post_def)
qed

lemma resolve_total:
  "walk_ok direct path w \<Longrightarrow> scope \<in> set (nodes direct) \<Longrightarrow>
   successively (\<lambda>a b. (a, b) \<in> edges direct) (path @ [scope]) \<Longrightarrow>
   length (nodes direct) < n + length path \<Longrightarrow>
   \<exists>r w'. resolve n direct scope path w = Some (r, w') \<and> resolve_post direct scope path w r w'"
  and resolve_each_total:
  "walk_ok direct path w \<Longrightarrow> set names \<subseteq> set (nodes direct) \<Longrightarrow>
   \<forall>y \<in> set names. successively (\<lambda>a b. (a, b) \<in> edges direct) (path @ [y]) \<Longrightarrow>
   length (nodes direct) < n + length path \<Longrightarrow>
   \<exists>r w'. resolve_each n direct names path out w = Some (r, w') \<and> each_post direct names path out w r w'"
proof (induction n direct scope path w and n direct names path out w rule: resolve_resolve_each.induct)
  case (1 direct scope path w)
  then show ?case using walk_ok_length by fastforce
next
  case (2 n direct scope path w)
  show ?case
  proof (cases "mark_of w scope")
    case Resolved
    with 2 show ?thesis by (simp add: resolve_post_def keeps_resolved_def)
  next
    case Visiting
    with 2 have "is_cycle (edges direct) (path @ [scope])"
      by (auto simp: is_cycle_def walk_ok_def)
    with Visiting show ?thesis by (auto simp: resolve_post_def)
  next
    case Unvisited
    let ?w = "w\<lparr>state := put scope Visiting (state w)\<rparr>"
    have ok: "walk_ok direct (path @ [scope]) ?w"
      using walk_ok_enter 2 Unvisited by blast
    have succ: "(scope, y) \<in> edges direct" if "y \<in> set (lookup_or [] direct scope)" for y
      using that by (simp add: edges_def)
    have "\<exists>r w'. resolve_each n direct (lookup_or [] direct scope) (path @ [scope]) [] ?w = Some (r, w') \<and>
        each_post direct (lookup_or [] direct scope) (path @ [scope]) [] ?w r w'"
      using 2 Unvisited ok succ edges_nodes(2)
      by (intro "2.IH") (auto simp: successively_append_iff)
    then obtain r w' where rw: "resolve_each n direct (lookup_or [] direct scope) (path @ [scope]) [] ?w = Some (r, w')"
      and p: "each_post direct (lookup_or [] direct scope) (path @ [scope]) [] ?w r w'"
      by blast
    show ?thesis
    proof (cases r)
      case (Inl e)
      with Unvisited rw p show ?thesis by (simp add: resolve_post_def each_post_def)
    next
      case (Inr out)
      with Unvisited rw resolve_post_leave [OF p [unfolded Inr] Unvisited] show ?thesis by simp
    qed
  qed
next
  case (3 n direct path out w)
  then show ?case by (simp add: each_post_def keeps_resolved_def)
next
  case (4 n direct name names path out w)
  then obtain r w' where rw: "resolve n direct name path w = Some (r, w')"
    and p: "resolve_post direct name path w r w'" by fastforce
  show ?case
  proof (cases r)
    case (Inl e)
    with rw p show ?thesis by (simp add: resolve_post_def each_post_def)
  next
    case (Inr implied)
    with p have "walk_ok direct path w'" by (simp add: resolve_post_def)
    with 4 rw Inr obtain r' w'' where
      "resolve_each n direct names path (foldl add_new (add_new out name) implied) w' = Some (r', w'')"
      "each_post direct names path (foldl add_new (add_new out name) implied) w' r' w''"
      by fastforce
    with rw Inr p each_post_step show ?thesis by fastforce
  qed
qed

lemma resolve_keys_total:
  assumes "walk_ok direct [] w" "set scopes \<subseteq> set (nodes direct)"
  shows "\<exists>r. resolve_keys (walk_fuel direct) direct scopes w = Some r \<and>
     (case r of
        Inl e \<Rightarrow> \<exists>route. e = cycle_error route \<and> is_cycle (edges direct) route
      | Inr w' \<Rightarrow> walk_ok direct [] w' \<and> keeps_resolved w w' \<and> (\<forall>y \<in> set scopes. mark_of w' y = Resolved))"
  using assms
proof (induction scopes arbitrary: w)
  case Nil
  then show ?case by (simp add: keeps_resolved_def)
next
  case (Cons scope scopes)
  have "\<exists>r w'. resolve (walk_fuel direct) direct scope [] w = Some (r, w') \<and> resolve_post direct scope [] w r w'"
    using Cons.prems by (intro resolve_total) (auto simp: walk_fuel_def)
  then obtain r w' where rw: "resolve (walk_fuel direct) direct scope [] w = Some (r, w')"
    and p: "resolve_post direct scope [] w r w'" by blast
  show ?case
  proof (cases r)
    case (Inl e)
    with rw p show ?thesis by (simp add: resolve_post_def)
  next
    case (Inr out)
    with p have w': "walk_ok direct [] w'" "keeps_resolved w w'" "mark_of w' scope = Resolved"
      by (auto simp: resolve_post_def)
    with Cons.IH [of w'] Cons.prems rw Inr show ?thesis
      by (fastforce simp: keeps_resolved_def split: sum.splits)
  qed
qed

section \<open>What normalising leaves of a table\<close>

lemma keep_names_Inl: "(\<exists>e. keep_names scope kept names = Inl e) \<longleftrightarrow> [] \<in> set names"
  by (induction scope kept names rule: keep_names.induct) auto

lemma keep_names_Inr:
  "keep_names scope kept names = Inr kept' \<Longrightarrow>
     set kept' = set kept \<union> (set names - {scope}) \<and> (distinct kept \<longrightarrow> distinct kept')"
  by (induction scope kept names rule: keep_names.induct) (auto split: if_splits)

lemma normalize_Inl: "(\<exists>e. normalize table = Inl e) \<longleftrightarrow> has_empty_name table"
proof (induction table rule: normalize.induct)
  case 1
  show ?case by (simp add: has_empty_name_def)
next
  case (2 scope implied rest)
  show ?case
  proof (cases "scope = [] \<or> [] \<in> set implied")
    case True
    then show ?thesis
      using keep_names_Inl [of scope "[]" implied] by (auto simp: has_empty_name_def)
  next
    case False
    then obtain kept where k: "keep_names scope [] implied = Inr kept"
      using keep_names_Inl [of scope "[]" implied] by (cases "keep_names scope [] implied") auto
    with False 2 [OF _ k] show ?thesis
      by (cases "normalize rest") (auto simp: has_empty_name_def)
  qed
qed

lemma normalize_cases:
  assumes "normalize ((scope, implied) # rest) = Inr direct"
  obtains kept direct' where "keep_names scope [] implied = Inr kept"
    "normalize rest = Inr direct'" "direct = (scope, kept) # direct'"
  using assms by (auto split: if_splits sum.splits)

lemma normalize_Inr:
  "normalize table = Inr direct \<Longrightarrow> distinct (map fst table) \<Longrightarrow>
     map fst direct = map fst table \<and> edges direct = states table"
proof (induction table arbitrary: direct)
  case Nil
  then show ?case by (simp add: edges_def states_def lookup_or_def)
next
  case (Cons p rest)
  obtain scope implied where p: "p = (scope, implied)" by (cases p)
  with Cons.prems(1) obtain kept direct' where k: "keep_names scope [] implied = Inr kept"
    "normalize rest = Inr direct'" "direct = (scope, kept) # direct'"
    using normalize_cases by blast
  with Cons p have ih: "map fst direct' = map fst rest" "edges direct' = states rest" by auto
  have sk: "set kept = set implied - {scope}" using keep_names_Inr [OF k(1)] by simp
  have fresh: "scope \<notin> fst ` set rest" using Cons.prems(2) p by simp
  have "(x, y) \<in> edges direct \<longleftrightarrow> (if x = scope then y \<in> set kept else (x, y) \<in> edges direct')" for x y
    by (simp add: edges_def k(3) lookup_or_def)
  moreover have "(x, y) \<in> states (p # rest) \<longleftrightarrow>
      (if x = scope then y \<in> set implied - {scope} else (x, y) \<in> states rest)" for x y
    using fresh by (force simp: states_def p)
  ultimately have "edges direct = states (p # rest)" using ih sk by auto
  with ih k(3) p show ?case by simp
qed

section \<open>NewScopeImplications\<close>

lemma empty_walk_ok: "walk_ok direct [] empty_walk"
  by (simp add: walk_ok_def empty_walk_def mark_of_def implied_by_def lookup_or_def)

lemma edges_key: "(x, y) \<in> edges direct \<Longrightarrow> x \<in> set (map fst direct)"
  by (cases "map_of direct x") (force simp: edges_def lookup_or_def dest: map_of_SomeD)+

lemma key_nodes: "x \<in> set (map fst direct) \<Longrightarrow> x \<in> set (nodes direct)"
  by (force simp: nodes_def)

lemma walk_complete:
  assumes ok: "walk_ok direct [] w"
    and keys: "\<forall>x \<in> set (map fst direct). mark_of w x = Resolved"
  shows "acyclic (edges direct)"
    "set (implied_by w x) = (edges direct)\<^sup>+ `` {x} \<and> sorted (implied_by w x) \<and> distinct (implied_by w x)"
proof -
  have all: "resolved_ok direct w y" if "y \<in> set (map fst direct)" for y
    using that ok keys unfolding walk_ok_def by blast
  have key: "y \<in> set (map fst direct)" if "(y, z) \<in> (edges direct)\<^sup>+" for y z
    using that edges_key by (meson tranclD)
  show "acyclic (edges direct)"
    using all key by (force simp: acyclic_def resolved_ok_def)
  show "set (implied_by w x) = (edges direct)\<^sup>+ `` {x} \<and> sorted (implied_by w x) \<and> distinct (implied_by w x)"
  proof (cases "mark_of w x")
    case Resolved
    with ok show ?thesis by (simp add: walk_ok_def resolved_ok_def)
  next
    case Unvisited
    with ok have "implied_by w x = []" by (simp add: walk_ok_def)
    moreover have "(edges direct)\<^sup>+ `` {x} = {}" using key keys Unvisited by fastforce
    ultimately show ?thesis by simp
  next
    case Visiting
    with ok show ?thesis by (simp add: walk_ok_def)
  qed
qed

text \<open>What a run of \<open>NewScopeImplications\<close> comes to, by what the table is.\<close>

lemma NewScopeImplications_cases:
  assumes d: "distinct (map fst table)"
  obtains
    (empty) e where "has_empty_name table" "NewScopeImplications table = Some (Inl e)"
  | (cycle) route where "\<not> has_empty_name table" "is_cycle (states table) route"
      "NewScopeImplications table = Some (Inl (cycle_error route))"
  | (closed) w direct where "\<not> has_empty_name table" "acyclic (states table)" "edges direct = states table"
      "walk_ok direct [] w" "\<forall>x \<in> set (map fst direct). mark_of w x = Resolved"
      "NewScopeImplications table = Some (Inr \<lparr>closure_of = closure w\<rparr>)"
proof (cases "normalize table")
  case (Inl e)
  then show ?thesis using empty normalize_Inl [of table] by (auto simp: NewScopeImplications_def)
next
  case (Inr direct)
  then have ne: "\<not> has_empty_name table" using normalize_Inl [of table] by simp
  have dir: "edges direct = states table" using normalize_Inr [OF Inr d] by simp
  have "set (sort (map fst direct)) \<subseteq> set (nodes direct)" using key_nodes by auto
  from resolve_keys_total [OF empty_walk_ok this] obtain r where
    r: "resolve_keys (walk_fuel direct) direct (sort (map fst direct)) empty_walk = Some r"
    and post: "case r of
        Inl e \<Rightarrow> \<exists>route. e = cycle_error route \<and> is_cycle (edges direct) route
      | Inr w' \<Rightarrow> walk_ok direct [] w' \<and> keeps_resolved empty_walk w' \<and>
          (\<forall>y \<in> set (sort (map fst direct)). mark_of w' y = Resolved)"
    by blast
  show ?thesis
  proof (cases r)
    case (Inl e)
    then obtain route where "e = cycle_error route" "is_cycle (states table) route"
      using post dir by auto
    with Inl show ?thesis using ne r Inr cycle by (simp add: NewScopeImplications_def)
  next
    case (Inr w)
    then have w: "walk_ok direct [] w" "\<forall>x \<in> set (map fst direct). mark_of w x = Resolved"
      using post by auto
    show ?thesis
      by (rule closed [OF ne _ dir w])
        (use walk_complete(1) [OF w] dir r Inr \<open>normalize table = Inr direct\<close> in
          \<open>auto simp: NewScopeImplications_def\<close>)
  qed
qed

lemma closure_of_built:
  assumes "distinct (map fst table)" "NewScopeImplications table = Some (Inr s)"
  shows "set (lookup_or [] (closure_of s) x) = (states table)\<^sup>+ `` {x}"
  by (rule NewScopeImplications_cases [OF assms(1)])
    (use assms(2) walk_complete(2) in \<open>auto simp: implied_by_def\<close>)

text \<open>
  A table whose keys are distinct, as a Go map's are, never leaves the resolution stuck.
  It is refused exactly when it names an empty scope or implies a cycle, and otherwise every
  scope gets the sorted, repetition-free list of what the table implies transitively.
\<close>

theorem NewScopeImplications_correct:
  assumes "distinct (map fst table)"
  shows "\<exists>r. NewScopeImplications table = Some r \<and>
    (case r of
       Inl e \<Rightarrow> has_empty_name table \<or> \<not> acyclic (states table)
     | Inr s \<Rightarrow> \<not> has_empty_name table \<and> acyclic (states table) \<and>
         (\<forall>x. let implied = lookup_or [] (closure_of s) x in
            set implied = (states table)\<^sup>+ `` {x} \<and> sorted implied \<and> distinct implied))"
proof (rule NewScopeImplications_cases [OF assms])
  fix w direct
  assume *: "\<not> has_empty_name table" "acyclic (states table)" "edges direct = states table"
    "walk_ok direct [] w" "\<forall>x \<in> set (map fst direct). mark_of w x = Resolved"
    "NewScopeImplications table = Some (Inr \<lparr>closure_of = closure w\<rparr>)"
  then show ?thesis
    using walk_complete(2) [OF *(4,5)] by (simp add: implied_by_def Let_def)
qed (auto dest: is_cycle_not_acyclic)

lemma NewScopeImplications_correct_witness:
  "\<exists>s. NewScopeImplications [(''a'', [''b'']), (''b'', [''c'', ''b''])] = Some (Inr s) \<and>
     set (lookup_or [] (closure_of s) ''a'') = (states [(''a'', [''b'']), (''b'', [''c'', ''b''])])\<^sup>+ `` {''a''}"
proof -
  have "NewScopeImplications [(''a'', [''b'']), (''b'', [''c'', ''b''])] =
      Some (Inr \<lparr>closure_of = [(''c'', []), (''b'', [''c'']), (''a'', [''b'', ''c''])]\<rparr>)"
    by code_simp
  then show ?thesis
    using NewScopeImplications_correct [of "[(''a'', [''b'']), (''b'', [''c'', ''b''])]"]
    by (simp add: Let_def)
qed

text \<open>
  When a table without empty names is refused, the route its error carries is a cycle of
  the table: a walk along what it states that ends at a scope it has already passed.
\<close>

theorem NewScopeImplications_route:
  assumes "distinct (map fst table)" "\<not> has_empty_name table"
    "NewScopeImplications table = Some (Inl e)"
  shows "\<exists>route. e = cycle_error route \<and> is_cycle (states table) route"
  by (rule NewScopeImplications_cases [OF assms(1)]) (use assms in auto)

lemma NewScopeImplications_route_witness:
  "\<exists>route. cycle_error [''a'', ''b'', ''a''] = cycle_error route \<and>
     is_cycle (states [(''b'', [''a'']), (''a'', [''b''])]) route"
  by (rule NewScopeImplications_route [of "[(''b'', [''a'']), (''a'', [''b''])]"]) (simp, simp add: has_empty_name_def, code_simp)

section \<open>What an expander promises its clients\<close>

text \<open>
  \<open>principal.ScopeExpander\<close>: what the caller holds comes first and untouched, what is added
  was not held, and holding more never grants less.
\<close>

locale scope_expander =
  fixes expand :: "string list \<Rightarrow> string list"
  assumes prefix: "\<exists>more. expand held = held @ more \<and> set more \<inter> set held = {} \<and> distinct more"
    and mono: "set held \<subseteq> set held' \<Longrightarrow> set (expand held) \<subseteq> set (expand held')"
begin

lemma extensive: "set held \<subseteq> set (expand held)"
  using prefix [of held] by auto

lemma held_satisfied: "x \<in> set held \<Longrightarrow> x \<in> set (expand held)"
  using extensive by auto

lemma order_of_held_irrelevant: "set held = set held' \<Longrightarrow> set (expand held) = set (expand held')"
  using mono by (metis order_refl subset_antisym)

end

lemma foldl_add_new_concat:
  "foldl (\<lambda>out x. foldl add_new out (f x)) out xs = foldl add_new out (concat (map f xs))"
  by (induction xs arbitrary: out) auto

lemma Expand_set:
  "set (Expand (Some t) held) = set held \<union> (\<Union>x \<in> set held. set (lookup_or [] (closure_of t) x))"
  by (simp add: Expand_def foldl_add_new_concat)

lemma Expand_None [simp]: "Expand None held = held"
  by (simp add: Expand_def)

lemma Expand_prefix: "\<exists>more. Expand s held = held @ more \<and> set more \<inter> set held = {} \<and> distinct more"
proof (cases s)
  case (Some t)
  then show ?thesis
    using foldl_add_new_ext [of held] by (auto simp: Expand_def foldl_add_new_concat Int_commute)
qed simp

lemma Expand_mono: "set held \<subseteq> set held' \<Longrightarrow> set (Expand s held) \<subseteq> set (Expand s held')"
  by (cases s) (auto simp: Expand_set)

interpretation si: scope_expander "Expand s" for s
  by unfold_locales (fact Expand_prefix, fact Expand_mono)

text \<open>What the built expander adds is what the table implies, read off the relation itself.\<close>

lemma Expand_built:
  assumes "distinct (map fst table)" "NewScopeImplications table = Some (Inr s)"
  shows "set (Expand (Some s) held) = (states table)\<^sup>* `` set held"
proof -
  have "set (lookup_or [] (closure_of s) x) = (states table)\<^sup>+ `` {x}" for x
    using closure_of_built [OF assms] by simp
  then show ?thesis
    by (auto simp: Expand_set rtrancl_eq_or_trancl)
qed

text \<open>
  An expander built from a table grants exactly what can be reached from the scopes held
  by the table's implications, keeps the held scopes in front in their order, and expanding a
  second time grants nothing more.
\<close>

theorem Expand_correct:
  assumes "distinct (map fst table)" "NewScopeImplications table = Some (Inr s)"
  shows "set (Expand (Some s) held) = (states table)\<^sup>* `` set held \<and>
    take (length held) (Expand (Some s) held) = held \<and>
    set (Expand (Some s) (Expand (Some s) held)) = set (Expand (Some s) held)"
proof (intro conjI)
  show e: "set (Expand (Some s) held) = (states table)\<^sup>* `` set held" for held
    using assms by (rule Expand_built)
  show "take (length held) (Expand (Some s) held) = held"
    using si.prefix [of "Some s" held] by auto
  show "set (Expand (Some s) (Expand (Some s) held)) = set (Expand (Some s) held)"
    by (simp only: e) (auto intro: rtrancl_trans)
qed

lemma Expand_correct_witness:
  "set (Expand (Some \<lparr>closure_of = [(''r'', []), (''w'', [''r''])]\<rparr>) [''w'', ''x'']) =
     (states [(''w'', [''r''])])\<^sup>* `` {''w'', ''x''}"
proof -
  have "NewScopeImplications [(''w'', [''r''])] = Some (Inr \<lparr>closure_of = [(''r'', []), (''w'', [''r''])]\<rparr>)"
    by code_simp
  from Expand_correct [OF _ this, of "[''w'', ''x'']"] show ?thesis by simp
qed

end
