(* ===== verification/Principal.thy ===== *)
theory Principal
  imports Scopes SessionConfig
begin

text \<open>
  The caller a credential was verified as (\<open>internal/plamo/authkit/principal.go\<close>).

  A nil \<open>*Principal\<close> is \<open>None\<close>. The scope policy attached to a caller is the function its
  \<open>Expand\<close> is, \<open>None\<close> while nothing is attached.
\<close>

definition SchemeJWT :: string where "SchemeJWT = ''jwt''"
definition SchemeAPIKey :: string where "SchemeAPIKey = ''apiKey''"
definition SchemeSession :: string where "SchemeSession = ''session''"

type_synonym expander = "string list \<Rightarrow> string list"

record principal =
  p_Subject :: string
  p_Scopes :: "string list"
  p_Scheme :: string
  p_Claims :: claims
  implied :: "expander option"

definition WithScopeExpander :: "expander option \<Rightarrow> principal option \<Rightarrow> principal option" where
  "WithScopeExpander e p =
     (case p of None \<Rightarrow> None | Some q \<Rightarrow> (case e of None \<Rightarrow> p | Some f \<Rightarrow> Some (q\<lparr>implied := Some f\<rparr>)))"

definition EffectiveScopes :: "principal option \<Rightarrow> string list" where
  "EffectiveScopes p =
     (case p of
        None \<Rightarrow> []
      | Some q \<Rightarrow> (case implied q of None \<Rightarrow> p_Scopes q | Some f \<Rightarrow> f (p_Scopes q)))"

text \<open>The loop over the required scopes, stopping at the first one that is missing.\<close>

fun all_held :: "string list \<Rightarrow> string list \<Rightarrow> bool" where
  "all_held held [] = True"
| "all_held held (scope # required) = (if scope \<notin> set held then False else all_held held required)"

definition SatisfiesScopes :: "principal option \<Rightarrow> string list \<Rightarrow> bool" where
  "SatisfiesScopes p required =
     (case p of
        None \<Rightarrow> False
      | Some q \<Rightarrow>
          if required = [] then True
          else let held = (case implied q of None \<Rightarrow> p_Scopes q | Some f \<Rightarrow> f (p_Scopes q))
               in all_held held required)"

definition HasScheme :: "principal option \<Rightarrow> string list \<Rightarrow> bool" where
  "HasScheme p accepted =
     (case p of None \<Rightarrow> False | Some q \<Rightarrow> if accepted = [] then True else p_Scheme q \<in> set accepted)"

definition SnapshotOf :: "principal option \<Rightarrow> snapshot option" where
  "SnapshotOf p =
     (case p of
        None \<Rightarrow> None
      | Some q \<Rightarrow> Some \<lparr>Subject = p_Subject q, Scopes = p_Scopes q, Claims_of = p_Claims q\<rparr>)"

definition PrincipalOf :: "snapshot option \<Rightarrow> principal option" where
  "PrincipalOf s =
     (case s of
        None \<Rightarrow> None
      | Some t \<Rightarrow> Some \<lparr>p_Subject = Subject t, p_Scopes = Scopes t, p_Scheme = SchemeSession,
          p_Claims = Claims_of t, implied = None\<rparr>)"

section \<open>What they decide\<close>

lemma all_held_iff: "all_held held required \<longleftrightarrow> set required \<subseteq> set held"
  by (induction required) auto

lemma SatisfiesScopes_iff:
  "SatisfiesScopes p required \<longleftrightarrow> p \<noteq> None \<and> set required \<subseteq> set (EffectiveScopes p)"
  by (auto simp: SatisfiesScopes_def EffectiveScopes_def Let_def all_held_iff split: option.splits)

lemma HasScheme_iff:
  "HasScheme p accepted \<longleftrightarrow> (\<exists>q. p = Some q \<and> (accepted = [] \<or> p_Scheme q \<in> set accepted))"
  by (auto simp: HasScheme_def split: option.splits)

lemma EffectiveScopes_attached:
  "EffectiveScopes (WithScopeExpander (Some f) (Some p)) = f (p_Scopes p)"
  by (simp add: EffectiveScopes_def WithScopeExpander_def)

lemma WithScopeExpander_keeps:
  "WithScopeExpander e (Some p) = Some q \<Longrightarrow>
     p_Subject q = p_Subject p \<and> p_Scopes q = p_Scopes p \<and> p_Scheme q = p_Scheme p \<and> p_Claims q = p_Claims p"
  by (auto simp: WithScopeExpander_def split: option.splits)

lemma WithScopeExpander_None_iff [simp]: "WithScopeExpander e p = None \<longleftrightarrow> p = None"
  by (auto simp: WithScopeExpander_def split: option.splits)

text \<open>Whatever keeps the contract of an expander can be attached to a caller.\<close>

context scope_expander
begin

lemma attach_keeps_held:
  "set (p_Scopes p) \<subseteq> set (EffectiveScopes (WithScopeExpander (Some expand) (Some p)))"
  by (simp add: EffectiveScopes_attached extensive)

lemma attach_never_narrows:
  "implied p = None \<Longrightarrow> SatisfiesScopes (Some p) required \<Longrightarrow>
     SatisfiesScopes (WithScopeExpander (Some expand) (Some p)) required"
  using attach_keeps_held [of p] by (auto simp: SatisfiesScopes_iff EffectiveScopes_def)

lemma attach_mono:
  "set (p_Scopes p) \<subseteq> set (p_Scopes q) \<Longrightarrow>
   SatisfiesScopes (WithScopeExpander (Some expand) (Some p)) required \<Longrightarrow>
   SatisfiesScopes (WithScopeExpander (Some expand) (Some q)) required"
  using mono [of "p_Scopes p" "p_Scopes q"] by (auto simp: SatisfiesScopes_iff EffectiveScopes_attached)

end

text \<open>
  With the application's policy attached, a caller satisfies a list of scopes exactly when each
  of them can be reached, by the implications the table states, from a scope its credential carries;
  no caller satisfies nothing, not even the empty list.
\<close>

theorem SatisfiesScopes_policy:
  assumes "distinct (map fst table)" "NewScopeImplications table = Some (Inr s)"
  shows "(SatisfiesScopes (WithScopeExpander (Some (Expand (Some s))) (Some p)) required \<longleftrightarrow>
      (\<forall>r \<in> set required. \<exists>h \<in> set (p_Scopes p). (h, r) \<in> (states table)\<^sup>*)) \<and>
    \<not> SatisfiesScopes (WithScopeExpander (Some (Expand (Some s))) None) required"
  using Expand_built [OF assms, of "p_Scopes p"]
  by (auto simp: SatisfiesScopes_iff EffectiveScopes_attached)

lemma SatisfiesScopes_policy_witness:
  "SatisfiesScopes (WithScopeExpander (Some (Expand (Some \<lparr>closure_of = [(''r'', []), (''w'', [''r''])]\<rparr>)))
     (Some \<lparr>p_Subject = ''u'', p_Scopes = [''w''], p_Scheme = SchemeJWT, p_Claims = [], implied = None\<rparr>)) [''r'']"
proof -
  have b: "NewScopeImplications [(''w'', [''r''])] = Some (Inr \<lparr>closure_of = [(''r'', []), (''w'', [''r''])]\<rparr>)"
    by code_simp
  have "(''w'', ''r'') \<in> states [(''w'', [''r''])]" by (simp add: states_def)
  then show ?thesis using SatisfiesScopes_policy [OF _ b] by auto
qed

text \<open>
  Attaching a policy, any policy, never takes anything away: what the credential's own scopes
  satisfy stays satisfied, and of two callers the one carrying more satisfies at least as much.
\<close>

theorem policy_monotone:
  assumes "implied p = None" "set (p_Scopes p) \<subseteq> set (p_Scopes q)"
  shows "(SatisfiesScopes (Some p) required \<longrightarrow>
      SatisfiesScopes (WithScopeExpander (Some (Expand s)) (Some p)) required) \<and>
    (SatisfiesScopes (WithScopeExpander (Some (Expand s)) (Some p)) required \<longrightarrow>
      SatisfiesScopes (WithScopeExpander (Some (Expand s)) (Some q)) required)"
  using si.attach_never_narrows [OF assms(1)] si.attach_mono [OF assms(2)] by blast

lemma policy_monotone_witness:
  "SatisfiesScopes (WithScopeExpander (Some (Expand None))
     (Some \<lparr>p_Subject = ''u'', p_Scopes = [''a'', ''b''], p_Scheme = SchemeJWT, p_Claims = [], implied = None\<rparr>)) [''a'']"
  using policy_monotone [of "\<lparr>p_Subject = ''u'', p_Scopes = [''a''], p_Scheme = SchemeJWT, p_Claims = [], implied = None\<rparr>"
      "\<lparr>p_Subject = ''u'', p_Scopes = [''a'', ''b''], p_Scheme = SchemeJWT, p_Claims = [], implied = None\<rparr>" "[''a'']" None]
  by (simp add: SatisfiesScopes_def)

text \<open>
  Trading a credential for a session keeps who the caller is and what it carried, and nothing
  else: the restored caller always has the session scheme and no policy attached, whatever scheme
  and policy it was created under, and trading it again changes nothing.
\<close>

theorem session_trade:
  "PrincipalOf (SnapshotOf (Some p)) =
     Some (p\<lparr>p_Scheme := SchemeSession, implied := None\<rparr>) \<and>
   SnapshotOf (PrincipalOf s) = s \<and>
   (\<exists>q. PrincipalOf (SnapshotOf (WithScopeExpander e (Some p))) = Some q \<and> p_Scheme q = SchemeSession \<and>
      p_Scopes q = p_Scopes p \<and> implied q = None)"
  by (cases p) (auto simp: PrincipalOf_def SnapshotOf_def WithScopeExpander_def split: option.splits)

end
