(* ===== verification/KeyStores.thy ===== *)
theory KeyStores
  imports Principal
begin

text \<open>
  Where an API key is looked up: the keys of the configuration (\<open>staticKeyStore\<close> in
  \<open>authkit/verifier.go\<close>), the development table (\<open>plamo/stub/apikey.go\<close>), and the Redis and
  database stores (\<open>plamo/keystore\<close>).

  Fingerprinting a key, decoding the stored scopes and the query itself are the key store package's
  (\<open>encli\<close>); they are parameters. Every store keeps one contract, the locale \<open>key_store\<close>: the
  caller it answers with is an API key's caller with a subject, and carries no policy.
\<close>

locale key_store =
  fixes lookup :: "string \<Rightarrow> principal option result"
  assumes answers: "lookup key = Inr p \<Longrightarrow>
    \<exists>q. p = Some q \<and> p_Scheme q = SchemeAPIKey \<and> p_Subject q \<noteq> [] \<and> implied q = None"
begin

lemma never_nil: "lookup key \<noteq> Inr None"
  using answers [of key None] by auto

lemma has_key_scheme: "lookup key = Inr (Some q) \<Longrightarrow> HasScheme (Some q) [SchemeAPIKey]"
  using answers [of key "Some q"] by (simp add: HasScheme_def)

end

section \<open>Keys of the configuration\<close>

definition apiKeySubjectPrefix :: string where
  "apiKeySubjectPrefix = ''apikey''"

definition staticKeyStore :: "string list \<Rightarrow> string \<Rightarrow> principal option result" where
  "staticKeyStore keys key =
     (if key \<notin> set keys then Inl (Sentinel ErrKeyNotFound)
      else Inr (Some \<lparr>p_Subject = apiKeySubjectPrefix, p_Scopes = [], p_Scheme = SchemeAPIKey,
                     p_Claims = [], implied = None\<rparr>))"

interpretation static: key_store "staticKeyStore keys" for keys
  by unfold_locales (auto simp: staticKeyStore_def apiKeySubjectPrefix_def split: if_splits)

section \<open>The development table\<close>

definition allowedIn :: "string \<Rightarrow> bool" where
  "allowedIn envVal = (envVal = ''local'' \<or> envVal = ''test'')"

fun stub_principals :: "(string \<times> principal option) list \<Rightarrow> (string \<times> principal) list result" where
  "stub_principals [] = Inr []"
| "stub_principals ((key, p) # rest) =
     (if key = [] then Inl (Errorf ''stub: an API key cannot be empty'' [] [])
      else case p of
        None \<Rightarrow> Inl (Errorf ''stub: API key %q has no caller behind it'' [key] [])
      | Some q \<Rightarrow>
          if p_Subject q = [] then Inl (Errorf ''stub: API key %q has a caller with no subject'' [key] [])
          else case stub_principals rest of
            Inl e \<Rightarrow> Inl e
          | Inr ps \<Rightarrow> Inr ((key, \<lparr>p_Subject = p_Subject q, p_Scopes = p_Scopes q, p_Scheme = SchemeAPIKey,
                p_Claims = p_Claims q, implied = None\<rparr>) # ps))"

definition NewAPIKeyStore :: "string \<Rightarrow> (string \<times> principal option) list \<Rightarrow> (string \<times> principal) list result" where
  "NewAPIKeyStore envVal keys =
     (if \<not> allowedIn envVal then
        Inl (Errorf ''stub: the API key stub only runs in the %s and %s environments'' [''local'', ''test'', envVal] [])
      else if keys = [] then
        Inl (Errorf ''stub: the API key stub was given no keys, so it would refuse every caller'' [] [])
      else stub_principals keys)"

definition stub_Lookup :: "(string \<times> principal) list \<Rightarrow> string \<Rightarrow> principal option result" where
  "stub_Lookup principals key =
     (case map_of principals key of
        None \<Rightarrow> Inl (Sentinel ErrKeyNotFound)
      | Some p \<Rightarrow> Inr (Some \<lparr>p_Subject = p_Subject p, p_Scopes = p_Scopes p, p_Scheme = p_Scheme p,
          p_Claims = p_Claims p, implied = None\<rparr>))"

lemma stub_principals_Cons:
  assumes "stub_principals ((key, p) # rest) = Inr ps"
  obtains q ps' where "key \<noteq> []" "p = Some q" "p_Subject q \<noteq> []" "stub_principals rest = Inr ps'"
    "ps = (key, \<lparr>p_Subject = p_Subject q, p_Scopes = p_Scopes q, p_Scheme = SchemeAPIKey,
       p_Claims = p_Claims q, implied = None\<rparr>) # ps'"
  using assms by (auto split: if_splits option.splits sum.splits)

lemma stub_principals_ok:
  "stub_principals keys = Inr ps \<Longrightarrow>
     map fst ps = map fst keys \<and> (\<forall>(k, p) \<in> set ps. k \<noteq> [] \<and> p_Scheme p = SchemeAPIKey \<and> p_Subject p \<noteq> [])"
proof (induction keys arbitrary: ps)
  case (Cons kp keys)
  obtain key p where kp: "kp = (key, p)" by (cases kp)
  from Cons.prems [unfolded kp] show ?case
  proof (rule stub_principals_Cons)
    fix q ps'
    assume "stub_principals keys = Inr ps'" "key \<noteq> []" "p_Subject q \<noteq> []"
      "ps = (key, \<lparr>p_Subject = p_Subject q, p_Scopes = p_Scopes q, p_Scheme = SchemeAPIKey,
       p_Claims = p_Claims q, implied = None\<rparr>) # ps'"
    with Cons.IH [of ps'] kp show ?thesis by simp
  qed
qed simp

text \<open>A store only exists when its table was accepted; one over no keys stands for none.\<close>

definition stub_store :: "string \<Rightarrow> (string \<times> principal option) list \<Rightarrow> string \<Rightarrow> principal option result" where
  "stub_store envVal keys =
     (case NewAPIKeyStore envVal keys of Inl e \<Rightarrow> (\<lambda>key. Inl e) | Inr ps \<Rightarrow> stub_Lookup ps)"

interpretation stub: key_store "stub_store envVal keys" for envVal keys
  by unfold_locales
    (auto simp: stub_store_def stub_Lookup_def NewAPIKeyStore_def split: sum.splits option.splits if_splits
      dest!: map_of_SomeD stub_principals_ok)

section \<open>Redis and the database\<close>

definition fingerprintPrefix :: nat where
  "fingerprintPrefix = 12"

definition short :: "string \<Rightarrow> string" where
  "short fingerprint =
     (if length fingerprint \<le> fingerprintPrefix then fingerprint
      else take fingerprintPrefix fingerprint @ [CHR 0xE2, CHR 0x80, CHR 0xA6])"

definition validateSubject :: "string \<Rightarrow> string \<Rightarrow> goerr option" where
  "validateSubject subject fingerprint =
     (if subject = [] then
        Some (Errorf ''%w: the stored key has no subject (fingerprint %s)'' [short fingerprint] [Sentinel ErrUnusableRecord])
      else None)"

text \<open>\<open>enclikeystore.Record\<close>, as far as it is read.\<close>

record key_record =
  rec_Subject :: string
  rec_Scopes :: "string list"

text \<open>\<open>get\<close> is the cache's \<open>Get\<close> on the key of a fingerprint; \<open>None\<close> is a record that decoded to nil.\<close>

definition NewRedis :: "(string \<Rightarrow> key_record option result) option \<Rightarrow> (string \<Rightarrow> key_record option result) result" where
  "NewRedis cache = (case cache of
     None \<Rightarrow> Inl (Errorf ''keystore: no cache to read keys from'' [] []) | Some get \<Rightarrow> Inr get)"

definition redis_Lookup :: "(string \<Rightarrow> string) \<Rightarrow> (string \<Rightarrow> key_record option result) \<Rightarrow> string
    \<Rightarrow> principal option result" where
  "redis_Lookup fingerprint_of get key =
     (if key = [] then Inl (Sentinel ErrKeyNotFound)
      else let fingerprint = fingerprint_of key in
        case get fingerprint of
          Inl e \<Rightarrow>
            if errors_is e ErrCacheMiss then Inl (Sentinel ErrKeyNotFound)
            else Inl (Errorf ''keystore: reading the key record %s: %w'' [short fingerprint] [e])
        | Inr None \<Rightarrow>
            Inl (Errorf ''%w: the stored record is empty (fingerprint %s)'' [short fingerprint] [Sentinel ErrUnusableRecord])
        | Inr (Some r) \<Rightarrow>
            (case validateSubject (rec_Subject r) fingerprint of
               Some e \<Rightarrow> Inl e
             | None \<Rightarrow> Inr (Some \<lparr>p_Subject = rec_Subject r, p_Scopes = rec_Scopes r, p_Scheme = SchemeAPIKey,
                 p_Claims = [], implied = None\<rparr>)))"

interpretation redis: key_store "redis_Lookup fp get" for fp get
  by unfold_locales
    (auto simp: redis_Lookup_def validateSubject_def Let_def split: if_splits sum.splits option.splits)

record key_row =
  row_subject :: string
  row_scopes :: string
  row_expiresAt :: "time option"       \<comment> \<open>\<open>sql.NullTime\<close>\<close>

definition readinessFingerprint :: string where
  "readinessFingerprint = ''readiness-probe''"

text \<open>\<open>query\<close> is what the row lookup of a fingerprint came to.\<close>

definition Ready :: "(string \<Rightarrow> key_row result) \<Rightarrow> goerr option" where
  "Ready query =
     (case query readinessFingerprint of
        Inl e \<Rightarrow>
          if \<not> errors_is e ErrNoRows then Some (Errorf ''keystore: the %s table cannot be read: %w'' [] [e]) else None
      | Inr row \<Rightarrow> None)"

definition db_Lookup :: "(string \<Rightarrow> string) \<Rightarrow> (string \<Rightarrow> string list) \<Rightarrow> (string \<Rightarrow> key_row result) \<Rightarrow> time
    \<Rightarrow> string \<Rightarrow> principal option result" where
  "db_Lookup fingerprint_of decodeScopes query now key =
     (if key = [] then Inl (Sentinel ErrKeyNotFound)
      else let fingerprint = fingerprint_of key in
        case query fingerprint of
          Inl e \<Rightarrow>
            if errors_is e ErrNoRows then Inl (Sentinel ErrKeyNotFound)
            else Inl (Errorf ''keystore: reading the key record %s: %w'' [short fingerprint] [e])
        | Inr row \<Rightarrow>
            if (case row_expiresAt row of None \<Rightarrow> False | Some t \<Rightarrow> \<not> now < t) then
              Inl (Errorf ''%w: the key expired at %s'' [] [Sentinel ErrKeyNotFound])
            else (case validateSubject (row_subject row) fingerprint of
               Some e \<Rightarrow> Inl e
             | None \<Rightarrow> Inr (Some \<lparr>p_Subject = row_subject row, p_Scopes = decodeScopes (row_scopes row),
                 p_Scheme = SchemeAPIKey, p_Claims = [], implied = None\<rparr>)))"

interpretation db: key_store "db_Lookup fp decode query now" for fp decode query now
  by unfold_locales
    (auto simp: db_Lookup_def validateSubject_def Let_def split: if_splits sum.splits option.splits)

section \<open>What is a definite answer and what is not\<close>

text \<open>
  The database store says "no such key" exactly for an empty key, for a fingerprint without a
  row, and for a row whose expiry has come; every other failure, an unreadable table or a row without
  a subject, is an error of another kind. A key it accepts has not expired at that instant.
\<close>

theorem db_Lookup_answers:
  assumes "\<And>e. query (fp key) = Inl e \<Longrightarrow> \<not> errors_is e ErrKeyNotFound"
  shows "((\<exists>e. db_Lookup fp decode query now key = Inl e \<and> errors_is e ErrKeyNotFound) \<longleftrightarrow>
      key = [] \<or> (\<exists>e. query (fp key) = Inl e \<and> errors_is e ErrNoRows) \<or>
      (\<exists>row t. query (fp key) = Inr row \<and> row_expiresAt row = Some t \<and> t \<le> now)) \<and>
    (db_Lookup fp decode query now key = Inr (Some p) \<longrightarrow>
      (\<exists>row. query (fp key) = Inr row \<and> p_Subject p = row_subject row \<and> p_Subject p \<noteq> [] \<and>
        p_Scopes p = decode (row_scopes row) \<and> (\<forall>t. row_expiresAt row = Some t \<longrightarrow> now < t)))"
  using assms
  by (cases "query (fp key)")
    (auto simp: db_Lookup_def validateSubject_def Let_def not_less split: if_splits option.splits)

lemma db_Lookup_answers_witness:
  "\<exists>e. db_Lookup (\<lambda>k. k) (\<lambda>s. [s]) (\<lambda>_. Inr \<lparr>row_subject = ''svc'', row_scopes = ''a'', row_expiresAt = Some 5\<rparr>) 5 ''k'' = Inl e \<and>
     errors_is e ErrKeyNotFound"
  using db_Lookup_answers [of "\<lambda>_. Inr \<lparr>row_subject = ''svc'', row_scopes = ''a'', row_expiresAt = Some 5\<rparr>" "\<lambda>k. k" "''k''"
      "\<lambda>s. [s]" 5] by simp

text \<open>
  The development table exists only in the local and test environments, and then only for
  non-empty keys with a named caller; what it answers with is always an API key's caller, whatever
  scheme and policy the table gave it.
\<close>

theorem stub_only_local:
  assumes "NewAPIKeyStore envVal keys = Inr ps"
  shows "envVal \<in> {''local'', ''test''} \<and> keys \<noteq> [] \<and> map fst ps = map fst keys \<and> [] \<notin> set (map fst keys) \<and>
    (\<forall>key p. stub_Lookup ps key = Inr (Some p) \<longrightarrow>
       p_Scheme p = SchemeAPIKey \<and> p_Subject p \<noteq> [] \<and> implied p = None)"
proof -
  have s: "stub_store envVal keys = stub_Lookup ps" using assms by (simp add: stub_store_def)
  have "stub_principals keys = Inr ps"
    using assms by (simp add: NewAPIKeyStore_def split: if_splits)
  note ps = stub_principals_ok [OF this]
  from conjunct2 [OF this] have "[] \<notin> set (map fst ps)" by auto
  moreover have "envVal \<in> {''local'', ''test''} \<and> keys \<noteq> []"
    using assms by (auto simp: NewAPIKeyStore_def allowedIn_def split: if_splits)
  moreover have "p_Scheme p = SchemeAPIKey \<and> p_Subject p \<noteq> [] \<and> implied p = None"
    if "stub_Lookup ps key = Inr (Some p)" for key p
    using stub.answers [of envVal keys key "Some p"] that by (simp add: s)
  ultimately show ?thesis using ps by metis
qed

lemma stub_only_local_witness:
  "[''k''] = map fst [(''k'', \<lparr>p_Subject = ''dev'', p_Scopes = [''a''], p_Scheme = SchemeAPIKey, p_Claims = [], implied = None\<rparr>)]"
  using stub_only_local [of "''test''" "[(''k'', Some \<lparr>p_Subject = ''dev'', p_Scopes = [''a''], p_Scheme = [], p_Claims = [], implied = None\<rparr>)]"
      "[(''k'', \<lparr>p_Subject = ''dev'', p_Scopes = [''a''], p_Scheme = SchemeAPIKey, p_Claims = [], implied = None\<rparr>)]"]
  by (simp add: NewAPIKeyStore_def allowedIn_def)

end
