(* ===== verification/Initiator.thy ===== *)
theory Initiator
  imports Principal
begin

text \<open>
  Who started a piece of work, as context that travels with it (\<open>internal/plamo/initiator\<close>), and the
  request context it is read from.

  JSON is a parameter: \<open>enc\<close> writes a claims object or fails, \<open>dec\<close> reads a text. The names a
  claim set has reported as dropped are a mutable field of it; here they are threaded through
  (\<open>dropped\<close>). A Go map that is ranged over is a list of its entries in the order of the run.
\<close>

section \<open>Kinds\<close>

definition KindAppUser :: string where "KindAppUser = ''app_user''"
definition KindAPIKey :: string where "KindAPIKey = ''api_key''"
definition KindSystem :: string where "KindSystem = ''system''"
definition KindUnauthenticated :: string where "KindUnauthenticated = ''unauthenticated''"
definition KindUnknown :: string where "KindUnknown = ''unknown''"

lemmas kinds = KindAppUser_def KindAPIKey_def KindSystem_def KindUnauthenticated_def KindUnknown_def

record initiator =
  i_kind :: string
  i_id :: string
  i_claims :: claims

definition Kind :: "initiator option \<Rightarrow> string" where
  "Kind oi = (case oi of None \<Rightarrow> KindUnknown | Some i \<Rightarrow> if i_kind i = [] then KindUnknown else i_kind i)"

definition initiator_ID :: "initiator option \<Rightarrow> string" where
  "initiator_ID oi = (case oi of None \<Rightarrow> [] | Some i \<Rightarrow> i_id i)"

definition initiator_Claims :: "initiator option \<Rightarrow> claims" where
  "initiator_Claims oi = (case oi of None \<Rightarrow> [] | Some i \<Rightarrow> i_claims i)"

definition unknown :: initiator where
  "unknown = \<lparr>i_kind = KindUnknown, i_id = [], i_claims = []\<rparr>"

section \<open>Claim sets\<close>

definition forbiddenClaims :: "string list" where
  "forbiddenClaims = [''scope'', ''iss'', ''sub'', ''aud'', ''exp'', ''nbf'', ''iat'', ''jti'']"

definition MaxReportedDroppedClaims :: nat where
  "MaxReportedDroppedClaims = 32"

definition LogTypeClaimDropped :: string where "LogTypeClaimDropped = ''initiator_claim_dropped_log''"
definition LogTypeHeaderMalformed :: string where "LogTypeHeaderMalformed = ''initiator_header_malformed_log''"
definition LogTypeClaimsUnencodable :: string where "LogTypeClaimsUnencodable = ''initiator_claims_unencodable_log''"

record claim_set =
  cs_names :: "string list"
  cs_allowed :: "string list"

record dropped =
  dl_reported :: "string list"
  dl_saturated :: bool

definition nothing_dropped :: dropped where
  "nothing_dropped = \<lparr>dl_reported = [], dl_saturated = False\<rparr>"

fun check_names :: "string list \<Rightarrow> goerr list \<Rightarrow> string list \<Rightarrow> string list \<times> goerr list" where
  "check_names allowed errs [] = (allowed, errs)"
| "check_names allowed errs (name # names) =
     (if name = [] then
        check_names allowed (errs @ [Errorf ''initiator: an empty claim name cannot be carried'' [] []]) names
      else if name \<in> set forbiddenClaims then
        check_names allowed (errs @ [Errorf ''initiator: claim %q cannot be carried in an Initiator: %s'' [name] []]) names
      else check_names (add_new allowed name) errs names)"

definition NewClaimSet :: "string list \<Rightarrow> claim_set result" where
  "NewClaimSet names =
     (case check_names [] [] names of (allowed, errs) \<Rightarrow>
        if errs \<noteq> [] then Inl (Errorf ''errors.Join'' [] errs)
        else Inr \<lparr>cs_names = sort allowed, cs_allowed = allowed\<rparr>)"

definition Names :: "claim_set option \<Rightarrow> string list" where
  "Names cs = (case cs of None \<Rightarrow> [] | Some s \<Rightarrow> cs_names s)"

definition carries :: "claim_set option \<Rightarrow> string \<Rightarrow> bool" where
  "carries cs name = (case cs of None \<Rightarrow> False | Some s \<Rightarrow> name \<in> set (cs_allowed s))"

fun pick :: "claim_set option \<Rightarrow> claims \<Rightarrow> claims" where
  "pick cs [] = []"
| "pick cs ((name, value) # c) = (if \<not> carries cs name then pick cs c else (name, value) # pick cs c)"

definition reportDropped :: "claim_set option \<Rightarrow> string \<Rightarrow> dropped \<Rightarrow> dropped \<times> logs" where
  "reportDropped cs name d =
     (case cs of
        None \<Rightarrow> (d, [])
      | Some s \<Rightarrow>
          if name \<in> set (dl_reported d) \<or> dl_saturated d then (d, [])
          else if length (dl_reported d) \<ge> MaxReportedDroppedClaims then
            (d\<lparr>dl_saturated := True\<rparr>, [(Info, LogTypeClaimDropped)])
          else (d\<lparr>dl_reported := dl_reported d @ [name]\<rparr>, [(Info, LogTypeClaimDropped)]))"

fun report_all :: "claim_set option \<Rightarrow> claims \<Rightarrow> dropped \<Rightarrow> dropped \<times> logs" where
  "report_all cs [] d = (d, [])"
| "report_all cs ((name, value) # c) d =
     (if \<not> carries cs name then
        (case reportDropped cs name d of (d', l) \<Rightarrow> (case report_all cs c d' of (d'', l') \<Rightarrow> (d'', l @ l')))
      else report_all cs c d)"

definition receive :: "claim_set option \<Rightarrow> claims \<Rightarrow> dropped \<Rightarrow> claims \<times> dropped \<times> logs" where
  "receive cs c d = (pick cs c, report_all cs c d)"

section \<open>The context\<close>

record marking =
  entry :: bool
  entry_claims :: "claim_set option"
  fixed :: "initiator option"

text \<open>What a \<open>context.Context\<close> carries of interest: the caller and the mark.\<close>

record request_context =
  ctx_principal :: "principal option option"
  ctx_mark :: "marking option"

definition Background :: request_context where
  "Background = \<lparr>ctx_principal = None, ctx_mark = None\<rparr>"

definition WithPrincipal :: "request_context \<Rightarrow> principal option \<Rightarrow> request_context" where
  "WithPrincipal ctx p = ctx\<lparr>ctx_principal := Some p\<rparr>"

definition PrincipalFrom :: "request_context \<Rightarrow> principal option" where
  "PrincipalFrom ctx = (case ctx_principal ctx of None \<Rightarrow> None | Some p \<Rightarrow> p)"

definition WithEntry :: "request_context \<Rightarrow> claim_set option \<Rightarrow> request_context" where
  "WithEntry ctx cs = ctx\<lparr>ctx_mark := Some \<lparr>entry = True, entry_claims = cs, fixed = None\<rparr>\<rparr>"

definition With :: "request_context \<Rightarrow> initiator option \<Rightarrow> request_context" where
  "With ctx oi =
     ctx\<lparr>ctx_mark := Some \<lparr>entry = False, entry_claims = None,
       fixed = Some (case oi of None \<Rightarrow> unknown | Some i \<Rightarrow> i)\<rparr>\<rparr>"

definition WithSystem :: "request_context \<Rightarrow> request_context" where
  "WithSystem ctx = With ctx (Some \<lparr>i_kind = KindSystem, i_id = [], i_claims = []\<rparr>)"

definition kindOf :: "string \<Rightarrow> string" where
  "kindOf scheme =
     (if scheme = SchemeJWT \<or> scheme = SchemeSession then KindAppUser
      else if scheme = SchemeAPIKey then KindAPIKey else KindUnknown)"

definition derive :: "principal \<Rightarrow> claim_set option \<Rightarrow> initiator" where
  "derive caller cs = \<lparr>i_kind = kindOf (p_Scheme caller), i_id = p_Subject caller, i_claims = pick cs (p_Claims caller)\<rparr>"

definition From :: "request_context \<Rightarrow> initiator" where
  "From ctx =
     (case ctx_mark ctx of
        Some m \<Rightarrow>
          (case fixed m of
             Some i \<Rightarrow> \<lparr>i_kind = i_kind i, i_id = i_id i, i_claims = i_claims i\<rparr>
           | None \<Rightarrow>
               if entry m then
                 (case PrincipalFrom ctx of
                    Some caller \<Rightarrow> derive caller (entry_claims m)
                  | None \<Rightarrow> \<lparr>i_kind = KindUnauthenticated, i_id = [], i_claims = []\<rparr>)
               else (case PrincipalFrom ctx of Some caller \<Rightarrow> derive caller None | None \<Rightarrow> unknown))
      | None \<Rightarrow> (case PrincipalFrom ctx of Some caller \<Rightarrow> derive caller None | None \<Rightarrow> unknown))"

section \<open>The wire form\<close>

definition HeaderKind :: string where "HeaderKind = ''ce_authtype''"
definition HeaderID :: string where "HeaderID = ''ce_authid''"
definition HeaderClaims :: string where "HeaderClaims = ''ce_authclaims''"

lemmas header_names = HeaderKind_def HeaderID_def HeaderClaims_def

definition ReservedHeaders :: "string list" where
  "ReservedHeaders = [HeaderKind, HeaderID, HeaderClaims]"

definition IsReservedHeader :: "string \<Rightarrow> bool" where
  "IsReservedHeader key = (key \<in> set ReservedHeaders)"

type_synonym metadata = "(string \<times> string) list"

definition WithoutHeaders :: "metadata \<Rightarrow> metadata" where
  "WithoutHeaders md = filter (\<lambda>(key, value). \<not> IsReservedHeader key) md"

datatype json = JObject claims | JOther

type_synonym json_enc = "claims \<Rightarrow> string option"
type_synonym json_dec = "string \<Rightarrow> json option"

definition Headers :: "json_enc \<Rightarrow> initiator option \<Rightarrow> metadata \<times> logs" where
  "Headers enc i =
     (let h0 = [(HeaderKind, Kind i)];
          h1 = (if initiator_ID i \<noteq> [] then put HeaderID (initiator_ID i) h0 else h0)
      in if initiator_Claims i \<noteq> [] then
           (case enc (initiator_Claims i) of
              None \<Rightarrow> (h1, [(Error, LogTypeClaimsUnencodable)])
            | Some encoded \<Rightarrow> (put HeaderClaims encoded h1, []))
         else (h1, []))"

definition decodeClaims :: "json_dec \<Rightarrow> string \<Rightarrow> claims option" where
  "decodeClaims dec raw =
     (case dec raw of
        None \<Rightarrow> None
      | Some JOther \<Rightarrow> None
      | Some (JObject object) \<Rightarrow>
          if list_ex (\<lambda>(name, value). name \<in> set forbiddenClaims) object then None else Some object)"

definition malformed :: "initiator \<times> logs" where
  "malformed = (unknown, [(Warn, LogTypeHeaderMalformed)])"

definition FromHeaders :: "json_dec \<Rightarrow> metadata \<Rightarrow> claim_set option \<Rightarrow> dropped \<Rightarrow> initiator \<times> dropped \<times> logs" where
  "FromHeaders dec headers cs d =
     (let kind = lookup_or [] headers HeaderKind;
          i = lookup_or [] headers HeaderID;
          raw = map_of headers HeaderClaims
      in if kind = [] then
           (if i = [] \<and> raw = None then (unknown, d, [])
            else (case malformed of (u, l) \<Rightarrow> (u, d, l)))
         else (case raw of
           None \<Rightarrow> (case receive cs [] d of (c, d', l) \<Rightarrow> (\<lparr>i_kind = kind, i_id = i, i_claims = c\<rparr>, d', l))
         | Some text \<Rightarrow>
             (case decodeClaims dec text of
                None \<Rightarrow> (case malformed of (u, l) \<Rightarrow> (u, d, l))
              | Some received \<Rightarrow>
                  (case receive cs received d of (c, d', l) \<Rightarrow> (\<lparr>i_kind = kind, i_id = i, i_claims = c\<rparr>, d', l)))))"

text \<open>\<open>maps.Copy\<close>: every header written over what the metadata has under its name.\<close>

definition Inject :: "json_enc \<Rightarrow> request_context \<Rightarrow> metadata \<Rightarrow> metadata \<times> logs" where
  "Inject enc ctx md =
     (case Headers enc (Some (From ctx)) of (h, l) \<Rightarrow> (foldl (\<lambda>m (key, value). put key value m) md h, l))"

definition Extract :: "json_dec \<Rightarrow> claim_set option \<Rightarrow> request_context \<Rightarrow> metadata \<Rightarrow> dropped \<Rightarrow> request_context \<times> dropped \<times> logs" where
  "Extract dec cs ctx md d =
     (case FromHeaders dec md cs d of (i, d', l) \<Rightarrow> (With ctx (Some i), d', l))"

section \<open>What travels\<close>

lemma PrincipalFrom_With [simp]:
  "PrincipalFrom (WithPrincipal ctx p) = p" "PrincipalFrom (WithEntry ctx cs) = PrincipalFrom ctx"
  "PrincipalFrom Background = None" "PrincipalFrom (With ctx oi) = PrincipalFrom ctx"
  by (simp_all add: PrincipalFrom_def WithPrincipal_def WithEntry_def Background_def With_def)

lemma From_With: "From (With ctx (Some i)) = i"
  by (simp add: From_def With_def)

lemma pick_filter: "pick cs c = filter (\<lambda>(name, value). carries cs name) c"
  by (induction cs c rule: pick.induct) auto

lemma check_names_ok:
  "check_names allowed errs names = (allowed', errs') \<Longrightarrow>
     set allowed' = set allowed \<union> (set names - set forbiddenClaims - {[]}) \<and> (errs = [] \<longrightarrow> errs' = [] \<longrightarrow> set names \<inter> set forbiddenClaims = {} \<and> [] \<notin> set names) \<and>
     (errs \<noteq> [] \<longrightarrow> errs' \<noteq> [])"
  by (induction allowed errs names rule: check_names.induct) (auto split: if_splits)

lemma NewClaimSet_carries:
  assumes "NewClaimSet names = Inr s"
  shows "carries (Some s) name \<longleftrightarrow> name \<in> set names"
    and "set names \<inter> set forbiddenClaims = {}" and "set (Names (Some s)) = set names" and "[] \<notin> set names"
proof -
  obtain a e where c: "check_names [] [] names = (a, e)" by (cases "check_names [] [] names")
  with assms have "e = []" "s = \<lparr>cs_names = sort a, cs_allowed = a\<rparr>"
    by (auto simp: NewClaimSet_def split: if_splits)
  with check_names_ok [OF c] show "carries (Some s) name \<longleftrightarrow> name \<in> set names"
    "set names \<inter> set forbiddenClaims = {}" "set (Names (Some s)) = set names" "[] \<notin> set names"
    by (auto simp: carries_def Names_def)
qed

text \<open>The claims a context's initiator carries are ones its mark lets through.\<close>

lemma FromHeaders_claims:
  "FromHeaders dec headers cs d = (i, d', l) \<Longrightarrow> (name, v) \<in> set (i_claims i) \<Longrightarrow> carries cs name"
  by (auto simp: FromHeaders_def malformed_def unknown_def receive_def pick_filter Let_def
      split: if_splits option.splits prod.splits)

text \<open>
  C22. What never travels. With a claim set that was accepted, neither the initiator read off an entry
  point's caller nor one restored from a message carries a claim outside the set, nor the scope or any
  registered claim of a token; so no permission is ever handed on.
\<close>

theorem initiator_never_carries:
  assumes "NewClaimSet names = Inr s"
  shows "(\<forall>name v. (name, v) \<in> set (i_claims (From (WithPrincipal (WithEntry ctx (Some s)) p))) \<longrightarrow>
      name \<in> set names \<and> name \<notin> {''scope'', ''iss'', ''sub'', ''aud'', ''exp'', ''nbf'', ''iat'', ''jti''}) \<and>
    (\<forall>name v. (name, v) \<in> set (i_claims (fst (FromHeaders dec headers (Some s) d))) \<longrightarrow>
      name \<in> set names \<and> name \<notin> {''scope'', ''iss'', ''sub'', ''aud'', ''exp'', ''nbf'', ''iat'', ''jti''})"
proof -
  have f: "set forbiddenClaims = {''scope'', ''iss'', ''sub'', ''aud'', ''exp'', ''nbf'', ''iat'', ''jti''}"
    by (simp add: forbiddenClaims_def)
  note c = NewClaimSet_carries [OF assms, unfolded f]
  have "carries (Some s) name" if "(name, v) \<in> set (i_claims (From (WithPrincipal (WithEntry ctx (Some s)) p)))" for name v
    using that by (cases p) (auto simp: From_def WithEntry_def WithPrincipal_def PrincipalFrom_def derive_def pick_filter)
  moreover have "carries (Some s) name" if "(name, v) \<in> set (i_claims (fst (FromHeaders dec headers (Some s) d)))" for name v
    using FromHeaders_claims [of dec headers "Some s" d] that by (metis prod.collapse)
  ultimately show ?thesis using c(1,2) by blast
qed

lemma initiator_never_carries_witness:
  "i_claims (From (WithPrincipal (WithEntry Background (Some \<lparr>cs_names = [''tenant''], cs_allowed = [''tenant'']\<rparr>))
     (Some \<lparr>p_Subject = ''u'', p_Scopes = [], p_Scheme = SchemeJWT, p_Claims = [(''scope'', GString ''a''), (''tenant'', GString ''t'')], implied = None\<rparr>)))
   = [(''tenant'', GString ''t'')] \<and>
   fst ` set (i_claims (fst (FromHeaders (\<lambda>_. None) [] (Some \<lparr>cs_names = [''tenant''], cs_allowed = [''tenant'']\<rparr>) nothing_dropped))) \<subseteq> {''tenant''}"
proof -
  have n: "NewClaimSet [''tenant''] = Inr \<lparr>cs_names = [''tenant''], cs_allowed = [''tenant'']\<rparr>" by code_simp
  from initiator_never_carries [OF n, of Background None "\<lambda>_. None" "[]" nothing_dropped] show ?thesis
    by (simp add: From_def WithEntry_def WithPrincipal_def PrincipalFrom_def derive_def carries_def FromHeaders_def unknown_def lookup_or_def)
qed

section \<open>Round trip and reports\<close>

text \<open>What the JSON of a claims object is documented to give back: the same names, values in JSON's types.\<close>

definition json_ok :: "json_enc \<Rightarrow> json_dec \<Rightarrow> (goval \<Rightarrow> goval) \<Rightarrow> bool" where
  "json_ok enc dec via =
     (\<forall>c t. distinct (map fst c) \<and> enc c = Some t \<longrightarrow>
        (\<exists>c'. dec t = Some (JObject c') \<and> (\<forall>name. map_of c' name = map_option via (map_of c name))))"

lemma map_of_pick: "map_of (pick cs c) name = (if carries cs name then map_of c name else None)"
  by (induction cs c rule: pick.induct) auto

lemma Headers_lookup:
  assumes "Headers enc (Some i) = (h, l)"
  shows "map_of h HeaderKind = Some (Kind (Some i))"
    and "map_of h HeaderID = (if i_id i \<noteq> [] then Some (i_id i) else None)"
    and "map_of h HeaderClaims = (if i_claims i \<noteq> [] then enc (i_claims i) else None)"
    and "k \<notin> set ReservedHeaders \<Longrightarrow> map_of h k = None"
    and "distinct (map fst h)"
  using assms
  by (auto simp: Headers_def initiator_ID_def initiator_Claims_def Let_def header_names ReservedHeaders_def
      split: if_splits option.splits)

lemma map_of_foldl_put:
  "distinct (map fst h) \<Longrightarrow>
     map_of (foldl (\<lambda>m (key, value). put key value m) md h) k = (case map_of h k of None \<Rightarrow> map_of md k | Some v \<Rightarrow> Some v)"
proof (induction h arbitrary: md)
  case (Cons kv h)
  obtain key v where kv: "kv = (key, v)" by (cases kv)
  have "map_of h key = None" using Cons.prems kv by (simp add: map_of_eq_None_iff)
  with Cons kv show ?case by (auto split: option.splits)
qed simp

lemma forbidden_claim_iff:
  "list_ex (\<lambda>(name, value). name \<in> set forbiddenClaims) c \<longleftrightarrow> fst ` set c \<inter> set forbiddenClaims \<noteq> {}"
  by (induction c) auto

lemma Kind_not_Nil: "Kind (Some i) \<noteq> []"
  by (simp add: Kind_def kinds)

text \<open>
  Work handed on arrives as what it was. What \<open>Inject\<close> writes into the metadata of a message,
  \<open>Extract\<close> restores: the kind, the ID, and every claim the receiver's set lists, in JSON's types; the
  metadata's other entries are untouched, and whatever it had under the reserved names is overwritten
  or, when it is cleared first, gone.
\<close>

lemma inject_extract:
  assumes "json_ok enc dec via" "Inject enc ctx (WithoutHeaders md) = (md', [])"
    and "distinct (map fst (i_claims (From ctx)))" "set (map fst (i_claims (From ctx))) \<inter> set forbiddenClaims = {}"
    and "Extract dec cs ctx' md' d = (ctx'', d', l)"
  shows "i_kind (From ctx'') = Kind (Some (From ctx)) \<and> i_id (From ctx'') = i_id (From ctx) \<and>
    (\<forall>name. map_of (i_claims (From ctx'')) name =
       (if carries cs name then map_option via (map_of (i_claims (From ctx)) name) else None)) \<and>
    (\<forall>k. k \<notin> set ReservedHeaders \<longrightarrow> map_of md' k = map_of md k)"
proof -
  let ?i = "From ctx"
  obtain h where h: "Headers enc (Some ?i) = (h, [])" "md' = foldl (\<lambda>m (key, value). put key value m) (WithoutHeaders md) h"
    using assms(2) by (auto simp: Inject_def split: prod.splits)
  note hl = Headers_lookup [OF h(1)]
  have wo: "map_of (WithoutHeaders md) k = (if k \<in> set ReservedHeaders then None else map_of md k)" for k
    by (induction md) (auto simp: WithoutHeaders_def IsReservedHeader_def)
  have res: "HeaderKind \<in> set ReservedHeaders" "HeaderID \<in> set ReservedHeaders" "HeaderClaims \<in> set ReservedHeaders"
    by (simp_all add: ReservedHeaders_def)
  have m: "map_of md' k = (case map_of h k of None \<Rightarrow> if k \<in> set ReservedHeaders then None else map_of md k | Some v \<Rightarrow> Some v)" for k
    by (simp only: h(2) map_of_foldl_put [OF hl(5)] wo)
  have kept: "\<forall>k. k \<notin> set ReservedHeaders \<longrightarrow> map_of md' k = map_of md k" using m hl(4) by simp
  have kind: "lookup_or [] md' HeaderKind = Kind (Some ?i)" "lookup_or [] md' HeaderID = i_id ?i"
    using m hl(1,2) res by (simp_all add: lookup_or_def)
  have raw: "map_of md' HeaderClaims = (if i_claims ?i \<noteq> [] then enc (i_claims ?i) else None)"
    using m [of HeaderClaims] hl(3) res by (simp split: option.splits)
  obtain i where i: "fst (FromHeaders dec md' cs d) = i" "From ctx'' = i"
    using assms(5) From_With by (auto simp: Extract_def split: prod.splits)
  have "i_kind i = Kind (Some ?i) \<and> i_id i = i_id ?i \<and>
    (\<forall>name. map_of (i_claims i) name = (if carries cs name then map_option via (map_of (i_claims ?i) name) else None))"
  proof (cases "i_claims ?i = []")
    case True
    with raw kind i(1) Kind_not_Nil show ?thesis by (auto simp: FromHeaders_def Let_def receive_def)
  next
    case False
    with h(1) obtain t where t: "enc (i_claims ?i) = Some t"
      by (auto simp: Headers_def initiator_Claims_def Let_def split: option.splits)
    with assms(1,3) obtain c' where c': "dec t = Some (JObject c')" "\<forall>name. map_of c' name = map_option via (map_of (i_claims ?i) name)"
      unfolding json_ok_def by blast
    have "map_of c' name = None \<longleftrightarrow> map_of (i_claims ?i) name = None" for name
      using c'(2) by simp
    then have "fst ` set c' = fst ` set (i_claims ?i)"
      unfolding map_of_eq_None_iff by blast
    then have "\<not> list_ex (\<lambda>(name, value). name \<in> set forbiddenClaims) c'"
      using assms(4) by (simp add: forbidden_claim_iff)
    with c'(1) have "decodeClaims dec t = Some c'" by (simp add: decodeClaims_def)
    with False t raw kind Kind_not_Nil have "fst (FromHeaders dec md' cs d) = \<lparr>i_kind = Kind (Some ?i), i_id = i_id ?i, i_claims = pick cs c'\<rparr>"
      by (simp add: FromHeaders_def Let_def receive_def split: prod.splits)
    with i(1) c'(2) map_of_pick show ?thesis by (metis initiator.select_convs)
  qed
  with i(2) kept show ?thesis by simp
qed

lemma inject_extract_example:
  "i_kind (From (fst (Extract (\<lambda>s. if s = ''J'' then Some (JObject [(''tenant'', GString ''t'')]) else None)
      (Some \<lparr>cs_names = [''tenant''], cs_allowed = [''tenant'']\<rparr>) Background
      [(''k'', ''v''), (HeaderKind, ''app_user''), (HeaderID, ''u''), (HeaderClaims, ''J'')] nothing_dropped))) = ''app_user''"
proof -
  let ?enc = "\<lambda>c. if c = [(''tenant'', GString ''t'')] then Some ''J'' else None"
  let ?dec = "\<lambda>s. if s = ''J'' then Some (JObject [(''tenant'', GString ''t'')]) else None"
  let ?cs = "Some \<lparr>cs_names = [''tenant''], cs_allowed = [''tenant'']\<rparr>"
  let ?i = "\<lparr>i_kind = ''app_user'', i_id = ''u'', i_claims = [(''tenant'', GString ''t'')]\<rparr>"
  let ?md = "[(''k'', ''v''), (HeaderKind, ''app_user''), (HeaderID, ''u''), (HeaderClaims, ''J'')]"
  have j: "json_ok ?enc ?dec (\<lambda>v. v)" by (simp add: json_ok_def option.map_ident)
  have f: "From (With Background (Some ?i)) = ?i" by (rule From_With)
  have i: "Inject ?enc (With Background (Some ?i)) (WithoutHeaders [(''k'', ''v''), (HeaderID, ''spoofed'')]) = (?md, [])"
    unfolding Inject_def f
    by (simp add: WithoutHeaders_def IsReservedHeader_def ReservedHeaders_def header_names Headers_def Kind_def
        initiator_ID_def initiator_Claims_def)
  obtain ctx d' l where e: "Extract ?dec ?cs Background ?md nothing_dropped = (ctx, d', l)"
    using prod_cases3 by blast
  from inject_extract [OF j i _ _ e] show ?thesis
    by (simp add: f e forbiddenClaims_def Kind_def)
qed

text \<open>
  A message whose initiator cannot be read says so rather than guessing: an ID or claims without a
  kind, or claims that are no JSON object or name a forbidden claim, are restored as unknown, without an
  ID or any claim, and the record of it is written; no initiator at all is unknown without a record.
\<close>

theorem unreadable_is_unknown:
  assumes "FromHeaders dec headers cs d = (i, d', l)"
  shows "(lookup_or [] headers HeaderKind = [] \<longrightarrow> i = unknown \<and> d' = d \<and>
      (l = [] \<longleftrightarrow> lookup_or [] headers HeaderID = [] \<and> map_of headers HeaderClaims = None)) \<and>
    (\<forall>text. map_of headers HeaderClaims = Some text \<and>
       (dec text = None \<or> dec text = Some JOther \<or>
        (\<exists>object. dec text = Some (JObject object) \<and> fst ` set object \<inter> set forbiddenClaims \<noteq> {})) \<longrightarrow>
       i = unknown \<and> d' = d \<and> l = [(Warn, LogTypeHeaderMalformed)])"
proof -
  have "decodeClaims dec raw = None"
    if "dec raw = None \<or> dec raw = Some JOther \<or>
      (\<exists>object. dec raw = Some (JObject object) \<and> fst ` set object \<inter> set forbiddenClaims \<noteq> {})" for raw
    using that by (elim disjE exE conjE) (simp_all add: decodeClaims_def forbidden_claim_iff)
  then have "i = unknown \<and> d' = d \<and> l = [(Warn, LogTypeHeaderMalformed)]"
    if "map_of headers HeaderClaims = Some raw" "dec raw = None \<or> dec raw = Some JOther \<or>
      (\<exists>object. dec raw = Some (JObject object) \<and> fst ` set object \<inter> set forbiddenClaims \<noteq> {})" for raw
    using assms that by (simp add: FromHeaders_def malformed_def Let_def split: if_splits)
  moreover have "i = unknown \<and> d' = d \<and>
      (l = [] \<longleftrightarrow> lookup_or [] headers HeaderID = [] \<and> map_of headers HeaderClaims = None)"
    if "lookup_or [] headers HeaderKind = []"
    using assms that by (auto simp: FromHeaders_def malformed_def Let_def split: if_splits)
  ultimately show ?thesis by blast
qed

lemma unreadable_is_unknown_witness:
  "unknown = \<lparr>i_kind = ''unknown'', i_id = [], i_claims = []\<rparr> \<and>
   fst (FromHeaders (\<lambda>_. Some JOther) [(HeaderKind, ''app_user''), (HeaderID, ''u''), (HeaderClaims, ''[]'')] None nothing_dropped) = unknown"
  using unreadable_is_unknown [of "\<lambda>_. Some JOther" "[(HeaderKind, ''app_user''), (HeaderID, ''u''), (HeaderClaims, ''[]'')]" None nothing_dropped]
  by (auto simp: header_names unknown_def kinds) (metis prod.collapse)

text \<open>Any number of messages through one claim set.\<close>

fun receive_all :: "claim_set option \<Rightarrow> claims list \<Rightarrow> dropped \<Rightarrow> dropped \<times> logs" where
  "receive_all cs [] d = (d, [])"
| "receive_all cs (c # rest) d =
     (case receive cs c d of (_, d', l) \<Rightarrow> (case receive_all cs rest d' of (d'', l') \<Rightarrow> (d'', l @ l')))"

definition report_count :: "dropped \<Rightarrow> nat" where
  "report_count d = length (dl_reported d) + (if dl_saturated d then 1 else 0)"

lemma reportDropped_count:
  "reportDropped cs name d = (d', l) \<Longrightarrow> length (dl_reported d) \<le> 32 \<Longrightarrow> distinct (dl_reported d) \<Longrightarrow>
     length (dl_reported d') \<le> 32 \<and> distinct (dl_reported d') \<and> report_count d' = report_count d + length l"
  by (auto simp: reportDropped_def MaxReportedDroppedClaims_def report_count_def split: option.splits if_splits)

lemma report_all_count:
  "report_all cs c d = (d', l) \<Longrightarrow> length (dl_reported d) \<le> 32 \<Longrightarrow> distinct (dl_reported d) \<Longrightarrow>
     length (dl_reported d') \<le> 32 \<and> distinct (dl_reported d') \<and> report_count d' = report_count d + length l"
proof (induction cs c d arbitrary: d' l rule: report_all.induct)
  case (2 cs name v c d)
  show ?case
  proof (cases "carries cs name")
    case True
    with 2 show ?thesis by simp
  next
    case False
    obtain d1 l1 where r: "reportDropped cs name d = (d1, l1)" by (cases "reportDropped cs name d")
    obtain d2 l2 where a: "report_all cs c d1 = (d2, l2)" by (cases "report_all cs c d1")
    with False r 2(3) have "d' = d2" "l = l1 @ l2" by simp_all
    with reportDropped_count [OF r 2(4,5)] 2(1) [OF False r [symmetric] a] show ?thesis by simp
  qed
qed simp

lemma receive_all_count:
  "receive_all cs cc d = (d', l) \<Longrightarrow> length (dl_reported d) \<le> 32 \<Longrightarrow> distinct (dl_reported d) \<Longrightarrow>
     length (dl_reported d') \<le> 32 \<and> distinct (dl_reported d') \<and> report_count d' = report_count d + length l"
proof (induction cc arbitrary: d d' l)
  case (Cons c rest)
  obtain d1 l1 where r: "report_all cs c d = (d1, l1)" by (cases "report_all cs c d")
  obtain d2 l2 where a: "receive_all cs rest d1 = (d2, l2)" by (cases "receive_all cs rest d1")
  with r Cons.prems(1) have "d' = d2" "l = l1 @ l2" by (simp_all add: receive_def)
  with report_all_count [OF r Cons.prems(2,3)] Cons.IH [OF a] show ?case by simp
qed simp

text \<open>
  However many messages arrive with claims this application does not carry, whatever a sender
  names them, at most 32 names are reported, each once, and one record says there were more.
\<close>

theorem dropped_reports_bounded:
  assumes "receive_all cs cc nothing_dropped = (d, l)"
  shows "length l \<le> 33 \<and> length (dl_reported d) \<le> 32 \<and> distinct (dl_reported d)"
  using receive_all_count [OF assms] by (auto simp: nothing_dropped_def report_count_def split: if_splits)

lemma dropped_reports_bounded_witness:
  "length (snd (receive_all (Some \<lparr>cs_names = [], cs_allowed = []\<rparr>) [[(''a'', GNil)], [(''a'', GNil), (''b'', GNil)]] nothing_dropped)) \<le> 33"
  using dropped_reports_bounded [of "Some \<lparr>cs_names = [], cs_allowed = []\<rparr>" "[[(''a'', GNil)], [(''a'', GNil), (''b'', GNil)]]"]
  by (metis prod.collapse)

end
