(* ===== verification/Verifier.thy ===== *)
theory Verifier
  imports KeyStores SessionStore Initiator
begin

text \<open>
  Turning the credentials on a request into a caller (\<open>internal/plamo/authkit/verifier.go\<close>,
  \<open>schemes.go\<close>) and the wiring of the application (\<open>internal/app/auth/auth.go\<close>).

  What is not under \<open>src/\<close> is a parameter: \<open>jwt\<close> is \<open>jwt.Parse\<close> (the claims of a token that
  verifies under a key function and the options, or an error), \<open>jwks\<close> is fetching a key set.
  A request is what its accessors answer. \<open>'s\<close> is whatever the stores depend on.
\<close>

section \<open>Requests\<close>

record request =
  rq_Method :: string
  rq_Path :: string
  rq_Host :: string
  rq_Header :: "string \<Rightarrow> string option"
  rq_Cookie :: "string \<Rightarrow> string option"
  rq_PathParam :: "string \<Rightarrow> string option"
  rq_Query :: "string \<Rightarrow> string option"
  rq_ctx :: request_context

definition LogTypeSessionRejected :: string where
  "LogTypeSessionRejected = ''session_rejected_log''"
definition LogTypeSessionStoreUnavailable :: string where
  "LogTypeSessionStoreUnavailable = ''session_store_unavailable_log''"

section \<open>The verifier\<close>

datatype jwt_keyfunc = SharedSecret string | KeySet string

datatype parser_opt = WithValidMethods "string list" | WithExpirationRequired | WithIssuer string | WithAudience string

type_synonym jwt_parse = "jwt_keyfunc \<Rightarrow> parser_opt list \<Rightarrow> string \<Rightarrow> claims option result"

text \<open>\<open>appconfig.Auth\<close>, as far as it is read.\<close>

record auth_config =
  ac_Mode :: string
  ac_Secret :: string
  ac_JWKSURL :: string
  ac_Issuer :: string
  ac_Audience :: string
  ac_APIKeyHeader :: string
  ac_APIKeys :: "string list"
  ac_Session :: "auth_session option"
  ac_AcceptsAPIKeys :: bool             \<comment> \<open>the configuration package's own method\<close>

record 's verifier =
  jwtKeyfunc :: "jwt_keyfunc option"
  parserOpts :: "parser_opt list"
  apiKeyHeader :: string
  keys :: "('s \<Rightarrow> string \<Rightarrow> principal option result) option"
  sessions :: "(string \<Rightarrow> 's \<Rightarrow> session result \<times> 's) option"
  cookies :: "config option"

record verify_result =
  vr_Principal :: "principal option"
  vr_Discard :: "cookie list"

definition no_caller :: verify_result where
  "no_caller = \<lparr>vr_Principal = None, vr_Discard = []\<rparr>"

definition defaultAPIKeyHeader :: string where
  "defaultAPIKeyHeader = ''X-API-Key''"

definition parserOptions :: "auth_config \<Rightarrow> string \<Rightarrow> parser_opt list" where
  "parserOptions cfg method =
     [WithValidMethods [method], WithExpirationRequired] @
     (if ac_Issuer cfg \<noteq> [] then [WithIssuer (ac_Issuer cfg)] else []) @
     (if ac_Audience cfg \<noteq> [] then [WithAudience (ac_Audience cfg)] else [])"

definition jwksKeyfunc :: "(string \<Rightarrow> goerr option) \<Rightarrow> auth_config \<Rightarrow> jwt_keyfunc result" where
  "jwksKeyfunc jwks cfg =
     (case jwks (ac_JWKSURL cfg) of
        Some e \<Rightarrow> Inl (Errorf ''authkit: reading the key set from %s: %w'' [ac_JWKSURL cfg] [e])
      | None \<Rightarrow> Inr (KeySet (ac_JWKSURL cfg)))"

definition configureSessions :: "auth_config \<Rightarrow> 's verifier \<Rightarrow> 's verifier result" where
  "configureSessions cfg v =
     (case ac_Session cfg of
        None \<Rightarrow>
          if sessions v \<noteq> None then
            Inl (Errorf ''authkit: a session store was given but AUTH_SESSION_STORE is not set'' [] [])
          else Inr v
      | Some s \<Rightarrow>
          if sessions v = None then
            Inl (Errorf ''authkit: AUTH_SESSION_STORE is set but no session store was given'' [] [])
          else case NewConfig (Some s) of Inl e \<Rightarrow> Inl e | Inr c \<Rightarrow> Inr (v\<lparr>cookies := Some c\<rparr>))"

definition configureJWT :: "(string \<Rightarrow> goerr option) \<Rightarrow> auth_config \<Rightarrow> 's verifier \<Rightarrow> 's verifier result" where
  "configureJWT jwks cfg v =
     (if ac_Mode cfg = [] then Inr v
      else if ac_Mode cfg = ''hs256'' then
        (if ac_Secret cfg = [] then Inl (Errorf ''authkit: %s mode needs AUTH_SECRET'' [''hs256''] [])
         else Inr (v\<lparr>jwtKeyfunc := Some (SharedSecret (ac_Secret cfg)), parserOpts := parserOptions cfg ''HS256''\<rparr>))
      else if ac_Mode cfg = ''jwks'' then
        (if ac_JWKSURL cfg = [] then Inl (Errorf ''authkit: %s mode needs AUTH_JWKS_URL'' [''jwks''] [])
         else case jwksKeyfunc jwks cfg of
           Inl e \<Rightarrow> Inl e
         | Inr k \<Rightarrow> Inr (v\<lparr>jwtKeyfunc := Some k, parserOpts := parserOptions cfg ''RS256''\<rparr>))
      else Inl (Errorf ''authkit: unknown AUTH_MODE %q: must be %q or %q'' [ac_Mode cfg, ''hs256'', ''jwks''] []))"

definition new_verifier :: "auth_config \<Rightarrow> ('s \<Rightarrow> string \<Rightarrow> principal option result) option
    \<Rightarrow> (string \<Rightarrow> 's \<Rightarrow> session result \<times> 's) option \<Rightarrow> 's verifier" where
  "new_verifier cfg ks ss = \<lparr>jwtKeyfunc = None, parserOpts = [],
     apiKeyHeader = (if ac_APIKeyHeader cfg = [] then defaultAPIKeyHeader else ac_APIKeyHeader cfg),
     keys = (if ks = None \<and> ac_APIKeys cfg \<noteq> [] then Some (\<lambda>_. staticKeyStore (ac_APIKeys cfg)) else ks),
     sessions = ss, cookies = None\<rparr>"

definition NewVerifier :: "(string \<Rightarrow> goerr option) \<Rightarrow> auth_config option
    \<Rightarrow> ('s \<Rightarrow> string \<Rightarrow> principal option result) option
    \<Rightarrow> (string \<Rightarrow> 's \<Rightarrow> session result \<times> 's) option \<Rightarrow> 's verifier result" where
  "NewVerifier jwks config ks ss =
     (case config of
        None \<Rightarrow> Inl (Errorf ''authkit: no auth configuration'' [] [])
      | Some cfg \<Rightarrow>
          (case configureSessions cfg (new_verifier cfg ks ss) of
             Inl e \<Rightarrow> Inl e
           | Inr v \<Rightarrow> configureJWT jwks cfg v))"

section \<open>Verify\<close>

definition authorizationHeader :: string where "authorizationHeader = ''Authorization''"
definition bearerPrefix :: string where "bearerPrefix = ''Bearer ''"
definition scopeClaim :: string where "scopeClaim = ''scope''"

definition scopesOf :: "claims \<Rightarrow> string list" where
  "scopesOf c = (case map_of c scopeClaim of Some (GString scope) \<Rightarrow> Fields scope | _ \<Rightarrow> [])"

text \<open>\<open>None\<close> is no credential; an empty token is a header that is not a bearer token.\<close>

definition bearerToken :: "request \<Rightarrow> string option" where
  "bearerToken r =
     (case rq_Header r authorizationHeader of
        None \<Rightarrow> None
      | Some value \<Rightarrow>
          if value = [] then None
          else if HasPrefix value bearerPrefix then Some (TrimSpace (drop (length bearerPrefix) value))
          else Some [])"

definition verifyJWT :: "jwt_parse \<Rightarrow> 's verifier \<Rightarrow> string \<Rightarrow> principal option result" where
  "verifyJWT jwt v token =
     (case jwtKeyfunc v of
        None \<Rightarrow> Inl (Errorf ''%w: this application does not accept tokens'' [] [Sentinel ErrInvalidCredential])
      | Some k \<Rightarrow>
          if token = [] then
            Inl (Errorf ''%w: the Authorization header is not a bearer token'' [] [Sentinel ErrInvalidCredential])
          else case jwt k (parserOpts v) token of
            Inl e \<Rightarrow> Inl (Errorf ''%w: %w'' [] [Sentinel ErrInvalidCredential, e])
          | Inr None \<Rightarrow> Inl (Errorf ''%w: unexpected claims shape'' [] [Sentinel ErrInvalidCredential])
          | Inr (Some c) \<Rightarrow>
              Inr (Some \<lparr>p_Subject = (case map_of c ''sub'' of Some (GString s) \<Rightarrow> s | _ \<Rightarrow> []),
                p_Scopes = scopesOf c, p_Scheme = SchemeJWT, p_Claims = c, implied = None\<rparr>))"

definition verifyAPIKey :: "'s verifier \<Rightarrow> string \<Rightarrow> 's \<Rightarrow> principal option result" where
  "verifyAPIKey v key s =
     (case keys v of
        None \<Rightarrow> Inl (Errorf ''%w: this application does not accept API keys'' [] [Sentinel ErrInvalidCredential])
      | Some lookup \<Rightarrow>
          (case lookup s key of
             Inr p \<Rightarrow> Inr p
           | Inl e \<Rightarrow>
               if errors_is e ErrKeyNotFound then Inl (Errorf ''%w: %w'' [] [Sentinel ErrInvalidCredential, e])
               else Inl (Errorf ''%w: %w'' [] [Sentinel ErrCredentialUnavailable, e])))"

text \<open>\<open>cookies\<close> is never nil while \<open>sessions\<close> is not (\<open>NewVerifier_wired\<close> below).\<close>

definition verifySession :: "'s verifier \<Rightarrow> request \<Rightarrow> 's \<Rightarrow> verify_result result \<times> 's \<times> logs" where
  "verifySession v r s =
     (case (sessions v, cookies v) of
        (Some lookup, Some cfg) \<Rightarrow>
          (case rq_Cookie r (CookieName cfg) of
             None \<Rightarrow> (Inr no_caller, s, [])
           | Some i \<Rightarrow>
               if i = [] then (Inr no_caller, s, [])
               else (case lookup i s of
                 (Inr t, s') \<Rightarrow> (Inr \<lparr>vr_Principal = PrincipalOf (Snapshot t), vr_Discard = []\<rparr>, s', [])
               | (Inl e, s') \<Rightarrow>
                   if errors_is e ErrSessionNotFound then
                     (Inr \<lparr>vr_Principal = None, vr_Discard = [Discard cfg]\<rparr>, s', [(Info, LogTypeSessionRejected)])
                   else
                     (Inl (Errorf ''%w: %w'' [] [Sentinel ErrCredentialUnavailable, e]), s',
                      [(Error, LogTypeSessionStoreUnavailable)])))
      | _ \<Rightarrow> (Inr no_caller, s, []))"

definition caller_result :: "principal option result \<Rightarrow> verify_result result" where
  "caller_result r = (case r of Inl e \<Rightarrow> Inl e | Inr p \<Rightarrow> Inr \<lparr>vr_Principal = p, vr_Discard = []\<rparr>)"

definition api_key :: "'s verifier \<Rightarrow> request \<Rightarrow> string option" where
  "api_key v r = (case rq_Header r (apiKeyHeader v) of None \<Rightarrow> None | Some key \<Rightarrow> if key = [] then None else Some key)"

definition Verify :: "jwt_parse \<Rightarrow> 's verifier \<Rightarrow> request \<Rightarrow> 's \<Rightarrow> verify_result result \<times> 's \<times> logs" where
  "Verify jwt v r s =
     (case bearerToken r of
        Some token \<Rightarrow> (caller_result (verifyJWT jwt v token), s, [])
      | None \<Rightarrow>
          (case api_key v r of
             Some key \<Rightarrow> (caller_result (verifyAPIKey v key s), s, [])
           | None \<Rightarrow> verifySession v r s))"

definition Schemes :: "'s verifier \<Rightarrow> string list" where
  "Schemes v =
     (if jwtKeyfunc v \<noteq> None then [SchemeJWT] else []) @
     (if keys v \<noteq> None then [SchemeAPIKey] else []) @
     (if sessions v \<noteq> None then [SchemeSession] else [])"

definition ConfiguredSchemes :: "auth_config option \<Rightarrow> string list" where
  "ConfiguredSchemes config =
     (case config of
        None \<Rightarrow> []
      | Some cfg \<Rightarrow>
          (if ac_Secret cfg \<noteq> [] \<or> ac_JWKSURL cfg \<noteq> [] then [SchemeJWT] else []) @
          (if ac_AcceptsAPIKeys cfg then [SchemeAPIKey] else []) @
          (if ac_Session cfg \<noteq> None then [SchemeSession] else []))"

section \<open>What the stores promise the verifier\<close>

text \<open>\<open>sessionkit.Store\<close> as its client sees it: a session that is answered has a caller in it.\<close>

locale session_lookup =
  fixes find :: "string \<Rightarrow> 's \<Rightarrow> session result \<times> 's"
  assumes found: "find i s = (Inr t, s') \<Longrightarrow> i \<noteq> [] \<and> Snapshot t \<noteq> None"
begin

lemma restores:
  "find i s = (Inr t, s') \<Longrightarrow>
     \<exists>p. PrincipalOf (Snapshot t) = Some p \<and> p_Scheme p = SchemeSession \<and> implied p = None"
  using found [of i s t s'] by (auto simp: PrincipalOf_def)

end

interpretation cache_store: session_lookup "Lookup ops cfg now" for ops cfg now
proof
  fix i s t s'
  assume "Lookup ops cfg now i s = (Inr t, s')"
  then obtain s0 where l: "lookup_live ops cfg now i s = (Inr s0, s)" and u: "touch ops cfg s0 now s = (Inr t, s')"
    by (rule Lookup_Inr)
  from touch_Inr [OF u] have "Snapshot t = Snapshot s0" by (metis session.select_convs(2) session.surjective session.update_convs(6))
  with lookup_live_Inr [OF l] show "i \<noteq> [] \<and> Snapshot t \<noteq> None" by simp
qed

section \<open>Construction\<close>

lemma configureSessions_Inr:
  "configureSessions cfg v = Inr v' \<Longrightarrow>
     (\<exists>c. v' = v\<lparr>cookies := c\<rparr>) \<and> (sessions v \<noteq> None \<longleftrightarrow> ac_Session cfg \<noteq> None) \<and>
     (sessions v \<noteq> None \<longrightarrow> (\<exists>c. cookies v' = Some c \<and> config_ok c))"
  by (auto simp: configureSessions_def NewConfig_def Let_def Validate_None_iff split: option.splits if_splits sum.splits
      intro: exI [of _ "cookies v"])

lemma verifier_as_update: "\<exists>k os. v = v\<lparr>jwtKeyfunc := k, parserOpts := os\<rparr>"
  by (intro exI [of _ "jwtKeyfunc v"] exI [of _ "parserOpts v"]) simp

lemma configureJWT_Inr:
  "configureJWT jwks cfg v = Inr v' \<Longrightarrow>
     (\<exists>k os. v' = v\<lparr>jwtKeyfunc := k, parserOpts := os\<rparr>) \<and>
     (if ac_Mode cfg = [] then v' = v
      else (\<exists>k m. jwtKeyfunc v' = Some k \<and> parserOpts v' = parserOptions cfg m \<and>
        (m = ''HS256'' \<and> k = SharedSecret (ac_Secret cfg) \<and> ac_Secret cfg \<noteq> [] \<or> m = ''RS256'' \<and> k = KeySet (ac_JWKSURL cfg))))"
  using verifier_as_update [of v]
  by (auto simp: configureJWT_def jwksKeyfunc_def split: if_splits sum.splits option.splits)

text \<open>
  A verifier that is built has what it needs: sessions and their cookie writer come together and
  exactly when the configuration names them, and wherever tokens are accepted exactly one signing
  method is pinned, the one the key is for, and an expiry is required.
\<close>

theorem NewVerifier_wired:
  assumes "NewVerifier jwks (Some cfg) ks ss = Inr v"
  shows "(sessions v \<noteq> None \<longleftrightarrow> ac_Session cfg \<noteq> None) \<and> (sessions v \<noteq> None \<longrightarrow> (\<exists>c. cookies v = Some c \<and> config_ok c)) \<and>
    apiKeyHeader v \<noteq> [] \<and>
    (\<forall>k. jwtKeyfunc v = Some k \<longrightarrow> WithExpirationRequired \<in> set (parserOpts v) \<and>
       {ms. WithValidMethods ms \<in> set (parserOpts v)} =
         {case k of SharedSecret _ \<Rightarrow> [''HS256''] | KeySet _ \<Rightarrow> [''RS256'']} \<and>
       (\<forall>secret. k = SharedSecret secret \<longrightarrow> secret \<noteq> []))"
proof -
  define v0 where "v0 = new_verifier cfg ks ss"
  then have v0: "jwtKeyfunc v0 = None" "sessions v0 = ss" "apiKeyHeader v0 \<noteq> []"
    by (simp_all add: new_verifier_def defaultAPIKeyHeader_def)
  from assms obtain v1 where v1: "configureSessions cfg v0 = Inr v1" and v2: "configureJWT jwks cfg v1 = Inr v"
    by (auto simp: NewVerifier_def v0_def split: sum.splits)
  note s = configureSessions_Inr [OF v1] and j = configureJWT_Inr [OF v2]
  from s obtain c where c: "v1 = v0\<lparr>cookies := c\<rparr>" by blast
  from j obtain k os where "v = v1\<lparr>jwtKeyfunc := k, parserOpts := os\<rparr>" by blast
  then have same: "sessions v = sessions v0" "cookies v = cookies v1" "apiKeyHeader v = apiKeyHeader v0"
    using c by simp_all
  have "WithExpirationRequired \<in> set (parserOpts v) \<and>
       {ms. WithValidMethods ms \<in> set (parserOpts v)} = {case k of SharedSecret _ \<Rightarrow> [''HS256''] | KeySet _ \<Rightarrow> [''RS256'']} \<and>
       (\<forall>secret. k = SharedSecret secret \<longrightarrow> secret \<noteq> [])" if "jwtKeyfunc v = Some k" for k
    using j that v0(1) c by (auto simp: parserOptions_def split: if_splits)
  then show ?thesis using same s v0(3) by auto
qed

definition demo_auth :: auth_config where
  "demo_auth = \<lparr>ac_Mode = ''hs256'', ac_Secret = ''k'', ac_JWKSURL = [], ac_Issuer = ''i'', ac_Audience = [],
     ac_APIKeyHeader = [], ac_APIKeys = [''key''], ac_Session = None, ac_AcceptsAPIKeys = True\<rparr>"

definition demo_verifier :: "unit verifier" where
  "demo_verifier = \<lparr>jwtKeyfunc = Some (SharedSecret ''k''),
     parserOpts = [WithValidMethods [''HS256''], WithExpirationRequired, WithIssuer ''i''],
     apiKeyHeader = ''X-API-Key'', keys = Some (\<lambda>_. staticKeyStore [''key'']), sessions = None, cookies = None\<rparr>"

lemma demo_verifier_built: "NewVerifier (\<lambda>_. None) (Some demo_auth) None None = Inr demo_verifier"
  by (simp add: NewVerifier_def new_verifier_def demo_auth_def demo_verifier_def configureSessions_def configureJWT_def parserOptions_def
      defaultAPIKeyHeader_def)

lemma NewVerifier_wired_witness:
  "{ms. WithValidMethods ms \<in> set (parserOpts demo_verifier)} = {[''HS256'']}"
  using NewVerifier_wired [OF demo_verifier_built] by (simp add: demo_verifier_def)

section \<open>Verification\<close>

lemma verifySession_cases:
  obtains "verifySession v r s = (Inr no_caller, s, [])"
  | (found) lookup cfg i t s' where "sessions v = Some lookup" "lookup i s = (Inr t, s')" "i \<noteq> []"
      "verifySession v r s = (Inr \<lparr>vr_Principal = PrincipalOf (Snapshot t), vr_Discard = []\<rparr>, s', [])"
  | (gone) lookup cfg i e s' where "sessions v = Some lookup" "cookies v = Some cfg" "rq_Cookie r (CookieName cfg) = Some i"
      "lookup i s = (Inl e, s')" "errors_is e ErrSessionNotFound" "i \<noteq> []"
      "verifySession v r s = (Inr \<lparr>vr_Principal = None, vr_Discard = [Discard cfg]\<rparr>, s', [(Info, LogTypeSessionRejected)])"
  | (outage) lookup i e s' where "sessions v = Some lookup" "lookup i s = (Inl e, s')" "\<not> errors_is e ErrSessionNotFound"
      "verifySession v r s = (Inl (Errorf ''%w: %w'' [] [Sentinel ErrCredentialUnavailable, e]), s', [(Error, LogTypeSessionStoreUnavailable)])"
proof (cases "\<exists>lookup cfg i. sessions v = Some lookup \<and> cookies v = Some cfg \<and> rq_Cookie r (CookieName cfg) = Some i \<and> i \<noteq> []")
  case False
  then have "verifySession v r s = (Inr no_caller, s, [])"
    by (auto simp: verifySession_def split: option.splits)
  then show thesis by (rule that(1))
next
  case True
  then obtain lookup cfg i where *: "sessions v = Some lookup" "cookies v = Some cfg"
    "rq_Cookie r (CookieName cfg) = Some i" "i \<noteq> []" by blast
  obtain q s' where q: "lookup i s = (q, s')" by (cases "lookup i s")
  show thesis
  proof (cases q)
    case (Inl e)
    with q * that(3,4) show thesis
      by (cases "errors_is e ErrSessionNotFound") (simp_all add: verifySession_def)
  next
    case (Inr t)
    with q * that(2) show thesis by (simp add: verifySession_def)
  qed
qed

text \<open>
  C7. A header beats a cookie: whenever the request carries an Authorization header or an API key,
  the answer does not depend on any cookie, no session is looked up and no cookie is taken back.
\<close>

theorem Verify_header_first:
  assumes "(\<exists>a. rq_Header r authorizationHeader = Some a \<and> a \<noteq> []) \<or> (\<exists>k. rq_Header r (apiKeyHeader v) = Some k \<and> k \<noteq> [])"
  shows "Verify jwt v r s = Verify jwt v (r\<lparr>rq_Cookie := any\<rparr>) s \<and> fst (snd (Verify jwt v r s)) = s \<and>
    snd (snd (Verify jwt v r s)) = [] \<and> (\<forall>vr. fst (Verify jwt v r s) = Inr vr \<longrightarrow> vr_Discard vr = [])"
  using assms
  by (auto simp: Verify_def bearerToken_def api_key_def caller_result_def split: option.splits sum.splits)

definition demo_request :: "string \<Rightarrow> string \<Rightarrow> request" where
  "demo_request h value = \<lparr>rq_Method = ''GET'', rq_Path = ''/'', rq_Host = ''h'',
     rq_Header = (\<lambda>n. if n = h then Some value else None), rq_Cookie = (\<lambda>_. Some ''AA''),
     rq_PathParam = (\<lambda>_. None), rq_Query = (\<lambda>_. None), rq_ctx = Background\<rparr>"

lemma Verify_header_first_witness:
  "snd (snd (Verify (\<lambda>_ _ _. Inr (Some [])) demo_verifier (demo_request ''X-API-Key'' ''key'') ())) = []"
  using Verify_header_first [of "demo_request ''X-API-Key'' ''key''" demo_verifier]
  by (simp add: demo_request_def demo_verifier_def)

text \<open>
  C8. What a refusal means. An error says \<open>ErrInvalidCredential\<close> only for a token or an API key that
  was presented, and a key the store knows nothing of is one; a store that could not be asked, for a
  key or for a session, is \<open>ErrCredentialUnavailable\<close> and never that. A cookie is taken back only
  when no other credential was presented and the store answered that its session is gone, and then
  the request is anonymous rather than refused.
\<close>

theorem Verify_refusals:
  assumes foreign: "\<And>k key s e. keys v = Some k \<Longrightarrow> k s key = Inl e \<Longrightarrow> \<not> errors_is e ErrKeyNotFound \<Longrightarrow> \<not> errors_is e ErrInvalidCredential"
    "\<And>f i s e s'. sessions v = Some f \<Longrightarrow> f i s = (Inl e, s') \<Longrightarrow> \<not> errors_is e ErrInvalidCredential"
  shows "case fst (Verify jwt v r s) of
      Inl e \<Rightarrow>
        (errors_is e ErrInvalidCredential \<or> errors_is e ErrCredentialUnavailable) \<and>
        (errors_is e ErrInvalidCredential \<longrightarrow> bearerToken r \<noteq> None \<or> api_key v r \<noteq> None) \<and>
        (bearerToken r = None \<longrightarrow>
          (\<forall>key k e'. api_key v r = Some key \<and> keys v = Some k \<and> k s key = Inl e' \<longrightarrow>
             errors_is e ErrInvalidCredential = errors_is e' ErrKeyNotFound))
    | Inr vr \<Rightarrow> vr_Discard vr \<noteq> [] \<longrightarrow>
        vr_Principal vr = None \<and> bearerToken r = None \<and> api_key v r = None \<and>
        (\<exists>f cfg i e s'. sessions v = Some f \<and> cookies v = Some cfg \<and> rq_Cookie r (CookieName cfg) = Some i \<and>
           f i s = (Inl e, s') \<and> errors_is e ErrSessionNotFound \<and> vr_Discard vr = [Discard cfg])"
proof (cases "bearerToken r")
  case (Some token)
  then show ?thesis
    by (auto simp: Verify_def verifyJWT_def caller_result_def split: sum.splits option.splits if_splits)
next
  case None
  show ?thesis
  proof (cases "api_key v r")
    case (Some key)
    with None foreign(1) [of _ s key] show ?thesis
      by (auto simp: Verify_def verifyAPIKey_def caller_result_def split: sum.splits option.splits if_splits)
  next
    case None
    with \<open>bearerToken r = None\<close> have v: "Verify jwt v r s = verifySession v r s" by (simp add: Verify_def)
    show ?thesis
    proof (cases rule: verifySession_cases [of v r s])
      case (outage lookup i e s')
      with foreign(2) [of lookup i s e s'] None v show ?thesis by simp
    qed (use None \<open>bearerToken r = None\<close> v in \<open>auto simp: no_caller_def\<close>)
  qed
qed

lemma Verify_refusals_witness:
  "case fst (Verify (\<lambda>_ _ _. Inr (Some [])) demo_verifier (demo_request ''X-API-Key'' ''nope'') ()) of
     Inl e \<Rightarrow> errors_is e ErrInvalidCredential | Inr _ \<Rightarrow> False"
proof -
  let ?r = "demo_request ''X-API-Key'' ''nope''"
  have k: "keys demo_verifier = Some (\<lambda>_. staticKeyStore [''key''])" "sessions demo_verifier = None"
    by (simp_all add: demo_verifier_def)
  have "errors_is e ErrKeyNotFound" if "staticKeyStore [''key''] key = Inl e" for key e
    using that by (auto simp: staticKeyStore_def split: if_splits)
  with k Verify_refusals [where v = demo_verifier and jwt = "\<lambda>_ _ _. Inr (Some [])" and r = ?r and s = "()"] show ?thesis
    by (auto simp: Verify_def bearerToken_def api_key_def demo_request_def demo_verifier_def authorizationHeader_def
        verifyAPIKey_def caller_result_def staticKeyStore_def split: sum.splits)
qed



section \<open>The application's wiring\<close>

definition DevSecret :: string where "DevSecret = ''ensoria-local-development-secret-change-me''"
definition DevAPIKey :: string where "DevAPIKey = ''ensoria-local-development-api-key-change-me''"
definition DevPaymentAPIKey :: string where "DevPaymentAPIKey = ''ensoria-local-development-payment-provider-key''"
definition DevSubject :: string where "DevSubject = ''local-dev''"
definition DevPaymentSubject :: string where "DevPaymentSubject = ''payment-provider''"

definition applicationScopes :: "string list" where
  "applicationScopes = [''orders:read'', ''orders:write'', ''users:read'', ''users:write'', ''announcements:write'']"

definition operatorScopes :: "string list" where
  "operatorScopes = [''worker.jobs:read'', ''worker.jobs:write'', ''scheduler.tasks:read'', ''scheduler.tasks:write'']"

definition devScopes :: "string list" where
  "devScopes = applicationScopes @ operatorScopes"

definition devCredentialsAllowed :: "string \<Rightarrow> bool" where
  "devCredentialsAllowed envVal = (envVal = ''local'' \<or> envVal = ''test'')"

definition dev_caller :: "string \<Rightarrow> string list \<Rightarrow> principal option" where
  "dev_caller subject scopes =
     Some \<lparr>p_Subject = subject, p_Scopes = scopes, p_Scheme = [], p_Claims = [], implied = None\<rparr>"

definition devKeyStore :: "string \<Rightarrow> auth_config option \<Rightarrow> (string \<times> principal) list option result" where
  "devKeyStore envVal config =
     (case config of
        None \<Rightarrow> Inr None
      | Some cfg \<Rightarrow>
          if \<not> devCredentialsAllowed envVal \<or> ac_APIKeys cfg = [] then Inr None
          else case NewAPIKeyStore envVal
              (put DevPaymentAPIKey (dev_caller DevPaymentSubject [''orders:write''])
                (foldl (\<lambda>m key. put key (dev_caller DevSubject devScopes) m) [] (ac_APIKeys cfg))) of
            Inl e \<Rightarrow> Inl e
          | Inr store \<Rightarrow> Inr (Some store))"

definition checkDevCredentials :: "string \<Rightarrow> auth_config option \<Rightarrow> goerr option" where
  "checkDevCredentials envVal config =
     (case config of
        None \<Rightarrow> None
      | Some cfg \<Rightarrow>
          if devCredentialsAllowed envVal then None
          else if ac_Mode cfg = ''hs256'' \<and> ac_Secret cfg = DevSecret then
            Some (Errorf ''auth: AUTH_SECRET is still the secret shipped with the template'' [envVal] [])
          else if DevAPIKey \<in> set (ac_APIKeys cfg) then
            Some (Errorf ''auth: AUTH_API_KEYS still contains the key shipped with the template'' [envVal] [])
          else None)"

definition app_NewVerifier :: "(string \<Rightarrow> goerr option) \<Rightarrow> string \<Rightarrow> auth_config option result
    \<Rightarrow> ('s \<Rightarrow> string \<Rightarrow> principal option result) option
    \<Rightarrow> (string \<Rightarrow> 's \<Rightarrow> session result \<times> 's) option \<Rightarrow> 's verifier result" where
  "app_NewVerifier jwks envVal params ks ss =
     (case params of
        Inl e \<Rightarrow> Inl (Errorf ''auth: reading the %s configuration: %w'' [''default''] [e])
      | Inr auth \<Rightarrow>
          (case checkDevCredentials envVal auth of
             Some e \<Rightarrow> Inl e
           | None \<Rightarrow>
               if ks = None then
                 (case devKeyStore envVal auth of
                    Inl e \<Rightarrow> Inl e
                  | Inr None \<Rightarrow> NewVerifier jwks auth None ss
                  | Inr (Some ps) \<Rightarrow> NewVerifier jwks auth (Some (\<lambda>_. stub_Lookup ps)) ss)
               else NewVerifier jwks auth ks ss))"

lemma configure_keeps_keys:
  "configureSessions cfg v = Inr v' \<Longrightarrow> configureJWT jwks cfg v' = Inr v'' \<Longrightarrow> keys v'' = keys v"
  using configureSessions_Inr [of cfg v v'] configureJWT_Inr [of jwks cfg v' v''] by auto



end
