(* ===== verification/Lang.thy ===== *)
theory Lang
  imports Claims "HOL-Library.Multiset"
begin

text \<open>
  Which language a caller reads an error in (\<open>internal/plamo/vkit/lang.go\<close>).

  Two library functions are parameters where they leave ASCII and exact arithmetic: \<open>pf\<close> is
  \<open>strconv.ParseFloat\<close> and \<open>uni\<close> is \<open>strings.ToLower\<close> on a string with bytes beyond ASCII. The
  stable sort is the library's insertion sort, which is what it runs on up to twenty entries; beyond
  that the result is the same whenever no weight is NaN.
\<close>

fun f64_less :: "f64 \<Rightarrow> f64 \<Rightarrow> bool" where
  "f64_less (Fin a) (Fin b) = (a < b)"
| "f64_less (Fin a) PosInf = True"
| "f64_less NegInf (Fin b) = True"
| "f64_less NegInf PosInf = True"
| "f64_less _ _ = False"

definition f64_pos :: "f64 \<Rightarrow> bool" where  \<comment> \<open>\<open>\<not> q \<le> 0\<close>, true of NaN\<close>
  "f64_pos q = (q = NaN \<or> f64_less (Fin 0) q)"

definition DefaultLang :: string where
  "DefaultLang = ''en''"

definition ToLower :: "(string \<Rightarrow> string) \<Rightarrow> string \<Rightarrow> string" where
  "ToLower uni s = (if list_all (\<lambda>c. (of_char c :: nat) < 128) s then map lower_byte s else uni s)"

definition before :: "char \<Rightarrow> string \<Rightarrow> string" where
  "before d s = takeWhile (\<lambda>c. c \<noteq> d) s"

definition after :: "char \<Rightarrow> string \<Rightarrow> string" where
  "after d s = tl (dropWhile (\<lambda>c. c \<noteq> d) s)"

definition qPrefix :: string where
  "qPrefix = ''q=''"

text \<open>The parameters after the first semicolon; the last \<open>q=\<close> that parses wins.\<close>

fun weight :: "parse_float \<Rightarrow> f64 \<Rightarrow> string list \<Rightarrow> f64" where
  "weight pf q [] = q"
| "weight pf q (p # ps) =
     (if HasPrefix (TrimSpace p) qPrefix then
        (case pf (TrimSpace (drop (length qPrefix) (TrimSpace p))) of
           Some parsed \<Rightarrow> weight pf parsed ps
         | None \<Rightarrow> weight pf q ps)
      else weight pf q ps)"

definition lang_entry :: "parse_float \<Rightarrow> (string \<Rightarrow> string) \<Rightarrow> string \<Rightarrow> (string \<times> f64) option" where
  "lang_entry pf uni part0 =
     (let part = TrimSpace part0 in
      if part = [] then None
      else let semi = (CHR '';'' \<in> set part);
             tag = (if semi then TrimSpace (before CHR '';'' part) else part);
             q = (if semi then weight pf (Fin 1) (split_at CHR '';'' (after CHR '';'' part)) else Fin 1);
             lang = ToLower uni (TrimSpace (before CHR ''-'' tag))
           in if lang = [] \<or> lang = ''*'' \<or> \<not> f64_pos q then None else Some (lang, q))"

fun entries_of :: "parse_float \<Rightarrow> (string \<Rightarrow> string) \<Rightarrow> string list \<Rightarrow> (string \<times> f64) list" where
  "entries_of pf uni [] = []"
| "entries_of pf uni (part # parts) =
     (case lang_entry pf uni part of None \<Rightarrow> entries_of pf uni parts | Some e \<Rightarrow> e # entries_of pf uni parts)"

text \<open>Insertion from the right into a list held in reverse.\<close>

fun sink :: "string \<times> f64 \<Rightarrow> (string \<times> f64) list \<Rightarrow> (string \<times> f64) list" where
  "sink e [] = [e]"
| "sink e (d # ds) = (if f64_less (snd d) (snd e) then d # sink e ds else e # d # ds)"

definition stable_by_weight :: "(string \<times> f64) list \<Rightarrow> (string \<times> f64) list" where
  "stable_by_weight es = rev (foldl (\<lambda>acc e. sink e acc) [] es)"

definition parseAcceptLanguage :: "parse_float \<Rightarrow> (string \<Rightarrow> string) \<Rightarrow> string \<Rightarrow> string list" where
  "parseAcceptLanguage pf uni header0 =
     (let header = TrimSpace header0 in
      if header = [] then []
      else foldl add_new [] (map fst (stable_by_weight (entries_of pf uni (split_at CHR '','' header)))))"

definition PreferredLangs :: "parse_float \<Rightarrow> (string \<Rightarrow> string) \<Rightarrow> string \<Rightarrow> string list" where
  "PreferredLangs pf uni header = parseAcceptLanguage pf uni header @ [DefaultLang]"

text \<open>The messages in the order the run happens to range over them.\<close>

fun PickMessage :: "(string \<times> string) list \<Rightarrow> string list \<Rightarrow> string" where
  "PickMessage messages [] = (case messages of [] \<Rightarrow> [] | (l, m) # _ \<Rightarrow> m)"
| "PickMessage messages (lang # langs) =
     (case map_of messages lang of Some msg \<Rightarrow> msg | None \<Rightarrow> PickMessage messages langs)"

section \<open>The order\<close>

lemma f64_less_trans: "f64_less a b \<Longrightarrow> f64_less b c \<Longrightarrow> f64_less a c"
  by (cases a; cases b; cases c) auto

lemma f64_not_less_trans:
  "\<not> f64_less b a \<Longrightarrow> \<not> f64_less c b \<Longrightarrow> b \<noteq> NaN \<Longrightarrow> \<not> f64_less c a"
  by (cases a; cases b; cases c) auto

lemma sink_mset: "mset (sink e ds) = add_mset e (mset ds)"
  by (induction e ds rule: sink.induct) auto

lemma foldl_sink_mset: "mset (foldl (\<lambda>acc e. sink e acc) acc es) = mset acc + mset es"
  by (induction es arbitrary: acc) (auto simp: sink_mset)

lemma stable_mset [simp]: "mset (stable_by_weight es) = mset es"
  by (simp add: stable_by_weight_def foldl_sink_mset)

lemma stable_set [simp]: "set (stable_by_weight es) = set es"
  by (metis stable_mset set_mset_mset)

text \<open>In the reversed list no entry weighs more than the one that follows it.\<close>

definition rising :: "(string \<times> f64) list \<Rightarrow> bool" where
  "rising = sorted_wrt (\<lambda>x y. \<not> f64_less (snd y) (snd x))"

lemma sink_set: "set (sink e ds) = insert e (set ds)"
  by (induction e ds rule: sink.induct) auto

lemma sink_rising: "rising ds \<Longrightarrow> \<forall>d \<in> insert e (set ds). snd d \<noteq> NaN \<Longrightarrow> rising (sink e ds)"
proof (induction e ds rule: sink.induct)
  case (2 e d ds)
  show ?case
  proof (cases "f64_less (snd d) (snd e)")
    case True
    have "\<not> f64_less (snd e) (snd d)"
      using True f64_less_trans [of "snd d" "snd e" "snd d"] by (cases "snd d") auto
    with True 2 show ?thesis by (auto simp: rising_def sink_set)
  next
    case False
    have "\<not> f64_less (snd y) (snd e)" if "y \<in> set ds" for y
    proof -
      have "\<not> f64_less (snd y) (snd d)" using 2(2) that by (simp add: rising_def)
      then show ?thesis using False 2(3) f64_not_less_trans [of "snd d" "snd e" "snd y"] by simp
    qed
    with False 2 show ?thesis by (simp add: rising_def)
  qed
qed (simp add: rising_def)

lemma foldl_sink_rising:
  "rising acc \<Longrightarrow> \<forall>d \<in> set acc \<union> set es. snd d \<noteq> NaN \<Longrightarrow> rising (foldl (\<lambda>acc e. sink e acc) acc es)"
proof (induction es arbitrary: acc)
  case (Cons e es)
  then have "rising (sink e acc)" by (intro sink_rising) auto
  with Cons show ?case by (auto simp: sink_set)
qed simp

lemma stable_sorted:
  "\<forall>d \<in> set es. snd d \<noteq> NaN \<Longrightarrow> sorted_wrt (\<lambda>x y. \<not> f64_less (snd x) (snd y)) (stable_by_weight es)"
  using foldl_sink_rising [of "[]" es] by (simp add: stable_by_weight_def rising_def sorted_wrt_rev)

lemma sink_filter: "filter (\<lambda>d. snd d = q) (sink e ds) = filter (\<lambda>d. snd d = q) (e # ds)"
proof (induction e ds rule: sink.induct)
  case (2 e d ds)
  have "snd d \<noteq> snd e" if "f64_less (snd d) (snd e)" using that by (cases "snd d"; cases "snd e") auto
  with 2 show ?case by auto
qed simp

lemma stable_filter: "filter (\<lambda>d. snd d = q) (stable_by_weight es) = filter (\<lambda>d. snd d = q) es"
proof -
  have "filter (\<lambda>d. snd d = q) (foldl (\<lambda>acc e. sink e acc) acc es) =
      rev (filter (\<lambda>d. snd d = q) es) @ filter (\<lambda>d. snd d = q) acc" for acc
    by (induction es arbitrary: acc) (auto simp: sink_filter)
  from this [of "[]"] show ?thesis by (simp add: stable_by_weight_def rev_filter [symmetric])
qed

lemma entries_of_ok: "(l, q) \<in> set (entries_of pf uni parts) \<Longrightarrow> l \<noteq> [] \<and> l \<noteq> ''*'' \<and> f64_pos q"
  by (induction parts) (auto simp: lang_entry_def Let_def split: option.splits if_splits)

text \<open>
  The preferred languages are the entries of the header with a positive weight, each language
  once, an entry before every one that weighs less and entries of one weight in the order they were
  written; English always ends the list, and neither an empty tag nor the wildcard is in it.
\<close>

theorem parseAcceptLanguage_order:
  assumes "TrimSpace header \<noteq> []"
    "\<forall>e \<in> set (entries_of pf uni (split_at CHR '','' (TrimSpace header))). snd e \<noteq> NaN"
  shows "\<exists>es. let given = entries_of pf uni (split_at CHR '','' (TrimSpace header)) in
    mset es = mset given \<and> sorted_wrt (\<lambda>x y. \<not> f64_less (snd x) (snd y)) es \<and>
    (\<forall>q. filter (\<lambda>d. snd d = q) es = filter (\<lambda>d. snd d = q) given) \<and>
    PreferredLangs pf uni header = foldl add_new [] (map fst es) @ [''en''] \<and>
    distinct (parseAcceptLanguage pf uni header) \<and>
    set (parseAcceptLanguage pf uni header) = fst ` set given \<and>
    [] \<notin> set (parseAcceptLanguage pf uni header) \<and> ''*'' \<notin> set (parseAcceptLanguage pf uni header)"
proof -
  define given where "given = entries_of pf uni (split_at CHR '','' (TrimSpace header))"
  have p: "parseAcceptLanguage pf uni header = foldl add_new [] (map fst (stable_by_weight given))"
    using assms(1) by (simp add: parseAcceptLanguage_def given_def)
  have s: "set (parseAcceptLanguage pf uni header) = fst ` set given" by (simp add: p)
  have "[] \<notin> fst ` set given" "''*'' \<notin> fst ` set given"
    using entries_of_ok unfolding given_def by fastforce+
  then show ?thesis
    unfolding Let_def given_def [symmetric]
    using stable_sorted [of given] assms(2) [folded given_def] s
    by (intro exI [of _ "stable_by_weight given"])
      (simp add: p stable_filter PreferredLangs_def DefaultLang_def)
qed

lemma parseAcceptLanguage_order_witness:
  "distinct (parseAcceptLanguage (\<lambda>_. None) id ''ja-JP,fr'')"
proof -
  have t: "TrimSpace ''ja-JP,fr'' = ''ja-JP,fr''" "TrimSpace ''ja-JP'' = ''ja-JP''" "TrimSpace ''ja'' = ''ja''"
    "TrimSpace ''fr'' = ''fr''" "split_at CHR '','' ''ja-JP,fr'' = [''ja-JP'', ''fr'']"
    "ToLower id ''ja'' = ''ja''" "ToLower id ''fr'' = ''fr''"
    by code_simp+
  have "entries_of (\<lambda>_. None) id [''ja-JP'', ''fr''] = [(''ja'', Fin 1), (''fr'', Fin 1)]"
    by (simp add: lang_entry_def Let_def t before_def f64_pos_def)
  then show ?thesis
    using parseAcceptLanguage_order [of "''ja-JP,fr''" "\<lambda>_. None" id] by (auto simp: t Let_def)
qed

text \<open>
  A validation message is given in the first preferred language it exists in, and is some
  message of the rule whenever there is one.
\<close>

theorem PickMessage_first:
  "(\<forall>before lang rest msg. langs = before @ lang # rest \<and> (\<forall>l \<in> set before. map_of messages l = None) \<and>
      map_of messages lang = Some msg \<longrightarrow> PickMessage messages langs = msg) \<and>
   (messages \<noteq> [] \<longrightarrow> PickMessage messages langs \<in> snd ` set messages)"
proof (induction langs)
  case Nil
  then show ?case by (auto split: list.splits)
next
  case (Cons l langs)
  then show ?case
    by (auto simp: Cons_eq_append_conv split: option.splits dest: map_of_SomeD intro: rev_image_eqI)
qed

lemma PickMessage_first_witness:
  "PickMessage [(''ja'', ''x''), (''en'', ''y'')] [''fr'', ''en''] = ''y''"
  using PickMessage_first [of "[''fr'', ''en'']" "[(''ja'', ''x''), (''en'', ''y'')]"]
  by (auto dest!: spec [of _ "[''fr'']"])

end
