(* ===== verification/Restkit.thy ===== *)
theory Restkit
  imports Verifier Lang
begin

text \<open>
  The typed endpoint adapter (\<open>internal/plamo/restkit\<close>): who may call, the resource check a
  handler must run, the responses every refusal has in common, and the adapter that puts them in
  order.

  A handler is a program over a world \<open>'w\<close> (\<open>handler\<close>): it may read and replace the world, log,
  and call \<open>Authorize\<close>; the state \<open>Authorize\<close> keeps is unexported in the code, and here only
  \<open>CallAuthorize\<close> reaches it. \<open>'v\<close> are the values handed to resource checks, \<open>'q\<close> and \<open>'r\<close>
  the parsed body and the result, \<open>'b\<close> what a successful response carries. Parsing and
  validating, and turning a result into a response, are the rest and validator packages':
  parameters of the endpoint and of the adapter.
\<close>

section \<open>Responses\<close>

record field_error =
  fe_Field :: string
  fe_Code :: string
  fe_Message :: string

record error_detail =
  ed_Code :: string
  ed_Message :: string
  ed_FieldErrors :: "field_error list"

datatype 'b body = Nothing | ErrorEnvelope error_detail | Payload 'b

type_synonym headers = "(string \<times> string) list"

record 'b response =
  Code :: int
  AddHeaders :: "headers option"
  ReplaceHeaders :: "headers option"
  ContentType :: string
  Body :: "'b body"
  Cookies :: "cookie list"

definition error_response :: "int \<Rightarrow> string \<Rightarrow> string \<Rightarrow> 'b response" where
  "error_response status code message = \<lparr>Code = status, AddHeaders = None, ReplaceHeaders = None,
     ContentType = [], Body = ErrorEnvelope \<lparr>ed_Code = code, ed_Message = message, ed_FieldErrors = []\<rparr>,
     Cookies = []\<rparr>"

definition UnauthenticatedCode :: string where "UnauthenticatedCode = ''unauthenticated''"
definition unauthenticatedMessage :: string where "unauthenticatedMessage = ''authentication is required''"
definition ForbiddenCode :: string where "ForbiddenCode = ''forbidden''"
definition forbiddenMessage :: string where "forbiddenMessage = ''this operation is not allowed for the caller''"
definition UnavailableCode :: string where "UnavailableCode = ''unavailable''"
definition UnavailableMessage :: string where "UnavailableMessage = ''the request could not be completed; try again shortly''"
definition CrossOriginCode :: string where "CrossOriginCode = ''cross_origin_denied''"
definition crossOriginMessage :: string where "crossOriginMessage = ''this request did not come from an allowed origin''"
definition internalErrorCode :: string where "internalErrorCode = ''internal_error''"
definition internalErrorMessage :: string where "internalErrorMessage = ''internal server error''"

definition ForbiddenResponse :: "'b response" where
  [resp_simps]: "ForbiddenResponse = error_response 403 ForbiddenCode forbiddenMessage"

definition UnavailableResponse :: "'b response" where
  [resp_simps]: "UnavailableResponse = error_response 503 UnavailableCode UnavailableMessage"

definition UnauthenticatedResponse :: "'b response" where
  [resp_simps]: "UnauthenticatedResponse =
     (error_response 401 UnauthenticatedCode unauthenticatedMessage)\<lparr>AddHeaders := Some [(''WWW-Authenticate'', ''Bearer'')]\<rparr>"

definition CrossOriginResponse :: "'b response" where
  [resp_simps]: "CrossOriginResponse = error_response 403 CrossOriginCode crossOriginMessage"

definition internalErrorResponse :: "'b response" where
  [resp_simps]: "internalErrorResponse = error_response 500 internalErrorCode internalErrorMessage"

lemma error_response_simps [simp, resp_simps]:
  "Code (error_response n c m) = n" "Cookies (error_response n c m) = []"
  "AddHeaders (error_response n c m) = None" "ReplaceHeaders (error_response n c m) = None"
  by (simp_all add: error_response_def)

text \<open>\<open>err.(HTTPError)\<close> looks at the error itself, not at what it wraps.\<close>

fun errorResponse :: "goerr \<Rightarrow> 'b response" where
  "errorResponse (HTTPErr status code message) = error_response status code message"
| "errorResponse _ = internalErrorResponse"

section \<open>Security declarations\<close>

record 'v resource_check =
  rc_Description :: string
  rc_declared :: string                             \<comment> \<open>the type the predicate takes\<close>
  rc_check :: "principal \<Rightarrow> 'v \<Rightarrow> bool"

record 'v security =
  Public :: bool
  sec_Schemes :: "string list"
  sec_Scopes :: "string list"
  Resource :: "'v resource_check option"

definition authorize :: "'v security option \<Rightarrow> request \<Rightarrow> 'b response option" where
  "authorize security r =
     (if (case security of None \<Rightarrow> False | Some s \<Rightarrow> Public s) then None
      else case PrincipalFrom (rq_ctx r) of
        None \<Rightarrow> Some UnauthenticatedResponse
      | Some p \<Rightarrow>
          let (schemes, scopes) = (case security of None \<Rightarrow> ([], []) | Some s \<Rightarrow> (sec_Schemes s, sec_Scopes s))
          in if \<not> HasScheme (Some p) schemes \<or> \<not> SatisfiesScopes (Some p) scopes then Some ForbiddenResponse
             else None)"

definition resourceCheckOf :: "'v security option \<Rightarrow> 'v resource_check option" where
  "resourceCheckOf security = (case security of None \<Rightarrow> None | Some s \<Rightarrow> Resource s)"

section \<open>Modules\<close>

datatype 'v controller = NoController | Raw | Typed "'v security option"

record 'v rest_module =
  m_Path :: string
  m_Get :: "'v controller"
  m_Post :: "'v controller"
  m_Put :: "'v controller"
  m_Patch :: "'v controller"
  m_Delete :: "'v controller"

definition empty_security :: "'v security" where
  "empty_security = \<lparr>Public = False, sec_Schemes = [], sec_Scopes = [], Resource = None\<rparr>"

definition routesOf :: "'v rest_module \<Rightarrow> (string \<times> 'v controller) list" where
  "routesOf m = [(''GET'', m_Get m), (''POST'', m_Post m), (''PUT'', m_Put m), (''PATCH'', m_Patch m), (''DELETE'', m_Delete m)]"

fun route_endpoints :: "string \<Rightarrow> (string \<times> 'v controller) list \<Rightarrow> (string \<times> 'v security) list" where
  "route_endpoints path [] = []"
| "route_endpoints path ((meth, c) # rs) =
     (case c of
        Typed security \<Rightarrow>
          (meth @ '' '' @ path, case security of None \<Rightarrow> empty_security | Some s \<Rightarrow> s) # route_endpoints path rs
      | _ \<Rightarrow> route_endpoints path rs)"

fun endpointsOf :: "'v rest_module option list \<Rightarrow> (string \<times> 'v security) list" where
  "endpointsOf [] = []"
| "endpointsOf (None # ms) = endpointsOf ms"
| "endpointsOf (Some m # ms) = route_endpoints (m_Path m) (routesOf m) @ endpointsOf ms"

definition RequiresAuthentication :: "'v rest_module option list \<Rightarrow> bool" where
  "RequiresAuthentication modules = list_ex (\<lambda>(name, s). \<not> Public s) (endpointsOf modules)"

definition PublicResourceChecks :: "'v rest_module option list \<Rightarrow> string list" where
  "PublicResourceChecks modules =
     map fst (filter (\<lambda>(name, s). Public s \<and> Resource s \<noteq> None) (endpointsOf modules))"

definition PublicWithConditions :: "'v rest_module option list \<Rightarrow> string list" where
  "PublicWithConditions modules =
     map fst (filter (\<lambda>(name, s). Public s \<and> (sec_Schemes s \<noteq> [] \<or> sec_Scopes s \<noteq> [])) (endpointsOf modules))"

definition DeclaredSchemes :: "'v rest_module option list \<Rightarrow> string list" where
  "DeclaredSchemes modules =
     foldl (\<lambda>schemes (name, s). if Public s then schemes else foldl add_new schemes (sec_Schemes s)) []
       (endpointsOf modules)"

section \<open>Contract violations\<close>

datatype attr = AString string | AInt int

fun LogAttrs :: "violation \<Rightarrow> (string \<times> attr) list" where
  "LogAttrs (MissingAuthorization m p) = [(''method'', AString m), (''path'', AString p)]"
| "LogAttrs (UndeclaredAuthorization m p declared passed) =
     [(''method'', AString m), (''path'', AString p), (''passed_resource'', AString passed)] @
     (if declared \<noteq> [] then [(''declared_resource'', AString declared)] else [])"
| "LogAttrs (DeclarationDrift m p status) = [(''method'', AString m), (''path'', AString p), (''status'', AInt status)]"

fun log_args_from :: "(string \<times> attr) list \<Rightarrow> (string \<times> attr) list \<Rightarrow> (string \<times> attr) list" where
  "log_args_from args [] = args"
| "log_args_from args (attr # attrs) = log_args_from (args @ [attr]) attrs"

definition LogArgs :: "violation \<Rightarrow> (string \<times> attr) list" where
  "LogArgs v = log_args_from [] (LogAttrs v)"

lemma log_args_from_append: "log_args_from args attrs = args @ attrs"
  by (induction args attrs rule: log_args_from.induct) auto

lemma LogArgs_LogAttrs: "LogArgs v = LogAttrs v"
  by (simp add: LogArgs_def log_args_from_append)

text \<open>What every kind of violation promises whoever writes the record.\<close>

locale contract_violation =
  fixes attrs :: "'a \<Rightarrow> (string \<times> 'b) list"
  assumes no_type: "''type'' \<notin> fst ` set (attrs v)" and keys_once: "distinct (map fst (attrs v))"
begin

lemma typed_record: "distinct (map fst (attrs v @ [(''type'', t)]))"
  using no_type [of v] keys_once [of v] by simp

lemma type_read_back: "map_of (attrs v @ [(''type'', t)]) ''type'' = Some t"
proof -
  have "map_of (attrs v) ''type'' = None" using no_type [of v] by (metis map_of_eq_None_iff)
  then show ?thesis by (simp add: map_add_def)
qed

end

interpretation violation: contract_violation LogArgs
proof
  fix v :: violation
  show "''type'' \<notin> fst ` set (LogArgs v)" by (cases v) (auto simp: LogArgs_LogAttrs)
  show "distinct (map fst (LogArgs v))" by (cases v) (simp_all add: LogArgs_LogAttrs)
qed

definition LogTypeAuthorizationDrift :: string where
  "LogTypeAuthorizationDrift = ''authorization_drift_log''"
definition LogTypeDeclarationDrift :: string where
  "LogTypeDeclarationDrift = ''declaration_drift_log''"

section \<open>Authorize\<close>

record 'v auth_state =
  chk :: "'v resource_check option"
  approved :: bool                          \<comment> \<open>\<open>done\<close>\<close>
  reported :: bool

record 'v resource =
  rs_type :: "string option"                \<comment> \<open>the dynamic type, \<open>None\<close> for nil\<close>
  rs_value :: 'v

definition typeName :: "'v resource \<Rightarrow> string" where
  "typeName res = (case rs_type res of None \<Rightarrow> ''nil'' | Some t \<Rightarrow> t)"

definition reportDrift :: "violation \<Rightarrow> goerr \<times> logs" where
  "reportDrift v = (Violation v, [(Error, LogTypeAuthorizationDrift)])"

definition Authorize :: "request \<Rightarrow> 'v auth_state option \<Rightarrow> 'v resource \<Rightarrow> goerr option \<times> 'v auth_state option \<times> logs" where
  "Authorize r ost res =
     (case ost of
        None \<Rightarrow>
          (case reportDrift (UndeclaredAuthorization (rq_Method r) (rq_Path r) [] (typeName res)) of
             (e, l) \<Rightarrow> (Some e, None, l))
      | Some st \<Rightarrow>
          (case chk st of
             None \<Rightarrow>
               (case reportDrift (UndeclaredAuthorization (rq_Method r) (rq_Path r) [] (typeName res)) of
                  (e, l) \<Rightarrow> (Some e, Some (st\<lparr>reported := True\<rparr>), l))
           | Some c \<Rightarrow>
               if rs_type res \<noteq> Some (rc_declared c) then
                 (case reportDrift (UndeclaredAuthorization (rq_Method r) (rq_Path r) (rc_declared c) (typeName res)) of
                    (e, l) \<Rightarrow> (Some e, Some (st\<lparr>reported := True\<rparr>), l))
               else (case PrincipalFrom (rq_ctx r) of
                 None \<Rightarrow> (Some (HTTPErr 403 ForbiddenCode forbiddenMessage), Some st, [])
               | Some p \<Rightarrow>
                   if \<not> rc_check c p (rs_value res) then
                     (Some (HTTPErr 403 ForbiddenCode forbiddenMessage), Some st, [])
                   else (None, Some (st\<lparr>approved := True\<rparr>), []))))"

definition verify_state :: "'v auth_state \<Rightarrow> request \<Rightarrow> 'b response option \<times> logs" where
  "verify_state st r =
     (if reported st then (Some internalErrorResponse, [])
      else if chk st \<noteq> None \<and> \<not> approved st then
        (Some internalErrorResponse, snd (reportDrift (MissingAuthorization (rq_Method r) (rq_Path r))))
      else (None, []))"

section \<open>Declared statuses\<close>

definition StrictForEnv :: "string \<Rightarrow> bool" where
  "StrictForEnv env = (env = ''local'' \<or> env = ''test'' \<or> env = ''development'')"

definition isDeclaredStatus :: "int \<Rightarrow> int \<Rightarrow> int list \<Rightarrow> bool" where
  "isDeclaredStatus status success0 responses =
     (let success = (if success0 = 0 then 200 else success0) in
      if status = success then True else list_ex (\<lambda>s. s = status) responses)"

text \<open>A violation that is \<open>Inl\<close> is a panic.\<close>

definition checkDeclaredStatus :: "bool \<Rightarrow> request \<Rightarrow> int \<Rightarrow> int \<Rightarrow> int list \<Rightarrow> violation + logs" where
  "checkDeclaredStatus strict r status success responses =
     (if isDeclaredStatus status success responses then Inr []
      else if strict then Inl (DeclarationDrift (rq_Method r) (rq_Path r) status)
      else Inr [(Error, LogTypeDeclarationDrift)])"

section \<open>Handlers\<close>

datatype ('w, 'v, 'r) handler =
    Return 'r
  | CallAuthorize "'v resource" "goerr option \<Rightarrow> ('w, 'v, 'r) handler"
  | Get "'w \<Rightarrow> ('w, 'v, 'r) handler"
  | Put 'w "('w, 'v, 'r) handler"
  | Log level string "('w, 'v, 'r) handler"

record ('w, 'v, 'r) run_result =
  rr_value :: 'r
  rr_state :: "'v auth_state option"
  rr_world :: 'w
  rr_logs :: logs
  rr_asked :: "'v resource list"         \<comment> \<open>what was handed to \<open>Authorize\<close>, in order\<close>

primrec run :: "('w, 'v, 'r) handler \<Rightarrow> request \<Rightarrow> 'v auth_state option \<Rightarrow> 'w \<Rightarrow> ('w, 'v, 'r) run_result" where
  "run (Return x) = (\<lambda>r st w. \<lparr>rr_value = x, rr_state = st, rr_world = w, rr_logs = [], rr_asked = []\<rparr>)"
| "run (CallAuthorize res k) = (\<lambda>r st w.
     (case Authorize r st res of (e, st', l) \<Rightarrow>
        let rr = run (k e) r st' w in rr\<lparr>rr_logs := l @ rr_logs rr, rr_asked := res # rr_asked rr\<rparr>))"
| "run (Get k) = (\<lambda>r st w. run (k w) r st w)"
| "run (Put w' h) = (\<lambda>r st w. run h r st w')"
| "run (Log lev t h) = (\<lambda>r st w. let rr = run h r st w in rr\<lparr>rr_logs := (lev, t) # rr_logs rr\<rparr>)"

section \<open>The adapter\<close>

record validation_error =
  ve_Field :: string
  ve_Code :: string
  ve_Messages :: "(string \<times> string) list"

text \<open>A rule set names the field it is for; what it checks is the validator's.\<close>

record rule_set =
  rule_Field :: string

record ('w, 'v, 'q, 'r) endpoint =
  ep_Security :: "'v security option"
  ep_Body :: "request \<Rightarrow> validation_error list + 'q"     \<comment> \<open>\<open>vkit.RestRequestBody\<close> with the body rules\<close>
  ep_PathRules :: "rule_set list"
  ep_QueryRules :: "rule_set list"
  ep_Success :: int
  ep_Produces :: string
  ep_Responses :: "int list"
  ep_Handle :: "request \<Rightarrow> 'q \<Rightarrow> ('w, 'v, 'r result) handler"

type_synonym validate_map = "(string \<times> string) list \<Rightarrow> rule_set list \<Rightarrow> validation_error list"

definition value_or_empty :: "string option \<Rightarrow> string" where
  "value_or_empty v = (case v of None \<Rightarrow> [] | Some s \<Rightarrow> s)"

definition validatePathParams :: "validate_map \<Rightarrow> request \<Rightarrow> rule_set list \<Rightarrow> validation_error list" where
  "validatePathParams vmap r rules =
     (if rules = [] then []
      else vmap (foldl (\<lambda>m rs. put (rule_Field rs) (value_or_empty (rq_PathParam r (rule_Field rs))) m) [] rules) rules)"

definition validateQueryParams :: "validate_map \<Rightarrow> request \<Rightarrow> rule_set list \<Rightarrow> validation_error list" where
  "validateQueryParams vmap r rules =
     (if rules = [] then []
      else vmap (foldl (\<lambda>m rs. put (rule_Field rs) (value_or_empty (rq_Query r (rule_Field rs))) m) [] rules) rules)"

fun collect_errors :: "string list \<Rightarrow> int \<times> error_detail \<Rightarrow> validation_error list \<Rightarrow> int \<times> error_detail" where
  "collect_errors langs (status, d) [] = (status, d)"
| "collect_errors langs (status, d) (fe # fes) =
     (let msg = PickMessage (ve_Messages fe) langs in
      if ve_Field fe = [] then
        collect_errors langs (if ve_Code fe = ''not_parsable'' then 400 else status, d\<lparr>ed_Code := ve_Code fe, ed_Message := msg\<rparr>) fes
      else collect_errors langs (status,
        d\<lparr>ed_FieldErrors := ed_FieldErrors d @ [\<lparr>fe_Field = ve_Field fe, fe_Code = ve_Code fe, fe_Message = msg\<rparr>]\<rparr>) fes)"

definition validationErrorResponse :: "validation_error list \<Rightarrow> string list \<Rightarrow> 'b response" where
  "validationErrorResponse errs langs =
     (case collect_errors langs (422, \<lparr>ed_Code = ''validation_failed'', ed_Message = ''input is invalid'', ed_FieldErrors = []\<rparr>) errs of
        (status, d) \<Rightarrow> \<lparr>Code = status, AddHeaders = None, ReplaceHeaders = None, ContentType = [],
          Body = ErrorEnvelope d, Cookies = []\<rparr>)"

datatype 'b outcome = Responded "'b response" | Panicked violation

record 'w handled =
  hd_world :: 'w
  hd_logs :: logs

record ('r, 'b) libs =
  lib_vmap :: validate_map
  lib_langs :: "request \<Rightarrow> string list"            \<comment> \<open>\<open>preferredLangs\<close>\<close>
  lib_response :: "'r \<Rightarrow> int \<Rightarrow> 'b response"          \<comment> \<open>\<open>Result.ToResponse\<close>\<close>

definition preferredLangs :: "parse_float \<Rightarrow> (string \<Rightarrow> string) \<Rightarrow> request \<Rightarrow> string list" where
  "preferredLangs pf uni r = PreferredLangs pf uni (value_or_empty (rq_Header r ''Accept-Language''))"

definition finish :: "bool \<Rightarrow> ('r, 'b) libs \<Rightarrow> ('w, 'v, 'q, 'r) endpoint \<Rightarrow> request \<Rightarrow> 'r \<Rightarrow> 'b outcome \<times> logs" where
  "finish strict lib ep r x =
     (let res = lib_response lib x (ep_Success ep) in
      case checkDeclaredStatus strict r (Code res) (ep_Success ep) (ep_Responses ep) of
        Inl v \<Rightarrow> (Panicked v, [])
      | Inr l \<Rightarrow>
          (Responded (if ContentType res = [] \<and> ep_Produces ep \<noteq> [] then res\<lparr>ContentType := ep_Produces ep\<rparr> else res), l))"

definition Handle :: "bool \<Rightarrow> ('r, 'b) libs \<Rightarrow> ('w, 'v, 'q, 'r) endpoint \<Rightarrow> request \<Rightarrow> 'w \<Rightarrow> 'b outcome \<times> 'w \<times> logs" where
  "Handle strict lib ep r w =
     (case authorize (ep_Security ep) r of
        Some res \<Rightarrow> (Responded res, w, [])
      | None \<Rightarrow>
          (case ep_Body ep r of
             Inl errs \<Rightarrow> (Responded (validationErrorResponse errs (lib_langs lib r)), w, [])
           | Inr req \<Rightarrow>
               let path_errs = validatePathParams (lib_vmap lib) r (ep_PathRules ep);
                   query_errs = validateQueryParams (lib_vmap lib) r (ep_QueryRules ep)
               in if path_errs \<noteq> [] then (Responded (validationErrorResponse path_errs (lib_langs lib r)), w, [])
                  else if query_errs \<noteq> [] then (Responded (validationErrorResponse query_errs (lib_langs lib r)), w, [])
                  else
                    let st0 = \<lparr>chk = resourceCheckOf (ep_Security ep), approved = False, reported = False\<rparr>;
                        rr = run (ep_Handle ep r req) r (Some st0) w
                    in case rr_value rr of
                         Inl e \<Rightarrow> (Responded (errorResponse e), rr_world rr, rr_logs rr)
                       | Inr x \<Rightarrow>
                           (case rr_state rr of
                              None \<Rightarrow> (Responded internalErrorResponse, rr_world rr, rr_logs rr)
                            | Some st \<Rightarrow>
                                (case verify_state st r of
                                   (Some res, l) \<Rightarrow> (Responded res, rr_world rr, rr_logs rr @ l)
                                 | (None, _) \<Rightarrow>
                                     (case finish strict lib ep r x of (o', l) \<Rightarrow> (o', rr_world rr, rr_logs rr @ l))))))"

section \<open>Who is let through\<close>

lemma authorize_None_iff:
  "authorize security r = None \<longleftrightarrow>
     (\<exists>s. security = Some s \<and> Public s) \<or>
     (\<exists>p. PrincipalFrom (rq_ctx r) = Some p \<and>
        (case security of None \<Rightarrow> True | Some s \<Rightarrow> HasScheme (Some p) (sec_Schemes s) \<and> SatisfiesScopes (Some p) (sec_Scopes s)))"
  by (auto simp: authorize_def HasScheme_def SatisfiesScopes_def split: option.splits)

lemma authorize_Some:
  "authorize security r = Some res \<Longrightarrow> \<not> (\<exists>s. security = Some s \<and> Public s) \<and>
     res = (if PrincipalFrom (rq_ctx r) = None then UnauthenticatedResponse else ForbiddenResponse)"
  by (auto simp: authorize_def split: option.splits if_splits prod.splits)

lemma route_endpoints_typed:
  "(name, s) \<in> set (route_endpoints path rs) \<longleftrightarrow>
     (\<exists>meth sec. (meth, Typed sec) \<in> set rs \<and> name = meth @ '' '' @ path \<and>
        s = (case sec of None \<Rightarrow> empty_security | Some t \<Rightarrow> t))"
  by (induction path rs rule: route_endpoints.induct) (auto split: controller.splits)

lemma endpointsOf_typed:
  "(name, s) \<in> set (endpointsOf modules) \<longleftrightarrow>
     (\<exists>m meth sec. Some m \<in> set modules \<and> (meth, Typed sec) \<in> set (routesOf m) \<and>
        name = meth @ '' '' @ m_Path m \<and> s = (case sec of None \<Rightarrow> empty_security | Some t \<Rightarrow> t))"
proof (induction modules rule: endpointsOf.induct)
  case (3 m ms)
  then show ?case by (simp add: route_endpoints_typed) blast
qed simp_all

lemma DeclaredSchemes_iff:
  "x \<in> set (DeclaredSchemes modules) \<longleftrightarrow>
     (\<exists>name s. (name, s) \<in> set (endpointsOf modules) \<and> \<not> Public s \<and> x \<in> set (sec_Schemes s))"
proof -
  have "x \<in> set (foldl (\<lambda>schemes (name, s). if Public s then schemes else foldl add_new schemes (sec_Schemes s)) acc es) \<longleftrightarrow>
      x \<in> set acc \<or> (\<exists>name s. (name, s) \<in> set es \<and> \<not> Public s \<and> x \<in> set (sec_Schemes s))"
    for acc and es :: "(string \<times> 'v security) list"
    by (induction es arbitrary: acc) (auto split: if_splits)
  from this [of "[]" "endpointsOf modules"] show ?thesis by (simp add: DeclaredSchemes_def)
qed

text \<open>A caller an empty declaration lets through is one any declaration without conditions does.\<close>

lemma authorize_empty: "authorize (Some empty_security) r = authorize None r"
  by (cases "PrincipalFrom (rq_ctx r)") (auto simp: authorize_def empty_security_def)

text \<open>
  C20. A declaration means what it says. Of the typed endpoints of modules that pass the startup
  checks, one that states a scheme, a scope or a resource check, or nothing at all, lets a request
  through only with a verified caller holding all of it; a request without a caller is answered 401
  and one whose caller lacks something 403.
\<close>

theorem declarations_enforced:
  assumes "PublicResourceChecks modules = []" "PublicWithConditions modules = []"
    and "Some m \<in> set modules" "(meth, Typed sec) \<in> set (routesOf m)"
    and "sec = None \<or> (\<exists>s. sec = Some s \<and> (\<not> Public s \<or> sec_Schemes s \<noteq> [] \<or> sec_Scopes s \<noteq> [] \<or> Resource s \<noteq> None))"
  shows "((authorize sec r :: 'b response option) = None \<longleftrightarrow>
      (\<exists>p. PrincipalFrom (rq_ctx r) = Some p \<and>
        (\<forall>s. sec = Some s \<longrightarrow> (sec_Schemes s = [] \<or> p_Scheme p \<in> set (sec_Schemes s)) \<and>
           set (sec_Scopes s) \<subseteq> set (EffectiveScopes (Some p))))) \<and>
    (PrincipalFrom (rq_ctx r) = None \<longrightarrow> authorize sec r = Some (UnauthenticatedResponse :: 'b response)) \<and>
    (\<forall>res :: 'b response. PrincipalFrom (rq_ctx r) \<noteq> None \<and> authorize sec r = Some res \<longrightarrow> res = ForbiddenResponse)"
proof -
  have "\<not> Public s" if "sec = Some s" for s
  proof
    assume pub: "Public s"
    have e: "(meth @ '' '' @ m_Path m, s) \<in> set (endpointsOf modules)"
      using assms(3,4) that unfolding endpointsOf_typed by force
    have "Resource s = None"
      using assms(1) e pub by (auto simp: PublicResourceChecks_def filter_empty_conv)
    moreover have "sec_Schemes s = [] \<and> sec_Scopes s = []"
      using assms(2) e pub by (auto simp: PublicWithConditions_def filter_empty_conv)
    ultimately show False using assms(5) pub that by auto
  qed
  then have i: "(authorize sec r :: 'b response option) = None \<longleftrightarrow>
      (\<exists>p. PrincipalFrom (rq_ctx r) = Some p \<and>
        (\<forall>s. sec = Some s \<longrightarrow> (sec_Schemes s = [] \<or> p_Scheme p \<in> set (sec_Schemes s)) \<and>
           set (sec_Scopes s) \<subseteq> set (EffectiveScopes (Some p))))"
    by (cases sec) (auto simp: authorize_None_iff HasScheme_iff SatisfiesScopes_iff)
  have u: "authorize sec r = Some (UnauthenticatedResponse :: 'b response)" if "PrincipalFrom (rq_ctx r) = None"
    using that \<open>\<And>s. sec = Some s \<Longrightarrow> \<not> Public s\<close> by (cases sec) (simp_all add: authorize_def)
  have f: "res = ForbiddenResponse" if "PrincipalFrom (rq_ctx r) \<noteq> None" "authorize sec r = Some res"
    for res :: "'b response"
    using authorize_Some [OF that(2)] that(1) by simp
  from i u f show ?thesis by blast
qed

definition demo_caller :: "string list \<Rightarrow> principal" where
  "demo_caller scopes = \<lparr>p_Subject = ''u'', p_Scopes = scopes, p_Scheme = SchemeJWT, p_Claims = [], implied = None\<rparr>"

definition request_as :: "principal option \<Rightarrow> request" where
  "request_as p = (demo_request ''X'' [])\<lparr>rq_ctx := WithPrincipal Background p\<rparr>"

lemma PrincipalFrom_request_as [simp]: "PrincipalFrom (rq_ctx (request_as p)) = p"
  by (simp add: request_as_def)

lemma declarations_enforced_witness:
  "authorize (None :: unit security option) (request_as None) = (Some UnauthenticatedResponse :: unit response option)"
proof -
  let ?m = "\<lparr>m_Path = ''/x'', m_Get = Typed None, m_Post = NoController, m_Put = NoController, m_Patch = NoController, m_Delete = NoController\<rparr> :: unit rest_module"
  have c: "PublicResourceChecks [Some ?m] = []" "PublicWithConditions [Some ?m] = []"
    by (simp_all add: PublicResourceChecks_def PublicWithConditions_def routesOf_def empty_security_def)
  show ?thesis
    using declarations_enforced [OF c, of ?m "''GET''" None "request_as None"] by (auto simp: routesOf_def)
qed

section \<open>What the adapter enforces\<close>

lemma Authorize_state:
  assumes "Authorize r (Some st) res = (e, ost, l)"
  shows "\<exists>st'. ost = Some st' \<and> chk st' = chk st \<and> (reported st \<longrightarrow> reported st') \<and>
    (approved st' \<longrightarrow> approved st \<or> (\<exists>c p. chk st = Some c \<and> rs_type res = Some (rc_declared c) \<and>
       PrincipalFrom (rq_ctx r) = Some p \<and> rc_check c p (rs_value res)))"
  using assms unfolding Authorize_def
  by (auto simp: reportDrift_def split: option.splits if_splits)

text \<open>Approval comes from a check that ran and held, whatever else the handler did.\<close>

lemma run_state:
  "\<exists>st'. rr_state (run h r (Some st) w) = Some st' \<and> chk st' = chk st \<and> (reported st \<longrightarrow> reported st') \<and>
     (approved st' \<longrightarrow> approved st \<or>
        (\<exists>res c p. res \<in> set (rr_asked (run h r (Some st) w)) \<and> chk st = Some c \<and> rs_type res = Some (rc_declared c) \<and>
           PrincipalFrom (rq_ctx r) = Some p \<and> rc_check c p (rs_value res)))"
proof (induction h arbitrary: st w)
  case (CallAuthorize res k)
  obtain e ost l where a: "Authorize r (Some st) res = (e, ost, l)" by (cases "Authorize r (Some st) res")
  from Authorize_state [OF a] obtain st1 where st1: "ost = Some st1" "chk st1 = chk st" "reported st \<longrightarrow> reported st1"
    "approved st1 \<longrightarrow> approved st \<or> (\<exists>c p. chk st = Some c \<and> rs_type res = Some (rc_declared c) \<and>
       PrincipalFrom (rq_ctx r) = Some p \<and> rc_check c p (rs_value res))" by blast
  from CallAuthorize.IH [of "k e" st1 w] a st1 show ?case by (auto simp: Let_def)
qed (auto simp: Let_def)

text \<open>The four ways a request through the adapter can go.\<close>

lemma Handle_cases:
  fixes ep :: "('w, 'v, 'q, 'r) endpoint" and lib :: "('r, 'e) libs"
  obtains
    (refused) res where "authorize (ep_Security ep) r = Some res" "Handle strict lib ep r w = (Responded res, w, [])"
  | (invalid) errs where "(authorize (ep_Security ep) r :: 'e response option) = None"
      "Handle strict lib ep r w = (Responded (validationErrorResponse errs (lib_langs lib r)), w, [])"
  | (failed) req e where "(authorize (ep_Security ep) r :: 'e response option) = None" "ep_Body ep r = Inr req"
      "validatePathParams (lib_vmap lib) r (ep_PathRules ep) = []" "validateQueryParams (lib_vmap lib) r (ep_QueryRules ep) = []"
      "fst (Handle strict lib ep r w) = Responded (errorResponse e)"
  | (served) req x st where "(authorize (ep_Security ep) r :: 'e response option) = None" "ep_Body ep r = Inr req"
      "validatePathParams (lib_vmap lib) r (ep_PathRules ep) = []" "validateQueryParams (lib_vmap lib) r (ep_QueryRules ep) = []"
      "rr_value (run (ep_Handle ep r req) r (Some \<lparr>chk = resourceCheckOf (ep_Security ep), approved = False, reported = False\<rparr>) w) = Inr x"
      "rr_state (run (ep_Handle ep r req) r (Some \<lparr>chk = resourceCheckOf (ep_Security ep), approved = False, reported = False\<rparr>) w) = Some st"
      "verify_state st r = (None :: 'e response option, [])"
      "fst (Handle strict lib ep r w) = fst (finish strict lib ep r x)"
proof -
  let ?st0 = "\<lparr>chk = resourceCheckOf (ep_Security ep), approved = False, reported = False\<rparr>"
  have internal: "internalErrorResponse = (errorResponse (Sentinel ErrNoRows) :: 'e response)" by simp
  show thesis
  proof (cases "authorize (ep_Security ep) r :: 'e response option")
    case (Some res)
    then show thesis using that(1) by (simp add: Handle_def)
  next
    case None
    show thesis
    proof (cases "ep_Body ep r")
      case (Inl errs)
      with None show thesis using that(2) by (simp add: Handle_def)
    next
      case (Inr req)
      show thesis
      proof (cases "validatePathParams (lib_vmap lib) r (ep_PathRules ep) = [] \<and> validateQueryParams (lib_vmap lib) r (ep_QueryRules ep) = []")
        case False
        with None Inr show thesis
          using that(2) [of "validatePathParams (lib_vmap lib) r (ep_PathRules ep)"]
            that(2) [of "validateQueryParams (lib_vmap lib) r (ep_QueryRules ep)"]
          by (cases "validatePathParams (lib_vmap lib) r (ep_PathRules ep) = []") (simp_all add: Handle_def)
      next
        case True
        let ?rr = "run (ep_Handle ep r req) r (Some ?st0) w"
        obtain st where st: "rr_state ?rr = Some st" using run_state [of "ep_Handle ep r req" r ?st0 w] by blast
        show thesis
        proof (cases "rr_value ?rr")
          case (Inl e)
          with None Inr True show thesis using that(3) by (simp add: Handle_def Let_def)
        next
          case v: (Inr x)
          obtain o' l where vs: "verify_state st r = (o' :: 'e response option, l)" by fastforce
          show thesis
          proof (cases o')
            case (Some res)
            with vs have "res = internalErrorResponse" by (auto simp: verify_state_def split: if_splits)
            with Some None Inr True v st vs internal show thesis
              using that(3) [of req "Sentinel ErrNoRows"] by (simp add: Handle_def Let_def)
          next
            case N: None
            with vs have "l = []" by (auto simp: verify_state_def split: if_splits)
            with N None Inr True v st vs show thesis
              using that(4) [of req x st] by (simp add: Handle_def Let_def split: prod.splits)
          qed
        qed
      qed
    qed
  qed
qed

lemma errorResponse_envelope: "\<exists>d. Body (errorResponse e) = ErrorEnvelope d"
  by (cases e) (simp_all add: error_response_def internalErrorResponse_def)

lemma refusal_envelope: "authorize security r = Some res \<Longrightarrow> \<exists>d. Body res = ErrorEnvelope d"
  using authorize_Some [of security r res]
  by (auto simp: resp_simps error_response_def)

lemma validation_envelope: "\<exists>d. Body (validationErrorResponse errs langs) = ErrorEnvelope d"
  by (simp add: validationErrorResponse_def split: prod.splits)

lemma finish_status:
  "fst (finish strict lib ep r x) = Responded res \<Longrightarrow> strict \<Longrightarrow>
     isDeclaredStatus (Code res) (ep_Success ep) (ep_Responses ep)"
  by (auto simp: finish_def checkDeclaredStatus_def Let_def split: sum.splits if_splits)

text \<open>What a valid request is answered, and what a change of the world tells.\<close>

lemma Handle_valid:
  fixes lib :: "('r, 'b) libs"
  assumes "(authorize (ep_Security ep) r :: 'b response option) = None" "ep_Body ep r = Inr req"
    "validatePathParams (lib_vmap lib) r (ep_PathRules ep) = []" "validateQueryParams (lib_vmap lib) r (ep_QueryRules ep) = []"
    and rr: "rr = run (ep_Handle ep r req) r (Some \<lparr>chk = resourceCheckOf (ep_Security ep), approved = False, reported = False\<rparr>) w"
  shows "rr_value rr = Inl e \<Longrightarrow> Handle strict lib ep r w = (Responded (errorResponse e), rr_world rr, rr_logs rr)"
    and "rr_value rr = Inr x \<Longrightarrow> rr_state rr = Some st \<Longrightarrow> \<not> reported st \<Longrightarrow> chk st = None \<or> approved st \<Longrightarrow>
      Handle strict lib ep r w = (case finish strict lib ep r x of (o', l) \<Rightarrow> (o', rr_world rr, rr_logs rr @ l))"
  using assms by (auto simp: Handle_def Let_def verify_state_def)

lemma Handle_changed:
  fixes lib :: "('r, 'b) libs"
  assumes "Handle strict lib ep r w = (o', w', l)" "w' \<noteq> w \<or> l \<noteq> []"
  shows "(authorize (ep_Security ep) r :: 'b response option) = None \<and> (\<exists>req. ep_Body ep r = Inr req) \<and>
    validatePathParams (lib_vmap lib) r (ep_PathRules ep) = [] \<and> validateQueryParams (lib_vmap lib) r (ep_QueryRules ep) = []"
  by (cases rule: Handle_cases [of ep r strict lib w]) (use assms in auto)

text \<open>
  Nothing happens before a request has been let in: the world changes, or anything is logged,
  only for a request the declaration let through and whose body, path and query were valid; a
  refusal is answered with the world as it was.
\<close>

theorem Handle_runs_only_admitted:
  fixes lib :: "('r, 'b) libs"
  assumes "Handle strict lib ep r w = (o', w', l)" "w' \<noteq> w \<or> l \<noteq> []"
  shows "(authorize (ep_Security ep) r :: 'b response option) = None \<and> (\<exists>req. ep_Body ep r = Inr req) \<and>
    validatePathParams (lib_vmap lib) r (ep_PathRules ep) = [] \<and> validateQueryParams (lib_vmap lib) r (ep_QueryRules ep) = []"
  using assms by (rule Handle_changed)

text \<open>
  C16. A success is what the declaration promised. When an endpoint declares a resource check and
  answers anything but an error, then its caller is verified and holds the declared schemes and
  scopes, the handler handed \<open>Authorize\<close> a resource of the declared type, and the declared predicate
  held for that caller and that resource; where declarations are strict, its status is a declared one.
\<close>

theorem Handle_resource_checked:
  fixes lib :: "('r, 'b) libs"
  assumes "fst (Handle strict lib ep r w) = Responded res" "\<And>d. Body res \<noteq> ErrorEnvelope d"
    and "ep_Security ep = Some s" "Resource s = Some c"
  shows "\<exists>req asked p. ep_Body ep r = Inr req \<and>
      asked \<in> set (rr_asked (run (ep_Handle ep r req) r (Some \<lparr>chk = Some c, approved = False, reported = False\<rparr>) w)) \<and>
      rs_type asked = Some (rc_declared c) \<and> PrincipalFrom (rq_ctx r) = Some p \<and> rc_check c p (rs_value asked) \<and>
      (\<not> Public s \<longrightarrow> HasScheme (Some p) (sec_Schemes s) \<and> SatisfiesScopes (Some p) (sec_Scopes s)) \<and>
      (strict \<longrightarrow> isDeclaredStatus (Code res) (ep_Success ep) (ep_Responses ep))"
proof (cases rule: Handle_cases [of ep r strict lib w])
  case (served req x st)
  let ?st0 = "\<lparr>chk = Some c, approved = False, reported = False\<rparr>"
  have c: "resourceCheckOf (ep_Security ep) = Some c" using assms(3,4) by (simp add: resourceCheckOf_def)
  note served = served [unfolded c]
  from run_state [of "ep_Handle ep r req" r ?st0 w] served(6)
  have "chk st = Some c" "approved st \<longrightarrow> (\<exists>res p. res \<in> set (rr_asked (run (ep_Handle ep r req) r (Some ?st0) w)) \<and>
      rs_type res = Some (rc_declared c) \<and> PrincipalFrom (rq_ctx r) = Some p \<and> rc_check c p (rs_value res))"
    by auto
  moreover from served(7) \<open>chk st = Some c\<close> have "approved st"
    by (auto simp: verify_state_def split: if_splits)
  ultimately obtain asked p where a: "asked \<in> set (rr_asked (run (ep_Handle ep r req) r (Some ?st0) w))"
    "rs_type asked = Some (rc_declared c)" "PrincipalFrom (rq_ctx r) = Some p" "rc_check c p (rs_value asked)"
    by blast
  have "\<not> Public s \<longrightarrow> HasScheme (Some p) (sec_Schemes s) \<and> SatisfiesScopes (Some p) (sec_Scopes s)"
    using served(1) a(3) assms(3) by (auto simp: authorize_None_iff)
  moreover have "strict \<longrightarrow> isDeclaredStatus (Code res) (ep_Success ep) (ep_Responses ep)"
    using finish_status [of strict lib ep r x res] served(8) assms(1) by simp
  ultimately show ?thesis using served(2) a by blast
next
  case (refused res')
  then show ?thesis using refusal_envelope [OF refused(1)] assms(1,2) by auto
next
  case (invalid errs)
  obtain d where "Body (validationErrorResponse errs (lib_langs lib r) :: 'b response) = ErrorEnvelope d"
    using validation_envelope by blast
  then show ?thesis using invalid(2) assms(1,2) by auto
next
  case (failed req e)
  obtain d where "Body (errorResponse e :: 'b response) = ErrorEnvelope d"
    using errorResponse_envelope by blast
  then show ?thesis using failed(5) assms(1,2) by auto
qed

text \<open>An endpoint for the witnesses: whoever holds the subject may read what belongs to it.\<close>

definition demo_check :: "string resource_check" where
  "demo_check = \<lparr>rc_Description = ''Only the owner.'', rc_declared = ''*Thing'', rc_check = (\<lambda>p owner. p_Subject p = owner)\<rparr>"

definition demo_endpoint :: "(nat, string, unit, unit) endpoint" where
  "demo_endpoint = \<lparr>ep_Security = Some \<lparr>Public = False, sec_Schemes = [], sec_Scopes = [''a''], Resource = Some demo_check\<rparr>,
     ep_Body = (\<lambda>_. Inr ()), ep_PathRules = [], ep_QueryRules = [], ep_Success = 0, ep_Produces = [], ep_Responses = [],
     ep_Handle = (\<lambda>r _. CallAuthorize \<lparr>rs_type = Some ''*Thing'', rs_value = ''u''\<rparr>
       (\<lambda>e. case e of Some e' \<Rightarrow> Return (Inl e') | None \<Rightarrow> Put 1 (Return (Inr ()))))\<rparr>"

definition demo_libs :: "(unit, unit) libs" where
  "demo_libs = \<lparr>lib_vmap = (\<lambda>_ _. []), lib_langs = (\<lambda>_. [''en'']),
     lib_response = (\<lambda>x status. \<lparr>Code = (if status = 0 then 200 else status), AddHeaders = None, ReplaceHeaders = None,
       ContentType = [], Body = Payload x, Cookies = []\<rparr>)\<rparr>"

definition demo_ok :: "unit response" where
  "demo_ok = \<lparr>Code = 200, AddHeaders = None, ReplaceHeaders = None, ContentType = [], Body = Payload (), Cookies = []\<rparr>"

lemma demo_served: "Handle True demo_libs demo_endpoint (request_as (Some (demo_caller [''a'']))) 0 = (Responded demo_ok, 1, [])"
  by (simp add: Handle_def demo_endpoint_def demo_libs_def demo_ok_def authorize_def demo_caller_def HasScheme_def
      SatisfiesScopes_def validatePathParams_def validateQueryParams_def Authorize_def demo_check_def resourceCheckOf_def
      verify_state_def finish_def checkDeclaredStatus_def isDeclaredStatus_def)

lemma Handle_runs_only_admitted_witness:
  "(authorize (ep_Security demo_endpoint) (request_as (Some (demo_caller [''a'']))) :: unit response option) = None"
  using Handle_runs_only_admitted [OF demo_served] by simp

lemma Handle_resource_checked_witness:
  "\<exists>p. PrincipalFrom (rq_ctx (request_as (Some (demo_caller [''a''])))) = Some p \<and> rc_check demo_check p ''u''"
proof -
  let ?r = "request_as (Some (demo_caller [''a'']))"
  have "fst (Handle True demo_libs demo_endpoint ?r 0) = Responded demo_ok" by (simp add: demo_served)
  moreover have "Body demo_ok \<noteq> ErrorEnvelope d" for d by (simp add: demo_ok_def)
  moreover have "\<exists>s. ep_Security demo_endpoint = Some s \<and> Resource s = Some demo_check" by (simp add: demo_endpoint_def)
  ultimately obtain req asked p where "ep_Body demo_endpoint ?r = Inr req"
    "asked \<in> set (rr_asked (run (ep_Handle demo_endpoint ?r req) ?r (Some \<lparr>chk = Some demo_check, approved = False, reported = False\<rparr>) 0))"
    "PrincipalFrom (rq_ctx ?r) = Some p" "rc_check demo_check p (rs_value asked)"
    using Handle_resource_checked [of True demo_libs demo_endpoint ?r 0 demo_ok] by blast
  then show ?thesis by (auto simp: demo_endpoint_def Authorize_def demo_check_def demo_caller_def Let_def)
qed

text \<open>
  A violation's record can be alerted on: the fields of every violation name each key once, none
  of them is \<open>type\<close>, and the type its writer adds is the one that is read back.
\<close>

theorem violation_records:
  "distinct (map fst (LogArgs v @ [(''type'', t)])) \<and> map_of (LogArgs v @ [(''type'', t)]) ''type'' = Some t \<and>
   (\<exists>m p. map_of (LogArgs v) ''method'' = Some m \<and> map_of (LogArgs v) ''path'' = Some p)"
  using violation.typed_record violation.type_read_back by (cases v) (auto simp: LogArgs_LogAttrs)

end
