(* ===== verification/Origins.thy ===== *)
theory Origins
  imports Restkit
begin

text \<open>
  Which sites may reach the application through a browser (\<open>internal/middleware\<close>): the origins of
  \<open>CORS_ALLOW_ORIGIN\<close> (\<open>origin.go\<close>), the CORS headers (\<open>cors.go\<close>), the refusal of cross-origin
  state changes (\<open>csrf.go\<close>) and of WebSocket upgrades (\<open>wsorigin.go\<close>).

  \<open>host_of\<close> is \<open>url.Parse\<close> reduced to the host of what it parsed. A middleware wraps a
  continuation; \<open>None\<close> is a nil response.
\<close>

type_synonym ('w, 'b) continuation = "request \<Rightarrow> 'w \<Rightarrow> 'b response option \<times> 'w \<times> logs"

section \<open>Origins\<close>

definition wildcardOrigin :: string where "wildcardOrigin = ''*''"

record origins =
  wildcard :: bool
  listed :: "string list"

fun parse_origins :: "origins \<Rightarrow> string list \<Rightarrow> origins" where
  "parse_origins o' [] = o'"
| "parse_origins o' (part # parts) =
     (let origin = TrimSpace part in
      if origin = [] then parse_origins o' parts
      else if origin = wildcardOrigin then parse_origins (o'\<lparr>wildcard := True\<rparr>) parts
      else parse_origins (o'\<lparr>listed := listed o' @ [origin]\<rparr>) parts)"

definition ParseOrigins :: "string \<Rightarrow> origins" where
  "ParseOrigins allowOrigin = parse_origins \<lparr>wildcard = False, listed = []\<rparr> (split_at CHR '','' allowOrigin)"

definition Wildcard :: "origins option \<Rightarrow> bool" where
  "Wildcard oo = (case oo of None \<Rightarrow> False | Some os \<Rightarrow> wildcard os)"

definition Configured :: "origins option \<Rightarrow> bool" where
  "Configured oo = (case oo of None \<Rightarrow> False | Some os \<Rightarrow> wildcard os \<or> listed os \<noteq> [])"

definition Named :: "origins option \<Rightarrow> string list" where
  "Named oo = (case oo of None \<Rightarrow> [] | Some os \<Rightarrow> listed os)"

definition AllowedValue :: "origins option \<Rightarrow> string \<Rightarrow> string" where
  "AllowedValue oo origin =
     (case oo of
        None \<Rightarrow> []
      | Some os \<Rightarrow>
          if origin = [] then []
          else if wildcard os then wildcardOrigin
          else case find (\<lambda>allowed. allowed = origin) (listed os) of None \<Rightarrow> [] | Some _ \<Rightarrow> origin)"

definition Allows :: "origins option \<Rightarrow> string \<Rightarrow> bool" where
  "Allows oo origin = (AllowedValue oo origin \<noteq> [])"

definition VariesByOrigin :: "origins option \<Rightarrow> bool" where
  "VariesByOrigin oo = (case oo of None \<Rightarrow> False | Some os \<Rightarrow> \<not> wildcard os \<and> listed os \<noteq> [])"

section \<open>CORS\<close>

definition originHeader :: string where "originHeader = ''Origin''"
definition varyHeader :: string where "varyHeader = ''Vary''"
definition allowOriginHeader :: string where "allowOriginHeader = ''Access-Control-Allow-Origin''"
definition allowCredentialsHeader :: string where "allowCredentialsHeader = ''Access-Control-Allow-Credentials''"
definition allowMethodsHeader :: string where "allowMethodsHeader = ''Access-Control-Allow-Methods''"
definition allowHeadersHeader :: string where "allowHeadersHeader = ''Access-Control-Allow-Headers''"
definition exposeHeadersHeader :: string where "exposeHeadersHeader = ''Access-Control-Expose-Headers''"
definition maxAgeHeader :: string where "maxAgeHeader = ''Access-Control-Max-Age''"
definition requestMethodHeader :: string where "requestMethodHeader = ''Access-Control-Request-Method''"
definition credentialsAllowed :: string where "credentialsAllowed = ''true''"

lemmas cors_headers = originHeader_def varyHeader_def allowOriginHeader_def allowCredentialsHeader_def
  allowMethodsHeader_def allowHeadersHeader_def exposeHeadersHeader_def maxAgeHeader_def credentialsAllowed_def

record cors_config =
  AllowOrigin :: string
  AllowMethods :: string
  AllowHeaders :: string
  ExposeHeaders :: string
  AllowCredentials :: bool
  CORS_MaxAge :: int

fun nat_digits :: "nat \<Rightarrow> string" where
  "nat_digits n = (if n < 10 then [char_of (48 + n)] else nat_digits (n div 10) @ [char_of (48 + n mod 10)])"

declare nat_digits.simps [simp del]

definition Itoa :: "int \<Rightarrow> string" where
  "Itoa i = (if i < 0 then CHR ''-'' # nat_digits (nat (- i)) else nat_digits (nat i))"

definition isPreflight :: "request \<Rightarrow> bool" where
  "isPreflight r =
     (if rq_Method r \<noteq> ''OPTIONS'' then False
      else case rq_Header r requestMethodHeader of None \<Rightarrow> False | Some meth \<Rightarrow> meth \<noteq> [])"

definition actualHeaders :: "cors_config \<Rightarrow> origins option \<Rightarrow> string \<Rightarrow> headers" where
  "actualHeaders cfg os allowed =
     (let h0 = (if VariesByOrigin os then put varyHeader originHeader [] else []) in
      if allowed = [] then h0
      else let h1 = put allowOriginHeader allowed h0;
               h2 = (if ExposeHeaders cfg \<noteq> [] then put exposeHeadersHeader (ExposeHeaders cfg) h1 else h1)
           in if AllowCredentials cfg \<and> allowed \<noteq> wildcardOrigin then put allowCredentialsHeader credentialsAllowed h2 else h2)"

definition preflightResponse :: "cors_config \<Rightarrow> origins option \<Rightarrow> string \<Rightarrow> 'b response" where
  "preflightResponse cfg os allowed =
     (let h0 = actualHeaders cfg os allowed;
          h = (if allowed \<noteq> [] then
                 let h1 = (if AllowMethods cfg \<noteq> [] then put allowMethodsHeader (AllowMethods cfg) h0 else h0);
                     h2 = (if AllowHeaders cfg \<noteq> [] then put allowHeadersHeader (AllowHeaders cfg) h1 else h1)
                 in if 0 < CORS_MaxAge cfg then put maxAgeHeader (Itoa (CORS_MaxAge cfg)) h2 else h2
               else h0)
      in \<lparr>Code = 200, AddHeaders = Some h, ReplaceHeaders = None, ContentType = [], Body = Nothing, Cookies = []\<rparr>)"

definition appendVary :: "string \<Rightarrow> string \<Rightarrow> string" where
  "appendVary existing name =
     (if list_ex (\<lambda>field. EqualFold (TrimSpace field) name) (split_at CHR '','' existing) then existing
      else existing @ '', '' @ name)"

definition apply_header :: "headers \<Rightarrow> string \<times> string \<Rightarrow> headers" where
  "apply_header target h =
     (case h of (name, value) \<Rightarrow>
        (case map_of target name of
           None \<Rightarrow> put name value target
         | Some existing \<Rightarrow> if name = varyHeader then put name (appendVary existing value) target else target))"

definition applyHeaders :: "'b response option \<Rightarrow> headers \<Rightarrow> 'b response option" where
  "applyHeaders ores headers =
     (case ores of
        None \<Rightarrow> None
      | Some res \<Rightarrow>
          if headers = [] then Some res
          else case ReplaceHeaders res of
            Some target \<Rightarrow> Some (res\<lparr>ReplaceHeaders := Some (foldl apply_header target headers)\<rparr>)
          | None \<Rightarrow>
              Some (res\<lparr>AddHeaders := Some (foldl apply_header (case AddHeaders res of None \<Rightarrow> [] | Some t \<Rightarrow> t) headers)\<rparr>))"

definition CORS :: "cors_config \<Rightarrow> ('w, 'b) continuation \<Rightarrow> ('w, 'b) continuation" where
  "CORS cfg next' =
     (let os = Some (ParseOrigins (AllowOrigin cfg)) in
      if \<not> Configured os then next'
      else (\<lambda>r w.
        let origin = value_or_empty (rq_Header r originHeader);
            allowed = AllowedValue os origin
        in if isPreflight r then (Some (preflightResponse cfg os allowed), w, [])
           else case next' r w of (res, w', l) \<Rightarrow> (applyHeaders res (actualHeaders cfg os allowed), w', l)))"

section \<open>Cross-origin state changes\<close>

definition LogTypeCrossOriginDenied :: string where "LogTypeCrossOriginDenied = ''cross_origin_denied_log''"

text \<open>
  \<open>http.CrossOriginProtection\<close>: the trusted origins it was given and its check. A trusted origin
  has to be one a browser can send, which \<open>valid\<close> decides (\<open>AddTrustedOrigin\<close>).
\<close>

fun NewCrossOriginProtection :: "(string \<Rightarrow> bool) \<Rightarrow> string list \<Rightarrow> string list \<Rightarrow> string list result" where
  "NewCrossOriginProtection valid trusted [] = Inr trusted"
| "NewCrossOriginProtection valid trusted (origin # rest) =
     (if valid origin then NewCrossOriginProtection valid (trusted @ [origin]) rest
      else Inl (Errorf ''CORS_ALLOW_ORIGIN names %q, which is not an origin a browser can send'' [origin] []))"

definition protection_check :: "(string \<Rightarrow> string option) \<Rightarrow> string list \<Rightarrow> request \<Rightarrow> goerr option" where
  "protection_check host_of trusted r =
     (let site = value_or_empty (rq_Header r ''Sec-Fetch-Site'');
          origin = value_or_empty (rq_Header r originHeader);
          exempt = (origin \<noteq> [] \<and> origin \<in> set trusted)
      in if rq_Method r \<in> {''GET'', ''HEAD'', ''OPTIONS''} then None
         else if site = ''same-origin'' \<or> site = ''none'' then None
         else if site \<noteq> [] then
           (if exempt then None else Some (Errorf ''cross-origin request detected from Sec-Fetch-Site header'' [] []))
         else if origin = [] \<or> host_of origin = Some (rq_Host r) \<or> exempt then None
         else Some (Errorf ''cross-origin request detected, and/or browser is out of date'' [] []))"

definition CSRF :: "(request \<Rightarrow> goerr option) option \<Rightarrow> ('w, 'b) continuation \<Rightarrow> ('w, 'b) continuation" where
  "CSRF checker next' = (\<lambda>r w.
     (case checker of
        None \<Rightarrow> next' r w
      | Some check \<Rightarrow>
          (case check r of
             Some e \<Rightarrow> (Some CrossOriginResponse, w, [(Warn, LogTypeCrossOriginDenied)])
           | None \<Rightarrow> next' r w)))"

section \<open>Upgrades\<close>

definition LogTypeUpgradeOriginDenied :: string where "LogTypeUpgradeOriginDenied = ''upgrade_origin_denied_log''"

definition sameOrigin :: "(string \<Rightarrow> string option) \<Rightarrow> request \<Rightarrow> string \<Rightarrow> bool" where
  "sameOrigin host_of r origin =
     (case host_of origin of None \<Rightarrow> False | Some h \<Rightarrow> h \<noteq> [] \<and> h = rq_Host r)"

definition UpgradeOrigin :: "(string \<Rightarrow> string option) \<Rightarrow> origins option \<Rightarrow> request \<Rightarrow> 'b response option \<times> logs" where
  "UpgradeOrigin host_of os r =
     (case rq_Header r originHeader of
        None \<Rightarrow> (None, [])
      | Some origin \<Rightarrow>
          if origin = [] then (None, [])
          else if sameOrigin host_of r origin \<or> Allows os origin then (None, [])
          else (Some CrossOriginResponse, [(Warn, LogTypeUpgradeOriginDenied)]))"

section \<open>What is allowed\<close>

lemma parse_origins_wildcard:
  "wildcard (parse_origins o' parts) \<longleftrightarrow> wildcard o' \<or> wildcardOrigin \<in> TrimSpace ` set parts"
  by (induction o' parts rule: parse_origins.induct) (auto simp: Let_def wildcardOrigin_def)

lemma parse_origins_listed:
  "listed (parse_origins o' parts) = listed o' @ filter (\<lambda>t. t \<noteq> [] \<and> t \<noteq> wildcardOrigin) (map TrimSpace parts)"
  by (induction o' parts rule: parse_origins.induct) (auto simp: Let_def)

lemma ParseOrigins_wildcard: "wildcard (ParseOrigins s) \<longleftrightarrow> wildcardOrigin \<in> TrimSpace ` set (split_at CHR '','' s)"
  by (simp add: ParseOrigins_def parse_origins_wildcard)

lemma find_eq: "find (\<lambda>allowed. allowed = x) xs = (if x \<in> set xs then Some x else None)"
  by (induction xs) auto

lemma AllowedValue_cases:
  "AllowedValue os origin = [] \<or> (AllowedValue os origin = wildcardOrigin \<and> Wildcard os) \<or>
     (AllowedValue os origin = origin \<and> origin \<in> set (Named os) \<and> \<not> Wildcard os)"
  by (auto simp: AllowedValue_def Wildcard_def Named_def find_eq split: option.splits)

lemma Allows_iff:
  "Allows os origin \<longleftrightarrow> origin \<noteq> [] \<and> (Wildcard os \<or> origin \<in> set (Named os))"
  by (auto simp: Allows_def AllowedValue_def Wildcard_def Named_def wildcardOrigin_def find_eq split: option.splits)

lemma header_names_differ:
  "varyHeader \<noteq> allowOriginHeader" "varyHeader \<noteq> exposeHeadersHeader" "varyHeader \<noteq> allowCredentialsHeader"
  "allowOriginHeader \<noteq> exposeHeadersHeader" "allowOriginHeader \<noteq> allowCredentialsHeader"
  "exposeHeadersHeader \<noteq> allowCredentialsHeader"
  by (simp_all add: cors_headers)

lemma actualHeaders_lookup:
  "map_of (actualHeaders cfg os allowed) name =
     (if name = varyHeader then (if VariesByOrigin os then Some originHeader else None)
      else if allowed = [] then None
      else if name = allowOriginHeader then Some allowed
      else if name = exposeHeadersHeader then (if ExposeHeaders cfg \<noteq> [] then Some (ExposeHeaders cfg) else None)
      else if name = allowCredentialsHeader then
        (if AllowCredentials cfg \<and> allowed \<noteq> wildcardOrigin then Some credentialsAllowed else None)
      else None)"
  by (simp add: actualHeaders_def Let_def header_names_differ header_names_differ [symmetric])

lemma actualHeaders_distinct: "distinct (map fst (actualHeaders cfg os allowed))"
  by (simp add: actualHeaders_def Let_def distinct_put)

text \<open>What the merge leaves of a header, by what was there and what is added once.\<close>

lemma foldl_apply_header:
  "distinct (map fst headers) \<Longrightarrow>
   map_of (foldl apply_header target headers) name =
     (case map_of headers name of
        None \<Rightarrow> map_of target name
      | Some value \<Rightarrow>
          (case map_of target name of
             None \<Rightarrow> Some value
           | Some existing \<Rightarrow> Some (if name = varyHeader then appendVary existing value else existing)))"
proof (induction headers arbitrary: target)
  case (Cons h headers)
  obtain n v where h: "h = (n, v)" by (cases h)
  have m: "map_of (apply_header target h) name =
      (if name = n then Some (case map_of target n of None \<Rightarrow> v | Some e \<Rightarrow> if n = varyHeader then appendVary e v else e)
       else map_of target name)"
    by (auto simp: apply_header_def h split: option.splits)
  have fresh: "n \<notin> fst ` set headers" using Cons.prems h by simp
  then have "map_of headers n = None" by (simp add: map_of_eq_None_iff)
  with Cons m h show ?case by (auto split: option.splits)
qed simp

text \<open>What a browser reads of a response, and the fields of its \<open>Vary\<close>.\<close>

definition sent_header :: "'b response \<Rightarrow> string \<Rightarrow> string option" where
  "sent_header res name =
     (case ReplaceHeaders res of
        Some t \<Rightarrow> map_of t name
      | None \<Rightarrow> (case AddHeaders res of None \<Rightarrow> None | Some t \<Rightarrow> map_of t name))"

definition varies_by :: "string \<Rightarrow> string \<Rightarrow> bool" where
  "varies_by value name = list_ex (\<lambda>field. EqualFold (TrimSpace field) name) (split_at CHR '','' value)"

lemma appendVary_varies: "varies_by (appendVary existing ''Origin'') ''Origin''"
proof (cases "varies_by existing ''Origin''")
  case True
  then show ?thesis by (simp add: appendVary_def varies_by_def)
next
  case False
  have "split_at CHR '','' '' Origin'' = ['' Origin'']" "TrimSpace '' Origin'' = ''Origin''" by code_simp+
  with False show ?thesis
    using split_at_join [of "CHR '',''" existing "'' Origin''"] by (simp add: appendVary_def varies_by_def)
qed

lemma appendVary_keeps: "varies_by existing field \<Longrightarrow> varies_by (appendVary existing name) field"
  using split_at_join [of "CHR '',''" existing "CHR '' '' # name"]
  by (simp add: appendVary_def varies_by_def)

lemma sent_applyHeaders:
  assumes "applyHeaders (Some res) headers = Some res'" "distinct (map fst headers)"
  shows "sent_header res' name =
    (case map_of headers name of
       None \<Rightarrow> sent_header res name
     | Some value \<Rightarrow>
         (case sent_header res name of
            None \<Rightarrow> Some value
          | Some existing \<Rightarrow> Some (if name = varyHeader then appendVary existing value else existing)))"
proof (cases "headers = []")
  case True
  with assms(1) show ?thesis by (simp add: applyHeaders_def)
next
  case False
  show ?thesis
  proof (cases "ReplaceHeaders res")
    case None
    with False assms(1) have "ReplaceHeaders res' = None"
      "AddHeaders res' = Some (foldl apply_header (case AddHeaders res of None \<Rightarrow> [] | Some h \<Rightarrow> h) headers)"
      by (auto simp: applyHeaders_def split: option.splits)
    with None show ?thesis
      by (simp add: sent_header_def foldl_apply_header [OF assms(2)] split: option.split)
  next
    case (Some t)
    with False assms(1) have "ReplaceHeaders res' = Some (foldl apply_header t headers)"
      by (auto simp: applyHeaders_def split: option.splits)
    with Some show ?thesis
      by (simp add: sent_header_def foldl_apply_header [OF assms(2)] split: option.split)
  qed
qed

lemma applyHeaders_Some: "\<exists>res'. applyHeaders (Some res) headers = Some res'"
  by (auto simp: applyHeaders_def split: option.splits)

lemma CORS_runs:
  assumes "Configured (Some (ParseOrigins (AllowOrigin cfg)))" "\<not> isPreflight r" "next' r w = (Some res, w', l)"
    "CORS cfg next' r w = (Some res', w'', l')"
  shows "applyHeaders (Some res) (actualHeaders cfg (Some (ParseOrigins (AllowOrigin cfg)))
      (AllowedValue (Some (ParseOrigins (AllowOrigin cfg))) (value_or_empty (rq_Header r originHeader)))) = Some res' \<and>
    w'' = w' \<and> l' = l"
  using assms by (auto simp: CORS_def Let_def)

text \<open>
  The CORS headers. Behind a configuration that names origins, a response whose handler wrote no
  CORS header of its own carries \<open>Access-Control-Allow-Origin\<close> exactly for an origin the configuration
  allows: that origin when it is written out, and the wildcard otherwise; credentials are offered only
  to an origin that is written out, never with the wildcard. Every other header of the handler is sent
  as it wrote it, and where answers differ by origin \<open>Vary\<close> says so and keeps what it already said.
\<close>

theorem CORS_headers:
  defines "os \<equiv> \<lambda>cfg. Some (ParseOrigins (AllowOrigin cfg))"
  assumes "Configured (os cfg)" "\<not> isPreflight r" "next' r w = (Some res, w', l)"
    and "CORS cfg next' r w = (Some res', w'', l')"
    and "sent_header res allowOriginHeader = None" "sent_header res allowCredentialsHeader = None"
  shows "w'' = w' \<and> l' = l \<and>
    (let origin = value_or_empty (rq_Header r originHeader) in
      (\<forall>v. sent_header res' allowOriginHeader = Some v \<longleftrightarrow>
         Allows (os cfg) origin \<and> v = (if Wildcard (os cfg) then ''*'' else origin)) \<and>
      (\<forall>v. sent_header res' allowCredentialsHeader = Some v \<longrightarrow>
         AllowCredentials cfg \<and> sent_header res' allowOriginHeader = Some origin \<and>
         origin \<in> set (Named (os cfg)) \<and> \<not> Wildcard (os cfg) \<and> origin \<noteq> ''*'') \<and>
      (VariesByOrigin (os cfg) \<longrightarrow> (\<exists>v. sent_header res' varyHeader = Some v \<and> varies_by v ''Origin'' \<and>
         (\<forall>v0 f. sent_header res varyHeader = Some v0 \<and> varies_by v0 f \<longrightarrow> varies_by v f))) \<and>
      (\<forall>name v. name \<noteq> varyHeader \<and> sent_header res name = Some v \<longrightarrow> sent_header res' name = Some v))"
proof -
  let ?origin = "value_or_empty (rq_Header r originHeader)"
  let ?v = "AllowedValue (os cfg) ?origin"
  from CORS_runs [OF assms(2,3,4,5) [unfolded os_def]]
  have a: "applyHeaders (Some res) (actualHeaders cfg (os cfg) ?v) = Some res'" "w'' = w'" "l' = l"
    by (simp_all add: os_def)
  note sent = sent_applyHeaders [OF a(1) actualHeaders_distinct]
  have names: "allowOriginHeader \<noteq> varyHeader" "allowCredentialsHeader \<noteq> varyHeader" "allowCredentialsHeader \<noteq> allowOriginHeader"
    "allowCredentialsHeader \<noteq> exposeHeadersHeader" by (simp_all add: cors_headers)
  have ao: "sent_header res' allowOriginHeader = (if ?v = [] then None else Some ?v)"
    using sent [of allowOriginHeader] assms(6) names by (simp add: actualHeaders_lookup)
  have ac: "sent_header res' allowCredentialsHeader =
      (if ?v \<noteq> [] \<and> AllowCredentials cfg \<and> ?v \<noteq> wildcardOrigin then Some credentialsAllowed else None)"
    using sent [of allowCredentialsHeader] assms(7) names by (simp add: actualHeaders_lookup)
  have "?v \<noteq> [] \<longleftrightarrow> Allows (os cfg) ?origin" by (simp add: Allows_def)
  moreover have "?v = (if Wildcard (os cfg) then ''*'' else ?origin)" if "?v \<noteq> []"
    using that by (auto simp: AllowedValue_def Wildcard_def wildcardOrigin_def find_eq split: option.splits if_splits)
  ultimately have 1: "\<forall>v. sent_header res' allowOriginHeader = Some v \<longleftrightarrow>
      Allows (os cfg) ?origin \<and> v = (if Wildcard (os cfg) then ''*'' else ?origin)"
    using ao by auto
  have 2: "\<forall>v. sent_header res' allowCredentialsHeader = Some v \<longrightarrow>
      AllowCredentials cfg \<and> sent_header res' allowOriginHeader = Some ?origin \<and>
      ?origin \<in> set (Named (os cfg)) \<and> \<not> Wildcard (os cfg) \<and> ?origin \<noteq> ''*''"
    using ao ac AllowedValue_cases [of "os cfg" ?origin] by (auto simp: wildcardOrigin_def)
  have 3: "\<exists>v. sent_header res' varyHeader = Some v \<and> varies_by v ''Origin'' \<and>
      (\<forall>v0 f. sent_header res varyHeader = Some v0 \<and> varies_by v0 f \<longrightarrow> varies_by v f)" if "VariesByOrigin (os cfg)"
  proof (cases "sent_header res varyHeader")
    case None
    have "varies_by ''Origin'' ''Origin''" by code_simp
    with None sent [of varyHeader] that show ?thesis by (simp add: actualHeaders_lookup originHeader_def)
  next
    case (Some e)
    with sent [of varyHeader] that show ?thesis
      using appendVary_varies appendVary_keeps by (simp add: actualHeaders_lookup originHeader_def)
  qed
  have 4: "\<forall>name v. name \<noteq> varyHeader \<and> sent_header res name = Some v \<longrightarrow> sent_header res' name = Some v"
    using sent by (auto split: option.splits)
  show ?thesis unfolding Let_def using a(2,3) 1 2 3 4 by blast
qed

definition demo_cors :: cors_config where
  "demo_cors = \<lparr>AllowOrigin = ''https://a.example'', AllowMethods = [], AllowHeaders = [], ExposeHeaders = [],
     AllowCredentials = True, CORS_MaxAge = 0\<rparr>"

lemma demo_cors_origins: "ParseOrigins (AllowOrigin demo_cors) = \<lparr>wildcard = False, listed = [''https://a.example'']\<rparr>"
  by code_simp

lemma CORS_headers_witness:
  "\<exists>res'. CORS demo_cors (\<lambda>r w. (Some demo_ok, w, [])) (demo_request ''Origin'' ''https://a.example'') () = (Some res', (), []) \<and>
     sent_header res' allowOriginHeader = Some ''https://a.example''"
proof -
  let ?r = "demo_request ''Origin'' ''https://a.example''"
  let ?next = "\<lambda>r w. (Some demo_ok, w, [])"
  have c: "Configured (Some (ParseOrigins (AllowOrigin demo_cors)))" by (simp add: demo_cors_origins Configured_def)
  have p: "\<not> isPreflight ?r" by (simp add: isPreflight_def demo_request_def)
  obtain res' w'' l' where run: "CORS demo_cors ?next ?r () = (Some res', w'', l')"
    using c p applyHeaders_Some [of demo_ok] by (simp add: CORS_def Let_def) blast
  have "sent_header demo_ok allowOriginHeader = None" "sent_header demo_ok allowCredentialsHeader = None"
    by (simp_all add: sent_header_def demo_ok_def)
  from CORS_headers [OF c p _ run this]
  have "w'' = () \<and> l' = []" "sent_header res' allowOriginHeader = Some ''https://a.example''"
    by (simp_all add: Let_def Allows_iff Wildcard_def Named_def demo_cors_origins demo_request_def originHeader_def value_or_empty_def)
  with run show ?thesis by simp
qed

text \<open>
  A preflight is answered without the handler: its world is untouched and nothing of the endpoint
  runs, and outside the configured origins it grants no origin, method, header or lifetime.
\<close>

theorem preflight_grants_nothing_else:
  fixes next' :: "('w, 'b) continuation"
  assumes "Configured (Some (ParseOrigins (AllowOrigin cfg)))" "isPreflight r"
  shows "\<exists>res. CORS cfg next' r w = (Some res, w, []) \<and> Code res = 200 \<and> Body res = Nothing \<and>
    (\<not> Allows (Some (ParseOrigins (AllowOrigin cfg))) (value_or_empty (rq_Header r originHeader)) \<longrightarrow>
       (\<forall>name. sent_header res name \<noteq> None \<longrightarrow> name = varyHeader))"
proof -
  let ?os = "Some (ParseOrigins (AllowOrigin cfg))" and ?o = "value_or_empty (rq_Header r originHeader)"
  have "CORS cfg next' r w = (Some (preflightResponse cfg ?os (AllowedValue ?os ?o)), w, [])"
    using assms by (simp add: CORS_def Let_def)
  moreover have "name = varyHeader"
    if "\<not> Allows ?os ?o" "sent_header (preflightResponse cfg ?os (AllowedValue ?os ?o) :: 'b response) name \<noteq> None" for name
    using that actualHeaders_lookup [of cfg ?os "[]" name]
    by (auto simp: Allows_def sent_header_def preflightResponse_def Let_def split: if_splits)
  moreover have "Code (preflightResponse cfg ?os a :: 'b response) = 200 \<and> Body (preflightResponse cfg ?os a :: 'b response) = Nothing" for a
    by (simp add: preflightResponse_def Let_def)
  ultimately show ?thesis by blast
qed

lemma preflight_grants_nothing_else_witness:
  "\<exists>res :: unit response. CORS demo_cors (\<lambda>r w. (None, w, [])) ((demo_request requestMethodHeader ''PUT'')\<lparr>rq_Method := ''OPTIONS''\<rparr>) () = (Some res, (), [])"
proof -
  have c: "Configured (Some (ParseOrigins (AllowOrigin demo_cors)))" by (simp add: demo_cors_origins Configured_def)
  have "isPreflight ((demo_request requestMethodHeader ''PUT'')\<lparr>rq_Method := ''OPTIONS''\<rparr>)"
    by (simp add: isPreflight_def demo_request_def)
  from preflight_grants_nothing_else [OF c this, of "\<lambda>r w. (None, w, [])" "()"] show ?thesis by blast
qed

lemma NewCrossOriginProtection_Inr:
  "NewCrossOriginProtection valid trusted os = Inr ts \<Longrightarrow> ts = trusted @ os \<and> (\<forall>o' \<in> set os. valid o')"
  by (induction valid trusted os rule: NewCrossOriginProtection.induct) (auto split: if_splits)

text \<open>
  C21. A browser cannot be made to change anything from elsewhere. Behind the protection built from the
  configured origins, a request that may change state runs the handler only when it says it is from the
  same site, carries no origin at all, comes from the application's own host, or from an origin the
  configuration writes out; the wildcard opens nothing. Any other is refused with 403, untouched.
\<close>

theorem CSRF_protects:
  assumes "NewCrossOriginProtection valid [] (Named os) = Inr trusted"
    and "rq_Method r \<notin> {''GET'', ''HEAD'', ''OPTIONS''}" "rq_Header r originHeader = Some origin" "origin \<noteq> []"
    and "host_of origin \<noteq> Some (rq_Host r)" "origin \<notin> set (Named os)"
    and "rq_Header r ''Sec-Fetch-Site'' \<noteq> Some ''same-origin''" "rq_Header r ''Sec-Fetch-Site'' \<noteq> Some ''none''"
  shows "CSRF (Some (protection_check host_of trusted)) next' r w =
    (Some CrossOriginResponse, w, [(Warn, LogTypeCrossOriginDenied)])"
proof -
  have "trusted = Named os" using NewCrossOriginProtection_Inr [OF assms(1)] by simp
  then have "\<exists>e. protection_check host_of trusted r = Some e"
    using assms(2-8) by (auto simp: protection_check_def value_or_empty_def Let_def split: option.splits)
  then show ?thesis by (auto simp: CSRF_def)
qed

lemma CSRF_protects_witness:
  "CSRF (Some (protection_check (\<lambda>_. None) [])) (\<lambda>r w. (None, w, [])) ((demo_request ''Origin'' ''https://evil.example'')\<lparr>rq_Method := ''POST''\<rparr>) () =
     (Some (CrossOriginResponse :: unit response), (), [(Warn, LogTypeCrossOriginDenied)])"
proof -
  have "ParseOrigins ''*'' = \<lparr>wildcard = True, listed = []\<rparr>" by code_simp
  then have "NewCrossOriginProtection (\<lambda>_. True) [] (Named (Some (ParseOrigins ''*''))) = Inr []" by (simp add: Named_def)
  then show ?thesis
    by (rule CSRF_protects [where origin = "''https://evil.example''"])
      (simp_all add: demo_request_def originHeader_def Named_def \<open>ParseOrigins ''*'' = _\<close>)
qed

text \<open>
  A WebSocket upgrade that names an origin goes through only from the application's own host or an
  allowed origin; naming none is not a browser and goes through. A refusal is a 403 with its record.
\<close>

theorem UpgradeOrigin_decides:
  "(fst (UpgradeOrigin host_of os r) = (None :: 'b response option) \<longleftrightarrow>
     (\<forall>origin. rq_Header r originHeader = Some origin \<and> origin \<noteq> [] \<longrightarrow>
        (host_of origin = Some (rq_Host r) \<and> rq_Host r \<noteq> []) \<or> Wildcard os \<or> origin \<in> set (Named os))) \<and>
   (fst (UpgradeOrigin host_of os r) \<noteq> (None :: 'b response option) \<longrightarrow>
     UpgradeOrigin host_of os r = (Some (CrossOriginResponse :: 'b response), [(Warn, LogTypeUpgradeOriginDenied)]))"
  by (auto simp: UpgradeOrigin_def sameOrigin_def Allows_iff split: option.splits)

lemma UpgradeOrigin_decides_witness:
  "UpgradeOrigin (\<lambda>_. None) None (demo_request ''Origin'' ''https://evil.example'') =
     (Some (CrossOriginResponse :: unit response), [(Warn, LogTypeUpgradeOriginDenied)])"
  using UpgradeOrigin_decides [of "\<lambda>_. None" None "demo_request ''Origin'' ''https://evil.example''"]
  by (auto simp: demo_request_def originHeader_def Wildcard_def Named_def)

end
