(* ===== verification/AuthMw.thy ===== *)
theory AuthMw
  imports Origins
begin

text \<open>
  Authentication in front of every request (\<open>internal/middleware/auth.go\<close>) and the chain all global
  middlewares form (\<open>internal/app/http/global_middlewares.go\<close>).

  The world of a handler is a pair: what the stores of the verifier depend on (\<open>'s\<close>), and the rest
  (\<open>'w\<close>). The three middlewares of the rest package are parameters (\<open>stock\<close>). Declarations are taken
  as they are outside development (\<open>StrictForEnv\<close> false), where no request panics over one.
\<close>

section \<open>The caller of a request\<close>

definition authenticate ::
  "jwt_parse \<Rightarrow> 's verifier \<Rightarrow> expander option \<Rightarrow> claim_set option \<Rightarrow> request \<Rightarrow> 's \<Rightarrow>
     (verify_result option \<times> 'b response option \<times> request) \<times> 's \<times> logs" where
  "authenticate jwt v scopes cs r s =
     (case Verify jwt v r s of (verdict, s', l) \<Rightarrow>
        ((case verdict of
            Inr result \<Rightarrow>
              let ctx = WithEntry (rq_ctx r) cs;
                  ctx' = (case vr_Principal result of
                            None \<Rightarrow> ctx
                          | Some p \<Rightarrow> WithPrincipal ctx (WithScopeExpander scopes (Some p)))
              in (Some result, None, r\<lparr>rq_ctx := ctx'\<rparr>)
          | Inl e \<Rightarrow>
              if errors_is e ErrCredentialUnavailable then (None, Some UnavailableResponse, r)
              else (None, Some UnauthenticatedResponse, r)), s', l))"

definition withDiscardedCookies :: "'b response option \<Rightarrow> verify_result option \<Rightarrow> 'b response option" where
  "withDiscardedCookies res result =
     (case (res, result) of
        (Some answer, Some verdict) \<Rightarrow>
          if vr_Discard verdict = [] then res else Some (answer\<lparr>Cookies := Cookies answer @ vr_Discard verdict\<rparr>)
      | _ \<Rightarrow> res)"

definition Auth ::
  "jwt_parse \<Rightarrow> 's verifier \<Rightarrow> expander option \<Rightarrow> claim_set option \<Rightarrow>
     ('s \<times> 'w, 'b) continuation \<Rightarrow> ('s \<times> 'w, 'b) continuation" where
  "Auth jwt v scopes cs next' = (\<lambda>r (s, w).
     (case authenticate jwt v scopes cs r s of ((result, refusal, r'), s', l) \<Rightarrow>
        (case refusal of
           Some answer \<Rightarrow> (Some answer, (s', w), l)
         | None \<Rightarrow>
             (case next' r' (s', w) of (res, w', l') \<Rightarrow> (withDiscardedCookies res result, w', l @ l')))))"

definition AuthUpgrade ::
  "jwt_parse \<Rightarrow> 's verifier \<Rightarrow> expander option \<Rightarrow> claim_set option \<Rightarrow> request \<Rightarrow> 's \<Rightarrow>
     ('b response option \<times> request) \<times> 's \<times> logs" where
  "AuthUpgrade jwt v scopes cs r s =
     (case authenticate jwt v scopes cs r s of ((_, refusal, r'), s', l) \<Rightarrow> ((refusal, r'), s', l))"

section \<open>The chain\<close>

type_synonym ('w, 'b) middleware_fun = "('w, 'b) continuation \<Rightarrow> ('w, 'b) continuation"

record ('w, 'b) stock =
  st_Logging :: "('w, 'b) middleware_fun"
  st_Recovery :: "'b response \<Rightarrow> ('w, 'b) middleware_fun"
  st_VerifyBodyParsable :: "('w, 'b) middleware_fun"
  st_csrf_name :: string                        \<comment> \<open>\<open>apicontract.MiddlewareCSRF\<close>\<close>

record ('s, 'b) globalMiddlewareDeps =
  gm_cors :: cors_config
  gm_crossOrigin :: "(request \<Rightarrow> goerr option) option"
  gm_jwt :: jwt_parse
  gm_verifier :: "'s verifier"
  gm_scopes :: "expander option"
  gm_claims :: "claim_set option"
  gm_panicResponse :: "'b response"

definition globalMiddlewareChain ::
  "('s \<times> 'w, 'b) stock \<Rightarrow> (string \<times> (('s, 'b) globalMiddlewareDeps \<Rightarrow> ('s \<times> 'w, 'b) middleware_fun)) list" where
  "globalMiddlewareChain st =
     [(''logging'', \<lambda>d. st_Logging st),
      (''recovery'', \<lambda>d. st_Recovery st (gm_panicResponse d)),
      (''verify-body-parsable'', \<lambda>d. st_VerifyBodyParsable st),
      (''cors'', \<lambda>d. CORS (gm_cors d)),
      (st_csrf_name st, \<lambda>d. CSRF (gm_crossOrigin d)),
      (''auth'', \<lambda>d. Auth (gm_jwt d) (gm_verifier d) (gm_scopes d) (gm_claims d))]"

definition globalMiddlewares :: "('s \<times> 'w, 'b) stock \<Rightarrow> ('s, 'b) globalMiddlewareDeps \<Rightarrow> ('s \<times> 'w, 'b) middleware_fun list" where
  "globalMiddlewares st deps = map (\<lambda>(name, build). build deps) (globalMiddlewareChain st)"

definition GlobalMiddlewareNames :: "('s \<times> 'w, 'b) stock \<Rightarrow> string list" where
  "GlobalMiddlewareNames st = map fst (globalMiddlewareChain st)"

text \<open>Outside in: the first of the list sees a request first and its response last.\<close>

definition chained :: "('w, 'b) middleware_fun list \<Rightarrow> ('w, 'b) middleware_fun" where
  "chained ms h = foldr (\<lambda>m next'. m next') ms h"

text \<open>An endpoint at the end of the chain.\<close>

definition served_by :: "('r, 'b) libs \<Rightarrow> ('w, 'v, 'q, 'r) endpoint \<Rightarrow> ('w, 'b) continuation" where
  "served_by lib ep = (\<lambda>r w.
     (case Handle False lib ep r w of
        (Responded res, w', l) \<Rightarrow> (Some res, w', l)
      | (Panicked _, w', l) \<Rightarrow> (None, w', l)))"

section \<open>What a middleware owes\<close>

text \<open>
  The contract of a middleware that stands in front of others: a request it holds back leaves the
  handlers' world alone, and one it lets go on, as \<open>lets\<close> says, is handled by the next and by nothing
  else.
\<close>

locale middleware =
  fixes mw :: "('s \<times> 'w, 'b) middleware_fun"
    and lets :: "request \<Rightarrow> 's \<Rightarrow> (request \<times> 's) option"
  assumes stops: "lets r s = None \<Longrightarrow> snd (fst (snd (mw next' r (s, w)))) = w"
    and goes: "lets r s = Some (r', s') \<Longrightarrow> fst (snd (mw next' r (s, w))) = fst (snd (next' r' (s', w)))"
begin

lemma changes:
  assumes "snd (fst (snd (mw next' r (s, w)))) \<noteq> w"
  shows "\<exists>r' s'. lets r s = Some (r', s') \<and> snd (fst (snd (next' r' (s', w)))) \<noteq> w"
proof (cases "lets r s")
  case None
  with stops assms show ?thesis by blast
next
  case (Some p)
  with goes [of r s "fst p" "snd p" next' w] assms show ?thesis by (cases p) auto
qed

end

definition cors_lets :: "cors_config \<Rightarrow> request \<Rightarrow> 's \<Rightarrow> (request \<times> 's) option" where
  "cors_lets cfg r s = (if Configured (Some (ParseOrigins (AllowOrigin cfg))) \<and> isPreflight r then None else Some (r, s))"

definition csrf_lets :: "(request \<Rightarrow> goerr option) option \<Rightarrow> request \<Rightarrow> 's \<Rightarrow> (request \<times> 's) option" where
  "csrf_lets checker r s = (if (case checker of None \<Rightarrow> True | Some check \<Rightarrow> check r = None) then Some (r, s) else None)"

definition auth_lets :: "jwt_parse \<Rightarrow> 's verifier \<Rightarrow> expander option \<Rightarrow> claim_set option \<Rightarrow> request \<Rightarrow> 's \<Rightarrow> (request \<times> 's) option" where
  "auth_lets jwt v scopes cs r s =
     (case authenticate jwt v scopes cs r s :: (verify_result option \<times> unit response option \<times> request) \<times> 's \<times> logs of
        ((_, refusal, r'), s', _) \<Rightarrow> if refusal = None then Some (r', s') else None)"

lemma authenticate_any_body:
  "(case (authenticate jwt v scopes cs r s :: (verify_result option \<times> 'b response option \<times> request) \<times> 's \<times> logs) of
      ((a, b, r'), s', l) \<Rightarrow> (a, b = None, r', s', l)) =
   (case (authenticate jwt v scopes cs r s :: (verify_result option \<times> unit response option \<times> request) \<times> 's \<times> logs) of
      ((a, b, r'), s', l) \<Rightarrow> (a, b = None, r', s', l))"
  by (simp add: authenticate_def Let_def split: prod.split sum.split)

lemma auth_lets_eq:
  fixes refusal :: "'b response option"
  assumes "authenticate jwt v scopes cs r s = ((result, refusal, r'), s', l)"
  shows "auth_lets jwt v scopes cs r s = (if refusal = None then Some (r', s') else None)"
  using authenticate_any_body [of jwt v scopes cs r s, where 'b = 'b] assms
  by (auto simp: auth_lets_def split: prod.splits)

interpretation cors: middleware "CORS cfg" "cors_lets cfg" for cfg
  by unfold_locales (auto simp: cors_lets_def CORS_def Let_def split: if_splits prod.split)

interpretation csrf: middleware "CSRF checker" "csrf_lets checker" for checker
  by unfold_locales (auto simp: csrf_lets_def CSRF_def split: if_splits option.splits)

interpretation auth: middleware "Auth jwt v scopes cs" "auth_lets jwt v scopes cs" for jwt v scopes cs
proof (unfold_locales, goal_cases)
  case (1 r s next' w)
  then show ?case
    by (cases "authenticate jwt v scopes cs r s :: (_ \<times> 'c response option \<times> _) \<times> _ \<times> _")
      (auto simp: Auth_def auth_lets_eq split: if_splits prod.splits option.splits)
next
  case (2 r s r' s' next' w)
  then show ?case
    by (cases "authenticate jwt v scopes cs r s :: (_ \<times> 'c response option \<times> _) \<times> _ \<times> _")
      (auto simp: Auth_def auth_lets_eq split: if_splits prod.splits option.splits)
qed


section \<open>What authentication does to a request\<close>

lemma WithScopeExpander_None_caller [simp]: "WithScopeExpander e None = None"
  by (simp add: WithScopeExpander_def)

lemma authenticate_refused:
  assumes "Verify jwt v r s = (Inl e, s', l)"
  shows "authenticate jwt v scopes cs r s =
    ((None, Some (if errors_is e ErrCredentialUnavailable then UnavailableResponse else UnauthenticatedResponse), r), s', l)"
  using assms by (simp add: authenticate_def)

lemma authenticate_let_through:
  fixes refusal :: "'b response option"
  assumes "authenticate jwt v scopes cs r s = ((result, refusal, r'), s', l)" "refusal = None"
  obtains vr where "Verify jwt v r s = (Inr vr, s', l)" "result = Some vr"
    "r' = r\<lparr>rq_ctx := (case vr_Principal vr of None \<Rightarrow> WithEntry (rq_ctx r) cs
       | Some p \<Rightarrow> WithPrincipal (WithEntry (rq_ctx r) cs) (WithScopeExpander scopes (Some p)))\<rparr>"
  using assms by (auto simp: authenticate_def Let_def split: prod.splits sum.splits if_splits)

lemma entry_context:
  assumes "PrincipalFrom ctx = None"
  shows "PrincipalFrom (case oc of None \<Rightarrow> WithEntry ctx cs | Some p \<Rightarrow> WithPrincipal (WithEntry ctx cs) (WithScopeExpander scopes (Some p))) =
      WithScopeExpander scopes oc"
    and "From (case oc of None \<Rightarrow> WithEntry ctx cs | Some p \<Rightarrow> WithPrincipal (WithEntry ctx cs) (WithScopeExpander scopes (Some p))) =
      (case oc of None \<Rightarrow> \<lparr>i_kind = KindUnauthenticated, i_id = [], i_claims = []\<rparr> | Some p \<Rightarrow> derive p cs)"
  using assms
  by (auto simp: From_def WithEntry_def WithPrincipal_def PrincipalFrom_def WithScopeExpander_def derive_def split: option.splits)

text \<open>
  C13. What authentication answers and what it lets through. A credential that cannot be trusted is
  refused with 401 and one that could not be checked with 503, whatever the endpoint, and nothing
  behind runs; any other request goes on once, its caller the verified one with the policy attached
  (or none), its initiator read off that caller (or unauthenticated), and the instruction to drop a
  dead cookie rides on whatever is answered.
\<close>

theorem Auth_verdicts:
  assumes "PrincipalFrom (rq_ctx r) = None" "Verify jwt v r s = (verdict, s', l)"
  shows "case verdict of
      Inl e \<Rightarrow> Auth jwt v scopes cs next' r (s, w) =
        (Some (if errors_is e ErrCredentialUnavailable then UnavailableResponse else UnauthenticatedResponse), (s', w), l)
    | Inr vr \<Rightarrow> \<exists>ctx. PrincipalFrom ctx = WithScopeExpander scopes (vr_Principal vr) \<and>
        From ctx = (case vr_Principal vr of None \<Rightarrow> \<lparr>i_kind = KindUnauthenticated, i_id = [], i_claims = []\<rparr> | Some p \<Rightarrow> derive p cs) \<and>
        Auth jwt v scopes cs next' r (s, w) =
          (case next' (r\<lparr>rq_ctx := ctx\<rparr>) (s', w) of (res, w', l') \<Rightarrow>
             (map_option (\<lambda>answer. answer\<lparr>Cookies := Cookies answer @ vr_Discard vr\<rparr>) res, w', l @ l'))"
proof (cases verdict)
  case (Inl e)
  with assms(2) show ?thesis by (simp add: Auth_def authenticate_refused)
next
  case (Inr vr)
  let ?ctx = "case vr_Principal vr of None \<Rightarrow> WithEntry (rq_ctx r) cs
    | Some p \<Rightarrow> WithPrincipal (WithEntry (rq_ctx r) cs) (WithScopeExpander scopes (Some p))"
  have discards: "withDiscardedCookies res (Some vr) = map_option (\<lambda>answer. answer\<lparr>Cookies := Cookies answer @ vr_Discard vr\<rparr>) res" for res
    by (simp add: withDiscardedCookies_def split: option.split)
  have "Auth jwt v scopes cs next' r (s, w) =
      (case next' (r\<lparr>rq_ctx := ?ctx\<rparr>) (s', w) of (res, w', l') \<Rightarrow>
         (map_option (\<lambda>answer. answer\<lparr>Cookies := Cookies answer @ vr_Discard vr\<rparr>) res, w', l @ l'))"
    using assms(2) Inr by (simp add: Auth_def authenticate_def Let_def discards)
  with Inr entry_context [OF assms(1), where oc = "vr_Principal vr"] show ?thesis by (simp only: sum.case) blast
qed

lemma demo_key_refused:
  "\<exists>e. Verify (\<lambda>_ _ _. Inr None) demo_verifier (demo_request ''X-API-Key'' ''nope'') () = (Inl e, (), []) \<and>
     \<not> errors_is e ErrCredentialUnavailable"
  by (simp add: Verify_def bearerToken_def api_key_def demo_request_def demo_verifier_def authorizationHeader_def
      caller_result_def verifyAPIKey_def staticKeyStore_def)

lemma Auth_verdicts_witness:
  "Auth (\<lambda>_ _ _. Inr None) demo_verifier None None (\<lambda>r w. (Some demo_ok, w, [])) (demo_request ''X-API-Key'' ''nope'') ((), 0 :: nat) =
     (Some UnauthenticatedResponse, ((), 0), [])"
proof -
  obtain e where e: "Verify (\<lambda>_ _ _. Inr None) demo_verifier (demo_request ''X-API-Key'' ''nope'') () = (Inl e, (), [])"
    "\<not> errors_is e ErrCredentialUnavailable"
    using demo_key_refused by blast
  show ?thesis
    using Auth_verdicts [OF _ e(1), where scopes = None and cs = None and w = "0 :: nat"
        and next' = "\<lambda>r w. (Some demo_ok, w, [])"] e(2)
    by (simp add: demo_request_def)
qed

section \<open>The whole chain\<close>

text \<open>
  What the rest package documents of its own middlewares, for requests that do not panic: logging and
  recovery hand the request on and the answer back, and a body that does not parse is answered there.
\<close>

definition stock_ok :: "('w, 'b) stock \<Rightarrow> bool" where
  "stock_ok st \<longleftrightarrow>
     (\<forall>next' r w. fst (st_Logging st next' r w) = fst (next' r w) \<and> fst (snd (st_Logging st next' r w)) = fst (snd (next' r w))) \<and>
     (\<forall>res next'. st_Recovery st res next' = next') \<and>
     (\<forall>r. (\<forall>next' w. st_VerifyBodyParsable st next' r w = next' r w) \<or>
          (\<forall>next' w. \<exists>res. st_VerifyBodyParsable st next' r w = (Some res, w, [])))"

lemma chained_globals:
  "chained (globalMiddlewares st d) h =
     st_Logging st (st_Recovery st (gm_panicResponse d) (st_VerifyBodyParsable st
       (CORS (gm_cors d) (CSRF (gm_crossOrigin d) (Auth (gm_jwt d) (gm_verifier d) (gm_scopes d) (gm_claims d) h)))))"
  by (simp add: chained_def globalMiddlewares_def globalMiddlewareChain_def)

lemma stock_passes:
  assumes "stock_ok st" "snd (fst (snd (chained (globalMiddlewares st d) h r (s, w)))) \<noteq> w"
  shows "fst (snd (chained (globalMiddlewares st d) h r (s, w))) =
    fst (snd (CORS (gm_cors d) (CSRF (gm_crossOrigin d) (Auth (gm_jwt d) (gm_verifier d) (gm_scopes d) (gm_claims d) h)) r (s, w)))"
proof -
  let ?inner = "CORS (gm_cors d) (CSRF (gm_crossOrigin d) (Auth (gm_jwt d) (gm_verifier d) (gm_scopes d) (gm_claims d) h))"
  have e: "fst (snd (chained (globalMiddlewares st d) h r (s, w))) = fst (snd (st_VerifyBodyParsable st ?inner r (s, w)))"
    using assms(1) unfolding chained_globals stock_ok_def by metis
  have "(\<forall>next' w. st_VerifyBodyParsable st next' r w = next' r w) \<or>
      (\<forall>next' w. \<exists>res. st_VerifyBodyParsable st next' r w = (Some res, w, []))"
    using assms(1) unfolding stock_ok_def by blast
  then show ?thesis
  proof
    assume "\<forall>next' w. st_VerifyBodyParsable st next' r w = next' r w"
    with e show ?thesis by simp
  next
    assume "\<forall>next' w. \<exists>res. st_VerifyBodyParsable st next' r w = (Some res, w, [])"
    then obtain res where "st_VerifyBodyParsable st ?inner r (s, w) = (Some res, (s, w), [])" by blast
    with e assms(2) show ?thesis by simp
  qed
qed

lemma Handle_refused:
  "authorize (ep_Security ep) r = Some res \<Longrightarrow> Handle strict lib ep r w = (Responded res, w, [])"
  by (simp add: Handle_def)

lemma served_by_world: "fst (snd (served_by lib ep r w)) = fst (snd (Handle False lib ep r w))"
  by (simp add: served_by_def split: prod.split outcome.split)

lemma chain_changes:
  fixes lib :: "('r, 'b) libs" and d :: "('s, 'b) globalMiddlewareDeps"
  assumes "stock_ok st" "PrincipalFrom (rq_ctx r) = None"
    and "snd (fst (snd (chained (globalMiddlewares st d) (served_by lib ep) r (s, w)))) \<noteq> w"
  shows "\<not> (Configured (Some (ParseOrigins (AllowOrigin (gm_cors d)))) \<and> isPreflight r) \<and>
    (\<forall>check. gm_crossOrigin d = Some check \<longrightarrow> check r = None) \<and>
    (\<exists>vr. fst (Verify (gm_jwt d) (gm_verifier d) r s) = Inr vr \<and>
       ((\<exists>sec. ep_Security ep = Some sec \<and> Public sec) \<or>
        (\<exists>p q. vr_Principal vr = Some p \<and> WithScopeExpander (gm_scopes d) (Some p) = Some q \<and>
           (case ep_Security ep of None \<Rightarrow> True
            | Some sec \<Rightarrow> HasScheme (Some q) (sec_Schemes sec) \<and> SatisfiesScopes (Some q) (sec_Scopes sec)))))"
proof -
  let ?auth = "Auth (gm_jwt d) (gm_verifier d) (gm_scopes d) (gm_claims d) (served_by lib ep)"
  let ?csrf = "CSRF (gm_crossOrigin d) ?auth"
  have "snd (fst (snd (CORS (gm_cors d) ?csrf r (s, w)))) \<noteq> w"
    using stock_passes [OF assms(1,3)] assms(3) by simp
  from cors.changes [OF this] obtain r1 s1
    where 1: "cors_lets (gm_cors d) r s = Some (r1, s1)" "snd (fst (snd (?csrf r1 (s1, w)))) \<noteq> w" by blast
  from csrf.changes [OF 1(2)] obtain r2 s2
    where 2: "csrf_lets (gm_crossOrigin d) r1 s1 = Some (r2, s2)" "snd (fst (snd (?auth r2 (s2, w)))) \<noteq> w" by blast
  have same: "r1 = r" "s1 = s" "r2 = r" "s2 = s"
    using 1(1) 2(1) by (auto simp: cors_lets_def csrf_lets_def split: if_splits)
  from auth.changes [OF 2(2)] obtain r3 s3 where 3: "auth_lets (gm_jwt d) (gm_verifier d) (gm_scopes d) (gm_claims d) r s = Some (r3, s3)"
    "snd (fst (snd (served_by lib ep r3 (s3, w)))) \<noteq> w"
    unfolding same by blast
  obtain result refusal r' s' l where a:
    "authenticate (gm_jwt d) (gm_verifier d) (gm_scopes d) (gm_claims d) r s = ((result, refusal :: 'b response option, r'), s', l)"
    by (metis prod.collapse)
  with auth_lets_eq [OF a] 3(1) have "refusal = None" "r3 = r'" by (auto split: if_splits)
  then obtain vr where v: "Verify (gm_jwt d) (gm_verifier d) r s = (Inr vr, s', l)"
    "r3 = r\<lparr>rq_ctx := (case vr_Principal vr of None \<Rightarrow> WithEntry (rq_ctx r) (gm_claims d)
       | Some p \<Rightarrow> WithPrincipal (WithEntry (rq_ctx r) (gm_claims d)) (WithScopeExpander (gm_scopes d) (Some p)))\<rparr>"
    using authenticate_let_through [OF a] by metis
  have vr: "PrincipalFrom (rq_ctx r3) = WithScopeExpander (gm_scopes d) (vr_Principal vr)"
    using entry_context(1) [OF assms(2)] by (simp add: v(2))
  obtain o' w' l' where h: "Handle False lib ep r3 (s3, w) = (o', w', l')" by (metis prod.collapse)
  with 3(2) have "w' \<noteq> (s3, w)" by (auto simp: served_by_world)
  then have "(authorize (ep_Security ep) r3 :: 'b response option) = None"
    using Handle_refused [of ep r3 _ False lib "(s3, w)"] h by (cases "authorize (ep_Security ep) r3 :: 'b response option") auto
  with vr have "(\<exists>sec. ep_Security ep = Some sec \<and> Public sec) \<or>
      (\<exists>p q. vr_Principal vr = Some p \<and> WithScopeExpander (gm_scopes d) (Some p) = Some q \<and>
        (case ep_Security ep of None \<Rightarrow> True
         | Some sec \<Rightarrow> HasScheme (Some q) (sec_Schemes sec) \<and> SatisfiesScopes (Some q) (sec_Scopes sec)))"
    unfolding authorize_None_iff by (cases "vr_Principal vr") auto
  with v(1) 1(1) 2(1) same show ?thesis by (auto simp: cors_lets_def csrf_lets_def split: if_splits option.splits)
qed

text \<open>
  C11. Nothing happens behind the chain for a request that was not let in. When an endpoint behind the
  global middlewares changes anything, the request was no answered preflight, passed the cross-origin
  check, carried no credential that failed, and its verified caller, with the policy attached, holds
  what the endpoint declares, or the endpoint is public.
\<close>

theorem chain_admits:
  fixes lib :: "('r, 'b) libs" and d :: "('s, 'b) globalMiddlewareDeps"
  assumes "stock_ok st" "PrincipalFrom (rq_ctx r) = None"
    and "snd (fst (snd (chained (globalMiddlewares st d) (served_by lib ep) r (s, w)))) \<noteq> w"
  shows "\<not> (Configured (Some (ParseOrigins (AllowOrigin (gm_cors d)))) \<and> isPreflight r) \<and>
    (\<forall>check. gm_crossOrigin d = Some check \<longrightarrow> check r = None) \<and>
    (\<exists>vr. fst (Verify (gm_jwt d) (gm_verifier d) r s) = Inr vr \<and>
       ((\<exists>sec. ep_Security ep = Some sec \<and> Public sec) \<or>
        (\<exists>p q. vr_Principal vr = Some p \<and> WithScopeExpander (gm_scopes d) (Some p) = Some q \<and>
           (case ep_Security ep of None \<Rightarrow> True
            | Some sec \<Rightarrow> HasScheme (Some q) (sec_Schemes sec) \<and> SatisfiesScopes (Some q) (sec_Scopes sec)))))"
  using assms by (rule chain_changes)

definition demo_stock :: "('w, 'b) stock" where
  "demo_stock = \<lparr>st_Logging = (\<lambda>next'. next'), st_Recovery = (\<lambda>_ next'. next'), st_VerifyBodyParsable = (\<lambda>next'. next'),
     st_csrf_name = ''csrf''\<rparr>"

definition demo_deps :: "(unit, unit) globalMiddlewareDeps" where
  "demo_deps = \<lparr>gm_cors = demo_cors, gm_crossOrigin = Some (protection_check (\<lambda>_. None) []), gm_jwt = (\<lambda>_ _ _. Inr None),
     gm_verifier = demo_verifier, gm_scopes = None, gm_claims = None, gm_panicResponse = demo_ok\<rparr>"

definition demo_writer :: "(unit \<times> nat, string, unit, unit) endpoint" where
  "demo_writer = \<lparr>ep_Security = None, ep_Body = (\<lambda>_. Inr ()), ep_PathRules = [], ep_QueryRules = [], ep_Success = 0,
     ep_Produces = [], ep_Responses = [], ep_Handle = (\<lambda>r _. Put ((), 1) (Return (Inr ())))\<rparr>"

lemma chain_admits_witness:
  "(\<exists>vr. fst (Verify (\<lambda>_ _ _. Inr None) demo_verifier (demo_request ''X-API-Key'' ''key'') ()) = Inr vr \<and> vr_Principal vr \<noteq> None) \<and>
   snd (fst (snd (chained (globalMiddlewares demo_stock demo_deps) (served_by demo_libs demo_writer)
     (demo_request ''X-API-Key'' ''key'') ((), 0)))) = 1"
proof -
  let ?r = "demo_request ''X-API-Key'' ''key''"
  let ?served = "chained (globalMiddlewares demo_stock demo_deps) (served_by demo_libs demo_writer) ?r ((), 0)"
  have deps: "gm_jwt demo_deps = (\<lambda>_ _ _. Inr None)" "gm_verifier demo_deps = demo_verifier"
    by (simp_all add: demo_deps_def)
  have v: "Verify (\<lambda>_ _ _. Inr None) demo_verifier ?r () =
      (Inr \<lparr>vr_Principal = Some \<lparr>p_Subject = apiKeySubjectPrefix, p_Scopes = [], p_Scheme = SchemeAPIKey, p_Claims = [], implied = None\<rparr>, vr_Discard = []\<rparr>, (), [])"
    by (simp add: Verify_def bearerToken_def api_key_def demo_request_def demo_verifier_def authorizationHeader_def
      caller_result_def verifyAPIKey_def staticKeyStore_def)
  have h: "fst (snd (served_by demo_libs demo_writer r ((), n))) = ((), 1)" if "PrincipalFrom (rq_ctx r) \<noteq> None" for r n
    using that by (auto simp: served_by_def Handle_def demo_writer_def authorize_def validatePathParams_def validateQueryParams_def
        resourceCheckOf_def verify_state_def finish_def checkDeclaredStatus_def isDeclaredStatus_def HasScheme_def SatisfiesScopes_def
        demo_libs_def Let_def)
  have p: "check_of ?r = None" if "check_of = protection_check (\<lambda>_. None) []" for check_of
    using that by (simp add: protection_check_def demo_request_def)
  obtain r' where r': "auth_lets (\<lambda>_ _ _. Inr None) demo_verifier None None ?r () = Some (r', ())" "PrincipalFrom (rq_ctx r') \<noteq> None"
    by (simp add: auth_lets_def authenticate_def v WithScopeExpander_def)
  have c: "cors_lets demo_cors ?r () = Some (?r, ())" by (simp add: cors_lets_def isPreflight_def demo_request_def)
  have "csrf_lets (Some (protection_check (\<lambda>_. None) [])) ?r () = Some (?r, ())" by (simp add: csrf_lets_def p)
  then have w: "snd (fst (snd ?served)) = 1"
    unfolding chained_globals
    by (simp add: demo_stock_def demo_deps_def cors.goes [OF c] csrf.goes auth.goes [OF r'(1)] h [OF r'(2)])
  have ok: "stock_ok (demo_stock :: (unit \<times> nat, unit) stock)" by (auto simp: stock_ok_def demo_stock_def)
  have anon: "PrincipalFrom (rq_ctx ?r) = None" by (simp add: demo_request_def)
  have changed: "snd (fst (snd ?served)) \<noteq> 0" using w by simp
  have "ep_Security demo_writer = None" by (simp add: demo_writer_def)
  with chain_admits [OF ok anon changed, unfolded deps] have
    "\<exists>vr. fst (Verify (\<lambda>_ _ _. Inr None) demo_verifier ?r ()) = Inr vr \<and> vr_Principal vr \<noteq> None"
    by (elim conjE exE disjE) (simp, blast)
  with w show ?thesis by blast
qed

end
