(* ===== verification/SessionApi.thy ===== *)
theory SessionApi
  imports SessionSpec AuthMw
begin

text \<open>
  Trading a token for a browser session and ending it: the endpoints of
  \<open>internal/app/auth/api\<close>, run by the endpoint adapter over the session store, and how the store is
  chosen at startup (\<open>internal/infra/session/session.go\<close>).

  The world an endpoint works on is the cache with the instant of the request and the random bytes it
  would be given.
\<close>

section \<open>The endpoints\<close>

definition CodeSessionNotCreated :: string where "CodeSessionNotCreated = ''session_not_created''"
definition CodeSessionNotEnded :: string where "CodeSessionNotEnded = ''session_not_ended''"
definition LogTypeSessionNotCreated :: string where "LogTypeSessionNotCreated = ''session_not_created_log''"
definition LogTypeSessionNotEnded :: string where "LogTypeSessionNotEnded = ''session_not_ended_log''"
definition LogTypeReplacedSessionKept :: string where "LogTypeReplacedSessionKept = ''replaced_session_kept_log''"
definition SessionPath :: string where "SessionPath = ''/session''"

record create_session =
  cs_Persistent :: bool

record session_dto =
  sd_Subject :: string
  sd_Persistent :: bool
  sd_ExpiresAt :: time

text \<open>\<open>rest.Result\<close>: the body, and the cookies its options add.\<close>

record 'd rest_result =
  res_body :: "'d option"
  res_cookies :: "cookie list"

record 'w session_store =
  ss_Create :: "snapshot option \<Rightarrow> bool \<Rightarrow> 'w \<Rightarrow> session result \<times> 'w"
  ss_Revoke :: "string \<Rightarrow> 'w \<Rightarrow> goerr option \<times> 'w"

definition endReplacedSession ::
  "request \<Rightarrow> 'w session_store \<Rightarrow> config \<Rightarrow> ('w, 'v, 'r) handler \<Rightarrow> ('w, 'v, 'r) handler" where
  "endReplacedSession r store cfg k =
     (case rq_Cookie r (CookieName cfg) of
        None \<Rightarrow> k
      | Some previous \<Rightarrow>
          if previous = [] then k
          else Get (\<lambda>w. case ss_Revoke store previous w of
            (Some e, w') \<Rightarrow> Put w' (Log Warn LogTypeReplacedSessionKept k)
          | (None, w') \<Rightarrow> Put w' k))"

definition NewCreateSession ::
  "(request \<Rightarrow> validation_error list + create_session) \<Rightarrow> 'w session_store option \<Rightarrow> config option \<Rightarrow>
     ('w, 'v, create_session, session_dto rest_result) endpoint" where
  "NewCreateSession body ss ck =
     \<lparr>ep_Security = Some \<lparr>Public = False, sec_Schemes = [SchemeJWT], sec_Scopes = [], Resource = None\<rparr>,
      ep_Body = body, ep_PathRules = [], ep_QueryRules = [], ep_Success = 201, ep_Produces = [], ep_Responses = [],
      ep_Handle = (\<lambda>r b.
        (case (ss, ck) of
           (Some store, Some cfg) \<Rightarrow> Get (\<lambda>w.
             (case ss_Create store (SnapshotOf (PrincipalFrom (rq_ctx r))) (cs_Persistent b) w of
                (Inl e, w') \<Rightarrow> Put w' (Log Error LogTypeSessionNotCreated
                   (Return (Inl (HTTPErr 503 CodeSessionNotCreated UnavailableMessage))))
              | (Inr s, w') \<Rightarrow> Put w' (endReplacedSession r store cfg
                   (Return (Inr \<lparr>res_body = Some \<lparr>sd_Subject = subject_of s, sd_Persistent = Persistent s, sd_ExpiresAt = ExpiresAt s\<rparr>,
                      res_cookies = [Issue cfg s]\<rparr>)))))
         | _ \<Rightarrow> Return (Inl (HTTPErr 503 CodeSessionNotCreated UnavailableMessage))))\<rparr>"

definition NewDeleteSession ::
  "(request \<Rightarrow> validation_error list + unit) \<Rightarrow> 'w session_store option \<Rightarrow> config option \<Rightarrow>
     ('w, 'v, unit, unit rest_result) endpoint" where
  "NewDeleteSession body ss ck =
     \<lparr>ep_Security = Some \<lparr>Public = False, sec_Schemes = [SchemeSession], sec_Scopes = [], Resource = None\<rparr>,
      ep_Body = body, ep_PathRules = [], ep_QueryRules = [], ep_Success = 204, ep_Produces = [], ep_Responses = [],
      ep_Handle = (\<lambda>r _.
        (case (ss, ck) of
           (Some store, Some cfg) \<Rightarrow> Get (\<lambda>w.
             (case ss_Revoke store (value_or_empty (rq_Cookie r (CookieName cfg))) w of
                (Some e, w') \<Rightarrow> Put w' (Log Error LogTypeSessionNotEnded
                   (Return (Inl (HTTPErr 503 CodeSessionNotEnded UnavailableMessage))))
              | (None, w') \<Rightarrow> Put w' (Return (Inr \<lparr>res_body = None, res_cookies = [Discard cfg]\<rparr>))))
         | _ \<Rightarrow> Return (Inl (HTTPErr 503 CodeSessionNotEnded UnavailableMessage))))\<rparr>"

definition NewSessionModule :: "'w session_store option \<Rightarrow> config option \<Rightarrow> 'v rest_module" where
  "NewSessionModule ss ck = \<lparr>m_Path = SessionPath, m_Get = NoController,
     m_Post = Typed (ep_Security (NewCreateSession (\<lambda>_. Inl []) ss ck)), m_Put = NoController, m_Patch = NoController,
     m_Delete = Typed (ep_Security (NewDeleteSession (\<lambda>_. Inl []) ss ck))\<rparr>"

section \<open>The store at startup\<close>

definition sessionStoreKeyPrefix :: string where "sessionStoreKeyPrefix = ''auth''"

definition memoryAllowed :: "string \<Rightarrow> bool" where
  "memoryAllowed env = (env = ''local'' \<or> env = ''test'')"

datatype store_kind = StoreRedis | StoreMemory | StoreOther

text \<open>\<open>redis\<close> and \<open>memory\<close> open the two caches; the configuration names the one that is wanted.\<close>

definition backingStore :: "'c cache_ops \<Rightarrow> (string \<Rightarrow> 'c cache_ops) \<Rightarrow> string \<Rightarrow> store_kind \<Rightarrow> 'c cache_ops result" where
  "backingStore redis memory env kind =
     (case kind of
        StoreRedis \<Rightarrow> Inr redis
      | StoreMemory \<Rightarrow>
          if \<not> memoryAllowed env then
            Inl (Errorf ''session: AUTH_SESSION_STORE=%s only runs in the %s and %s environments (got %q)'' [''memory'', ''local'', ''test'', env] [])
          else Inr (memory sessionStoreKeyPrefix)
      | StoreOther \<Rightarrow> Inl (Errorf ''session: AUTH_SESSION_STORE selected no backend'' [] []))"

text \<open>\<open>registry.ModuleParams\<close> gives the configuration: its \<open>Auth\<close> part, and in it the session settings.\<close>

type_synonym auth_params = "(auth_session \<times> store_kind) option option result"

definition session_settings :: "auth_params \<Rightarrow> (auth_session \<times> store_kind) option result" where
  "session_settings params =
     (case params of
        Inl e \<Rightarrow> Inl (Errorf ''session: reading the %s configuration: %w'' [''default''] [e])
      | Inr None \<Rightarrow> Inr None
      | Inr (Some s) \<Rightarrow> Inr s)"

definition NewSessionStore ::
  "auth_params \<Rightarrow> 'c cache_ops \<Rightarrow> (string \<Rightarrow> 'c cache_ops) \<Rightarrow> string \<Rightarrow> ('c cache_ops \<times> config) option result" where
  "NewSessionStore params redis memory env =
     (case session_settings params of
        Inl e \<Rightarrow> Inl e
      | Inr None \<Rightarrow> Inr None
      | Inr (Some (settings, kind)) \<Rightarrow>
          (case NewConfig (Some settings) of
             Inl e \<Rightarrow> Inl e
           | Inr cfg \<Rightarrow>
               (case backingStore redis memory env kind of
                  Inl e \<Rightarrow> Inl e
                | Inr cache \<Rightarrow> (case NewStore (Some cache) (Some cfg) of Inl e \<Rightarrow> Inl e | Inr st \<Rightarrow> Inr (Some st)))))"

definition NewSessionCookies :: "auth_params \<Rightarrow> config option result" where
  "NewSessionCookies params =
     (case session_settings params of
        Inl e \<Rightarrow> Inl e
      | Inr None \<Rightarrow> Inr None
      | Inr (Some (settings, kind)) \<Rightarrow> (case NewConfig (Some settings) of Inl e \<Rightarrow> Inl e | Inr cfg \<Rightarrow> Inr (Some cfg)))"

text \<open>The store and the cookie writer come together, on one configuration, or not at all.\<close>

lemma session_wiring:
  assumes "NewSessionStore params redis memory env = Inr store" "NewSessionCookies params = Inr ck"
  shows "map_option snd store = ck \<and> (\<forall>cfg. ck = Some cfg \<longrightarrow> config_ok cfg) \<and>
    (\<forall>ops. map_option fst store = Some ops \<and> ops \<noteq> redis \<longrightarrow> env = ''local'' \<or> env = ''test'')"
  using assms
  by (auto simp: NewSessionStore_def NewSessionCookies_def NewStore_def backingStore_def memoryAllowed_def NewConfig_def Let_def
      Validate_None_iff split: sum.splits option.splits prod.splits store_kind.splits if_splits)

section \<open>The store an endpoint is given\<close>

record 'c sessions_world =
  sw_now :: time
  sw_random :: "nat list result"
  sw_cache :: 'c

definition with_cache :: "('a \<times> 'c) \<Rightarrow> 'c sessions_world \<Rightarrow> 'a \<times> 'c sessions_world" where
  "with_cache res w = (case res of (x, c) \<Rightarrow> (x, w\<lparr>sw_cache := c\<rparr>))"

definition served_store :: "'c cache_ops \<Rightarrow> config \<Rightarrow> 'c sessions_world session_store" where
  "served_store ops cfg = \<lparr>
     ss_Create = (\<lambda>snap persistent w. with_cache (Create ops cfg (sw_now w) (sw_random w) snap persistent (sw_cache w)) w),
     ss_Revoke = (\<lambda>i w. with_cache (Revoke ops (sw_now w) i (sw_cache w)) w)\<rparr>"

lemma served_store_simps [simp]:
  "ss_Create (served_store ops cfg) snap persistent w = with_cache (Create ops cfg (sw_now w) (sw_random w) snap persistent (sw_cache w)) w"
  "ss_Revoke (served_store ops cfg) i w = with_cache (Revoke ops (sw_now w) i (sw_cache w)) w"
  by (simp_all add: served_store_def)

section \<open>A session cookie is judged by the table\<close>

definition scopes_of :: "session \<Rightarrow> string list" where
  "scopes_of s = (case Snapshot s of None \<Rightarrow> [] | Some p \<Rightarrow> Scopes p)"

lemma scopes_of_bare [simp]: "scopes_of (bare s) = scopes_of s" "scopes_of (seen cfg now s) = scopes_of s" "subject_of (seen cfg now s) = subject_of s"
  by (auto simp: scopes_of_def bare_def seen_def subject_of_def split: option.splits)

lemma PrincipalOf_session:
  "PrincipalOf (Snapshot s) = Some q \<Longrightarrow> p_Subject q = subject_of s \<and> p_Scopes q = scopes_of s \<and> p_Scheme q = SchemeSession"
  by (auto simp: PrincipalOf_def subject_of_def scopes_of_def split: option.splits)

lemma session_verified:
  assumes rel: "reliable_cache ops view codec" and sim: "simulates view cfg now c a"
    and cfg: "config_ok cfg" "IdleTTL cfg \<le> maxDuration"
    and v: "sessions v = Some (Lookup ops cfg now)" "cookies v = Some cfg"
    and r: "bearerToken r = None" "api_key v r = None" "rq_Cookie r (CookieName cfg) = Some i" "i \<noteq> []"
  shows "case answers cfg a now i of
      Some s \<Rightarrow> \<exists>q c'. Verify jwt v r c = (Inr \<lparr>vr_Principal = Some q, vr_Discard = []\<rparr>, c', []) \<and>
        p_Subject q = subject_of s \<and> p_Scopes q = scopes_of s \<and> p_Scheme q = SchemeSession
    | None \<Rightarrow> \<exists>c'. Verify jwt v r c = (Inr \<lparr>vr_Principal = None, vr_Discard = [Discard cfg]\<rparr>, c', [(Info, LogTypeSessionRejected)])"
proof (cases "answers cfg a now i")
  case None
  with reliable_cache.Lookup_simulates [OF rel sim cfg, of i] obtain c' where "Lookup ops cfg now i c = (Inl (Sentinel ErrSessionNotFound), c')"
    by auto
  with None v r show ?thesis by (simp add: Verify_def verifySession_def)
next
  case (Some s)
  with reliable_cache.Lookup_simulates [OF rel sim cfg, of i] obtain s' c' where l: "Lookup ops cfg now i c = (Inr s', c')" "bare s' = seen cfg now s"
    by auto
  from cache_store.restores [OF l(1)] obtain q where q: "PrincipalOf (Snapshot s') = Some q" by blast
  have "subject_of s' = subject_of s" "scopes_of s' = scopes_of s"
    using arg_cong [OF l(2), of subject_of] arg_cong [OF l(2), of scopes_of] by simp_all
  with PrincipalOf_session [OF q] l(1) q Some v r show ?thesis by (simp add: Verify_def verifySession_def)
qed

section \<open>Signing in\<close>

definition drop_old :: "string option \<Rightarrow> (string \<Rightarrow> session option) \<Rightarrow> string \<Rightarrow> session option" where
  "drop_old old m = (case old of None \<Rightarrow> m | Some i \<Rightarrow> m(i := None))"

lemma run_endReplacedSession:
  assumes rel: "reliable_cache ops view codec" and sim: "simulates view cfg (sw_now w) (sw_cache w) a"
  shows "\<exists>c' old. run (endReplacedSession r (served_store ops cfg) cfg (Return x)) r' st w =
      \<lparr>rr_value = x, rr_state = st, rr_world = w\<lparr>sw_cache := c'\<rparr>, rr_logs = [], rr_asked = []\<rparr> \<and>
    (\<forall>i. old = Some i \<longrightarrow> rq_Cookie r (CookieName cfg) = Some i) \<and>
    simulates view cfg (sw_now w) c' (a\<lparr>signed_in := drop_old old (signed_in a)\<rparr>)"
proof (cases "\<exists>i. rq_Cookie r (CookieName cfg) = Some i \<and> i \<noteq> []")
  case True
  then obtain i where i: "rq_Cookie r (CookieName cfg) = Some i" "i \<noteq> []" by blast
  from reliable_cache.Revoke_simulates [OF rel sim, of i] obtain c' where
    "Revoke ops (sw_now w) i (sw_cache w) = (None, c')" "simulates view cfg (sw_now w) c' (a\<lparr>signed_in := (signed_in a)(i := None)\<rparr>)"
    by blast
  with i show ?thesis
    by (intro exI [of _ c'] exI [of _ "Some i"]) (simp add: endReplacedSession_def with_cache_def drop_old_def)
next
  case False
  then show ?thesis using sim
    by (intro exI [of _ "sw_cache w"] exI [of _ None]) (auto simp: endReplacedSession_def drop_old_def split: option.splits)
qed

lemma run_create:
  assumes rel: "reliable_cache ops view codec" and sim: "simulates view cfg (sw_now w) (sw_cache w) a"
    and cfg: "config_ok cfg" "IdleTTL cfg \<le> maxDuration"
    and w: "sw_random w = Inr bytes" "bytes \<noteq> []" and p: "PrincipalFrom (rq_ctx r) = Some p" "p_Subject p \<noteq> []"
  shows "\<exists>s c' old x. run (ep_Handle (NewCreateSession body (Some (served_store ops cfg)) (Some cfg)) r b) r st w =
      \<lparr>rr_value = Inr \<lparr>res_body = Some x, res_cookies = [Issue cfg s]\<rparr>, rr_state = st, rr_world = w\<lparr>sw_cache := c'\<rparr>, rr_logs = [], rr_asked = []\<rparr> \<and>
    bare s = bare \<lparr>ID = RawURLEncode bytes, Snapshot = SnapshotOf (Some p), Persistent = cs_Persistent b, CreatedAt = sw_now w,
      ExpiresAt = sw_now w + AbsoluteTTLFor cfg (cs_Persistent b), LastSeenAt = sw_now w\<rparr> \<and>
    (\<forall>i. old = Some i \<longrightarrow> rq_Cookie r (CookieName cfg) = Some i) \<and>
    simulates view cfg (sw_now w) c' (a\<lparr>signed_in := drop_old old ((signed_in a)(RawURLEncode bytes \<mapsto> bare s))\<rparr>)"
proof -
  obtain q where q: "SnapshotOf (PrincipalFrom (rq_ctx r)) = Some q" "Some q = SnapshotOf (Some p)" "Subject q \<noteq> []"
    using p by (simp add: SnapshotOf_def)
  from reliable_cache.Create_simulates [OF rel sim cfg w(2) q(3), of "cs_Persistent b"] obtain s c1 where
    c: "Create ops cfg (sw_now w) (Inr bytes) (Some q) (cs_Persistent b) (sw_cache w) = (Inr s, c1)"
    "bare s = bare \<lparr>ID = RawURLEncode bytes, Snapshot = Some q, Persistent = cs_Persistent b, CreatedAt = sw_now w,
      ExpiresAt = sw_now w + AbsoluteTTLFor cfg (cs_Persistent b), LastSeenAt = sw_now w\<rparr>"
    "simulates view cfg (sw_now w) c1 (a\<lparr>signed_in := (signed_in a)(RawURLEncode bytes \<mapsto> bare s)\<rparr>)" by blast
  let ?x = "\<lparr>sd_Subject = subject_of s, sd_Persistent = Persistent s, sd_ExpiresAt = ExpiresAt s\<rparr>"
  let ?w = "w\<lparr>sw_cache := c1\<rparr>"
  have "simulates view cfg (sw_now ?w) (sw_cache ?w) (a\<lparr>signed_in := (signed_in a)(RawURLEncode bytes \<mapsto> bare s)\<rparr>)"
    using c(3) by simp
  from run_endReplacedSession [OF rel this, of r "Inr \<lparr>res_body = Some ?x, res_cookies = [Issue cfg s]\<rparr> :: session_dto rest_result result" r st]
  obtain c' old where e: "run (endReplacedSession r (served_store ops cfg) cfg
        (Return (Inr \<lparr>res_body = Some ?x, res_cookies = [Issue cfg s]\<rparr> :: session_dto rest_result result))) r st ?w =
      \<lparr>rr_value = Inr \<lparr>res_body = Some ?x, res_cookies = [Issue cfg s]\<rparr>, rr_state = st, rr_world = ?w\<lparr>sw_cache := c'\<rparr>, rr_logs = [], rr_asked = []\<rparr>"
    "\<forall>i. old = Some i \<longrightarrow> rq_Cookie r (CookieName cfg) = Some i"
    "simulates view cfg (sw_now w) c' (a\<lparr>signed_in := drop_old old ((signed_in a)(RawURLEncode bytes \<mapsto> bare s))\<rparr>)"
    by auto
  have "run (ep_Handle (NewCreateSession body (Some (served_store ops cfg)) (Some cfg)) r b) r st w =
      \<lparr>rr_value = Inr \<lparr>res_body = Some ?x, res_cookies = [Issue cfg s]\<rparr>, rr_state = st, rr_world = w\<lparr>sw_cache := c'\<rparr>, rr_logs = [], rr_asked = []\<rparr>"
    using c(1) e(1) w(1) q(1) by (simp add: NewCreateSession_def with_cache_def)
  then show ?thesis using c(2) e(2,3) q(2) by metis
qed

lemma RawURLEncode_not_Nil: "bytes \<noteq> [] \<Longrightarrow> RawURLEncode bytes \<noteq> []"
  by (cases bytes rule: RawURLEncode.cases) (simp_all add: b64_def)

lemma new_session_answers:
  assumes "bare s = bare \<lparr>ID = i, Snapshot = SnapshotOf (Some p), Persistent = b, CreatedAt = now, ExpiresAt = now + x, LastSeenAt = now\<rparr>"
    and "\<forall>m. cut a (p_Subject p) = Some m \<longrightarrow> m < now" "old \<noteq> Some i"
  shows "answers cfg (a\<lparr>signed_in := drop_old old ((signed_in a)(i \<mapsto> bare s))\<rparr>) t i =
    (if t < now + min x (IdleTTL cfg) then Some (bare s) else None)" "ID s = i" "subject_of s = p_Subject p" "scopes_of s = p_Scopes p"
proof -
  note f = arg_cong [OF assms(1)]
  show "ID s = i" using f [of ID] by (simp add: bare_def)
  show sub: "subject_of s = p_Subject p" using f [of subject_of] by (simp, simp add: subject_of_def SnapshotOf_def)
  show "scopes_of s = p_Scopes p" using f [of scopes_of] by (simp, simp add: scopes_of_def SnapshotOf_def)
  have "ExpiresAt s = now + x" "LastSeenAt s = now" "CreatedAt s = now"
    using f [of ExpiresAt] f [of LastSeenAt] f [of CreatedAt] by (simp_all add: bare_def)
  then have "live cfg t s \<longleftrightarrow> t < now + min x (IdleTTL cfg)" "\<not> cut_off a s"
    using assms(2) sub by (auto simp: live_def idleDeadline_def cut_off_def split: option.splits)
  then show "answers cfg (a\<lparr>signed_in := drop_old old ((signed_in a)(i \<mapsto> bare s))\<rparr>) t i =
    (if t < now + min x (IdleTTL cfg) then Some (bare s) else None)"
    using assms(3) by (auto simp: answers_def drop_old_def split: option.splits)
qed


section \<open>Signing out\<close>


section \<open>A sign-in and a sign-out\<close>

definition plain_libs :: "('d rest_result, unit) libs" where
  "plain_libs = \<lparr>lib_vmap = (\<lambda>_ _. []), lib_langs = (\<lambda>_. [''en'']),
     lib_response = (\<lambda>x status. \<lparr>Code = status, AddHeaders = None, ReplaceHeaders = None, ContentType = [], Body = Payload (),
       Cookies = res_cookies x\<rparr>)\<rparr>"

definition caller_by :: "string \<Rightarrow> principal" where
  "caller_by scheme = \<lparr>p_Subject = ''u'', p_Scopes = [], p_Scheme = scheme, p_Claims = [], implied = None\<rparr>"



end
