(* ===== verification/Startup.thy ===== *)
theory Startup
  imports AuthMw
begin

text \<open>
  What the HTTP server refuses to start with (\<open>internal/app/http/authcheck.go\<close>, \<open>sessioncheck.go\<close>) and
  the pipeline it starts otherwise (\<open>createHTTPPipeline\<close> of \<open>http.go\<close>).

  \<open>http_params\<close> is what is read of \<open>appconfig.Parameters\<close>; reading it from the registry may fail.
\<close>

record http_params =
  hp_Auth :: "auth_config option"
  hp_AllValues :: "(string \<times> string) list"
  hp_CORS :: cors_config
  hp_HandlerTimeout :: duration

section \<open>Authentication\<close>

definition checkAuthConfiguration :: "'v rest_module option list \<Rightarrow> 's verifier option \<Rightarrow> goerr option" where
  "checkAuthConfiguration modules verifier =
     (if PublicResourceChecks modules \<noteq> [] then
        Some (Errorf ''%s declared public with a resource check'' (PublicResourceChecks modules) [])
      else if PublicWithConditions modules \<noteq> [] then
        Some (Errorf ''%s declared public and also requiring a scheme or a scope'' (PublicWithConditions modules) [])
      else if \<not> RequiresAuthentication modules then None
      else
        let verifiable = (case verifier of None \<Rightarrow> [] | Some v \<Rightarrow> Schemes v) in
        if verifiable = [] then Some (Errorf ''endpoints require an authenticated caller but nothing can verify one'' [] [])
        else
          let missing = filter (\<lambda>scheme. scheme \<notin> set verifiable) (DeclaredSchemes modules) in
          if missing \<noteq> [] then Some (Errorf ''endpoints accept only the %s credential, which nothing verifies'' missing [])
          else None)"

section \<open>Sessions\<close>

definition sessionStoreKey :: string where "sessionStoreKey = ''AUTH_SESSION_STORE''"
definition sessionKeyPrefix :: string where "sessionKeyPrefix = ''AUTH_SESSION_''"
definition cookieInsecureKey :: string where "cookieInsecureKey = ''AUTH_SESSION_COOKIE_INSECURE''"
definition corsAllowOriginKey :: string where "corsAllowOriginKey = ''CORS_ALLOW_ORIGIN''"
definition wildcardAllowOrigin :: string where "wildcardAllowOrigin = ''*''"

definition sessionSettings :: "auth_config option \<Rightarrow> auth_session option" where
  "sessionSettings auth = (case auth of None \<Rightarrow> None | Some cfg \<Rightarrow> ac_Session cfg)"

definition ignored_keys :: "(string \<times> string) list \<Rightarrow> string list" where
  "ignored_keys values =
     map fst (filter (\<lambda>(key, setting). \<not> (key = sessionStoreKey \<or> setting = [] \<or> \<not> HasPrefix key sessionKeyPrefix)) values)"

definition checkSessionKeysDoSomething :: "auth_session option \<Rightarrow> (string \<times> string) list \<Rightarrow> goerr option" where
  "checkSessionKeysDoSomething session values =
     (if session \<noteq> None then None
      else if ignored_keys values = [] then None
      else Some (Errorf ''%s is not set, so browser sessions are off and these keys do nothing: %s''
        (sessionStoreKey # sort (ignored_keys values)) []))"

definition checkSessionEndpointsAreServable :: "auth_session option \<Rightarrow> 'v rest_module option list \<Rightarrow> goerr option" where
  "checkSessionEndpointsAreServable session modules =
     (if session \<noteq> None then None
      else if SchemeSession \<notin> set (DeclaredSchemes modules) then None
      else Some (Errorf ''endpoints authenticate with a session cookie but %s is not set'' [sessionStoreKey] []))"

definition checkTrustedOrigins :: "auth_session \<Rightarrow> cors_config \<Rightarrow> goerr option" where
  "checkTrustedOrigins session cfg =
     (if TrimSpace (AllowOrigin cfg) \<noteq> wildcardAllowOrigin then None
      else Some (Errorf ''cookie authentication is on (%s) and %s is %q, which cannot be combined''
        [sessionStoreKey, corsAllowOriginKey, wildcardAllowOrigin] []))"

definition cookieInsecureAllowed :: "string \<Rightarrow> bool" where
  "cookieInsecureAllowed envVal = (envVal = ''local'' \<or> envVal = ''test'')"

definition checkCookieIsSecure :: "string \<Rightarrow> auth_session \<Rightarrow> goerr option" where
  "checkCookieIsSecure envVal session =
     (if as_CookieSecure session \<or> cookieInsecureAllowed envVal then None
      else Some (Errorf ''%s=true drops the Secure attribute from the session cookie (%q environment)'' [cookieInsecureKey, envVal] []))"

definition checkSessionConfiguration :: "string \<Rightarrow> http_params option \<Rightarrow> 'v rest_module option list \<Rightarrow> goerr option" where
  "checkSessionConfiguration envVal params modules =
     (case params of
        None \<Rightarrow> None
      | Some ps \<Rightarrow>
          let session = sessionSettings (hp_Auth ps) in
          (case checkSessionKeysDoSomething session (hp_AllValues ps) of
             Some e \<Rightarrow> Some e
           | None \<Rightarrow>
               (case checkSessionEndpointsAreServable session modules of
                  Some e \<Rightarrow> Some e
                | None \<Rightarrow>
                    (case session of
                       None \<Rightarrow> None
                     | Some s \<Rightarrow>
                         (case checkTrustedOrigins s (hp_CORS ps) of
                            Some e \<Rightarrow> Some e
                          | None \<Rightarrow> checkCookieIsSecure envVal s)))))"

section \<open>The pipeline\<close>

record ('s, 'w, 'v, 'b) http_pipeline =
  pl_Modules :: "'v rest_module option list"
  pl_GlobalMiddlewares :: "('s \<times> 'w, 'b) middleware_fun list"
  pl_Timeout :: duration
  pl_TimeoutResponse :: "'b response"

definition message_response :: "(string \<Rightarrow> 'b) \<Rightarrow> int \<Rightarrow> string \<Rightarrow> 'b response" where
  "message_response error_dto code message = \<lparr>Code = code, AddHeaders = None, ReplaceHeaders = None, ContentType = [],
     Body = Payload (error_dto message), Cookies = []\<rparr>"

definition createHTTPPipeline ::
  "(string \<Rightarrow> 'b) \<Rightarrow> ('s \<times> 'w, 'b) stock \<Rightarrow> jwt_parse \<Rightarrow> (string \<Rightarrow> bool) \<Rightarrow> (string \<Rightarrow> string option) \<Rightarrow>
     string \<Rightarrow> http_params result \<Rightarrow> 'v rest_module option list \<Rightarrow> 's verifier \<Rightarrow> origins option \<Rightarrow>
     expander option \<Rightarrow> claim_set option \<Rightarrow> ('s, 'w, 'v, 'b) http_pipeline result" where
  "createHTTPPipeline error_dto st jwt valid host_of envVal params modules verifier os scopes cs =
     (case params of
        Inl e \<Rightarrow> Inl (Errorf ''default config parameters not found: %w'' [] [e])
      | Inr ps \<Rightarrow>
          (case checkSessionConfiguration envVal (Some ps) modules of
             Some e \<Rightarrow> Inl e
           | None \<Rightarrow>
               (case checkAuthConfiguration modules (Some verifier) of
                  Some e \<Rightarrow> Inl e
                | None \<Rightarrow>
                    (case NewCrossOriginProtection valid [] (Named os) of
                       Inl e \<Rightarrow> Inl e
                     | Inr trusted \<Rightarrow> Inr \<lparr>
                         pl_Modules = modules,
                         pl_GlobalMiddlewares = globalMiddlewares st \<lparr>gm_cors = hp_CORS ps,
                           gm_crossOrigin = Some (protection_check host_of trusted), gm_jwt = jwt, gm_verifier = verifier,
                           gm_scopes = scopes, gm_claims = cs,
                           gm_panicResponse = message_response error_dto 500 ''internal server error''\<rparr>,
                         pl_Timeout = hp_HandlerTimeout ps,
                         pl_TimeoutResponse = message_response error_dto 503 ''request timeout''\<rparr>))))"

section \<open>What starting means\<close>

lemma checkAuthConfiguration_None:
  assumes "checkAuthConfiguration modules verifier = None" "(name, s) \<in> set (endpointsOf modules)"
  shows "(Public s \<longrightarrow> Resource s = None \<and> sec_Schemes s = [] \<and> sec_Scopes s = []) \<and>
    (\<not> Public s \<longrightarrow> (\<exists>v. verifier = Some v \<and> Schemes v \<noteq> [] \<and> set (sec_Schemes s) \<subseteq> set (Schemes v)))"
proof -
  have clean: "PublicResourceChecks modules = []" "PublicWithConditions modules = []"
    using assms(1) by (auto simp: checkAuthConfiguration_def split: if_splits)
  then have "Public s \<longrightarrow> Resource s = None \<and> sec_Schemes s = [] \<and> sec_Scopes s = []"
    using assms(2) by (fastforce simp: PublicResourceChecks_def PublicWithConditions_def filter_empty_conv)
  moreover have "\<exists>v. verifier = Some v \<and> Schemes v \<noteq> [] \<and> set (sec_Schemes s) \<subseteq> set (Schemes v)" if "\<not> Public s"
  proof -
    have "RequiresAuthentication modules"
      using assms(2) that by (force simp: RequiresAuthentication_def list_ex_iff)
    with assms(1) clean obtain v where v: "verifier = Some v" "Schemes v \<noteq> []"
      "filter (\<lambda>scheme. scheme \<notin> set (Schemes v)) (DeclaredSchemes modules) = []"
      by (auto simp: checkAuthConfiguration_def Let_def split: if_splits option.splits)
    have "set (sec_Schemes s) \<subseteq> set (DeclaredSchemes modules)"
      using assms(2) that DeclaredSchemes_iff by blast
    with v show ?thesis by (auto simp: filter_empty_conv)
  qed
  ultimately show ?thesis by blast
qed

text \<open>
  A server that starts can serve what it declares. No public endpoint states a condition it never
  checks; any other names only credentials the verifier can verify, of which there is at least one; a
  session cookie travels in clear text only in local and test; without a session store no endpoint
  accepts the session credential and no session setting is written down for nothing; and the
  middlewares it runs protect exactly the origins written out.
\<close>

theorem started_pipeline:
  assumes "createHTTPPipeline error_dto st jwt valid host_of envVal (Inr ps) modules v os scopes cs = Inr pl"
  shows "(\<forall>(name, s) \<in> set (endpointsOf modules).
      (if Public s then Resource s = None \<and> sec_Schemes s = [] \<and> sec_Scopes s = []
       else Schemes v \<noteq> [] \<and> set (sec_Schemes s) \<subseteq> set (Schemes v))) \<and>
    (case sessionSettings (hp_Auth ps) of
       Some session \<Rightarrow> as_CookieSecure session \<or> envVal \<in> {''local'', ''test''}
     | None \<Rightarrow> SchemeSession \<notin> set (DeclaredSchemes modules) \<and>
         (\<forall>(key, setting) \<in> set (hp_AllValues ps). setting \<noteq> [] \<and> key \<noteq> ''AUTH_SESSION_STORE'' \<longrightarrow> \<not> HasPrefix key ''AUTH_SESSION_'')) \<and>
    pl_Modules pl = modules \<and>
    pl_GlobalMiddlewares pl = globalMiddlewares st \<lparr>gm_cors = hp_CORS ps,
      gm_crossOrigin = Some (protection_check host_of (Named os)), gm_jwt = jwt, gm_verifier = v, gm_scopes = scopes,
      gm_claims = cs, gm_panicResponse = message_response error_dto 500 ''internal server error''\<rparr>"
proof -
  from assms obtain trusted where c: "checkSessionConfiguration envVal (Some ps) modules = None"
    "checkAuthConfiguration modules (Some v) = None" "NewCrossOriginProtection valid [] (Named os) = Inr trusted"
    and pl: "pl_Modules pl = modules" "pl_GlobalMiddlewares pl = globalMiddlewares st \<lparr>gm_cors = hp_CORS ps,
      gm_crossOrigin = Some (protection_check host_of trusted), gm_jwt = jwt, gm_verifier = v, gm_scopes = scopes,
      gm_claims = cs, gm_panicResponse = message_response error_dto 500 ''internal server error''\<rparr>"
    by (auto simp: createHTTPPipeline_def split: option.splits sum.splits)
  have sessions_ok: "case sessionSettings (hp_Auth ps) of
       Some session \<Rightarrow> as_CookieSecure session \<or> envVal \<in> {''local'', ''test''}
     | None \<Rightarrow> SchemeSession \<notin> set (DeclaredSchemes modules) \<and> ignored_keys (hp_AllValues ps) = []"
    using c(1)
    by (auto simp: checkSessionConfiguration_def checkSessionKeysDoSomething_def checkSessionEndpointsAreServable_def
        checkCookieIsSecure_def cookieInsecureAllowed_def Let_def split: option.splits if_splits)
  have keys: "\<forall>(key, setting) \<in> set vs. setting \<noteq> [] \<and> key \<noteq> ''AUTH_SESSION_STORE'' \<longrightarrow> \<not> HasPrefix key ''AUTH_SESSION_''"
    if "ignored_keys vs = []" for vs
    using that by (fastforce simp: ignored_keys_def filter_empty_conv sessionStoreKey_def sessionKeyPrefix_def)
  have "\<forall>(name, x) \<in> set (endpointsOf modules). if Public x then Resource x = None \<and> sec_Schemes x = [] \<and> sec_Scopes x = []
      else Schemes v \<noteq> [] \<and> set (sec_Schemes x) \<subseteq> set (Schemes v)"
  proof (intro ballI, clarify)
    fix name x assume "(name, x) \<in> set (endpointsOf modules)"
    from checkAuthConfiguration_None [OF c(2) this]
    show "if Public x then Resource x = None \<and> sec_Schemes x = [] \<and> sec_Scopes x = []
      else Schemes v \<noteq> [] \<and> set (sec_Schemes x) \<subseteq> set (Schemes v)" by simp
  qed
  moreover from sessions_ok have "case sessionSettings (hp_Auth ps) of
       Some session \<Rightarrow> as_CookieSecure session \<or> envVal \<in> {''local'', ''test''}
     | None \<Rightarrow> SchemeSession \<notin> set (DeclaredSchemes modules) \<and>
         (\<forall>(key, setting) \<in> set (hp_AllValues ps). setting \<noteq> [] \<and> key \<noteq> ''AUTH_SESSION_STORE'' \<longrightarrow> \<not> HasPrefix key ''AUTH_SESSION_'')"
    using keys [of "hp_AllValues ps"] by (simp split: option.splits)
  moreover have "trusted = Named os" using NewCrossOriginProtection_Inr [OF c(3)] by simp
  ultimately show ?thesis using pl by simp
qed

text \<open>
  The wildcard gets past the startup check. A list of origins that contains \<open>*\<close> beside anything
  else is accepted with cookie authentication on, although it means every origin: a browser on any
  page may then open a WebSocket with the session cookie.
\<close>

theorem wildcard_in_a_list_passes:
  assumes "wildcardOrigin \<in> TrimSpace ` set (split_at CHR '','' (AllowOrigin cfg))" "TrimSpace (AllowOrigin cfg) \<noteq> ''*''"
  shows "checkTrustedOrigins session cfg = None \<and>
    UpgradeOrigin host_of (Some (ParseOrigins (AllowOrigin cfg))) r = (None, [])"
  using assms
  by (auto simp: checkTrustedOrigins_def wildcardAllowOrigin_def UpgradeOrigin_def Allows_iff Wildcard_def ParseOrigins_wildcard
      split: option.split)


definition demo_rest_module :: "string rest_module" where
  "demo_rest_module = \<lparr>m_Path = ''/things'', m_Get = Typed (Some \<lparr>Public = True, sec_Schemes = [], sec_Scopes = [], Resource = None\<rparr>),
     m_Post = Typed (Some \<lparr>Public = False, sec_Schemes = [SchemeJWT], sec_Scopes = [''a''], Resource = Some demo_check\<rparr>),
     m_Put = NoController, m_Patch = NoController, m_Delete = Raw\<rparr>"

definition demo_params :: http_params where
  "demo_params = \<lparr>hp_Auth = Some demo_auth, hp_AllValues = [(''AUTH_SECRET'', ''k'')], hp_CORS = demo_cors, hp_HandlerTimeout = 0\<rparr>"

lemma demo_starts:
  "\<exists>pl. createHTTPPipeline (\<lambda>_. ()) (demo_stock :: (unit \<times> nat, unit) stock) (\<lambda>_ _ _. Inr None) (\<lambda>_. True) (\<lambda>_. None) ''prod''
     (Inr demo_params) [Some demo_rest_module] demo_verifier (Some (ParseOrigins (AllowOrigin demo_cors))) None None = Inr pl"
proof -
  have "HasPrefix ''AUTH_SECRET'' sessionKeyPrefix = False" by (simp add: sessionKeyPrefix_def HasPrefix_def)
  moreover have "SchemeSession \<noteq> SchemeJWT" by (simp add: SchemeSession_def SchemeJWT_def)
  ultimately show ?thesis
    by (simp add: createHTTPPipeline_def checkSessionConfiguration_def demo_params_def sessionSettings_def demo_auth_def
        checkSessionKeysDoSomething_def ignored_keys_def checkSessionEndpointsAreServable_def DeclaredSchemes_def
        demo_rest_module_def routesOf_def checkAuthConfiguration_def PublicResourceChecks_def PublicWithConditions_def
        RequiresAuthentication_def Schemes_def demo_verifier_def Named_def demo_cors_origins add_new_def)
qed

lemma started_pipeline_witness: "set [SchemeJWT] \<subseteq> set (Schemes demo_verifier)"
proof -
  obtain pl where "createHTTPPipeline (\<lambda>_. ()) (demo_stock :: (unit \<times> nat, unit) stock) (\<lambda>_ _ _. Inr None) (\<lambda>_. True) (\<lambda>_. None) ''prod''
     (Inr demo_params) [Some demo_rest_module] demo_verifier (Some (ParseOrigins (AllowOrigin demo_cors))) None None = Inr pl"
    using demo_starts by blast
  from started_pipeline [OF this] show ?thesis by (simp add: demo_rest_module_def routesOf_def)
qed

lemma wildcard_in_a_list_passes_witness:
  "UpgradeOrigin (\<lambda>_. None) (Some (ParseOrigins ''https://a.example, *''))
     ((demo_request ''Origin'' ''https://evil.example'')\<lparr>rq_Host := ''a.example''\<rparr>) = (None :: unit response option, [])"
proof -
  have "wildcardOrigin \<in> TrimSpace ` set (split_at CHR '','' ''https://a.example, *'')" "TrimSpace ''https://a.example, *'' \<noteq> ''*''"
    by code_simp+
  moreover have a: "AllowOrigin (demo_cors\<lparr>AllowOrigin := ''https://a.example, *''\<rparr>) = ''https://a.example, *''" by simp
  ultimately show ?thesis
    using wildcard_in_a_list_passes [where cfg = "demo_cors\<lparr>AllowOrigin := ''https://a.example, *''\<rparr>", unfolded a] by blast
qed

end
