(* ===== verification/Wskit.thy ===== *)
theory Wskit
  imports AuthMw
begin

text \<open>
  WebSocket channels: who may connect and send (\<open>internal/plamo/wskit/security.go\<close>), the messages of a
  channel and their dispatch (\<open>message.go\<close>, \<open>module.go\<close>, \<open>wskit.go\<close>), the guards in front of an upgrade
  (\<open>internal/middleware/channel.go\<close>, \<open>internal/app/ws/ws.go\<close>) and what the router refuses to start with
  (\<open>securitycheck.go\<close>).

  \<open>json.Unmarshal\<close> into the envelope is the parameter \<open>parse\<close> (type and raw payload, empty when the
  member is absent). What a handler does to the world is a function of it.
\<close>

section \<open>Declarations\<close>

record ws_security =
  ws_Public :: bool
  ws_Schemes :: "string list"
  ws_Scopes :: "string list"

datatype decision = Allowed | Unauthenticated | Forbidden

definition Decide :: "ws_security option \<Rightarrow> principal option \<Rightarrow> decision" where
  "Decide security caller =
     (if (case security of None \<Rightarrow> False | Some s \<Rightarrow> ws_Public s) then Allowed
      else if caller = None then Unauthenticated
      else
        let (schemes, scopes) = (case security of None \<Rightarrow> ([], []) | Some s \<Rightarrow> (ws_Schemes s, ws_Scopes s))
        in if \<not> HasScheme caller schemes \<or> \<not> SatisfiesScopes caller scopes then Forbidden else Allowed)"

definition RequiresCaller :: "ws_security option \<Rightarrow> bool" where
  "RequiresCaller security = (case security of None \<Rightarrow> True | Some s \<Rightarrow> \<not> ws_Public s)"

definition Contradictory :: "ws_security option \<Rightarrow> bool" where
  "Contradictory security =
     (case security of None \<Rightarrow> False | Some s \<Rightarrow> ws_Public s \<and> (ws_Schemes s \<noteq> [] \<or> ws_Scopes s \<noteq> []))"

record message_security =
  ms_Scopes :: "string list"

definition message_Decide :: "message_security option \<Rightarrow> principal option \<Rightarrow> decision" where
  "message_Decide security caller =
     (case security of
        None \<Rightarrow> Allowed
      | Some s \<Rightarrow>
          if caller = None then Unauthenticated
          else if \<not> SatisfiesScopes caller (ms_Scopes s) then Forbidden
          else Allowed)"

definition message_RequiresCaller :: "message_security option \<Rightarrow> bool" where
  "message_RequiresCaller security = (security \<noteq> None)"

section \<open>Messages\<close>

definition ErrorMessageName :: string where "ErrorMessageName = ''error''"
definition CodeNotParsable :: string where "CodeNotParsable = ''not_parsable''"
definition CodeValidationFailed :: string where "CodeValidationFailed = ''validation_failed''"
definition CodeUnknownMessageType :: string where "CodeUnknownMessageType = ''unknown_message_type''"
definition CodeUnauthenticated :: string where "CodeUnauthenticated = ''unauthenticated''"
definition CodeForbidden :: string where "CodeForbidden = ''forbidden''"
definition msgNotParsable :: string where "msgNotParsable = ''message is not a valid envelope''"
definition msgValidationFailed :: string where "msgValidationFailed = ''message payload is invalid''"
definition msgUnknownMessageType :: string where "msgUnknownMessageType = ''unknown message type''"
definition msgUnauthenticated :: string where "msgUnauthenticated = ''authentication is required''"
definition msgForbidden :: string where "msgForbidden = ''this operation is not allowed for the caller''"

lemmas ws_codes = CodeNotParsable_def CodeValidationFailed_def CodeUnknownMessageType_def CodeUnauthenticated_def CodeForbidden_def

record error_payload =
  ep_Code :: string
  ep_Message :: string
  ep_MessageType :: string
  ep_FieldErrors :: "field_error list"

record incoming =
  in_Type :: string
  in_Data :: string

type_synonym parse_envelope = "string \<Rightarrow> incoming option"

definition MessageTypeOf :: "parse_envelope \<Rightarrow> string \<Rightarrow> string" where
  "MessageTypeOf parse frame = (case parse frame of None \<Rightarrow> [] | Some envelope \<Rightarrow> in_Type envelope)"

text \<open>A frame as it arrives: its bytes, and the handshake of its session when there is one.\<close>

record ws_event =
  MessageData :: string
  Handshake :: "(string \<Rightarrow> string option) option"

record 'w receiver =
  rv_name :: string
  rv_Security :: "message_security option"
  rv_handle :: "request_context \<Rightarrow> ws_event \<Rightarrow> string \<Rightarrow> 'w \<Rightarrow> validation_error list \<times> goerr option \<times> 'w"

definition Receive ::
  "string \<Rightarrow> message_security option \<Rightarrow> (string \<Rightarrow> validation_error list + 'm) \<Rightarrow>
     (request_context \<Rightarrow> ws_event \<Rightarrow> 'm \<Rightarrow> 'w \<Rightarrow> goerr option \<times> 'w) \<Rightarrow> 'w receiver" where
  "Receive name security json_body handle = \<lparr>rv_name = name, rv_Security = security,
     rv_handle = (\<lambda>ctx event data w.
       (case json_body data of
          Inl errs \<Rightarrow> (errs, None, w)
        | Inr msg \<Rightarrow> (case handle ctx event msg w of (e, w') \<Rightarrow> ([], e, w'))))\<rparr>"

definition payloadOf :: "incoming \<Rightarrow> string" where
  "payloadOf envelope = (if in_Data envelope = [] then ''null'' else in_Data envelope)"

definition refusalOf :: "request_context \<Rightarrow> message_security option \<Rightarrow> string \<Rightarrow> error_payload option" where
  "refusalOf ctx security messageType =
     (case message_Decide security (PrincipalFrom ctx) of
        Unauthenticated \<Rightarrow> Some \<lparr>ep_Code = CodeUnauthenticated, ep_Message = msgUnauthenticated, ep_MessageType = messageType, ep_FieldErrors = []\<rparr>
      | Forbidden \<Rightarrow> Some \<lparr>ep_Code = CodeForbidden, ep_Message = msgForbidden, ep_MessageType = messageType, ep_FieldErrors = []\<rparr>
      | Allowed \<Rightarrow> None)"

definition handshakeLanguage :: "ws_event \<Rightarrow> string" where
  "handshakeLanguage event =
     (case Handshake event of None \<Rightarrow> [] | Some header \<Rightarrow> value_or_empty (header ''Accept-Language''))"

fun add_failures :: "string list \<Rightarrow> error_payload \<Rightarrow> validation_error list \<Rightarrow> error_payload" where
  "add_failures langs p [] = p"
| "add_failures langs p (fe # fes) =
     (let msg = PickMessage (ve_Messages fe) langs in
      if ve_Field fe = [] then add_failures langs (p\<lparr>ep_Code := ve_Code fe, ep_Message := msg\<rparr>) fes
      else add_failures langs
        (p\<lparr>ep_FieldErrors := ep_FieldErrors p @ [\<lparr>fe_Field = ve_Field fe, fe_Code = ve_Code fe, fe_Message = msg\<rparr>]\<rparr>) fes)"

definition validationPayload :: "(string \<Rightarrow> string list) \<Rightarrow> ws_event \<Rightarrow> string \<Rightarrow> validation_error list \<Rightarrow> error_payload" where
  "validationPayload preferred event messageType errs =
     add_failures (preferred (handshakeLanguage event))
       \<lparr>ep_Code = CodeValidationFailed, ep_Message = msgValidationFailed, ep_MessageType = messageType, ep_FieldErrors = []\<rparr> errs"

text \<open>What the handler returns, what is written to the client, and the world.\<close>

type_synonym 'w on_message = "request_context \<Rightarrow> ws_event \<Rightarrow> 'w \<Rightarrow> goerr option \<times> error_payload list \<times> 'w"

definition dispatch :: "parse_envelope \<Rightarrow> (string \<Rightarrow> string list) \<Rightarrow> (string \<times> 'w receiver) list \<Rightarrow> 'w on_message" where
  "dispatch parse preferred receivers = (\<lambda>ctx event w.
     (case parse (MessageData event) of
        None \<Rightarrow> (None, [\<lparr>ep_Code = CodeNotParsable, ep_Message = msgNotParsable, ep_MessageType = [], ep_FieldErrors = []\<rparr>], w)
      | Some envelope \<Rightarrow>
          if in_Type envelope = [] then
            (None, [\<lparr>ep_Code = CodeNotParsable, ep_Message = msgNotParsable, ep_MessageType = [], ep_FieldErrors = []\<rparr>], w)
          else (case map_of receivers (in_Type envelope) of
            None \<Rightarrow> (None, [\<lparr>ep_Code = CodeUnknownMessageType, ep_Message = msgUnknownMessageType,
                ep_MessageType = in_Type envelope, ep_FieldErrors = []\<rparr>], w)
          | Some receiver \<Rightarrow>
              (case refusalOf ctx (rv_Security receiver) (in_Type envelope) of
                 Some refusal \<Rightarrow> (None, [refusal], w)
               | None \<Rightarrow>
                   (case rv_handle receiver ctx event (payloadOf envelope) w of
                      (errs, e, w') \<Rightarrow>
                        if errs \<noteq> [] then (None, [validationPayload preferred event (in_Type envelope) errs], w')
                        else (e, [], w'))))))"

section \<open>Channels\<close>

text \<open>A guard in front of the upgrade: a response refuses; the request it leaves has its context set.\<close>

type_synonym ('s, 'b) guard = "request \<Rightarrow> 's \<Rightarrow> ('b response option \<times> request) \<times> 's \<times> logs"

record ('s, 'w, 'b) runtime_module =
  rt_Path :: string
  rt_OnMessage :: "'w on_message"
  rt_HTTPMiddlewares :: "('s, 'b) guard list"

record ('s, 'w, 'b) channel =
  ch_Path :: string
  ch_Receive :: "'w receiver list"
  ch_Security :: "ws_security option"
  ch_Configure :: "(('s, 'w, 'b) runtime_module \<Rightarrow> ('s, 'w, 'b) runtime_module) option"

record ('s, 'w, 'b) ws_module =
  wm_runtime :: "('s, 'w, 'b) runtime_module"
  wm_security :: "ws_security option"
  wm_receivers :: "'w receiver list"

definition receivers_map :: "'w receiver list \<Rightarrow> (string \<times> 'w receiver) list" where
  "receivers_map rs = foldl (\<lambda>m r. put (rv_name r) r m) [] rs"

definition NewModule ::
  "parse_envelope \<Rightarrow> (string \<Rightarrow> string list) \<Rightarrow> (string \<Rightarrow> ('s, 'w, 'b) runtime_module) \<Rightarrow> ('s, 'w, 'b) channel \<Rightarrow> ('s, 'w, 'b) ws_module" where
  "NewModule parse preferred newDefault c =
     (let runtime = newDefault (ch_Path c);
          configured = (case ch_Configure c of None \<Rightarrow> runtime | Some f \<Rightarrow> f runtime)
      in \<lparr>wm_runtime = configured\<lparr>rt_OnMessage := dispatch parse preferred (receivers_map (ch_Receive c))\<rparr>,
          wm_security = ch_Security c, wm_receivers = ch_Receive c\<rparr>)"

definition Raw_module :: "('s, 'w, 'b) runtime_module \<Rightarrow> ws_security option \<Rightarrow> ('s, 'w, 'b) ws_module" where
  "Raw_module m security = \<lparr>wm_runtime = m, wm_security = security, wm_receivers = []\<rparr>"

section \<open>Decoding and validating\<close>

text \<open>
  \<open>vkit.Object\<close> and \<open>vkit.JSONBody\<close>: what is sent and what arrives is held against the same rules. The validator
  is a library: reading a value by its keys, judging it, and the errors for what does not parse.
\<close>

definition Object :: "('m \<Rightarrow> 'fields) \<Rightarrow> ('fields \<Rightarrow> 'rules \<Rightarrow> validation_error list) \<Rightarrow> 'rules \<Rightarrow> 'm \<Rightarrow> validation_error list" where
  "Object toJsonKeyMap validate ruleSets obj = validate (toJsonKeyMap obj) ruleSets"

definition JSONBody ::
  "(string \<Rightarrow> 'm result) \<Rightarrow> (goerr \<Rightarrow> validation_error list) \<Rightarrow> ('m \<Rightarrow> 'fields) \<Rightarrow> ('fields \<Rightarrow> 'rules \<Rightarrow> validation_error list) \<Rightarrow>
   'rules \<Rightarrow> string \<Rightarrow> validation_error list + 'm" where
  "JSONBody unmarshal parseError toJsonKeyMap validate ruleSets data =
     (case unmarshal data of
        Inl e \<Rightarrow> Inl (parseError e)
      | Inr obj \<Rightarrow> if Object toJsonKeyMap validate ruleSets obj \<noteq> [] then Inl (Object toJsonKeyMap validate ruleSets obj) else Inr obj)"

lemma JSONBody_accepts:
  "JSONBody unmarshal parseError toJsonKeyMap validate ruleSets data = Inr msg \<longleftrightarrow>
     unmarshal data = Inr msg \<and> Object toJsonKeyMap validate ruleSets msg = []"
  by (auto simp: JSONBody_def split: sum.split if_splits)

section \<open>Sending\<close>

definition describeFailures :: "validation_error list \<Rightarrow> string" where
  "describeFailures errs =
     concat (map (\<lambda>fe. ''; '' @ (if ve_Field fe \<noteq> [] then ve_Field fe @ '': '' else []) @ ve_Code fe) errs)"

text \<open>\<open>ctx_err\<close> is \<open>ctx.Err()\<close>, \<open>check\<close> is \<open>vkit.Object\<close> with the body rules.\<close>

definition sender_envelope :: "goerr option \<Rightarrow> string \<Rightarrow> ('m \<Rightarrow> validation_error list) \<Rightarrow> 'm \<Rightarrow> (string \<times> 'm) result" where
  "sender_envelope ctx_err name check msg =
     (case ctx_err of
        Some e \<Rightarrow> Inl (Errorf ''wskit: sending %s: %w'' [name] [e])
      | None \<Rightarrow>
          if check msg \<noteq> [] then
            Inl (Errorf ''wskit: sending %s: payload is invalid%s'' [name, describeFailures (check msg)] [])
          else Inr (name, msg))"

text \<open>\<open>deliver\<close> is \<open>wssend.JSON\<close> (or \<open>BroadcastJSON\<close>) on a connection: an error or the new world.\<close>

definition Send :: "goerr option \<Rightarrow> string \<Rightarrow> ('m \<Rightarrow> validation_error list) \<Rightarrow> (string \<times> 'm \<Rightarrow> 'w \<Rightarrow> goerr option \<times> 'w) \<Rightarrow>
    'm \<Rightarrow> 'w \<Rightarrow> goerr option \<times> 'w" where
  "Send ctx_err name check deliver msg w =
     (case sender_envelope ctx_err name check msg of Inl e \<Rightarrow> (Some e, w) | Inr envelope \<Rightarrow> deliver envelope w)"

definition Broadcast :: "goerr option \<Rightarrow> string \<Rightarrow> ('m \<Rightarrow> validation_error list) \<Rightarrow> ('c list \<Rightarrow> string \<times> 'm \<Rightarrow> 'w \<Rightarrow> goerr option \<times> 'w) \<Rightarrow>
    'c list \<Rightarrow> 'm \<Rightarrow> 'w \<Rightarrow> goerr option \<times> 'w" where
  "Broadcast ctx_err name check deliver conns msg w =
     (case sender_envelope ctx_err name check msg of Inl e \<Rightarrow> (Some e, w) | Inr envelope \<Rightarrow> deliver conns envelope w)"

section \<open>The upgrade\<close>

definition ChannelSecurity :: "ws_security option \<Rightarrow> request \<Rightarrow> 'b response option" where
  "ChannelSecurity security r =
     (case Decide security (PrincipalFrom (rq_ctx r)) of
        Unauthenticated \<Rightarrow> Some UnauthenticatedResponse
      | Forbidden \<Rightarrow> Some ForbiddenResponse
      | Allowed \<Rightarrow> None)"

definition plain_guard :: "(request \<Rightarrow> 'b response option \<times> logs) \<Rightarrow> ('s, 'b) guard" where
  "plain_guard g r s = (case g r of (refusal, l) \<Rightarrow> ((refusal, r), s, l))"

definition channel_guards ::
  "(string \<Rightarrow> string option) \<Rightarrow> origins option \<Rightarrow> jwt_parse \<Rightarrow> 's verifier \<Rightarrow> expander option \<Rightarrow> claim_set option \<Rightarrow>
     ws_security option \<Rightarrow> ('s, 'b) guard list" where
  "channel_guards host_of os jwt v scopes cs security =
     [plain_guard (UpgradeOrigin host_of os),
      AuthUpgrade jwt v scopes cs,
      plain_guard (\<lambda>r. (ChannelSecurity security r, []))]"

text \<open>The router consults them in order; the first response is the answer (\<open>None\<close>: the upgrade goes on).\<close>

fun consult :: "('s, 'b) guard list \<Rightarrow> request \<Rightarrow> 's \<Rightarrow> ('b response option \<times> request) \<times> 's \<times> logs" where
  "consult [] r s = ((None, r), s, [])"
| "consult (g # gs) r s =
     (case g r s of
        ((Some refusal, r'), s', l) \<Rightarrow> ((Some refusal, r'), s', l)
      | ((None, r'), s', l) \<Rightarrow> (case consult gs r' s' of (res, s'', l') \<Rightarrow> (res, s'', l @ l')))"

section \<open>Starting\<close>

definition contradictoryChannels :: "('s, 'w, 'b) ws_module list \<Rightarrow> string list" where
  "contradictoryChannels modules = map (\<lambda>m. rt_Path (wm_runtime m)) (filter (\<lambda>m. Contradictory (wm_security m)) modules)"

definition channelsRequiringCaller :: "('s, 'w, 'b) ws_module list \<Rightarrow> string list" where
  "channelsRequiringCaller modules = map (\<lambda>m. rt_Path (wm_runtime m)) (filter (\<lambda>m. RequiresCaller (wm_security m)) modules)"

definition messagesRequiringCaller :: "('s, 'w, 'b) ws_module list \<Rightarrow> (string \<times> string) list" where
  "messagesRequiringCaller modules =
     concat (map (\<lambda>m. map (\<lambda>r. (rv_name r, rt_Path (wm_runtime m)))
       (filter (\<lambda>r. message_RequiresCaller (rv_Security r)) (wm_receivers m))) modules)"

definition limitedSchemes :: "ws_security option \<Rightarrow> string list" where
  "limitedSchemes security = (case security of None \<Rightarrow> [] | Some s \<Rightarrow> if ws_Public s then [] else ws_Schemes s)"

definition unverifiableSchemes :: "('s, 'w, 'b) ws_module list \<Rightarrow> string list \<Rightarrow> (string \<times> string) list" where
  "unverifiableSchemes modules verifiable =
     concat (map (\<lambda>m. map (\<lambda>scheme. (rt_Path (wm_runtime m), scheme))
       (filter (\<lambda>scheme. scheme \<notin> set verifiable) (limitedSchemes (wm_security m)))) modules)"

definition verifiableSchemes :: "'s verifier option \<Rightarrow> string list" where
  "verifiableSchemes verifier = (case verifier of None \<Rightarrow> [] | Some v \<Rightarrow> Schemes v)"

definition checkNothingNeedsCaller :: "('s, 'w, 'b) ws_module list \<Rightarrow> goerr option" where
  "checkNothingNeedsCaller modules =
     (if channelsRequiringCaller modules \<noteq> [] then
        Some (Errorf ''WebSocket channels %s require an authenticated caller but nothing can verify one'' (channelsRequiringCaller modules) [])
      else if messagesRequiringCaller modules \<noteq> [] then
        Some (Errorf ''WebSocket messages %s require an authenticated caller but nothing can verify one''
          (map (\<lambda>(m, p). m @ '' on '' @ p) (messagesRequiringCaller modules)) [])
      else None)"

definition checkChannelSecurity :: "('s, 'w, 'b) ws_module list \<Rightarrow> 's verifier option \<Rightarrow> goerr option" where
  "checkChannelSecurity modules verifier =
     (if contradictoryChannels modules \<noteq> [] then
        Some (Errorf ''WebSocket channels %s are declared public and also require a scheme or a scope'' (contradictoryChannels modules) [])
      else
        let verifiable = verifiableSchemes verifier in
        if verifiable = [] then checkNothingNeedsCaller modules
        else if unverifiableSchemes modules verifiable \<noteq> [] then
          Some (Errorf ''WebSocket channels accept only a credential nothing verifies: %s''
            (map (\<lambda>(p, scheme). p @ '' ('' @ scheme @ '')'') (unverifiableSchemes modules verifiable)) [])
        else None)"

definition CreateWSRouter ::
  "(string \<Rightarrow> string option) \<Rightarrow> jwt_parse \<Rightarrow> ('s, 'w, 'b) ws_module list \<Rightarrow> 's verifier \<Rightarrow> origins option \<Rightarrow> expander option \<Rightarrow>
     claim_set option \<Rightarrow> ('s, 'w, 'b) runtime_module list result" where
  "CreateWSRouter host_of jwt modules v os scopes cs =
     (case checkChannelSecurity modules (Some v) of
        Some e \<Rightarrow> Inl e
      | None \<Rightarrow> Inr (map (\<lambda>m. (wm_runtime m)\<lparr>rt_HTTPMiddlewares :=
            channel_guards host_of os jwt v scopes cs (wm_security m) @ rt_HTTPMiddlewares (wm_runtime m)\<rparr>) modules))"


section \<open>One judgement for every entry point\<close>

text \<open>
  What a declaration of access owes: an open one admits everyone, any other needs a caller and, of that
  caller, the schemes and scopes it states.
\<close>

locale access_gate =
  fixes judge :: "'d \<Rightarrow> principal option \<Rightarrow> decision"
    and is_open :: "'d \<Rightarrow> bool"
    and needs_schemes needs_scopes :: "'d \<Rightarrow> string list"
  assumes opened: "is_open d \<Longrightarrow> judge d caller = Allowed"
    and anonymous: "\<not> is_open d \<Longrightarrow> judge d None = Unauthenticated"
    and known: "\<not> is_open d \<Longrightarrow> judge d (Some p) =
      (if HasScheme (Some p) (needs_schemes d) \<and> SatisfiesScopes (Some p) (needs_scopes d) then Allowed else Forbidden)"
begin

lemma allowed_iff:
  "judge d caller = Allowed \<longleftrightarrow>
     is_open d \<or> (caller \<noteq> None \<and> HasScheme caller (needs_schemes d) \<and> SatisfiesScopes caller (needs_scopes d))"
  by (cases caller; cases "is_open d") (simp_all add: opened anonymous known)

lemma unauthenticated_iff: "judge d caller = Unauthenticated \<longleftrightarrow> \<not> is_open d \<and> caller = None"
  by (cases caller; cases "is_open d") (simp_all add: opened anonymous known)

lemma monotone:
  assumes "judge d (Some p) = Allowed" "p_Scheme p' = p_Scheme p" "\<And>xs. SatisfiesScopes (Some p) xs \<Longrightarrow> SatisfiesScopes (Some p') xs"
  shows "judge d (Some p') = Allowed"
  using assms by (auto simp: allowed_iff HasScheme_def)

end

definition authorize_Decide :: "'v security option \<Rightarrow> principal option \<Rightarrow> decision" where
  "authorize_Decide security caller =
     (case (authorize security \<lparr>rq_Method = [], rq_Path = [], rq_Host = [], rq_Header = (\<lambda>_. None), rq_Cookie = (\<lambda>_. None),
        rq_PathParam = (\<lambda>_. None), rq_Query = (\<lambda>_. None), rq_ctx = WithPrincipal Background caller\<rparr> :: unit response option) of
        None \<Rightarrow> Allowed
      | Some res \<Rightarrow> if Code res = 401 then Unauthenticated else Forbidden)"

lemma HasScheme_any [simp]: "HasScheme (Some p) []"
  by (simp add: HasScheme_def)

lemma SatisfiesScopes_none [simp]: "SatisfiesScopes (Some p) []"
  by (simp add: SatisfiesScopes_def)

interpretation channel: access_gate Decide "\<lambda>d. \<not> RequiresCaller d"
  "\<lambda>d. case d of None \<Rightarrow> [] | Some s \<Rightarrow> ws_Schemes s" "\<lambda>d. case d of None \<Rightarrow> [] | Some s \<Rightarrow> ws_Scopes s"
  by unfold_locales (auto simp: Decide_def RequiresCaller_def split: option.splits)

interpretation message: access_gate message_Decide "\<lambda>d. \<not> message_RequiresCaller d"
  "\<lambda>_. []" "\<lambda>d. case d of None \<Rightarrow> [] | Some s \<Rightarrow> ms_Scopes s"
  by unfold_locales (auto simp: message_Decide_def message_RequiresCaller_def split: option.splits)

interpretation restful: access_gate authorize_Decide "\<lambda>d. case d of None \<Rightarrow> False | Some s \<Rightarrow> Public s"
  "\<lambda>d. case d of None \<Rightarrow> [] | Some s \<Rightarrow> sec_Schemes s" "\<lambda>d. case d of None \<Rightarrow> [] | Some s \<Rightarrow> sec_Scopes s"
  by unfold_locales (auto simp: authorize_Decide_def authorize_def UnauthenticatedResponse_def ForbiddenResponse_def split: option.splits)

text \<open>
  C37. One judgement on both transports. A channel and an endpoint that declare the same let the same
  requests through and answer the others the same, and declaring nothing means the same on both.
\<close>

theorem channel_judges_as_endpoint:
  "(ChannelSecurity (Some \<lparr>ws_Public = Public s, ws_Schemes = sec_Schemes s, ws_Scopes = sec_Scopes s\<rparr>) r :: 'b response option) =
     authorize (Some s) r \<and>
   (ChannelSecurity None r :: 'b response option) = authorize (None :: 'v security option) r"
  by (auto simp: ChannelSecurity_def Decide_def authorize_def split: option.splits)

section \<open>Dispatch\<close>

lemma find_snoc: "find P (xs @ [y]) = (case find P xs of None \<Rightarrow> (if P y then Some y else None) | Some x \<Rightarrow> Some x)"
  by (induction xs) auto

lemma put_receivers:
  "map_of (foldl (\<lambda>m r. put (rv_name r) r m) acc rs) name =
     (case find (\<lambda>r. rv_name r = name) (rev rs) of None \<Rightarrow> map_of acc name | Some r \<Rightarrow> Some r)"
  by (induction rs arbitrary: acc) (auto simp: find_snoc split: option.splits)

lemma receivers_map_of: "map_of (receivers_map rs) name = find (\<lambda>r. rv_name r = name) (rev rs)"
  by (simp add: receivers_map_def put_receivers split: option.split)

text \<open>The receiver a frame reaches when it reaches one.\<close>

definition reached :: "parse_envelope \<Rightarrow> (string \<times> 'w receiver) list \<Rightarrow> request_context \<Rightarrow> ws_event \<Rightarrow> (incoming \<times> 'w receiver) option" where
  "reached parse receivers ctx event =
     (case parse (MessageData event) of
        None \<Rightarrow> None
      | Some envelope \<Rightarrow>
          if in_Type envelope = [] then None
          else (case map_of receivers (in_Type envelope) of
            None \<Rightarrow> None
          | Some rv \<Rightarrow> if message_Decide (rv_Security rv) (PrincipalFrom ctx) = Allowed then Some (envelope, rv) else None))"

lemma refusalOf_None_iff: "refusalOf ctx security t = None \<longleftrightarrow> message_Decide security (PrincipalFrom ctx) = Allowed"
  by (simp add: refusalOf_def split: decision.split)

lemma dispatch_unreached:
  "reached parse receivers ctx event = None \<Longrightarrow>
     \<exists>reply. dispatch parse preferred receivers ctx event w = (None, [reply], w) \<and>
       ep_Code reply \<in> {CodeNotParsable, CodeUnknownMessageType, CodeUnauthenticated, CodeForbidden} \<and> ep_FieldErrors reply = []"
  by (auto simp: reached_def dispatch_def refusalOf_def split: option.splits if_splits decision.splits)

lemma dispatch_reached:
  assumes "reached parse receivers ctx event = Some (envelope, rv)"
  shows "dispatch parse preferred receivers ctx event w =
    (case rv_handle rv ctx event (payloadOf envelope) w of
       (errs, e, w') \<Rightarrow> if errs \<noteq> [] then (None, [validationPayload preferred event (in_Type envelope) errs], w') else (e, [], w'))"
proof -
  from assms have r: "parse (MessageData event) = Some envelope" "in_Type envelope \<noteq> []"
    "map_of receivers (in_Type envelope) = Some rv" "refusalOf ctx (rv_Security rv) (in_Type envelope) = None"
    by (auto simp: reached_def refusalOf_None_iff split: option.splits if_splits)
  then show ?thesis by (simp add: dispatch_def)
qed

lemma reached_declared:
  assumes "reached parse (receivers_map rs) ctx event = Some (envelope, rv)"
  shows "parse (MessageData event) = Some envelope" "find (\<lambda>r. rv_name r = in_Type envelope) (rev rs) = Some rv"
    "message_Decide (rv_Security rv) (PrincipalFrom ctx) = Allowed" "rv \<in> set rs" "rv_name rv = in_Type envelope"
proof -
  show f: "parse (MessageData event) = Some envelope" "find (\<lambda>r. rv_name r = in_Type envelope) (rev rs) = Some rv"
    "message_Decide (rv_Security rv) (PrincipalFrom ctx) = Allowed"
    using assms by (auto simp: reached_def receivers_map_of split: option.splits if_splits)
  from f(2) obtain i where i: "i < length (rev rs)" "rv_name (rev rs ! i) = in_Type envelope" "rv = rev rs ! i"
    unfolding find_Some_iff by blast
  with nth_mem [OF i(1)] show "rv \<in> set rs" "rv_name rv = in_Type envelope" by simp_all
qed

text \<open>What a frame does that reaches a receiver built by \<open>Receive\<close>.\<close>

lemma dispatch_built:
  assumes "reached parse (receivers_map rs) ctx event = Some (envelope, Receive name sec body h)"
    and "\<forall>errs data. body data = Inl errs \<longrightarrow> errs \<noteq> []"
  shows "dispatch parse preferred (receivers_map rs) ctx event w =
    (case body (payloadOf envelope) of
       Inl errs \<Rightarrow> (None, [validationPayload preferred event (in_Type envelope) errs], w)
     | Inr msg \<Rightarrow> (case h ctx event msg w of (e, w') \<Rightarrow> (e, [], w')))"
  using assms(2) by (auto simp: dispatch_reached [OF assms(1)] Receive_def split: sum.split prod.split)

text \<open>
  A message reaches its handler only as declared. For receivers built by \<open>Receive\<close>, the world
  changes, or the connection is closed, only by the handler of the last receiver declared under the
  frame's type, for a caller that receiver admits and a payload that validates; every other frame is
  answered by exactly one error message and leaves the connection open and the world as it was.
\<close>

theorem dispatch_as_declared:
  fixes rs :: "'w receiver list"
  assumes "dispatch parse preferred (receivers_map rs) ctx event w = (e, replies, w')"
    and "\<And>rv. rv \<in> set rs \<Longrightarrow> \<exists>name sec (body :: string \<Rightarrow> validation_error list + 'm) h.
      (\<forall>errs data. body data = Inl errs \<longrightarrow> errs \<noteq> []) \<and> rv = Receive name sec body h"
  shows "(replies \<noteq> [] \<and> e = None \<and> w' = w \<and> length replies = 1) \<or>
      (\<exists>envelope sec (body :: string \<Rightarrow> validation_error list + 'm) h msg. parse (MessageData event) = Some envelope \<and>
         find (\<lambda>r. rv_name r = in_Type envelope) (rev rs) = Some (Receive (in_Type envelope) sec body h) \<and>
         message_Decide sec (PrincipalFrom ctx) = Allowed \<and> body (payloadOf envelope) = Inr msg \<and>
         h ctx event msg w = (e, w') \<and> replies = [])"
proof (cases "reached parse (receivers_map rs) ctx event")
  case None
  with dispatch_unreached [OF None, of preferred w] assms(1) show ?thesis by auto
next
  case (Some p)
  obtain envelope rv where p: "reached parse (receivers_map rs) ctx event = Some (envelope, rv)" using Some by (cases p) auto
  note d = reached_declared [OF p]
  obtain name sec and body :: "string \<Rightarrow> validation_error list + 'm" and h where
    b: "\<forall>errs data. body data = Inl errs \<longrightarrow> errs \<noteq> []" "rv = Receive name sec body h"
    using assms(2) [OF d(4)] by blast
  then have rv: "rv = Receive (in_Type envelope) sec body h" "rv_Security rv = sec" using d(5) by (simp_all add: Receive_def)
  from assms(1) have "(e, replies, w') = (case body (payloadOf envelope) of
       Inl errs \<Rightarrow> (None, [validationPayload preferred event (in_Type envelope) errs], w)
     | Inr msg \<Rightarrow> (case h ctx event msg w of (e, w') \<Rightarrow> (e, [], w')))"
    using dispatch_built [OF p [unfolded rv(1)] b(1), of preferred w] by simp
  with d(1-3) rv show ?thesis
    by (cases "body (payloadOf envelope)") (auto split: prod.splits)
qed

text \<open>
  A caller who may not send a message learns nothing of its rules: the answer is the same whatever
  the payload is.
\<close>

theorem refused_sender_learns_nothing:
  assumes "parse (MessageData event) = Some \<lparr>in_Type = t, in_Data = d1\<rparr>" "parse (MessageData other) = Some \<lparr>in_Type = t, in_Data = d2\<rparr>"
    and "map_of receivers t = Some rv" "message_Decide (rv_Security rv) (PrincipalFrom ctx) \<noteq> Allowed"
  shows "dispatch parse preferred receivers ctx event w = dispatch parse preferred receivers ctx other w \<and>
    fst (snd (dispatch parse preferred receivers ctx event w)) \<noteq> []"
proof -
  have "refusalOf ctx (rv_Security rv) t \<noteq> None" using assms(4) by (simp add: refusalOf_None_iff)
  with assms(1-3) show ?thesis by (auto simp: dispatch_def)
qed


section \<open>A connection\<close>

text \<open>
  The life of a connection: the handshake is refused or upgraded by the guards; an open connection
  takes frames one after the other, each with the context of the handshake, and is closed by the error
  of a handler.
\<close>

datatype 'b connection = Handshaking request | Refused "'b response" | Open request_context | Closed goerr

inductive ws_step :: "('s, 'b) guard list \<Rightarrow> 'w on_message \<Rightarrow> 'b connection \<times> 's \<times> 'w \<Rightarrow> 'b connection \<times> 's \<times> 'w \<Rightarrow> bool"
  for gs :: "('s, 'b) guard list" and om :: "'w on_message" where
  upgraded: "consult gs r s = ((None, r'), s', l) \<Longrightarrow> ws_step gs om (Handshaking r, s, w) (Open (rq_ctx r'), s', w)"
| refused: "consult gs r s = ((Some res, r'), s', l) \<Longrightarrow> ws_step gs om (Handshaking r, s, w) (Refused res, s', w)"
| received: "om ctx event w = (None, replies, w') \<Longrightarrow> ws_step gs om (Open ctx, s, w) (Open ctx, s, w')"
| failed: "om ctx event w = (Some e, replies, w') \<Longrightarrow> ws_step gs om (Open ctx, s, w) (Closed e, s, w')"

inductive_cases ws_stepE: "ws_step gs om (c, s, w) (c', s', w')"

inductive_simps ws_step_simps:
  "ws_step gs om (Handshaking r, s, w) x" "ws_step gs om (Refused res, s, w) x"
  "ws_step gs om (Open ctx, s, w) x" "ws_step gs om (Closed e, s, w) x"

inductive ws_reaches :: "('s, 'b) guard list \<Rightarrow> 'w on_message \<Rightarrow> 'b connection \<times> 's \<times> 'w \<Rightarrow> 'b connection \<times> 's \<times> 'w \<Rightarrow> bool"
  for gs :: "('s, 'b) guard list" and om :: "'w on_message" and x :: "'b connection \<times> 's \<times> 'w" where
  start: "ws_reaches gs om x x"
| after_step: "ws_reaches gs om x y \<Longrightarrow> ws_step gs om y z \<Longrightarrow> ws_reaches gs om x z"

lemma consult_channel_guards:
  fixes refusal :: "'b response option"
  assumes "consult (channel_guards host_of os jwt v scopes cs security) r s = ((refusal, r'), s', l)"
    and "PrincipalFrom (rq_ctx r) = None" "refusal = None"
  shows "(UpgradeOrigin host_of os r :: 'b response option \<times> logs) = (None, []) \<and>
    (\<exists>vr. fst (Verify jwt v r s) = Inr vr \<and> PrincipalFrom (rq_ctx r') = WithScopeExpander scopes (vr_Principal vr) \<and>
       Decide security (PrincipalFrom (rq_ctx r')) = Allowed)"
proof -
  obtain origin l0 where o: "(UpgradeOrigin host_of os r :: 'b response option \<times> logs) = (origin, l0)" by (cases "UpgradeOrigin host_of os r :: 'b response option \<times> logs")
  obtain result auth r1 s1 l1 where a: "authenticate jwt v scopes cs r s = ((result, auth :: 'b response option, r1), s1, l1)"
    by (metis prod.collapse)
  from assms(1,3) o a have "origin = None" "auth = None" "(ChannelSecurity security r1 :: 'b response option) = None" "r' = r1"
    by (auto simp: channel_guards_def plain_guard_def AuthUpgrade_def split: option.splits prod.splits)
  moreover have "l0 = []" if "origin = None"
    using o that by (auto simp: UpgradeOrigin_def split: option.splits if_splits)
  moreover from authenticate_let_through [OF a \<open>auth = None\<close>] obtain vr where
    "Verify jwt v r s = (Inr vr, s1, l1)" "PrincipalFrom (rq_ctx r1) = WithScopeExpander scopes (vr_Principal vr)"
    using entry_context(1) [OF assms(2)] by (metis request.simps(8) request.surjective request.update_convs(8))
  ultimately show ?thesis using o by (auto simp: ChannelSecurity_def split: decision.splits)
qed


definition keeps_caller :: "('s, 'b) guard \<Rightarrow> bool" where
  "keeps_caller g \<longleftrightarrow> (\<forall>r s. PrincipalFrom (rq_ctx (snd (fst (g r s)))) = PrincipalFrom (rq_ctx r))"

lemma consult_keeps:
  "\<forall>g \<in> set gs. keeps_caller g \<Longrightarrow> PrincipalFrom (rq_ctx (snd (fst (consult gs r s)))) = PrincipalFrom (rq_ctx r)"
proof (induction gs arbitrary: r s)
  case (Cons g gs)
  obtain refusal r' s' l where g: "g r s = ((refusal, r'), s', l)" by (metis prod.collapse)
  with Cons.prems have "PrincipalFrom (rq_ctx r') = PrincipalFrom (rq_ctx r)"
    unfolding keeps_caller_def by (metis fst_conv list.set_intros(1) snd_conv)
  with g Cons show ?case by (auto split: option.split prod.split simp: split_beta)
qed simp

lemma consult_append:
  "consult (gs @ hs) r s =
     (case consult gs r s of
        ((Some res, r'), s', l) \<Rightarrow> ((Some res, r'), s', l)
      | ((None, r'), s', l) \<Rightarrow> (case consult hs r' s' of (res, s'', l') \<Rightarrow> (res, s'', l @ l')))"
  by (induction gs arbitrary: r s) (auto split: prod.splits option.splits)

definition admitted :: "(string \<Rightarrow> string option) \<Rightarrow> origins option \<Rightarrow> jwt_parse \<Rightarrow> 's verifier \<Rightarrow> expander option \<Rightarrow> ws_security option \<Rightarrow>
    request \<Rightarrow> 's \<Rightarrow> principal option \<Rightarrow> bool" where
  "admitted host_of os jwt v scopes security r s caller \<longleftrightarrow>
     fst (UpgradeOrigin host_of os r :: unit response option \<times> logs) = None \<and>
     (\<exists>vr. fst (Verify jwt v r s) = Inr vr \<and> caller = WithScopeExpander scopes (vr_Principal vr) \<and> Decide security caller = Allowed)"

lemma UpgradeOrigin_any_body:
  "fst (UpgradeOrigin host_of os r :: 'b response option \<times> logs) = None \<longleftrightarrow> fst (UpgradeOrigin host_of os r :: unit response option \<times> logs) = None"
  by (simp add: UpgradeOrigin_def split: option.split)

lemma consult_admits:
  fixes gs :: "('s, 'b) guard list"
  assumes "consult (channel_guards host_of os jwt v scopes cs security @ gs) r s = ((None, r'), s', l)"
    and "PrincipalFrom (rq_ctx r) = None" "\<forall>g \<in> set gs. keeps_caller g"
  shows "admitted host_of os jwt v scopes security r s (PrincipalFrom (rq_ctx r'))"
proof -
  let ?chan = "channel_guards host_of os jwt v scopes cs security :: ('s, 'b) guard list"
  obtain refusal r1 s1 l1 where c: "consult ?chan r s = ((refusal, r1), s1, l1)" by (metis prod.collapse)
  with assms(1) have n: "refusal = None" and r': "r' = snd (fst (consult gs r1 s1))"
    by (auto simp: consult_append split: option.splits prod.splits)
  from consult_channel_guards [OF c assms(2) n] UpgradeOrigin_any_body [where 'b = 'b, of host_of os r]
  have "admitted host_of os jwt v scopes security r s (PrincipalFrom (rq_ctx r1))"
    by (auto simp: admitted_def)
  with consult_keeps [OF assms(3), of r1 s1] r' show ?thesis by simp
qed

text \<open>
  C15. A connection is only ever used by whom it was opened for. Behind the guards the router puts in
  front of a channel, and any further ones that keep the caller, a connection that is open, was closed by
  a handler, or changed anything passed the origin check and its verified caller, with the policy
  attached, meets the channel's declaration; and that caller is the one every frame is judged by.
\<close>

theorem connection_admitted:
  fixes om :: "'w on_message" and gs :: "('s, 'b) guard list"
  assumes "ws_reaches (channel_guards host_of os jwt v scopes cs security @ gs) om (Handshaking r, s, w) (c, s', w')"
    and "PrincipalFrom (rq_ctx r) = None" "\<forall>g \<in> set gs. keeps_caller g"
  shows "(w' \<noteq> w \<or> (\<exists>e. c = Closed e) \<longrightarrow> (\<exists>caller. admitted host_of os jwt v scopes security r s caller)) \<and>
    (\<forall>ctx. c = Open ctx \<longrightarrow> admitted host_of os jwt v scopes security r s (PrincipalFrom ctx))"
proof -
  define good where "good = (\<lambda>(c :: 'b connection, s', w'). case c of
      Handshaking r' \<Rightarrow> r' = r \<and> s' = s \<and> w' = w
    | Refused _ \<Rightarrow> w' = w
    | Open ctx \<Rightarrow> admitted host_of os jwt v scopes security r s (PrincipalFrom ctx)
    | Closed _ \<Rightarrow> \<exists>caller. admitted host_of os jwt v scopes security r s caller)"
  let ?gs = "channel_guards host_of os jwt v scopes cs security @ gs"
  have step: "good y'" if "ws_step ?gs om y y'" "good y" for y y'
    using that consult_admits [OF _ assms(2,3)] by cases (auto simp: good_def)
  have "good y" if "ws_reaches ?gs om (Handshaking r, s, w) y" for y
    using that
  proof (induction rule: ws_reaches.induct)
    case start
    show ?case by (simp add: good_def)
  next
    case (after_step y z)
    then show ?case using step by blast
  qed
  from this [OF assms(1)] show ?thesis by (auto simp: good_def split: connection.splits)
qed

text \<open>
  A router that starts serves what its channels declare. No public channel states a condition it
  never checks, any other names only credentials the verifier can verify, of which there is one, and
  no message needs a caller that nothing can verify; each channel is served behind the guards made of
  its own declaration, and a typed channel by the dispatch of its catalog, whatever its
  configuration put there.
\<close>

theorem router_starts:
  fixes c :: "('s, 'w, 'b) channel"
  assumes "CreateWSRouter host_of jwt modules v os scopes cs = Inr rts"
  shows "(\<forall>m \<in> set modules. case wm_security m of
        None \<Rightarrow> Schemes v \<noteq> []
      | Some sec \<Rightarrow> if ws_Public sec then ws_Schemes sec = [] \<and> ws_Scopes sec = []
          else Schemes v \<noteq> [] \<and> set (ws_Schemes sec) \<subseteq> set (Schemes v)) \<and>
    (Schemes v = [] \<longrightarrow> (\<forall>m \<in> set modules. \<forall>rv \<in> set (wm_receivers m). rv_Security rv = None)) \<and>
    length rts = length modules \<and>
    (\<forall>i < length modules. rt_HTTPMiddlewares (rts ! i) =
        channel_guards host_of os jwt v scopes cs (wm_security (modules ! i)) @ rt_HTTPMiddlewares (wm_runtime (modules ! i)) \<and>
      (modules ! i = NewModule parse preferred newDefault c \<longrightarrow>
        wm_security (modules ! i) = ch_Security c \<and>
        rt_OnMessage (rts ! i) = dispatch parse preferred (receivers_map (ch_Receive c))))"
proof -
  from assms have ok: "checkChannelSecurity modules (Some v) = None"
    and rts: "rts = map (\<lambda>m. (wm_runtime m)\<lparr>rt_HTTPMiddlewares :=
            channel_guards host_of os jwt v scopes cs (wm_security m) @ rt_HTTPMiddlewares (wm_runtime m)\<rparr>) modules"
    by (auto simp: CreateWSRouter_def split: option.splits)
  from ok have plain: "\<not> Contradictory (wm_security m)" if "m \<in> set modules" for m
    using that by (auto simp: checkChannelSecurity_def contradictoryChannels_def filter_empty_conv split: if_splits)
  have none: "\<not> RequiresCaller (wm_security m) \<and> (\<forall>rv \<in> set (wm_receivers m). rv_Security rv = None)"
    if "Schemes v = []" "m \<in> set modules" for m
    using ok that
    by (auto simp: checkChannelSecurity_def checkNothingNeedsCaller_def verifiableSchemes_def Let_def channelsRequiringCaller_def
        messagesRequiringCaller_def message_RequiresCaller_def filter_empty_conv split: if_splits)
  have some: "set (limitedSchemes (wm_security m)) \<subseteq> set (Schemes v)" if "Schemes v \<noteq> []" "m \<in> set modules" for m
    using ok that
    by (auto simp: checkChannelSecurity_def verifiableSchemes_def Let_def unverifiableSchemes_def filter_empty_conv split: if_splits)
  have "case wm_security m of
        None \<Rightarrow> Schemes v \<noteq> []
      | Some sec \<Rightarrow> if ws_Public sec then ws_Schemes sec = [] \<and> ws_Scopes sec = []
          else Schemes v \<noteq> [] \<and> set (ws_Schemes sec) \<subseteq> set (Schemes v)" if m: "m \<in> set modules" for m
    using plain [OF m] none [OF _ m] some [OF _ m]
    by (cases "Schemes v = []") (auto simp: Contradictory_def RequiresCaller_def limitedSchemes_def split: option.splits)
  with none rts show ?thesis by (simp add: NewModule_def Let_def split: option.split)
qed


section \<open>A channel\<close>

definition demo_parse :: parse_envelope where
  "demo_parse frame = (if frame = ''echo'' then Some \<lparr>in_Type = ''echo'', in_Data = ''x''\<rparr>
     else if frame = ''echo2'' then Some \<lparr>in_Type = ''echo'', in_Data = ''y''\<rparr> else None)"

definition demo_receiver :: "nat receiver" where
  "demo_receiver = Receive ''echo'' (Some \<lparr>ms_Scopes = [''say'']\<rparr>) (\<lambda>data. Inr data :: validation_error list + string) (\<lambda>_ _ _ n. (None, n + 1))"

definition demo_event :: ws_event where
  "demo_event = \<lparr>MessageData = ''echo'', Handshake = None\<rparr>"

lemma dispatch_as_declared_witness:
  "\<exists>sec. message_Decide sec (PrincipalFrom (WithPrincipal Background (Some (demo_caller [''say''])))) = Allowed \<and> sec \<noteq> None"
proof -
  let ?ctx = "WithPrincipal Background (Some (demo_caller [''say'']))"
  have d: "dispatch demo_parse (\<lambda>_. []) (receivers_map [demo_receiver]) ?ctx demo_event 0 = (None, [], 1)"
    by (simp add: dispatch_def demo_parse_def demo_event_def receivers_map_def demo_receiver_def Receive_def refusalOf_def
        message_Decide_def demo_caller_def SatisfiesScopes_def)
  have built: "\<exists>name sec (body :: string \<Rightarrow> validation_error list + string) h. (\<forall>errs data. body data = Inl errs \<longrightarrow> errs \<noteq> []) \<and> rv = Receive name sec body h"
    if "rv \<in> set [demo_receiver]" for rv
    using that unfolding demo_receiver_def by fastforce
  from dispatch_as_declared [OF d, where 'm = string, OF built, simplified] obtain envelope sec and body :: "string \<Rightarrow> validation_error list + string" and h where
    e: "demo_parse (MessageData demo_event) = Some envelope"
      "rv_name demo_receiver = in_Type envelope" "demo_receiver = Receive (in_Type envelope) sec body h"
      "message_Decide sec (PrincipalFrom ?ctx) = Allowed"
    by (auto split: if_splits)
  have "in_Type envelope = ''echo''" using e(1) by (auto simp: demo_parse_def demo_event_def)
  with e(3) have "demo_receiver = Receive ''echo'' sec body h" by simp
  then have "sec \<noteq> None" by (auto simp: demo_receiver_def Receive_def)
  with e(4) show ?thesis by auto
qed

lemma refused_sender_learns_nothing_witness:
  "dispatch demo_parse (\<lambda>_. []) (receivers_map [demo_receiver]) Background demo_event 0 =
   dispatch demo_parse (\<lambda>_. []) (receivers_map [demo_receiver]) Background (demo_event\<lparr>MessageData := ''echo2''\<rparr>) 0"
proof -
  have "map_of (receivers_map [demo_receiver]) ''echo'' = Some demo_receiver"
    by (simp add: receivers_map_def demo_receiver_def Receive_def)
  then show ?thesis
    using refused_sender_learns_nothing [of demo_parse demo_event "''echo''" "''x''" "demo_event\<lparr>MessageData := ''echo2''\<rparr>" "''y''"
        "receivers_map [demo_receiver]" demo_receiver Background "\<lambda>_. []" 0]
    by (simp add: demo_parse_def demo_event_def) (simp add: demo_receiver_def Receive_def message_Decide_def)
qed

lemma demo_key_accepted:
  "Verify (\<lambda>_ _ _. Inr None) demo_verifier (demo_request ''X-API-Key'' ''key'') () =
     (Inr \<lparr>vr_Principal = Some \<lparr>p_Subject = apiKeySubjectPrefix, p_Scopes = [], p_Scheme = SchemeAPIKey, p_Claims = [], implied = None\<rparr>, vr_Discard = []\<rparr>, (), [])"
  by (simp add: Verify_def bearerToken_def api_key_def demo_request_def demo_verifier_def authorizationHeader_def
      caller_result_def verifyAPIKey_def staticKeyStore_def)

lemma connection_admitted_witness:
  "\<exists>caller. admitted (\<lambda>_. None) None (\<lambda>_ _ _. Inr None) demo_verifier None None (demo_request ''X-API-Key'' ''key'') () caller"
proof -
  let ?r = "demo_request ''X-API-Key'' ''key''"
  let ?gs = "channel_guards (\<lambda>_. None) None (\<lambda>_ _ _. Inr None) demo_verifier None None None :: (unit, unit) guard list"
  let ?om = "(\<lambda>_ _ n. (None, [], n + 1)) :: nat on_message"
  have "rq_Header ?r originHeader = None" by (simp add: demo_request_def originHeader_def)
  then have o: "(UpgradeOrigin (\<lambda>_. None) None ?r :: unit response option \<times> logs) = (None, [])" by (simp add: UpgradeOrigin_def)
  have "\<exists>r' s' l. consult (?gs @ []) ?r () = ((None, r'), s', l)"
    by (simp add: channel_guards_def plain_guard_def o AuthUpgrade_def authenticate_def demo_key_accepted
        ChannelSecurity_def Decide_def WithScopeExpander_def)
  then obtain r' s' l where c: "consult (?gs @ []) ?r () = ((None, r'), s', l)" by blast
  have "ws_reaches (?gs @ []) ?om (Handshaking ?r, (), 0) (Open (rq_ctx r'), s', 0)"
    by (rule ws_reaches.after_step [OF ws_reaches.start ws_step.upgraded [OF c]])
  moreover have "ws_step (?gs @ []) ?om (Open (rq_ctx r'), s', 0) (Open (rq_ctx r'), s', 1)"
    by (rule ws_step.received [where event = demo_event and replies = "[]"]) simp
  ultimately have reached: "ws_reaches (?gs @ []) ?om (Handshaking ?r, (), 0) (Open (rq_ctx r'), s', 1)"
    by (rule ws_reaches.after_step)
  have "PrincipalFrom (rq_ctx ?r) = None" by (simp add: demo_request_def)
  from connection_admitted [OF reached this] show ?thesis by simp
qed

lemma router_starts_witness:
  "Schemes demo_verifier \<noteq> [] \<and> set [SchemeJWT] \<subseteq> set (Schemes demo_verifier)"
proof -
  let ?m = "Raw_module \<lparr>rt_Path = ''/ws'', rt_OnMessage = (\<lambda>_ _ n. (None, [], n :: nat)), rt_HTTPMiddlewares = []\<rparr>
      (Some \<lparr>ws_Public = False, ws_Schemes = [SchemeJWT], ws_Scopes = []\<rparr>) :: (unit, nat, unit) ws_module"
  have "\<exists>rts. CreateWSRouter (\<lambda>_. None) (\<lambda>_ _ _. Inr None) [?m] demo_verifier None None None = Inr rts"
    by (simp add: CreateWSRouter_def checkChannelSecurity_def contradictoryChannels_def Raw_module_def Contradictory_def
        verifiableSchemes_def Schemes_def demo_verifier_def unverifiableSchemes_def limitedSchemes_def)
  then obtain rts where "CreateWSRouter (\<lambda>_. None) (\<lambda>_ _ _. Inr None) [?m] demo_verifier None None None = Inr rts" by blast
  from router_starts [OF this] show ?thesis by (simp add: Raw_module_def)
qed

end
