(* ===== verification/Broker.thy ===== *)
theory Broker
  imports Wskit
begin

text \<open>
  The message broker surface: typed publications and subscriptions (\<open>internal/plamo/mbkit\<close>) and how the
  application binds them to a broker (\<open>internal/app/mb/mb.go\<close>).

  The broker is a parameter: whether it carries metadata, and what publishing or subscribing does to
  its world \<open>'b\<close>. JSON of a message is \<open>marshal\<close> and \<open>body\<close> (\<open>vkit.JSONBody\<close> with the rules).
\<close>

definition LogTypeInitiatorNotCarried :: string where
  "LogTypeInitiatorNotCarried = ''mb_initiator_not_carried_log''"

section \<open>Publishing\<close>

record ('o, 'b) publisher =
  pb_carries :: bool
  pb_publish :: "string \<Rightarrow> string \<Rightarrow> metadata \<Rightarrow> 'o list \<Rightarrow> 'b \<Rightarrow> goerr option \<times> 'b"

type_synonym ('o, 'b) publish_fun =
  "request_context \<Rightarrow> string \<Rightarrow> string \<Rightarrow> metadata \<Rightarrow> 'o list \<Rightarrow> 'b \<Rightarrow> goerr option \<times> 'b \<times> logs"

definition refuseReservedHeaders :: "metadata \<Rightarrow> goerr option" where
  "refuseReservedHeaders md =
     (let named = filter IsReservedHeader (map fst md) in
      if named = [] then None
      else Some (Errorf ''%w: %s (who started the work is written from the context)'' (sort named) [Sentinel ErrReservedMetadata]))"

definition withInitiatorHeaders :: "json_enc \<Rightarrow> metadata \<Rightarrow> initiator \<Rightarrow> metadata \<times> logs" where
  "withInitiatorHeaders enc md from =
     (case Headers enc (Some from) of (h, l) \<Rightarrow> (foldl (\<lambda>m (key, value). put key value m) md h, l))"

definition NewPublish :: "json_enc \<Rightarrow> ('o, 'b) publisher \<Rightarrow> ('o, 'b) publish_fun \<times> logs" where
  "NewPublish enc pub =
     ((\<lambda>ctx target data md opts b.
        (case refuseReservedHeaders md of
           Some e \<Rightarrow> (Some (Errorf ''publishing to %s: %w'' [target] [e]), b, [])
         | None \<Rightarrow>
             (case (if pb_carries pub then withInitiatorHeaders enc md (From ctx) else (md, [])) of
                (md', l) \<Rightarrow> (case pb_publish pub target data md' opts b of (e, b') \<Rightarrow> (e, b', l))))),
      if pb_carries pub then [] else [(Warn, LogTypeInitiatorNotCarried)])"

record ('o, 'm) publication_spec =
  ps_Target :: string
  ps_check :: "'m \<Rightarrow> validation_error list"       \<comment> \<open>\<open>vkit.Object\<close> with the body rules\<close>
  ps_Options :: "'o list"

record ('o, 'm, 'b) publication =
  pn_spec :: "('o, 'm) publication_spec option"
  pn_publish :: "('o, 'b) publish_fun option"

definition NewPublication :: "('o, 'b) publish_fun option \<Rightarrow> ('o, 'm) publication_spec option \<Rightarrow> ('o, 'm, 'b) publication" where
  "NewPublication publish spec = \<lparr>pn_spec = spec, pn_publish = publish\<rparr>"

definition publication_Target :: "('o, 'm, 'b) publication \<Rightarrow> string" where
  "publication_Target p = (case pn_spec p of None \<Rightarrow> [] | Some spec \<Rightarrow> ps_Target spec)"

definition invalidMessageError :: "string \<Rightarrow> validation_error list \<Rightarrow> goerr" where
  "invalidMessageError target errs = Errorf (''invalid message on '' @ target @ describeFailures errs) [] []"

definition Publish ::
  "('m \<Rightarrow> string result) \<Rightarrow> ('o, 'm, 'b) publication \<Rightarrow> request_context \<Rightarrow> 'm \<Rightarrow> metadata \<Rightarrow> 'o list \<Rightarrow> 'b \<Rightarrow>
     goerr option \<times> 'b \<times> logs" where
  "Publish marshal p ctx msg meta opts b =
     (case (pn_spec p, pn_publish p) of
        (Some spec, Some publish) \<Rightarrow>
          if ps_check spec msg \<noteq> [] then
            (Some (Errorf ''mbkit: publishing to %s: %w'' [ps_Target spec] [invalidMessageError (ps_Target spec) (ps_check spec msg)]), b, [])
          else (case marshal msg of
            Inl e \<Rightarrow> (Some (Errorf ''mbkit: encoding the message for %s: %w'' [ps_Target spec] [e]), b, [])
          | Inr data \<Rightarrow> publish ctx (ps_Target spec) data meta (ps_Options spec @ opts) b)
      | _ \<Rightarrow> (Some (Errorf ''mbkit: publication was not built with NewPublication'' [] []), b, []))"

section \<open>Subscribing\<close>

datatype invalid_policy = InvalidDiscard | InvalidFail

definition policy_String :: "invalid_policy \<Rightarrow> string" where
  "policy_String p = (case p of InvalidFail \<Rightarrow> ''fail'' | InvalidDiscard \<Rightarrow> ''discard'')"

record ('o, 'm, 'w) subscription =
  sb_Target :: string
  sb_body :: "string \<Rightarrow> validation_error list + 'm"
  sb_Options :: "'o list"
  sb_OnInvalid :: invalid_policy
  sb_Handle :: "request_context \<Rightarrow> 'm \<Rightarrow> metadata \<Rightarrow> 'w \<Rightarrow> goerr option \<times> 'w"

type_synonym 'w on_receive = "request_context \<Rightarrow> string \<Rightarrow> metadata \<Rightarrow> 'w \<Rightarrow> goerr option \<times> 'w \<times> logs"

record ('o, 'w) subscription_module =
  sm_target :: string
  sm_options :: "'o list"
  sm_receive :: "'w on_receive"

definition handleInvalid :: "string \<Rightarrow> invalid_policy \<Rightarrow> validation_error list \<Rightarrow> goerr option \<times> logs" where
  "handleInvalid target policy errs =
     (if policy = InvalidFail then Some (invalidMessageError target errs) else None, [(Error, [])])"

definition NewSubscriptionModule :: "('o, 'm, 'w) subscription \<Rightarrow> ('o, 'w) subscription_module" where
  "NewSubscriptionModule sub = \<lparr>sm_target = sb_Target sub, sm_options = sb_Options sub,
     sm_receive = (\<lambda>ctx data meta w.
       (case sb_body sub data of
          Inl errs \<Rightarrow> (case handleInvalid (sb_Target sub) (sb_OnInvalid sub) errs of (e, l) \<Rightarrow> (e, w, l))
        | Inr msg \<Rightarrow> (case sb_Handle sub ctx msg meta w of (e, w') \<Rightarrow> (e, w', []))))\<rparr>"

definition OnReceive :: "('o, 'w) subscription_module \<Rightarrow> 'w on_receive" where
  "OnReceive m = sm_receive m"

text \<open>
  What \<open>NewSubscribe\<close> hands the broker for a module: the message handler it calls with the received
  metadata. The claim set's record of what it dropped is threaded through.
\<close>

definition messageHandler ::
  "json_dec \<Rightarrow> claim_set option \<Rightarrow> 'w on_receive \<Rightarrow> request_context \<Rightarrow> string \<Rightarrow> metadata \<Rightarrow> dropped \<Rightarrow> 'w \<Rightarrow>
     goerr option \<times> 'w \<times> dropped \<times> logs" where
  "messageHandler dec cs receiver ctx data md d w =
     (case FromHeaders dec md cs d of (restored, d', l) \<Rightarrow>
        (case receiver (With ctx (Some restored)) data (WithoutHeaders md) w of
           (e, w', l') \<Rightarrow> (e, w', d', l @ l')))"

text \<open>\<open>subscribe\<close> is the broker's, in its own world; the first failure stops the start.\<close>

fun StartSubscriptions ::
  "(string \<Rightarrow> 'w on_receive \<Rightarrow> 'o list \<Rightarrow> 'b \<Rightarrow> goerr option \<times> 'b) \<Rightarrow> ('o, 'w) subscription_module list \<Rightarrow> 'b \<Rightarrow> goerr option \<times> 'b" where
  "StartSubscriptions subscribe [] b = (None, b)"
| "StartSubscriptions subscribe (m # ms) b =
     (case subscribe (sm_target m) (OnReceive m) (sm_options m) b of
        (Some e, b') \<Rightarrow> (Some (Errorf ''subscribing to %s: %w'' [sm_target m] [e]), b')
      | (None, b') \<Rightarrow> StartSubscriptions subscribe ms b')"

section \<open>Delivery\<close>

lemma refuseReservedHeaders_None_iff:
  "refuseReservedHeaders md = None \<longleftrightarrow> fst ` set md \<inter> set ReservedHeaders = {}"
  by (auto simp: refuseReservedHeaders_def Let_def filter_empty_conv IsReservedHeader_def)

lemma WithoutHeaders_lookup: "map_of (WithoutHeaders md) k = (if k \<in> set ReservedHeaders then None else map_of md k)"
  by (induction md) (auto simp: WithoutHeaders_def IsReservedHeader_def)

lemma WithoutHeaders_id: "fst ` set md \<inter> set ReservedHeaders = {} \<Longrightarrow> WithoutHeaders md = md"
  by (induction md) (auto simp: WithoutHeaders_def IsReservedHeader_def)

lemma withInitiatorHeaders_Inject: "withInitiatorHeaders enc md (From ctx) = Inject enc ctx md"
  by (simp add: withInitiatorHeaders_def Inject_def)


text \<open>
  A message that may be sent is one that is accepted where it arrives under the same rules, once it is decoded to
  what was encoded.
\<close>

lemma sent_is_accepted:
  assumes "sb_body sub = JSONBody unmarshal parseError toJsonKeyMap validate ruleSets"
    and "ps_check spec = Object toJsonKeyMap validate ruleSets" "ps_check spec msg = []"
    and "marshal msg = Inr data" "\<forall>m d. marshal m = Inr d \<longrightarrow> unmarshal d = Inr m"
  shows "sb_body sub data = Inr msg"
  using assms by (simp add: JSONBody_accepts)

text \<open>
  What publishing refuses never reaches the broker: a message that breaks the declared rules, one
  that does not encode, and metadata that names a header the framework writes, which is said as such.
\<close>

theorem refused_publications:
  assumes "Publish marshal (NewPublication (Some (fst (NewPublish enc pub))) (Some spec)) ctx msg md opts b = (e, b', l)"
    and "ps_check spec msg \<noteq> [] \<or> (\<exists>e'. marshal msg = Inl e') \<or> fst ` set md \<inter> set ReservedHeaders \<noteq> {}"
  shows "e \<noteq> None \<and> b' = b \<and>
    (ps_check spec msg = [] \<and> (\<exists>data. marshal msg = Inr data) \<longrightarrow> (\<exists>e'. e = Some e' \<and> errors_is e' ErrReservedMetadata))"
proof (cases "ps_check spec msg = [] \<and> (\<exists>data. marshal msg = Inr data)")
  case True
  with assms(2) have "refuseReservedHeaders md \<noteq> None" by (auto simp: refuseReservedHeaders_None_iff)
  then obtain e' where e': "refuseReservedHeaders md = Some e'" "errors_is e' ErrReservedMetadata"
    by (auto simp: refuseReservedHeaders_def Let_def split: if_splits)
  with True assms(1) show ?thesis by (auto simp: Publish_def NewPublication_def NewPublish_def)
next
  case False
  with assms(1) show ?thesis by (auto simp: Publish_def NewPublication_def split: if_splits sum.splits)
qed

text \<open>
  Every message is dealt with, once. A message that decodes and validates runs the handler exactly
  once, whatever its headers say or fail to say; one that does not never runs it, is always on record,
  and is given back to the broker as failed only when the subscription asked for that, so by default it
  is accepted and cannot come back.
\<close>

theorem every_message_dealt_with:
  assumes "messageHandler dec cs (OnReceive (NewSubscriptionModule sub)) ctx data md d w = (e, w', d', l)"
  shows "case sb_body sub data of
      Inr msg \<Rightarrow> \<exists>i. sb_Handle sub (With ctx (Some i)) msg (WithoutHeaders md) w = (e, w')
    | Inl errs \<Rightarrow> w' = w \<and> (Error, []) \<in> set l \<and> (e \<noteq> None \<longleftrightarrow> sb_OnInvalid sub = InvalidFail)"
  using assms
  by (auto simp: messageHandler_def OnReceive_def NewSubscriptionModule_def handleInvalid_def split: prod.splits sum.splits if_splits)

text \<open>Starting stops at the first subscription the broker refuses, and says which.\<close>

lemma StartSubscriptions_append:
  "StartSubscriptions subscribe (ms @ ms') b =
     (case StartSubscriptions subscribe ms b of (Some e, b') \<Rightarrow> (Some e, b') | (None, b') \<Rightarrow> StartSubscriptions subscribe ms' b')"
  by (induction ms arbitrary: b) (auto split: prod.splits option.splits)


section \<open>A broker\<close>

definition demo_publisher :: "(unit, (string \<times> string \<times> metadata) list) publisher" where
  "demo_publisher = \<lparr>pb_carries = True, pb_publish = (\<lambda>target data md opts b. (None, b @ [(target, data, md)]))\<rparr>"

definition demo_spec :: "(unit, string) publication_spec" where
  "demo_spec = \<lparr>ps_Target = ''user.created'', ps_check = (\<lambda>m. if m = [] then [\<lparr>ve_Field = ''m'', ve_Code = ''required'', ve_Messages = []\<rparr>] else []), ps_Options = []\<rparr>"

definition demo_subscription :: "(unit, string, string list) subscription" where
  "demo_subscription = \<lparr>sb_Target = ''user.created'',
     sb_body = (\<lambda>data. if data = [] then Inl [\<lparr>ve_Field = [], ve_Code = ''not_parsable'', ve_Messages = []\<rparr>] else Inr data),
     sb_Options = [], sb_OnInvalid = InvalidDiscard, sb_Handle = (\<lambda>ctx msg meta w. (None, w @ [Kind (Some (From ctx))]))\<rparr>"


lemma refused_publications_witness:
  "case Publish Inr (NewPublication (Some (fst (NewPublish (\<lambda>_. None) demo_publisher))) (Some demo_spec)) Background ''hello'' [(HeaderID, ''me'')] [] [] of
     (Some e, b', _) \<Rightarrow> errors_is e ErrReservedMetadata \<and> b' = [] | _ \<Rightarrow> False"
proof -
  obtain e b' l where p: "Publish Inr (NewPublication (Some (fst (NewPublish (\<lambda>_. None) demo_publisher))) (Some demo_spec)) Background ''hello'' [(HeaderID, ''me'')] [] [] = (e, b', l)"
    by (metis prod.collapse)
  have "fst ` set [(HeaderID, ''me'')] \<inter> set ReservedHeaders \<noteq> {}" by (simp add: ReservedHeaders_def)
  moreover have "ps_check demo_spec ''hello'' = []" by (simp add: demo_spec_def)
  ultimately show ?thesis using refused_publications [OF p] unfolding p by auto
qed

lemma every_message_dealt_with_witness:
  "case messageHandler (\<lambda>_. None) None (OnReceive (NewSubscriptionModule demo_subscription)) Background [] [(HeaderClaims, ''{'')] nothing_dropped [] of
     (e, w', _, l) \<Rightarrow> e = None \<and> w' = [] \<and> (Error, []) \<in> set l"
proof -
  obtain e w' d' l where m: "messageHandler (\<lambda>_. None) None (OnReceive (NewSubscriptionModule demo_subscription)) Background [] [(HeaderClaims, ''{'')] nothing_dropped [] = (e, w', d', l)"
    by (metis prod.collapse)
  from every_message_dealt_with [OF m] show ?thesis by (simp add: m) (simp add: demo_subscription_def)
qed

end
