(* ===== verification/Orders.thy ===== *)
theory Orders
  imports AuthMw
begin

text \<open>
  The orders module (\<open>internal/module/order\<close>): the model and its DTO, the in-memory repository, the
  service, and the endpoints with their rules about the order itself: \<open>PUT /order/{id}\<close> is the
  owner's, \<open>POST /order/{id}/approval\<close> is for a caller whose credential carries a limit that covers
  the order.

  \<open>int\<close> and \<open>uint\<close> are 64 bits wide. The repository is an interface: what the service relies on is the
  locale \<open>order_repository\<close>, which the in-memory repository is shown to meet.
\<close>

section \<open>Orders\<close>

record order_detail =
  od_ID :: "64 word"
  od_UserID :: "64 word"
  od_OrderID :: "64 word"
  od_ProductName :: string
  od_Price :: "64 word"
  od_Quantity :: "64 word"
  od_CreatedAt :: time
  od_UpdatedAt :: time

record order_model =
  om_ID :: "64 word"
  OwnerSubject :: string
  om_UserID :: "64 word"
  om_OrderDetailID :: "64 word"
  Total :: "64 word"
  Status :: string
  OrderDetails :: "order_detail list"
  om_CreatedAt :: time
  UpdatedAt :: time

record order_dto =
  dto_Id :: "64 word"
  dto_OwnerSubject :: string
  Amount :: f64
  dto_Status :: string

record update_order =
  uo_Amount :: "f64 option"
  uo_Status :: string

record payment_callback =
  PaymentId :: string
  pc_OrderId :: "64 word option"
  pc_Status :: string

definition NewOrder :: "64 word \<Rightarrow> string \<Rightarrow> f64 \<Rightarrow> string \<Rightarrow> order_dto" where
  "NewOrder i ownerSubject amount status =
     \<lparr>dto_Id = i, dto_OwnerSubject = ownerSubject, Amount = amount, dto_Status = status\<rparr>"

fun ToOrder :: "order_model option \<Rightarrow> order_dto option" where
  "ToOrder None = None"
| "ToOrder (Some m) = Some \<lparr>dto_Id = om_ID m, dto_OwnerSubject = OwnerSubject m,
     Amount = Fin (float_of_int (sint (Total m))), dto_Status = Status m\<rparr>"

text \<open>
  \<open>int(f)\<close> drops the fraction. For a value an int cannot hold the language leaves the result to the
  implementation: \<open>impl\<close>.
\<close>

definition int_of_f64 :: "(f64 \<Rightarrow> 64 word) \<Rightarrow> f64 \<Rightarrow> 64 word" where
  "int_of_f64 impl f =
     (case f of
        Fin q \<Rightarrow>
          let t = (if 0 \<le> q then \<lfloor>q\<rfloor> else \<lceil>q\<rceil>) in
          if - (2 ^ 63) \<le> t \<and> t < 2 ^ 63 then word_of_int t else impl f
      | _ \<Rightarrow> impl f)"

fun f64_le :: "f64 \<Rightarrow> f64 \<Rightarrow> bool" where
  "f64_le (Fin a) (Fin b) = (a \<le> b)"
| "f64_le a b = (f64_less a b \<or> (a = b \<and> a \<noteq> NaN))"

section \<open>The repository\<close>

record order_store =
  rows :: "64 word \<Rightarrow> order_model option"
  wall :: time                                \<comment> \<open>\<open>time.Now\<close>\<close>

definition seeded :: "64 word \<Rightarrow> string \<Rightarrow> int \<Rightarrow> time \<Rightarrow> order_model" where
  "seeded i owner amount now = \<lparr>om_ID = i, OwnerSubject = owner, om_UserID = i, om_OrderDetailID = 0,
     Total = word_of_int amount, Status = ''pending'', OrderDetails = [], om_CreatedAt = now, UpdatedAt = now\<rparr>"

definition NewOrderRepository :: "time \<Rightarrow> order_store" where
  "NewOrderRepository now = \<lparr>rows = [1 \<mapsto> seeded 1 ''alice'' 1000 now, 2 \<mapsto> seeded 2 ''bob'' 2000 now], wall = now\<rparr>"

definition FindByID :: "64 word \<Rightarrow> order_store \<Rightarrow> order_model result" where
  "FindByID i w = (case rows w i of None \<Rightarrow> Inl (Sentinel ErrRepoOrderNotFound) | Some order \<Rightarrow> Inr order)"

definition Save :: "order_model option \<Rightarrow> order_store \<Rightarrow> goerr option \<times> order_store" where
  "Save order w =
     (case order of
        None \<Rightarrow> (Some (Errorf ''order: nothing to save'' [] []), w)
      | Some m \<Rightarrow>
          if rows w (om_ID m) = None then (Some (Sentinel ErrRepoOrderNotFound), w)
          else (None, w\<lparr>rows := (rows w)(om_ID m \<mapsto> m\<lparr>UpdatedAt := wall w\<rparr>)\<rparr>))"

section \<open>The service\<close>

definition IsOwner :: "string \<Rightarrow> order_dto option \<Rightarrow> bool" where
  "IsOwner subject order = (case order of None \<Rightarrow> False | Some d \<Rightarrow> subject \<noteq> [] \<and> dto_OwnerSubject d = subject)"

definition WithinApprovalLimit :: "f64 \<Rightarrow> order_dto option \<Rightarrow> bool" where
  "WithinApprovalLimit limit order = (case order of None \<Rightarrow> False | Some d \<Rightarrow> f64_le (Amount d) limit)"

record 'w order_service =
  GetOrder :: "order_dto option result"
  FindOrder :: "64 word \<Rightarrow> 'w \<Rightarrow> order_dto option result"
  UpdateOrder :: "64 word \<Rightarrow> update_order \<Rightarrow> 'w \<Rightarrow> order_dto option result \<times> 'w"

definition service_FindOrder :: "(64 word \<Rightarrow> 'w \<Rightarrow> order_model result) \<Rightarrow> 64 word \<Rightarrow> 'w \<Rightarrow> order_dto option result" where
  "service_FindOrder fnd i w =
     (case fnd i w of
        Inl e \<Rightarrow> if errors_is e ErrRepoOrderNotFound then Inl (Sentinel ErrOrderNotFound) else Inl e
      | Inr order \<Rightarrow> Inr (ToOrder (Some order)))"

definition replaced :: "(f64 \<Rightarrow> 64 word) \<Rightarrow> update_order \<Rightarrow> order_model \<Rightarrow> order_model" where
  "replaced impl inp order =
     (case uo_Amount inp of None \<Rightarrow> order | Some a \<Rightarrow> order\<lparr>Total := int_of_f64 impl a\<rparr>)\<lparr>Status := uo_Status inp\<rparr>"

definition service_UpdateOrder ::
  "(f64 \<Rightarrow> 64 word) \<Rightarrow> (64 word \<Rightarrow> 'w \<Rightarrow> order_model result) \<Rightarrow> (order_model option \<Rightarrow> 'w \<Rightarrow> goerr option \<times> 'w) \<Rightarrow>
     64 word \<Rightarrow> update_order \<Rightarrow> 'w \<Rightarrow> order_dto option result \<times> 'w" where
  "service_UpdateOrder impl fnd save i inp w =
     (case fnd i w of
        Inl e \<Rightarrow> (if errors_is e ErrRepoOrderNotFound then Inl (Sentinel ErrOrderNotFound) else Inl e, w)
      | Inr order \<Rightarrow>
          (case save (Some (replaced impl inp order)) w of
             (Some e, w') \<Rightarrow> (Inl e, w')
           | (None, w') \<Rightarrow> (Inr (ToOrder (Some (replaced impl inp order))), w')))"

definition NewOrderService ::
  "(f64 \<Rightarrow> 64 word) \<Rightarrow> (64 word \<Rightarrow> 'w \<Rightarrow> order_model result) \<Rightarrow> (order_model option \<Rightarrow> 'w \<Rightarrow> goerr option \<times> 'w) \<Rightarrow> 'w order_service" where
  "NewOrderService impl fnd save = \<lparr>GetOrder = Inr (Some (NewOrder 1 ''alice'' (Fin 100) ''completed'')),
     FindOrder = service_FindOrder fnd, UpdateOrder = service_UpdateOrder impl fnd save\<rparr>"

section \<open>The endpoints\<close>

definition approvalLimitClaim :: string where "approvalLimitClaim = ''approval_limit''"
definition approvedStatus :: string where "approvedStatus = ''approved''"

definition orderOwnerCheck :: "order_dto option resource_check" where
  "orderOwnerCheck = \<lparr>rc_Description = ''Only the caller the order belongs to can update it.'',
     rc_declared = ''*dto.Order'', rc_check = (\<lambda>p order. IsOwner (p_Subject p) order)\<rparr>"

definition orderApprovalCheck :: "parse_float \<Rightarrow> order_dto option resource_check" where
  "orderApprovalCheck pf = \<lparr>rc_Description = ''Only a caller whose approval limit covers the order's amount can approve it.'',
     rc_declared = ''*dto.Order'',
     rc_check = (\<lambda>p order. case Claims_Number pf (p_Claims p) approvalLimitClaim of
        None \<Rightarrow> False | Some limit \<Rightarrow> WithinApprovalLimit limit order)\<rparr>"

text \<open>\<open>strconv.ParseUint(s, 10, 64)\<close>: no sign, at least one digit, and the range.\<close>

definition ParseUint :: "string \<Rightarrow> 64 word option" where
  "ParseUint s =
     (if s = [] then None
      else case digits 0 s of None \<Rightarrow> None | Some v \<Rightarrow> if v < 2 ^ 64 then Some (word_of_int v) else None)"

definition orderID :: "request \<Rightarrow> 64 word result" where
  "orderID r =
     (case ParseUint (value_or_empty (rq_PathParam r ''id'')) of
        None \<Rightarrow> Inl (HTTPErr 400 ''invalid_order_id'' ''the order id has to be a number'')
      | Some i \<Rightarrow> Inr i)"

definition order_missing :: goerr where
  "order_missing = HTTPErr 404 ''order_not_found'' ''no order exists under that id''"

type_synonym ('w, 'q, 'r) order_endpoint = "('w, order_dto option, 'q, 'r) endpoint"

definition NewGet :: "(request \<Rightarrow> validation_error list + unit) \<Rightarrow> 'w order_service \<Rightarrow> ('w, unit, order_dto option) order_endpoint" where
  "NewGet body svc =
     \<lparr>ep_Security = Some \<lparr>Public = False, sec_Schemes = [], sec_Scopes = [''orders:read''], Resource = None\<rparr>,
      ep_Body = body, ep_PathRules = [], ep_QueryRules = [], ep_Success = 200, ep_Produces = [], ep_Responses = [],
      ep_Handle = (\<lambda>r _.
        (case GetOrder svc of
           Inl e \<Rightarrow> Return (Inl (HTTPErr 400 ''invalid_order'' ''could not fetch the order''))
         | Inr order \<Rightarrow> Return (Inr order)))\<rparr>"

definition order_found ::
  "'w order_service \<Rightarrow> request \<Rightarrow> (64 word \<Rightarrow> order_dto option \<Rightarrow> ('w, order_dto option, order_dto option result) handler) \<Rightarrow>
     ('w, order_dto option, order_dto option result) handler" where
  "order_found svc r k =
     (case orderID r of
        Inl e \<Rightarrow> Return (Inl e)
      | Inr i \<Rightarrow> Get (\<lambda>w.
          (case FindOrder svc i w of
             Inl e \<Rightarrow> Return (Inl (if errors_is e ErrOrderNotFound then order_missing else e))
           | Inr order \<Rightarrow> CallAuthorize \<lparr>rs_type = Some ''*dto.Order'', rs_value = order\<rparr>
               (\<lambda>e. case e of Some e' \<Rightarrow> Return (Inl e') | None \<Rightarrow> k i order))))"

definition order_updated ::
  "'w order_service \<Rightarrow> 64 word \<Rightarrow> update_order \<Rightarrow> ('w, order_dto option, order_dto option result) handler" where
  "order_updated svc i inp = Get (\<lambda>w. case UpdateOrder svc i inp w of (x, w') \<Rightarrow> Put w' (Return x))"

definition NewPut :: "(request \<Rightarrow> validation_error list + update_order) \<Rightarrow> 'w order_service \<Rightarrow> ('w, update_order, order_dto option) order_endpoint" where
  "NewPut body svc =
     \<lparr>ep_Security = Some \<lparr>Public = False, sec_Schemes = [], sec_Scopes = [''orders:write''], Resource = Some orderOwnerCheck\<rparr>,
      ep_Body = body, ep_PathRules = [\<lparr>rule_Field = ''id''\<rparr>], ep_QueryRules = [], ep_Success = 200, ep_Produces = [],
      ep_Responses = [],
      ep_Handle = (\<lambda>r inp. order_found svc r (\<lambda>i order. order_updated svc i inp))\<rparr>"

text \<open>A nil order is refused by the check before its amount is read; reading it would panic.\<close>

definition NewApprove :: "parse_float \<Rightarrow> (request \<Rightarrow> validation_error list + unit) \<Rightarrow> 'w order_service \<Rightarrow> ('w, unit, order_dto option) order_endpoint" where
  "NewApprove pf body svc =
     \<lparr>ep_Security = Some \<lparr>Public = False, sec_Schemes = [], sec_Scopes = [''orders:write''], Resource = Some (orderApprovalCheck pf)\<rparr>,
      ep_Body = body, ep_PathRules = [\<lparr>rule_Field = ''id''\<rparr>], ep_QueryRules = [], ep_Success = 200, ep_Produces = [],
      ep_Responses = [],
      ep_Handle = (\<lambda>r _. order_found svc r (\<lambda>i order.
        case order of
          None \<Rightarrow> Return (Inl (Errorf ''nil pointer dereference'' [] []))
        | Some d \<Rightarrow> order_updated svc i \<lparr>uo_Amount = Some (Amount d), uo_Status = approvedStatus\<rparr>))\<rparr>"

definition NewPaymentCallback ::
  "(request \<Rightarrow> validation_error list + payment_callback) \<Rightarrow> 'w order_service \<Rightarrow> ('w, payment_callback, unit) order_endpoint" where
  "NewPaymentCallback body svc =
     \<lparr>ep_Security = Some \<lparr>Public = False, sec_Schemes = [SchemeAPIKey], sec_Scopes = [''orders:write''], Resource = None\<rparr>,
      ep_Body = body, ep_PathRules = [], ep_QueryRules = [], ep_Success = 204, ep_Produces = [], ep_Responses = [],
      ep_Handle = (\<lambda>r _. Return (Inr ()))\<rparr>"

section \<open>The modules\<close>

definition order_module_at :: "string \<Rightarrow> 'v rest_module" where
  "order_module_at path = \<lparr>m_Path = path, m_Get = NoController, m_Post = NoController, m_Put = NoController,
     m_Patch = NoController, m_Delete = NoController\<rparr>"

definition NewOrderModule :: "('w, 'v, 'q, 'r) endpoint \<Rightarrow> 'v rest_module" where
  "NewOrderModule get = (order_module_at ''/order'')\<lparr>m_Get := Typed (ep_Security get)\<rparr>"

definition NewPaymentCallbackModule :: "('w, 'v, 'q, 'r) endpoint \<Rightarrow> 'v rest_module" where
  "NewPaymentCallbackModule callback = (order_module_at ''/order/payment-callback'')\<lparr>m_Post := Typed (ep_Security callback)\<rparr>"

definition NewOrderByIDModule :: "('w, 'v, 'q, 'r) endpoint \<Rightarrow> 'v rest_module" where
  "NewOrderByIDModule ep = (order_module_at ''/order/{id}'')\<lparr>m_Put := Typed (ep_Security ep)\<rparr>"

definition NewOrderApprovalModule :: "('w, 'v, 'q, 'r) endpoint \<Rightarrow> 'v rest_module" where
  "NewOrderApprovalModule approve = (order_module_at ''/order/{id}/approval'')\<lparr>m_Post := Typed (ep_Security approve)\<rparr>"

section \<open>What the service relies on\<close>

text \<open>
  A repository shows some order under each id; a lookup answers with it, and a save that succeeds
  changes that one row to what it was given, stamped.
\<close>

locale order_repository =
  fixes fnd :: "64 word \<Rightarrow> 'w \<Rightarrow> order_model result"
    and save :: "order_model option \<Rightarrow> 'w \<Rightarrow> goerr option \<times> 'w"
    and view :: "'w \<Rightarrow> 64 word \<Rightarrow> order_model option"
  assumes fnd_found: "fnd i w = Inr m \<Longrightarrow> view w i = Some m"
    and fnd_missing: "fnd i w = Inl e \<Longrightarrow> errors_is e ErrRepoOrderNotFound \<Longrightarrow> view w i = None"
    and save_done: "save (Some m) w = (None, w') \<Longrightarrow> \<exists>t. view w' = (view w)(om_ID m \<mapsto> m\<lparr>UpdatedAt := t\<rparr>)"
    and save_failed: "save order w = (Some e, w') \<Longrightarrow> view w' = view w"
begin

text \<open>Every order is stored under its own id.\<close>

definition keyed :: "'w \<Rightarrow> bool" where
  "keyed w = (\<forall>i m. view w i = Some m \<longrightarrow> om_ID m = i)"

lemma update_done:
  assumes "service_UpdateOrder impl fnd save i inp w = (Inr d, w')" "keyed w"
  shows "\<exists>m t. view w i = Some m \<and> view w' = (view w)(i \<mapsto> (replaced impl inp m)\<lparr>UpdatedAt := t\<rparr>) \<and>
    d = ToOrder (Some (replaced impl inp m))"
proof -
  from assms(1) obtain m where m: "fnd i w = Inr m" "save (Some (replaced impl inp m)) w = (None, w')"
    "d = ToOrder (Some (replaced impl inp m))"
    by (auto simp: service_UpdateOrder_def split: sum.splits prod.splits option.splits if_splits)
  have v: "view w i = Some m" using fnd_found [OF m(1)] .
  with assms(2) have "om_ID (replaced impl inp m) = i" by (auto simp: keyed_def replaced_def split: option.splits)
  with save_done [OF m(2)] v m(3) show ?thesis by auto
qed

lemma update_failed:
  "service_UpdateOrder impl fnd save i inp w = (Inl e, w') \<Longrightarrow> view w' = view w"
  using save_failed by (auto simp: service_UpdateOrder_def split: sum.splits prod.splits option.splits)

lemma update_keyed:
  assumes "service_UpdateOrder impl fnd save i inp w = (x, w')" "keyed w"
  shows "keyed w'"
proof (cases x)
  case (Inl e)
  with update_failed assms show ?thesis unfolding keyed_def by (metis (no_types))
next
  case (Inr d)
  from update_done [OF assms(1) [unfolded Inr] assms(2)] obtain m t where u: "view w i = Some m"
    "view w' = (view w)(i \<mapsto> (replaced impl inp m)\<lparr>UpdatedAt := t\<rparr>)" by blast
  with assms(2) have "om_ID m = i" by (auto simp: keyed_def)
  then have "om_ID (replaced impl inp m) = i" by (simp add: replaced_def split: option.splits)
  with u assms(2) show ?thesis by (auto simp: keyed_def)
qed

lemma found_matches:
  "service_FindOrder fnd i w = Inr d \<Longrightarrow> \<exists>m. view w i = Some m \<and> d = ToOrder (Some m)"
  using fnd_found by (auto simp: service_FindOrder_def split: sum.splits if_splits)

end

interpretation memory: order_repository FindByID Save rows
proof
  show "rows w i = Some m" if "FindByID i w = Inr m" for i w m
    using that by (auto simp: FindByID_def split: option.splits)
  show "rows w i = None" if "FindByID i w = Inl e" "errors_is e ErrRepoOrderNotFound" for i w e
    using that by (auto simp: FindByID_def split: option.splits)
  show "\<exists>t. rows w' = (rows w)(om_ID m \<mapsto> m\<lparr>UpdatedAt := t\<rparr>)" if "Save (Some m) w = (None, w')" for m w w'
    using that by (auto simp: Save_def split: if_splits)
  show "rows w' = rows w" if "Save order w = (Some e, w')" for order w w' e
    using that by (auto simp: Save_def split: option.splits if_splits)
qed

lemma NewOrderRepository_keyed: "memory.keyed (NewOrderRepository now)"
  by (auto simp: memory.keyed_def NewOrderRepository_def seeded_def split: if_splits)

section \<open>What the endpoints answer\<close>

abbreviation memory_service :: "(f64 \<Rightarrow> 64 word) \<Rightarrow> order_store order_service" where
  "memory_service impl \<equiv> NewOrderService impl FindByID Save"

definition stored :: "order_model \<Rightarrow> order_store \<Rightarrow> order_store" where
  "stored m w = w\<lparr>rows := (rows w)(om_ID m \<mapsto> m\<lparr>UpdatedAt := wall w\<rparr>)\<rparr>"

declare ToOrder.simps [simp del]

lemma run_order_updated:
  assumes "rows w i = Some m" "memory.keyed w"
  shows "run (order_updated (memory_service impl) i inp) r st w =
    \<lparr>rr_value = Inr (ToOrder (Some (replaced impl inp m))), rr_state = st, rr_world = stored (replaced impl inp m) w,
     rr_logs = [], rr_asked = []\<rparr>"
proof -
  have "om_ID (replaced impl inp m) = i" using assms by (auto simp: memory.keyed_def replaced_def split: option.splits)
  with assms(1) show ?thesis
    by (simp add: order_updated_def NewOrderService_def service_UpdateOrder_def FindByID_def Save_def stored_def)
qed

lemma run_order_found:
  assumes "chk st = Some c" "rc_declared c = ''*dto.Order''" "PrincipalFrom (rq_ctx r) = Some p"
  shows "run (order_found (memory_service impl) r k) r (Some st) w =
    (case ParseUint (value_or_empty (rq_PathParam r ''id'')) of
       None \<Rightarrow> \<lparr>rr_value = Inl (HTTPErr 400 ''invalid_order_id'' ''the order id has to be a number''), rr_state = Some st,
         rr_world = w, rr_logs = [], rr_asked = []\<rparr>
     | Some i \<Rightarrow> (case rows w i of
         None \<Rightarrow> \<lparr>rr_value = Inl order_missing, rr_state = Some st, rr_world = w, rr_logs = [], rr_asked = []\<rparr>
       | Some m \<Rightarrow>
           let asked = \<lparr>rs_type = Some ''*dto.Order'', rs_value = ToOrder (Some m)\<rparr> in
           if rc_check c p (ToOrder (Some m))
           then (let rr = run (k i (ToOrder (Some m))) r (Some (st\<lparr>approved := True\<rparr>)) w in rr\<lparr>rr_asked := asked # rr_asked rr\<rparr>)
           else \<lparr>rr_value = Inl (HTTPErr 403 ForbiddenCode forbiddenMessage), rr_state = Some st, rr_world = w,
             rr_logs = [], rr_asked = [asked]\<rparr>))"
proof -
  consider "ParseUint (value_or_empty (rq_PathParam r ''id'')) = None"
    | i where "ParseUint (value_or_empty (rq_PathParam r ''id'')) = Some i" "rows w i = None"
    | i m where "ParseUint (value_or_empty (rq_PathParam r ''id'')) = Some i" "rows w i = Some m"
    by (metis option.exhaust)
  then show ?thesis
    by cases (use assms in \<open>simp_all add: order_found_def orderID_def NewOrderService_def service_FindOrder_def FindByID_def
        Authorize_def Let_def\<close>)
qed

text \<open>What an endpoint about one order answers, once the request is admitted and valid.\<close>

definition order_answer ::
  "bool \<Rightarrow> (order_dto option, 'b) libs \<Rightarrow> (order_store, 'q, order_dto option) order_endpoint \<Rightarrow> (principal \<Rightarrow> order_model \<Rightarrow> bool) \<Rightarrow>
     (order_model \<Rightarrow> order_model) \<Rightarrow> request \<Rightarrow> order_store \<Rightarrow> 'b outcome \<times> order_store \<times> logs" where
  "order_answer strict lib ep allowed change r w =
     (case ParseUint (value_or_empty (rq_PathParam r ''id'')) of
        None \<Rightarrow> (Responded (error_response 400 ''invalid_order_id'' ''the order id has to be a number''), w, [])
      | Some i \<Rightarrow> (case rows w i of
          None \<Rightarrow> (Responded (error_response 404 ''order_not_found'' ''no order exists under that id''), w, [])
        | Some m \<Rightarrow>
            if case PrincipalFrom (rq_ctx r) of None \<Rightarrow> False | Some p \<Rightarrow> allowed p m
            then (case finish strict lib ep r (ToOrder (Some (change m))) of (o', l) \<Rightarrow> (o', stored (change m) w, l))
            else (Responded ForbiddenResponse, w, [])))"

lemma served_order:
  fixes lib :: "(order_dto option, 'b) libs"
  assumes sec: "ep_Security ep = Some \<lparr>Public = False, sec_Schemes = [], sec_Scopes = [''orders:write''], Resource = Some c\<rparr>"
    and c: "rc_declared c = ''*dto.Order''" "\<And>p m. rc_check c p (ToOrder (Some m)) = allowed p m"
    and ep: "ep_Handle ep r req = order_found (memory_service impl) r k" "ep_Body ep r = Inr req" "ep_QueryRules ep = []"
    and k: "\<And>i m st. rows w i = Some m \<Longrightarrow> run (k i (ToOrder (Some m))) r st w =
        \<lparr>rr_value = Inr (ToOrder (Some (change m))), rr_state = st, rr_world = stored (change m) w, rr_logs = [], rr_asked = []\<rparr>"
    and a: "(authorize (ep_Security ep) r :: 'b response option) = None" "validatePathParams (lib_vmap lib) r (ep_PathRules ep) = []"
  shows "Handle strict lib ep r w = order_answer strict lib ep allowed change r w"
proof -
  let ?st = "\<lparr>chk = resourceCheckOf (ep_Security ep), approved = False, reported = False\<rparr>"
  let ?rr = "run (ep_Handle ep r req) r (Some ?st) w"
  have "validateQueryParams (lib_vmap lib) r (ep_QueryRules ep) = []" by (simp add: ep(3) validateQueryParams_def)
  note served = Handle_valid [OF a(1) ep(2) a(2) this refl, where strict = strict and w = w]
  from a(1) sec obtain p where p: "PrincipalFrom (rq_ctx r) = Some p" by (auto simp: authorize_None_iff)
  have st: "chk ?st = Some c" by (simp add: sec resourceCheckOf_def)
  note run = run_order_found [OF st c(1) p, of impl k w, folded ep(1)]
  show ?thesis
  proof (cases "ParseUint (value_or_empty (rq_PathParam r ''id''))")
    case None
    with run served(1) show ?thesis by (simp add: order_answer_def)
  next
    case i: (Some i)
    note run = run [unfolded i option.case]
    show ?thesis
    proof (cases "rows w i")
      case None
      with i run served(1) show ?thesis by (simp add: order_answer_def order_missing_def)
    next
      case m: (Some m)
      note run = run [unfolded m option.case Let_def c(2)]
      show ?thesis
      proof (cases "allowed p m")
        case False
        with run served(1) show ?thesis by (simp add: order_answer_def i m p ForbiddenResponse_def)
      next
        case True
        with run served(2) show ?thesis by (simp add: order_answer_def i m p k)
      qed
    qed
  qed
qed

definition owns :: "principal \<Rightarrow> order_model \<Rightarrow> bool" where
  "owns p m = (p_Subject p \<noteq> [] \<and> OwnerSubject m = p_Subject p)"

definition covered :: "parse_float \<Rightarrow> principal \<Rightarrow> order_model \<Rightarrow> bool" where
  "covered pf p m =
     (case Claims_Number pf (p_Claims p) ''approval_limit'' of
        None \<Rightarrow> False
      | Some limit \<Rightarrow> f64_le (Fin (float_of_int (sint (Total m)))) limit)"

definition approved_order :: "(f64 \<Rightarrow> 64 word) \<Rightarrow> order_model \<Rightarrow> order_model" where
  "approved_order impl = (\<lambda>m. replaced impl \<lparr>uo_Amount = Some (Fin (float_of_int (sint (Total m)))), uo_Status = ''approved''\<rparr> m)"

text \<open>
  C23. Updating an order, on every branch: 400 for an id that is no number, 404 for no such order, the
  403 of any refusal for an order that is not the caller's, and otherwise the order with its new
  amount and status is stored and answered, and no other order changes.
\<close>

theorem PUT_order_answers:
  fixes lib :: "(order_dto option, 'b) libs" and impl :: "f64 \<Rightarrow> 64 word"
  assumes ep: "ep = NewPut body (NewOrderService impl FindByID Save)"
    and "memory.keyed w" "body r = Inr inp"
    and "(authorize (ep_Security ep) r :: 'b response option) = None"
    and "validatePathParams (lib_vmap lib) r (ep_PathRules ep) = []"
  shows "Handle strict lib ep r w = order_answer strict lib ep owns (replaced impl inp) r w"
proof (rule served_order [where c = orderOwnerCheck])
  show "ep_Handle ep r inp = order_found (memory_service impl) r (\<lambda>i order. order_updated (memory_service impl) i inp)"
    by (simp add: ep NewPut_def)
qed (use assms in \<open>simp_all add: NewPut_def orderOwnerCheck_def IsOwner_def owns_def run_order_updated ToOrder.simps\<close>)

lemma approve_answers:
  fixes lib :: "(order_dto option, 'b) libs" and impl :: "f64 \<Rightarrow> 64 word"
  assumes ep: "ep = NewApprove pf body (NewOrderService impl FindByID Save)"
    and "memory.keyed w" "body r = Inr inp"
    and "(authorize (ep_Security ep) r :: 'b response option) = None"
    and "validatePathParams (lib_vmap lib) r (ep_PathRules ep) = []"
  shows "Handle strict lib ep r w = order_answer strict lib ep (covered pf) (approved_order impl) r w"
proof (rule served_order [where c = "orderApprovalCheck pf"])
  show "ep_Handle ep r inp = order_found (memory_service impl) r (\<lambda>i order. case order of
      None \<Rightarrow> Return (Inl (Errorf ''nil pointer dereference'' [] []))
    | Some d \<Rightarrow> order_updated (memory_service impl) i \<lparr>uo_Amount = Some (Amount d), uo_Status = ''approved''\<rparr>)"
    by (simp add: ep NewApprove_def approvedStatus_def)
qed (use assms in \<open>simp_all add: NewApprove_def orderApprovalCheck_def WithinApprovalLimit_def approvalLimitClaim_def covered_def
    approved_order_def run_order_updated ToOrder.simps split: option.splits\<close>)

lemma order_answer_changed:
  assumes "order_answer strict lib ep allowed change r w = (o', w', l)" "rows w' \<noteq> rows w"
  shows "\<exists>p i m. PrincipalFrom (rq_ctx r) = Some p \<and> orderID r = Inr i \<and> rows w i = Some m \<and> allowed p m \<and> w' = stored (change m) w"
  using assms by (auto simp: order_answer_def orderID_def split: option.splits if_splits prod.splits)

lemma int_of_f64_int: "- (2 ^ 63) \<le> i \<Longrightarrow> i < 2 ^ 63 \<Longrightarrow> int_of_f64 impl (Fin (of_int i)) = word_of_int i"
  by (simp add: int_of_f64_def)

lemma int_of_float_exact:
  assumes "\<bar>sint t\<bar> \<le> 2 ^ 53"
  shows "float_of_int (sint t) = of_int (sint t) \<and> int_of_f64 impl (Fin (float_of_int (sint t))) = t"
proof -
  have e: "float_of_int (sint t) = of_int (sint t)" by (rule float_of_int_exact [OF assms])
  have "- (2 ^ 63) \<le> sint t \<and> sint t < 2 ^ 63" using assms by auto
  with int_of_f64_int [of "sint t" impl] have "int_of_f64 impl (Fin (of_int (sint t))) = word_of_int (sint t)" by blast
  then show ?thesis unfolding e by simp
qed

text \<open>
  C24. Only within the limit the credential carries, and nothing but the status. When an approval
  changes the orders, its caller is verified, may write orders, and carries a number as approval limit
  that covers the order's amount; that one order becomes approved and no other row changes. Up to 2^53
  its amount is compared exactly and stays what it was.
\<close>

theorem approval_within_limit:
  fixes lib :: "(order_dto option, 'b) libs" and body :: "request \<Rightarrow> validation_error list + unit"
  assumes "memory.keyed w"
    and "Handle strict lib (NewApprove pf body (NewOrderService impl FindByID Save)) r w = (o', w', l)" "rows w' \<noteq> rows w"
  shows "\<exists>p i m limit t. PrincipalFrom (rq_ctx r) = Some p \<and> SatisfiesScopes (Some p) [''orders:write''] \<and>
    Claims_Number pf (p_Claims p) ''approval_limit'' = Some limit \<and> orderID r = Inr i \<and> rows w i = Some m \<and>
    f64_le (Fin (float_of_int (sint (Total m)))) limit \<and>
    rows w' = (rows w)(i \<mapsto> m\<lparr>Total := t, Status := ''approved'', UpdatedAt := wall w\<rparr>) \<and>
    (\<bar>sint (Total m)\<bar> \<le> 2 ^ 53 \<longrightarrow> t = Total m \<and> (\<forall>q. limit = Fin q \<longrightarrow> of_int (sint (Total m)) \<le> q))"
proof -
  let ?ep = "NewApprove pf body (memory_service impl)"
  from assms(3) have "w' \<noteq> w" by auto
  with Handle_changed [OF assms(2)] obtain inp where v: "(authorize (ep_Security ?ep) r :: 'b response option) = None"
    "body r = Inr inp" "validatePathParams (lib_vmap lib) r (ep_PathRules ?ep) = []"
    by (auto simp: NewApprove_def)
  have "order_answer strict lib ?ep (covered pf) (approved_order impl) r w = (o', w', l)"
    using approve_answers [OF refl assms(1) v(2,1,3), of strict] assms(2) by simp
  from order_answer_changed [OF this assms(3)] obtain p i m where m: "PrincipalFrom (rq_ctx r) = Some p"
    "orderID r = Inr i" "rows w i = Some m" "covered pf p m" "w' = stored (approved_order impl m) w" by blast
  from m(4) obtain limit where limit: "Claims_Number pf (p_Claims p) ''approval_limit'' = Some limit"
    "f64_le (Fin (float_of_int (sint (Total m)))) limit" by (auto simp: covered_def split: option.splits)
  have "SatisfiesScopes (Some p) [''orders:write'']"
    using v(1) m(1) by (simp add: authorize_None_iff NewApprove_def)
  moreover have "rows w' = (rows w)(i \<mapsto> m\<lparr>Total := int_of_f64 impl (Fin (float_of_int (sint (Total m)))), Status := ''approved'', UpdatedAt := wall w\<rparr>)"
    using m(3,5) assms(1) by (simp add: stored_def approved_order_def replaced_def memory.keyed_def)
  moreover have "\<bar>sint (Total m)\<bar> \<le> 2 ^ 53 \<longrightarrow> int_of_f64 impl (Fin (float_of_int (sint (Total m)))) = Total m \<and>
      (\<forall>q. limit = Fin q \<longrightarrow> of_int (sint (Total m)) \<le> q)"
  proof
    assume "\<bar>sint (Total m)\<bar> \<le> 2 ^ 53"
    note e = int_of_float_exact [OF this, of impl]
    moreover have "of_int (sint (Total m)) \<le> q" if "limit = Fin q" for q
      using limit(2) unfolding that conjunct1 [OF e] f64_le.simps .
    ultimately show "int_of_f64 impl (Fin (float_of_int (sint (Total m)))) = Total m \<and>
      (\<forall>q. limit = Fin q \<longrightarrow> of_int (sint (Total m)) \<le> q)" by blast
  qed
  ultimately show ?thesis using m(1-3) limit by blast
qed

text \<open>Beyond 2^53 the trip through a float64 is not the identity: approving changes the amount.\<close>

lemma approval_rounds_large_amounts:
  assumes "Total m = 9007199254740993"
  shows "Total (approved_order impl m) = 9007199254740992"
proof -
  have s: "sint (Total m) = 9007199254740993" by (simp add: assms)
  have e: "excess 9007199254740993 = 1" by (simp add: excess.simps)
  have "round_half_even 9007199254740993 1 = 4503599627370496" by (simp add: round_half_even_def)
  then have f: "float_of_int 9007199254740993 = of_int 9007199254740992"
    unfolding float_of_int_def Let_def by (simp add: e)
  have "int_of_f64 impl (Fin (of_int 9007199254740992)) = word_of_int 9007199254740992"
    by (rule int_of_f64_int) simp_all
  then have "Total (approved_order impl m) = word_of_int 9007199254740992"
    by (simp only: approved_order_def replaced_def s f update_order.simps option.case) simp
  then show ?thesis by simp
qed

section \<open>Two orders\<close>

definition order_libs :: "(order_dto option, unit) libs" where
  "order_libs = \<lparr>lib_vmap = (\<lambda>_ _. []), lib_langs = (\<lambda>_. [''en'']), lib_response = (\<lambda>x status. demo_ok)\<rparr>"

definition order_request :: "string \<Rightarrow> claims \<Rightarrow> request" where
  "order_request subject cs = (request_as (Some \<lparr>p_Subject = subject, p_Scopes = [''orders:write''], p_Scheme = SchemeJWT,
     p_Claims = cs, implied = None\<rparr>))\<lparr>rq_PathParam := [''id'' \<mapsto> ''1'']\<rparr>"

lemma order_request_simps [simp]:
  "PrincipalFrom (rq_ctx (order_request subject cs)) =
     Some \<lparr>p_Subject = subject, p_Scopes = [''orders:write''], p_Scheme = SchemeJWT, p_Claims = cs, implied = None\<rparr>"
  "ParseUint (value_or_empty (rq_PathParam (order_request subject cs) ''id'')) = Some 1"
  by (simp_all add: order_request_def request_as_def value_or_empty_def ParseUint_def digit_of_def Let_def)

lemma demo_finish:
  "ep_Success ep = 200 \<Longrightarrow> ep_Produces ep = [] \<Longrightarrow> finish strict order_libs ep r x = (Responded demo_ok, [])"
  by (simp add: finish_def order_libs_def checkDeclaredStatus_def isDeclaredStatus_def demo_ok_def)

lemma PUT_order_answers_witness:
  "\<exists>w'. Handle True order_libs (NewPut (\<lambda>_. Inr \<lparr>uo_Amount = Some (Fin 1500), uo_Status = ''paid''\<rparr>) (memory_service (\<lambda>_. 0)))
      (order_request ''alice'' []) (NewOrderRepository 7) = (Responded demo_ok, w', []) \<and>
    map_option Total (rows w' 1) = Some 1500 \<and> map_option Total (rows w' 2) = Some 2000"
proof -
  let ?inp = "\<lparr>uo_Amount = Some (Fin 1500), uo_Status = ''paid''\<rparr>"
  let ?ep = "NewPut (\<lambda>_. Inr ?inp) (memory_service (\<lambda>_. 0))"
  have a: "(authorize (ep_Security ?ep) (order_request ''alice'' []) :: unit response option) = None"
    by (simp add: authorize_def NewPut_def HasScheme_def SatisfiesScopes_def)
  have v: "validatePathParams (lib_vmap order_libs) (order_request ''alice'' []) (ep_PathRules ?ep) = []"
    by (simp add: validatePathParams_def order_libs_def)
  have f: "finish True order_libs ?ep r x = (Responded demo_ok, [])" for r x
    by (rule demo_finish) (simp_all add: NewPut_def)
  have "rows (NewOrderRepository 7) 1 = Some (seeded 1 ''alice'' 1000 7)" by (simp add: NewOrderRepository_def)
  moreover have "int_of_f64 (\<lambda>_. 0) (Fin 1500) = 1500" using int_of_f64_int [of 1500 "\<lambda>_. 0"] by simp
  ultimately show ?thesis
    unfolding PUT_order_answers [OF refl NewOrderRepository_keyed refl a v]
    by (simp add: order_answer_def f owns_def seeded_def stored_def replaced_def) (simp add: NewOrderRepository_def seeded_def)
qed

lemma approval_within_limit_witness:
  "\<exists>p limit. PrincipalFrom (rq_ctx (order_request ''staff'' [(''approval_limit'', GFloat (Fin 1000))])) = Some p \<and>
     Claims_Number (\<lambda>_. None) (p_Claims p) ''approval_limit'' = Some limit \<and> f64_le (Fin (float_of_int 1000)) limit"
proof -
  let ?r = "order_request ''staff'' [(''approval_limit'', GFloat (Fin 1000))]"
  let ?ep = "NewApprove (\<lambda>_. None) (\<lambda>_. Inr ()) (memory_service (\<lambda>_. 0))"
  have a: "(authorize (ep_Security ?ep) ?r :: unit response option) = None"
    by (simp add: authorize_def NewApprove_def HasScheme_def SatisfiesScopes_def)
  have v: "validatePathParams (lib_vmap order_libs) ?r (ep_PathRules ?ep) = []"
    by (simp add: validatePathParams_def order_libs_def)
  have f: "finish True order_libs ?ep r x = (Responded demo_ok, [])" for r x
    by (rule demo_finish) (simp_all add: NewApprove_def)
  have row: "rows (NewOrderRepository 7) 1 = Some (seeded 1 ''alice'' 1000 7)" by (simp add: NewOrderRepository_def)
  have fl: "float_of_int 1000 = 1000" using float_of_int_exact [of 1000] by simp
  have c: "covered (\<lambda>_. None) \<lparr>p_Subject = ''staff'', p_Scopes = [''orders:write''], p_Scheme = SchemeJWT,
      p_Claims = [(''approval_limit'', GFloat (Fin 1000))], implied = None\<rparr> (seeded 1 ''alice'' 1000 7)"
    by (simp add: covered_def Claims_Number_def seeded_def fl)
  let ?w' = "stored (approved_order (\<lambda>_. 0) (seeded 1 ''alice'' 1000 7)) (NewOrderRepository 7)"
  have h: "Handle True order_libs ?ep ?r (NewOrderRepository 7) = (Responded demo_ok, ?w', [])"
    unfolding approve_answers [OF refl NewOrderRepository_keyed refl a v] by (simp add: order_answer_def f row c)
  have st: "Status (the (rows ?w' 1)) = ''approved''" by (simp add: stored_def approved_order_def replaced_def seeded_def)
  have "rows ?w' \<noteq> rows (NewOrderRepository 7)"
  proof
    assume e: "rows ?w' = rows (NewOrderRepository 7)"
    from st show False unfolding e by (simp add: row seeded_def)
  qed
  from approval_within_limit [OF NewOrderRepository_keyed h this] obtain p i m limit where
    "PrincipalFrom (rq_ctx ?r) = Some p" "Claims_Number (\<lambda>_. None) (p_Claims p) ''approval_limit'' = Some limit"
    "orderID ?r = Inr i" "rows (NewOrderRepository 7) i = Some m" "f64_le (Fin (float_of_int (sint (Total m)))) limit"
    by blast
  moreover have "i = 1" using \<open>orderID ?r = Inr i\<close> by (simp add: orderID_def)
  moreover from this have "sint (Total m) = 1000" using \<open>rows _ i = Some m\<close> row by (auto simp: seeded_def)
  ultimately show ?thesis by metis
qed

end
