(* ===== verification/ApiSchema.thy ===== *)
theory ApiSchema
  imports Scopes Claims
begin

text \<open>
  The schema and the example the generated documentation shows for a body
  (\<open>internal/plamo/apidoc/schema.go\<close>, \<open>constraint.go\<close>, \<open>example.go\<close>, \<open>body.go\<close>).

  A Go type is \<open>gotype\<close>: reflection sees it unfolded, and a struct type is known by its identity,
  looked up in \<open>structs\<close>. So a struct may contain itself; a named slice or map type that contains
  itself has no representation here. A rule's descriptor and the fake data generator are other
  packages': the descriptor is its name and parameters, the generator a parameter with a state \<open>'g\<close>.
\<close>

section \<open>Go types\<close>

datatype kind = KString | KBool | KInteger | KFloat | KOther

datatype gotype =
    GoScalar kind
  | GoTime
  | GoPtr gotype
  | GoSlice gotype
  | GoMap gotype
  | GoStruct string                     \<comment> \<open>the identity of the struct type\<close>
  | GoOptional string gotype            \<comment> \<open>\<open>Optional[T]\<close>: itself a struct type, and \<open>T\<close>\<close>

record struct_field =
  sf_Name :: string
  sf_Exported :: bool
  sf_Tag :: string                      \<comment> \<open>the \<open>json\<close> tag\<close>
  sf_Type :: gotype

record struct_type =
  st_Name :: string
  st_String :: string
  st_PkgPath :: string
  st_fields :: "struct_field list"

type_synonym structs = "(string \<times> struct_type) list"

fun strip_pointers :: "bool \<Rightarrow> gotype \<Rightarrow> bool \<times> gotype" where
  "strip_pointers nullable (GoPtr t) = strip_pointers True t"
| "strip_pointers nullable t = (nullable, t)"

text \<open>One \<open>Optional\<close>, then pointers; an \<open>Optional\<close> under a pointer is a struct like any other.\<close>

definition strip_type :: "gotype \<Rightarrow> bool \<times> gotype" where
  "strip_type t = (case t of GoOptional i inner \<Rightarrow> strip_pointers True inner | _ \<Rightarrow> strip_pointers False t)"

fun struct_id :: "gotype \<Rightarrow> string option" where
  "struct_id (GoStruct i) = Some i"
| "struct_id (GoOptional i t) = Some i"
| "struct_id _ = None"

lemma strip_pointers_size: "strip_pointers n t = (n', t') \<Longrightarrow> size t' \<le> size t"
  by (induction n t rule: strip_pointers.induct) auto

lemma strip_type_size: "strip_type t = (n, t') \<Longrightarrow> size t' \<le> size t"
  using strip_pointers_size by (fastforce simp: strip_type_def split: gotype.splits)

section \<open>JSON names\<close>

text \<open>\<open>strings.Cut\<close> at a byte.\<close>

fun cut_at :: "char \<Rightarrow> string \<Rightarrow> string \<times> string" where
  "cut_at d [] = ([], [])"
| "cut_at d (c # cs) = (if c = d then ([], cs) else case cut_at d cs of (a, b) \<Rightarrow> (c # a, b))"

definition jsonName :: "struct_field \<Rightarrow> string" where
  "jsonName sf =
     (if sf_Tag sf = [] then sf_Name sf
      else let name = fst (cut_at CHR '','' (sf_Tag sf)) in if name = [] then sf_Name sf else name)"

definition hasOmitempty :: "struct_field \<Rightarrow> bool" where
  "hasOmitempty sf = (''omitempty'' \<in> set (split_at CHR '','' (snd (cut_at CHR '','' (sf_Tag sf)))))"

definition in_json :: "struct_field \<Rightarrow> bool" where
  "in_json sf = (sf_Exported sf \<and> jsonName sf \<noteq> ''-'')"

section \<open>Rules as the documentation sees them\<close>

datatype rule_param = PInt int | PFloat rat | PList "string list" | POther
  \<comment> \<open>\<open>PList\<close>: a slice of any, each value as \<open>%v\<close> prints it\<close>

record descriptor =
  d_Name :: string
  d_Params :: "(string \<times> rule_param) list"

record field_rules =
  fr_Field :: string
  fr_Rules :: "descriptor list"
  fr_Compare :: "descriptor list"

record doc_constraint =
  c_Code :: string
  c_Params :: "(string \<times> rule_param) list"

section \<open>Schemas\<close>

datatype doc_json =
    JNull | JBool bool | JInt int | JFloat rat | JStr string | JArr "doc_json list" | JObj "(string \<times> doc_json) list"

datatype schema =
    Schema (s_Type: string) (s_Format: string) (s_GoType: string) (s_PkgPath: string) (s_Nullable: bool)
      (s_Constraints: "doc_constraint list") (s_Fields: "field list") (s_Items: "schema option") (s_Values: "schema option")
and field = Field (f_Name: string) (f_Required: bool) (f_Optional: bool) (f_Meaning: string) (f_Schema: schema)

definition TypeString :: string where "TypeString = ''string''"
definition TypeInteger :: string where "TypeInteger = ''integer''"
definition TypeNumber :: string where "TypeNumber = ''number''"
definition TypeBoolean :: string where "TypeBoolean = ''boolean''"
definition TypeObject :: string where "TypeObject = ''object''"
definition TypeArray :: string where "TypeArray = ''array''"
definition FormatDateTime :: string where "FormatDateTime = ''date-time''"

fun scalarType :: "kind \<Rightarrow> string" where
  "scalarType KString = TypeString"
| "scalarType KBool = TypeBoolean"
| "scalarType KInteger = TypeInteger"
| "scalarType KFloat = TypeNumber"
| "scalarType KOther = []"

definition goTypeName :: "struct_type \<Rightarrow> string" where
  "goTypeName t = (if st_Name t = [] then [] else st_String t)"

definition is_optional :: "gotype \<Rightarrow> bool" where
  "is_optional t = (case t of GoOptional i inner \<Rightarrow> True | _ \<Rightarrow> False)"

text \<open>\<open>visiting\<close> are the struct types on the way to this one.\<close>

function buildSchema :: "structs \<Rightarrow> string list \<Rightarrow> gotype \<Rightarrow> schema" where
  "buildSchema env visiting t0 =
     (case strip_type t0 of (nullable, t) \<Rightarrow>
        (case t of
           GoTime \<Rightarrow> Schema TypeString FormatDateTime [] [] nullable [] [] None None
         | GoSlice e \<Rightarrow> Schema TypeArray [] [] [] nullable [] [] (Some (buildSchema env visiting e)) None
         | GoMap e \<Rightarrow> Schema TypeObject [] [] [] nullable [] [] None (Some (buildSchema env visiting e))
         | GoScalar k \<Rightarrow> Schema (scalarType k) [] [] [] nullable [] [] None None
         | _ \<Rightarrow>
             (case struct_id t of
                None \<Rightarrow> Schema [] [] [] [] nullable [] [] None None
              | Some i \<Rightarrow>
                  (case map_of env i of
                     None \<Rightarrow> Schema TypeObject [] [] [] nullable [] [] None None
                   | Some d \<Rightarrow>
                       Schema TypeObject [] (goTypeName d) (st_PkgPath d) nullable []
                         (if i \<in> set visiting then []
                          else map (\<lambda>sf. Field (jsonName sf) False (hasOmitempty sf \<or> is_optional (sf_Type sf)) []
                                     (buildSchema env (i # visiting) (sf_Type sf)))
                                 (filter in_json (st_fields d)))
                         None None))))"
  by pat_completeness auto

definition unvisited :: "structs \<Rightarrow> string list \<Rightarrow> nat" where
  "unvisited env visiting = card (fst ` set env - set visiting)"

lemma unvisited_less:
  assumes "map_of env i = Some d" "i \<notin> set visiting"
  shows "unvisited env (i # visiting) < unvisited env visiting"
proof -
  have "i \<in> fst ` set env - set visiting" using map_of_SomeD [OF assms(1)] assms(2) by force
  moreover have "fst ` set env - set (i # visiting) = (fst ` set env - set visiting) - {i}" by auto
  ultimately show ?thesis unfolding unvisited_def by (metis List.finite_set card_Diff1_less finite_Diff finite_imageI)
qed

termination buildSchema
proof (relation "measures [\<lambda>(env, visiting, t). unvisited env visiting, \<lambda>(env, visiting, t). size t]")
qed (auto dest: unvisited_less dest!: strip_type_size [OF sym] strip_type_size)

declare buildSchema.simps [simp del]

definition SchemaFromType :: "structs \<Rightarrow> gotype option \<Rightarrow> schema option" where
  "SchemaFromType env t =
     (case t of
        None \<Rightarrow> None
      | Some t' \<Rightarrow>
          let s = buildSchema env [] t' in
          if s_Type s = TypeObject \<and> s_Fields s = [] \<and> s_Values s = None then None else Some s)"

section \<open>Finding a field and changing it\<close>

definition HasSuffix :: "string \<Rightarrow> string \<Rightarrow> bool" where
  "HasSuffix s x = HasPrefix (rev s) (rev x)"

definition TrimSuffix :: "string \<Rightarrow> string \<Rightarrow> string" where
  "TrimSuffix s x = (if HasSuffix s x then take (length s - length x) s else s)"

lemma HasSuffix_length: "HasSuffix s x \<Longrightarrow> length x \<le> length s"
  by (metis HasPrefix_iff HasSuffix_def length_append length_rev le_add1)

function splitArraySuffix :: "nat \<Rightarrow> string \<Rightarrow> string \<times> nat" where
  "splitArraySuffix n seg = (if HasSuffix seg ''[]'' then splitArraySuffix (Suc n) (TrimSuffix seg ''[]'') else (seg, n))"
  by pat_completeness auto
termination
  by (relation "measure (length \<circ> snd)") (auto simp: TrimSuffix_def dest!: HasSuffix_length)

declare splitArraySuffix.simps [simp del]

text \<open>
  \<open>findField\<close> gives a pointer into the tree, and what is found is changed through it. Here the
  change is part of the walk: \<open>change_field g s segs\<close> is the tree with \<open>g\<close> applied to the field the
  path names, and nothing when it names none. Of fields with one name the first is meant.
\<close>

fun change_named :: "(field \<Rightarrow> field option) \<Rightarrow> string \<Rightarrow> field list \<Rightarrow> field list option" where
  "change_named g name [] = None"
| "change_named g name (f # fs) =
     (if f_Name f = name then map_option (\<lambda>f'. f' # fs) (g f) else map_option (\<lambda>fs'. f # fs') (change_named g name fs))"

definition with_fields :: "schema \<Rightarrow> field list \<Rightarrow> schema" where
  "with_fields s fs = Schema (s_Type s) (s_Format s) (s_GoType s) (s_PkgPath s) (s_Nullable s) (s_Constraints s) fs (s_Items s) (s_Values s)"

definition with_items :: "schema \<Rightarrow> schema \<Rightarrow> schema" where
  "with_items s e = Schema (s_Type s) (s_Format s) (s_GoType s) (s_PkgPath s) (s_Nullable s) (s_Constraints s) (s_Fields s) (Some e) (s_Values s)"

definition with_schema :: "field \<Rightarrow> schema \<Rightarrow> field" where
  "with_schema f s = Field (f_Name f) (f_Required f) (f_Optional f) (f_Meaning f) s"

fun below_arrays :: "nat \<Rightarrow> (schema \<Rightarrow> schema option) \<Rightarrow> schema \<Rightarrow> schema option" where
  "below_arrays 0 g s = g s"
| "below_arrays (Suc n) g s = (case s_Items s of None \<Rightarrow> None | Some e \<Rightarrow> map_option (with_items s) (below_arrays n g e))"

fun change_field :: "(field \<Rightarrow> field) \<Rightarrow> string list \<Rightarrow> schema \<Rightarrow> schema option" where
  "change_field g [] s = None"
| "change_field g [seg] s =
     map_option (with_fields s) (change_named (\<lambda>f. Some (g f)) (fst (splitArraySuffix 0 seg)) (s_Fields s))"
| "change_field g (seg # segs) s =
     (case splitArraySuffix 0 seg of (name, arrays) \<Rightarrow>
        map_option (with_fields s)
          (change_named (\<lambda>f. map_option (with_schema f) (below_arrays arrays (change_field g segs) (f_Schema f))) name (s_Fields s)))"

definition at_field :: "(field \<Rightarrow> field) \<Rightarrow> string \<Rightarrow> schema \<Rightarrow> schema" where
  "at_field g path s =
     (if path = [] then s
      else case change_field g (split_at CHR ''.'' path) s of None \<Rightarrow> s | Some s' \<Rightarrow> s')"

section \<open>Constraints\<close>

definition requiredCodes :: "string list" where
  "requiredCodes = [''str_not_empty'', ''slice_not_empty'', ''not_nil'', ''num_not_zero'']"

definition rejectsNullCodes :: "string list" where
  "rejectsNullCodes = [''not_nil'', ''not_null_if_set'']"

definition applyRuleDescriptor :: "descriptor \<Rightarrow> bool \<times> doc_constraint list \<Rightarrow> bool \<times> doc_constraint list" where
  "applyRuleDescriptor d rc =
     (case rc of (required, constraints) \<Rightarrow>
        if d_Name d \<in> set requiredCodes then (True, constraints)
        else (required, constraints @ [\<lparr>c_Code = d_Name d, c_Params = d_Params d\<rparr>]))"

definition describe_field :: "descriptor \<Rightarrow> field \<Rightarrow> field" where
  "describe_field d f =
     (case applyRuleDescriptor d (f_Required f, s_Constraints (f_Schema f)) of (required, constraints) \<Rightarrow>
        let s = f_Schema f in
        Field (f_Name f) required (f_Optional f) (f_Meaning f)
          (Schema (s_Type s) (s_Format s) (s_GoType s) (s_PkgPath s) (s_Nullable s) constraints (s_Fields s) (s_Items s) (s_Values s)))"

definition applyNullability :: "descriptor \<Rightarrow> field \<Rightarrow> field" where
  "applyNullability d f =
     (let s = f_Schema f in
      with_schema f (Schema (s_Type s) (s_Format s) (s_GoType s) (s_PkgPath s)
        (if d_Name d \<in> set rejectsNullCodes then False else s_Nullable s) (s_Constraints s) (s_Fields s) (s_Items s) (s_Values s)))"

definition apply_rule_set :: "field_rules \<Rightarrow> field \<Rightarrow> field" where
  "apply_rule_set rs f =
     foldl (\<lambda>f d. describe_field d f) (foldl (\<lambda>f d. applyNullability d (describe_field d f)) f (fr_Rules rs)) (fr_Compare rs)"

definition applyRules :: "field_rules list \<Rightarrow> schema \<Rightarrow> schema" where
  "applyRules ruleSets s = foldl (\<lambda>s rs. at_field (apply_rule_set rs) (fr_Field rs) s) s ruleSets"

definition setFieldMeaning :: "string \<Rightarrow> string \<Rightarrow> schema \<Rightarrow> schema" where
  "setFieldMeaning path meaning s =
     at_field (\<lambda>f. Field (f_Name f) (f_Required f) (f_Optional f) meaning (f_Schema f)) path s"

text \<open>A missing key of the index reads as no descriptors.\<close>

definition descriptorsByField :: "field_rules list \<Rightarrow> string \<Rightarrow> descriptor list" where
  "descriptorsByField ruleSets field =
     concat (map (\<lambda>rs. fr_Rules rs @ fr_Compare rs) (filter (\<lambda>rs. fr_Field rs = field) ruleSets))"

section \<open>Examples\<close>

definition idSuffix :: string where "idSuffix = ''01HXYZ7A8B9C0D1E2F3G''"
definition fixtureTime :: string where "fixtureTime = ''2026-06-11T09:30:00Z''"

record example_options =
  eo_Resource :: string
  eo_IDPrefixes :: "string \<Rightarrow> string option"

record 'g faker =
  fk_Email :: "'g \<Rightarrow> string \<times> 'g"
  fk_Name :: "'g \<Rightarrow> string \<times> 'g"
  fk_URL :: "'g \<Rightarrow> string \<times> 'g"
  fk_Word :: "'g \<Rightarrow> string \<times> 'g"
  fk_Evenly :: "'g \<Rightarrow> bool \<times> 'g"
  fk_IntBt :: "int \<Rightarrow> int \<Rightarrow> 'g \<Rightarrow> int \<times> 'g"
  fk_Float64Bt :: "rat \<Rightarrow> rat \<Rightarrow> 'g \<Rightarrow> rat \<times> 'g"
  fk_Seed :: 'g                               \<comment> \<open>the state \<open>CreateWithSeed(exampleSeed)\<close> starts in\<close>

record 'g example_gen =
  eg_faker :: "'g faker"
  eg_constraints :: "string \<Rightarrow> descriptor list"
  eg_opts :: example_options

fun intParam :: "descriptor list \<Rightarrow> string \<Rightarrow> string \<Rightarrow> int option" where
  "intParam [] code key = None"
| "intParam (d # ds) code key =
     (if d_Name d \<noteq> code then intParam ds code key
      else case map_of (d_Params d) key of Some (PInt v) \<Rightarrow> Some v | _ \<Rightarrow> intParam ds code key)"

fun floatParam :: "descriptor list \<Rightarrow> string \<Rightarrow> string \<Rightarrow> rat option" where
  "floatParam [] code key = None"
| "floatParam (d # ds) code key =
     (if d_Name d \<noteq> code then floatParam ds code key
      else case map_of (d_Params d) key of
        Some (PFloat v) \<Rightarrow> Some v
      | Some (PInt v) \<Rightarrow> Some (float_of_int v)
      | _ \<Rightarrow> floatParam ds code key)"

fun enumFirst :: "descriptor list \<Rightarrow> string option" where
  "enumFirst [] = None"
| "enumFirst (d # ds) =
     (if d_Name d \<noteq> ''str_any_of'' \<and> d_Name d \<noteq> ''slice_elements_in'' then enumFirst ds
      else case map_of (d_Params d) ''values'' of Some (PList (v # vs)) \<Rightarrow> Some v | _ \<Rightarrow> enumFirst ds)"

definition or_else :: "'a option \<Rightarrow> 'a \<Rightarrow> 'a" where
  "or_else o' d = (case o' of None \<Rightarrow> d | Some v \<Rightarrow> v)"

text \<open>The bounds a value is drawn between: each declared bound overrides the one before it.\<close>

definition int_bounds :: "descriptor list \<Rightarrow> int \<times> int" where
  "int_bounds ds =
     (let lo = or_else (intParam ds ''int_between'' ''min'') (or_else (intParam ds ''int_min'' ''limit'') 1);
          hi = or_else (intParam ds ''int_between'' ''max'') (or_else (intParam ds ''int_max'' ''limit'') 1000)
      in (lo, if lo > hi then lo else hi))"

definition intValue :: "'g example_gen \<Rightarrow> descriptor list \<Rightarrow> 'g \<Rightarrow> int \<times> 'g" where
  "intValue eg ds g = (case int_bounds ds of (lo, hi) \<Rightarrow> fk_IntBt (eg_faker eg) lo hi g)"

definition floatValue :: "'g example_gen \<Rightarrow> descriptor list \<Rightarrow> 'g \<Rightarrow> rat \<times> 'g" where
  "floatValue eg ds g =
     (let lo = or_else (floatParam ds ''float_between'' ''min'') (or_else (floatParam ds ''float_min'' ''limit'') 1);
          hi = or_else (floatParam ds ''float_between'' ''max'') (or_else (floatParam ds ''float_max'' ''limit'') 1000);
          hi' = (if lo > hi then lo else hi)
      in fk_Float64Bt (eg_faker eg) lo hi' g)"

text \<open>Cutting a string at a negative length panics.\<close>

definition cut_to :: "int option \<Rightarrow> string result \<Rightarrow> string result" where
  "cut_to m s =
     (case (m, s) of
        (Some v, Inr x) \<Rightarrow>
          if int (length x) > v then (if v < 0 then Inl (Errorf ''slice bounds out of range'' [] []) else Inr (take (nat v) x))
          else Inr x
      | _ \<Rightarrow> s)"

definition applyLength :: "string \<Rightarrow> descriptor list \<Rightarrow> string result" where
  "applyLength s ds =
     (case cut_to (intParam ds ''str_length_between'' ''max'') (cut_to (intParam ds ''str_max_length'' ''max'') (Inr s)) of
        Inl e \<Rightarrow> Inl e
      | Inr s' \<Rightarrow>
          let m0 = or_else (intParam ds ''str_min_length'' ''min'') 0;
              m = (case intParam ds ''str_length_between'' ''min'' of None \<Rightarrow> m0 | Some v \<Rightarrow> if v > m0 then v else m0)
          in Inr (s' @ replicate (nat (m - int (length s'))) CHR ''x''))"

definition Contains :: "string \<Rightarrow> string \<Rightarrow> bool" where
  "Contains s sub = list_ex (\<lambda>n. HasPrefix (drop n s) sub) [0..<Suc (length s)]"

definition leafName :: "string \<Rightarrow> string" where
  "leafName path = TrimSuffix (last (split_at CHR ''.'' path)) ''[]''"

definition singular :: "(string \<Rightarrow> string) \<Rightarrow> string \<Rightarrow> string" where
  "singular lower s0 =
     (let s = lower s0 in if length s > 1 \<and> HasSuffix s ''s'' then TrimSuffix s ''s'' else s)"

definition prefixFor :: "'g example_gen \<Rightarrow> string \<Rightarrow> string" where
  "prefixFor eg resource =
     (if resource = [] then ''id''
      else case eo_IDPrefixes (eg_opts eg) resource of
        None \<Rightarrow> resource
      | Some p \<Rightarrow> if p \<noteq> [] then p else resource)"

definition idValue :: "(string \<Rightarrow> string) \<Rightarrow> 'g example_gen \<Rightarrow> string \<Rightarrow> string" where
  "idValue lower eg leaf =
     prefixFor eg (if HasSuffix leaf ''_id'' then singular lower (TrimSuffix leaf ''_id'') else eo_Resource (eg_opts eg)) @ ''_'' @ idSuffix"

text \<open>\<open>lower\<close> is \<open>strings.ToLower\<close>.\<close>

definition stringValue :: "(string \<Rightarrow> string) \<Rightarrow> 'g example_gen \<Rightarrow> string \<Rightarrow> descriptor list \<Rightarrow> 'g \<Rightarrow> string result \<times> 'g" where
  "stringValue lower eg path ds g =
     (case enumFirst ds of
        Some v \<Rightarrow> (Inr v, g)
      | None \<Rightarrow>
          let leaf = leafName path in
          (case (if Contains leaf ''email'' then fk_Email (eg_faker eg) g
                 else if leaf = ''id'' \<or> HasSuffix leaf ''_id'' \<or> Contains leaf ''uuid'' \<or> Contains leaf ''ulid''
                 then (idValue lower eg leaf, g)
                 else if Contains leaf ''name'' then fk_Name (eg_faker eg) g
                 else if Contains leaf ''url'' then fk_URL (eg_faker eg) g
                 else if HasSuffix leaf ''_at'' \<or> Contains leaf ''time'' \<or> Contains leaf ''date'' then (fixtureTime, g)
                 else fk_Word (eg_faker eg) g) of
             (s, g') \<Rightarrow> (applyLength s ds, g')))"

definition scalarValue :: "(string \<Rightarrow> string) \<Rightarrow> 'g example_gen \<Rightarrow> kind \<Rightarrow> string \<Rightarrow> 'g \<Rightarrow> doc_json result \<times> 'g" where
  "scalarValue lower eg k path g =
     (let ds = eg_constraints eg path in
      case k of
        KString \<Rightarrow> (case stringValue lower eg path ds g of (Inr s, g') \<Rightarrow> (Inr (JStr s), g') | (Inl e, g') \<Rightarrow> (Inl e, g'))
      | KBool \<Rightarrow> (case fk_Evenly (eg_faker eg) g of (b, g') \<Rightarrow> (Inr (JBool b), g'))
      | KInteger \<Rightarrow> (case intValue eg ds g of (v, g') \<Rightarrow> (Inr (JInt v), g'))
      | KFloat \<Rightarrow> (case floatValue eg ds g of (v, g') \<Rightarrow> (Inr (JFloat v), g'))
      | KOther \<Rightarrow> (Inr JNull, g))"

text \<open>
  \<open>typeValue\<close> follows a struct's fields wherever they lead, so it need not return: \<open>None\<close> is a
  recursion deeper than the fuel. \<open>Inl\<close> is a panic.
\<close>

fun structValue ::
  "(gotype \<Rightarrow> string \<Rightarrow> 'g \<Rightarrow> (doc_json result \<times> 'g) option) \<Rightarrow> struct_field list \<Rightarrow> string \<Rightarrow> (string \<times> doc_json) list \<Rightarrow> 'g \<Rightarrow>
     (doc_json result \<times> 'g) option" where
  "structValue tv [] pre m g = Some (Inr (JObj m), g)"
| "structValue tv (sf # sfs) pre m g =
     (if \<not> in_json sf then structValue tv sfs pre m g
      else
        let name = jsonName sf; full = (if pre = [] then name else pre @ ''.'' @ name) in
        (case tv (sf_Type sf) full g of
           None \<Rightarrow> None
         | Some (Inl err, g') \<Rightarrow> Some (Inl err, g')
         | Some (Inr v, g') \<Rightarrow> structValue tv sfs pre (put name v m) g'))"

primrec typeValue ::
  "nat \<Rightarrow> (string \<Rightarrow> string) \<Rightarrow> 'g example_gen \<Rightarrow> structs \<Rightarrow> gotype \<Rightarrow> string \<Rightarrow> 'g \<Rightarrow> (doc_json result \<times> 'g) option" where
  "typeValue 0 lower eg env t0 path g = None"
| "typeValue (Suc n) lower eg env t0 path g =
     (case snd (strip_type t0) of
        GoTime \<Rightarrow> Some (Inr (JStr fixtureTime), g)
      | GoSlice e \<Rightarrow>
          (case typeValue n lower eg env e (path @ ''[]'') g of
             None \<Rightarrow> None
           | Some (Inl err, g') \<Rightarrow> Some (Inl err, g')
           | Some (Inr v, g') \<Rightarrow> Some (Inr (JArr [v]), g'))
      | GoMap e \<Rightarrow> Some (Inr (JObj []), g)
      | GoScalar k \<Rightarrow> Some (scalarValue lower eg k path g)
      | t \<Rightarrow>
          (case struct_id t of
             None \<Rightarrow> Some (Inr JNull, g)
           | Some i \<Rightarrow>
               (case map_of env i of
                  None \<Rightarrow> Some (Inr (JObj []), g)
                | Some d \<Rightarrow> structValue (typeValue n lower eg env) (st_fields d) path [] g)))"

definition ExampleFromType ::
  "nat \<Rightarrow> (string \<Rightarrow> string) \<Rightarrow> 'g faker \<Rightarrow> structs \<Rightarrow> gotype option \<Rightarrow> field_rules list \<Rightarrow> example_options \<Rightarrow> doc_json result option" where
  "ExampleFromType n lower fk env t ruleSets opts =
     (case t of
        None \<Rightarrow> Some (Inr JNull)
      | Some t' \<Rightarrow> map_option fst (typeValue n lower
          \<lparr>eg_faker = fk, eg_constraints = descriptorsByField ruleSets, eg_opts = opts\<rparr> env t' [] (fk_Seed fk)))"

text \<open>The schema of a body, and its example. No schema: no body.\<close>

definition BodySchema ::
  "nat \<Rightarrow> (string \<Rightarrow> string) \<Rightarrow> 'g faker \<Rightarrow> structs \<Rightarrow> gotype option \<Rightarrow> field_rules list \<Rightarrow> example_options \<Rightarrow>
     (string \<times> string) list list \<Rightarrow> (schema \<times> doc_json) option result option" where
  "BodySchema n lower fk env t rules opts docs =
     (case SchemaFromType env t of
        None \<Rightarrow> Some (Inr None)
      | Some s \<Rightarrow>
          let s' = foldl (\<lambda>s (path, meaning). setFieldMeaning path meaning s) (applyRules rules s) (concat docs)
          in case ExampleFromType n lower fk env t rules opts of
               None \<Rightarrow> None
             | Some (Inl e) \<Rightarrow> Some (Inl e)
             | Some (Inr x) \<Rightarrow> Some (Inr (Some (s', x))))"

end
