(* ===== verification/ApiExamples.thy ===== *)
theory ApiExamples
  imports ApiSchema
begin

text \<open>
  What the generated schemas and examples (\<open>internal/plamo/apidoc\<close>) promise: when generating an
  example returns, that the example satisfies the rules declared for it, and that the schema says of a
  field what the rules say.
\<close>

section \<open>When an example is generated\<close>

text \<open>The struct types a type mentions in its JSON form, themselves unfolded no further.\<close>

fun mentions :: "gotype \<Rightarrow> string list" where
  "mentions (GoScalar k) = []"
| "mentions GoTime = []"
| "mentions (GoPtr t) = mentions t"
| "mentions (GoSlice t) = mentions t"
| "mentions (GoMap t) = []"
| "mentions (GoStruct i) = [i]"
| "mentions (GoOptional i t) = i # mentions t"

definition contains :: "structs \<Rightarrow> (string \<times> string) set" where
  "contains env = {(j, i). \<exists>d sf. map_of env i = Some d \<and> sf \<in> set (st_fields d) \<and> in_json sf \<and> j \<in> set (mentions (sf_Type sf))}"

lemma mentions_strip_pointers: "set (mentions (snd (strip_pointers n t))) = set (mentions t)"
  by (induction n t rule: strip_pointers.induct) auto

lemma mentions_strip_type: "set (mentions (snd (strip_type t))) \<subseteq> set (mentions t)"
  by (cases t) (auto simp: strip_type_def mentions_strip_pointers dest: subsetD [OF equalityD1 [OF mentions_strip_pointers]])

lemma structValue_returns:
  assumes "\<And>sf path g. sf \<in> set sfs \<Longrightarrow> in_json sf \<Longrightarrow> tv (sf_Type sf) path g \<noteq> None"
  shows "structValue tv sfs pre m g \<noteq> None"
  using assms
proof (induction sfs arbitrary: m g)
  case (Cons sf sfs)
  show ?case
  proof (cases "in_json sf")
    case True
    let ?full = "if pre = [] then jsonName sf else pre @ ''.'' @ jsonName sf"
    obtain r g' where "tv (sf_Type sf) ?full g = Some (r, g')" using Cons.prems [of sf ?full g] True by fastforce
    then show ?thesis using Cons.IH [of "put (jsonName sf) _ m" g'] Cons.prems True
      by (cases r) (auto simp: Let_def)
  qed (use Cons in simp)
qed simp

lemma structValue_mono:
  assumes "\<And>t path g x. tv t path g = Some x \<Longrightarrow> tv' t path g = Some x" "structValue tv sfs pre m g = Some x"
  shows "structValue tv' sfs pre m g = Some x"
  using assms(2)
  by (induction sfs arbitrary: m g) (auto simp: Let_def assms(1) split: if_splits option.splits prod.splits sum.splits)

lemma typeValue_Suc: "typeValue n lower eg env t path g = Some x \<Longrightarrow> typeValue (Suc n) lower eg env t path g = Some x"
proof (induction n arbitrary: t path g x)
  case (Suc n)
  note mono = structValue_mono [of "typeValue n lower eg env" "typeValue (Suc n) lower eg env", OF Suc.IH]
  from Suc.prems show ?case
    by (subst typeValue.simps(2), subst (asm) typeValue.simps(2))
      (auto split: gotype.splits option.splits prod.splits sum.splits simp del: typeValue.simps dest!: Suc.IH intro: mono)
qed simp

lemma typeValue_more:
  assumes "n \<le> m" "typeValue n lower eg env t path g = Some x"
  shows "typeValue m lower eg env t path g = Some x"
  using assms by (induction rule: dec_induct) (auto simp: typeValue_Suc simp del: typeValue.simps)

text \<open>The pointers, slices and struct types on the way down: how much fuel a type takes, by the rank of its structs.\<close>

lemma typeValue_returns:
  assumes rank: "\<And>i j. (j, i) \<in> contains env \<Longrightarrow> rank j < (rank i :: nat)" and size: "\<And>i d sf. map_of env i = Some d \<Longrightarrow> sf \<in> set (st_fields d) \<Longrightarrow> size (sf_Type sf) < k"
  shows "\<forall>i \<in> set (mentions t). rank i < r \<Longrightarrow> size t + r * (k + 2) < n \<Longrightarrow> typeValue n lower eg env t path g \<noteq> None"
proof (induction n arbitrary: t r path g)
  case (Suc n)
  obtain nl t' where t': "strip_type t = (nl, t')" by fastforce
  have small: "size t' \<le> size t" using strip_type_size [OF t'] .
  have sub: "set (mentions t') \<subseteq> set (mentions t)" using mentions_strip_type [of t] t' by simp
  have struct: "structValue (typeValue n lower eg env) (st_fields d) path [] g \<noteq> None"
    if i: "struct_id t' = Some i" "map_of env i = Some d" for i d
  proof (rule structValue_returns)
    fix sf path' g'
    assume sf: "sf \<in> set (st_fields d)" "in_json sf"
    have "i \<in> set (mentions t')" using i(1) by (cases t') auto
    then have ri: "rank i < r" using sub Suc.prems(1) by auto
    have "\<forall>j \<in> set (mentions (sf_Type sf)). rank j < rank i"
      using rank i(2) sf by (auto simp: contains_def)
    moreover have "size (sf_Type sf) + rank i * (k + 2) < n"
    proof -
      have "rank i * (k + 2) + (k + 2) \<le> r * (k + 2)" using mult_le_mono1 [of "Suc (rank i)" r "k + 2"] ri by simp
      with size [OF i(2) sf(1)] Suc.prems(2) show ?thesis by linarith
    qed
    ultimately show "typeValue n lower eg env (sf_Type sf) path' g' \<noteq> None" by (rule Suc.IH)
  qed
  have slice: "typeValue n lower eg env e path' g' \<noteq> None" if "t' = GoSlice e" for e path' g'
  proof (rule Suc.IH)
    show "\<forall>i \<in> set (mentions e). rank i < r" using sub Suc.prems(1) that by auto
    show "size e + r * (k + 2) < n" using small Suc.prems(2) that by simp
  qed
  show ?case using t' struct slice
    by (cases t') (auto split: option.splits prod.splits sum.splits)
qed simp

lemma contains_finite: "finite (contains env)"
proof -
  have "contains env \<subseteq> (\<Union>(i, d) \<in> set env. \<Union>sf \<in> set (st_fields d). (\<lambda>j. (j, i)) ` set (mentions (sf_Type sf)))"
    by (fastforce simp: contains_def dest: map_of_SomeD)
  then show ?thesis by (rule finite_subset) auto
qed

lemma contains_ranked:
  assumes "acyclic (contains env)"
  shows "\<exists>rank :: string \<Rightarrow> nat. \<forall>i j. (j, i) \<in> contains env \<longrightarrow> rank j < rank i"
proof (intro exI allI impI)
  let ?below = "\<lambda>i. {j. (j, i) \<in> (contains env)\<^sup>+}"
  fix i j
  assume ji: "(j, i) \<in> contains env"
  have "finite (?below i)"
    by (rule finite_subset [where B = "fst ` ((contains env)\<^sup>+)"]) (force, simp add: contains_finite)
  moreover have "?below j \<subset> ?below i"
  proof
    show "?below j \<subseteq> ?below i" using ji by (auto intro: trancl_into_trancl)
    have "j \<notin> ?below j" using assms by (auto simp: acyclic_def)
    with ji show "?below j \<noteq> ?below i" by auto
  qed
  ultimately show "card (?below j) < card (?below i)" by (rule psubset_card_mono)
qed

text \<open>
  Documentation comes out for every type that does not contain itself: generating the example
  returns, and with the same result however deep the recursion is allowed to go.
\<close>

theorem example_generation_returns:
  assumes "acyclic (contains env)"
  shows "\<exists>n r. \<forall>m \<ge> n. ExampleFromType m lower fk env t rules opts = Some r"
proof (cases t)
  case None
  then show ?thesis by (auto simp: ExampleFromType_def)
next
  case (Some t')
  obtain rank :: "string \<Rightarrow> nat" where rank: "\<And>i j. (j, i) \<in> contains env \<Longrightarrow> rank j < rank i"
    using contains_ranked [OF assms] by blast
  let ?sizes = "concat (map (\<lambda>(i, d). map (size \<circ> sf_Type) (st_fields d)) env)"
  have size: "size (sf_Type sf) < Suc (sum_list ?sizes)" if "map_of env i = Some d" "sf \<in> set (st_fields d)" for i d sf
  proof -
    have "size (sf_Type sf) \<in> set ?sizes" using map_of_SomeD [OF that(1)] that(2) by force
    then show ?thesis using member_le_sum_list le_imp_less_Suc by blast
  qed
  let ?r = "Suc (sum_list (map rank (mentions t')))"
  have "\<forall>i \<in> set (mentions t'). rank i < ?r" using member_le_sum_list [of _ "map rank (mentions t')"] by (auto intro: le_imp_less_Suc)
  then have "typeValue (Suc (size t' + ?r * (Suc (sum_list ?sizes) + 2))) lower
      \<lparr>eg_faker = fk, eg_constraints = descriptorsByField rules, eg_opts = opts\<rparr> env t' [] (fk_Seed fk) \<noteq> None"
    by (intro typeValue_returns [where rank = rank and k = "Suc (sum_list ?sizes)" and r = ?r])
      (use rank size in \<open>blast | simp\<close>)+
  then obtain n x where
    "typeValue n lower \<lparr>eg_faker = fk, eg_constraints = descriptorsByField rules, eg_opts = opts\<rparr> env t' [] (fk_Seed fk) = Some x"
    by blast
  then have "\<forall>m \<ge> n. ExampleFromType m lower fk env t rules opts = Some (fst x)"
    by (auto simp: ExampleFromType_def Some dest: typeValue_more intro!: exI [of _ "snd x"])
  then show ?thesis by blast
qed

lemma structValue_needs:
  "structValue tv sfs pre m g = Some (Inr v, g') \<Longrightarrow> sf \<in> set sfs \<Longrightarrow> in_json sf \<Longrightarrow>
     \<exists>path g1 v1 g2. tv (sf_Type sf) path g1 = Some (Inr v1, g2)"
  by (induction sfs arbitrary: m g) (auto simp: Let_def split: if_splits option.splits prod.splits sum.splits)

text \<open>
  C35. But not for one that does. A struct type with a field of its own type has a schema, the field cut
  off where the type comes back, and yet documenting a body of it never returns: the example follows
  the field without end.
\<close>

theorem recursive_type_never_documented:
  assumes "map_of env i = Some d" "sf \<in> set (st_fields d)" "in_json sf" "snd (strip_type (sf_Type sf)) = GoStruct i"
  shows "SchemaFromType env (Some (GoStruct i)) \<noteq> None \<and> (\<forall>n x. BodySchema n lower fk env (Some (GoStruct i)) rules opts docs \<noteq> Some (Inr x))"
proof -
  have "typeValue n lower eg env t path g \<noteq> Some (Inr v, g')" if "snd (strip_type t) = GoStruct i" for n t eg path and g g' :: 'a and v
    using that
  proof (induction n arbitrary: t path g v g')
    case (Suc n)
    show ?case
    proof
      assume "typeValue (Suc n) lower eg env t path g = Some (Inr v, g')"
      then have "structValue (typeValue n lower eg env) (st_fields d) path [] g = Some (Inr v, g')"
        using Suc.prems assms(1) by simp
      from structValue_needs [OF this assms(2,3)] Suc.IH [OF assms(4)] show False by blast
    qed
  qed simp
  from this [of "GoStruct i"] have "ExampleFromType n lower fk env (Some (GoStruct i)) rules opts \<noteq> Some (Inr x)" for n x
    by (auto simp: ExampleFromType_def strip_type_def)
  moreover have "SchemaFromType env (Some (GoStruct i)) \<noteq> None"
    using assms(1-3) by (auto simp: SchemaFromType_def buildSchema.simps [of env "[]"] strip_type_def Let_def filter_empty_conv)
  ultimately show ?thesis by (auto simp: BodySchema_def Let_def split: option.splits sum.splits)
qed

section \<open>What an example satisfies\<close>

definition faker_laws :: "'g faker \<Rightarrow> bool" where
  "faker_laws fk \<longleftrightarrow>
     (\<forall>lo hi g. lo \<le> hi \<longrightarrow> lo \<le> fst (fk_IntBt fk lo hi g) \<and> fst (fk_IntBt fk lo hi g) \<le> hi) \<and>
     (\<forall>lo hi g. lo \<le> hi \<longrightarrow> lo \<le> fst (fk_Float64Bt fk lo hi g) \<and> fst (fk_Float64Bt fk lo hi g) \<le> hi)"

text \<open>What the rules on an integer and on the length of a string ask of a value.\<close>

definition least_int :: "descriptor list \<Rightarrow> int \<Rightarrow> bool" where
  "least_int ds l \<longleftrightarrow> intParam ds ''int_min'' ''limit'' = Some l \<or> intParam ds ''int_between'' ''min'' = Some l"

definition greatest_int :: "descriptor list \<Rightarrow> int \<Rightarrow> bool" where
  "greatest_int ds h \<longleftrightarrow> intParam ds ''int_max'' ''limit'' = Some h \<or> intParam ds ''int_between'' ''max'' = Some h"

definition int_ok :: "descriptor list \<Rightarrow> int \<Rightarrow> bool" where
  "int_ok ds v \<longleftrightarrow> (\<forall>l. least_int ds l \<longrightarrow> l \<le> v) \<and> (\<forall>h. greatest_int ds h \<longrightarrow> v \<le> h)"

text \<open>A field is bounded one way: by its two ends or by a range.\<close>

definition bounded_once :: "descriptor list \<Rightarrow> bool" where
  "bounded_once ds \<longleftrightarrow>
     (intParam ds ''int_min'' ''limit'' = None \<and> intParam ds ''int_max'' ''limit'' = None) \<or>
     (intParam ds ''int_between'' ''min'' = None \<and> intParam ds ''int_between'' ''max'' = None)"


definition least_length :: "descriptor list \<Rightarrow> int \<Rightarrow> bool" where
  "least_length ds l \<longleftrightarrow> intParam ds ''str_min_length'' ''min'' = Some l \<or> intParam ds ''str_length_between'' ''min'' = Some l"

definition greatest_length :: "descriptor list \<Rightarrow> int \<Rightarrow> bool" where
  "greatest_length ds h \<longleftrightarrow> intParam ds ''str_max_length'' ''max'' = Some h \<or> intParam ds ''str_length_between'' ''max'' = Some h"

text \<open>
  A string example keeps the length rules it is shown with, in bytes, whenever some length does:
  whatever word was picked is cut or filled up, and nothing panics.
\<close>

theorem string_examples_keep_lengths:
  assumes "\<forall>l. least_length ds l \<longrightarrow> l \<le> int n" "\<forall>h. greatest_length ds h \<longrightarrow> int n \<le> h"
  shows "\<exists>s'. applyLength s ds = Inr s' \<and> (\<forall>l. least_length ds l \<longrightarrow> l \<le> int (length s')) \<and>
    (\<forall>h. greatest_length ds h \<longrightarrow> int (length s') \<le> h) \<and>
    ((\<forall>l. least_length ds l \<longrightarrow> l \<le> int (length s)) \<and> (\<forall>h. greatest_length ds h \<longrightarrow> int (length s) \<le> h) \<longrightarrow> s' = s)"
proof -
  have cut: "\<exists>s'. cut_to m (Inr s) = Inr s' \<and> length s' \<le> length s \<and> (\<forall>v. m = Some v \<longrightarrow> int (length s') \<le> v) \<and>
      ((\<forall>v. m = Some v \<longrightarrow> int (length s) \<le> v) \<longrightarrow> s' = s)" if "\<forall>v. m = Some v \<longrightarrow> 0 \<le> v" for m s
    using that by (auto simp: cut_to_def split: option.splits)
  let ?m1 = "intParam ds ''str_max_length'' ''max''" and ?m2 = "intParam ds ''str_length_between'' ''max''"
  have nn: "\<forall>v. ?m1 = Some v \<longrightarrow> 0 \<le> v" "\<forall>v. ?m2 = Some v \<longrightarrow> 0 \<le> v" using assms(2) by (force simp: greatest_length_def)+
  from cut [OF nn(1), of s] obtain s1 where s1: "cut_to ?m1 (Inr s) = Inr s1" "length s1 \<le> length s"
    "\<forall>v. ?m1 = Some v \<longrightarrow> int (length s1) \<le> v" "(\<forall>v. ?m1 = Some v \<longrightarrow> int (length s) \<le> v) \<longrightarrow> s1 = s" by blast
  from cut [OF nn(2), of s1] obtain s2 where s2: "cut_to ?m2 (Inr s1) = Inr s2" "length s2 \<le> length s1"
    "\<forall>v. ?m2 = Some v \<longrightarrow> int (length s2) \<le> v" "(\<forall>v. ?m2 = Some v \<longrightarrow> int (length s1) \<le> v) \<longrightarrow> s2 = s1" by blast
  obtain m where m: "applyLength s ds = Inr (s2 @ replicate (nat (m - int (length s2))) CHR ''x'')"
    "\<forall>l. least_length ds l \<longrightarrow> l \<le> m" "m = 0 \<or> least_length ds m"
    using s1(1) s2(1) by (force simp: applyLength_def Let_def or_else_def least_length_def split: option.splits if_splits)
  let ?s' = "s2 @ replicate (nat (m - int (length s2))) CHR ''x''"
  have short: "m \<le> int n" using m(3) assms(1) by auto
  have len: "int (length ?s') = max (int (length s2)) m" by auto
  have "\<forall>l. least_length ds l \<longrightarrow> l \<le> int (length ?s')" unfolding len using m(2) by fastforce
  moreover have "\<forall>h. greatest_length ds h \<longrightarrow> int (length ?s') \<le> h"
    unfolding len using s1(3) s2(2,3) short assms(2) by (force simp: greatest_length_def)
  moreover have "?s' = s" if "\<forall>l. least_length ds l \<longrightarrow> l \<le> int (length s)" "\<forall>h. greatest_length ds h \<longrightarrow> int (length s) \<le> h"
  proof -
    have "s2 = s" using that(2) s1(4) s2(4) by (auto simp: greatest_length_def)
    moreover have "m \<le> int (length s)" using that(1) m(3) by auto
    ultimately show ?thesis by simp
  qed
  ultimately show ?thesis using m(1) by blast
qed

section \<open>What the schema says of a field\<close>

definition names_field :: "field_rules \<Rightarrow> string \<Rightarrow> bool" where
  "names_field rs name = (fr_Field rs \<noteq> [] \<and> (\<exists>seg. split_at CHR ''.'' (fr_Field rs) = [seg] \<and> fst (splitArraySuffix 0 seg) = name))"

lemma change_named_Some:
  "change_named g name fs = Some fs' \<Longrightarrow> \<exists>xs f f' ys. fs = xs @ f # ys \<and> f_Name f = name \<and> name \<notin> f_Name ` set xs \<and>
     g f = Some f' \<and> fs' = xs @ f' # ys"
proof (induction fs arbitrary: fs')
  case (Cons f fs)
  show ?case
  proof (cases "f_Name f = name")
    case True
    with Cons.prems obtain f' where "g f = Some f'" "fs' = f' # fs" by auto
    with True show ?thesis by (intro exI [of _ "[]"]) simp
  next
    case False
    with Cons.prems obtain fs1 where "change_named g name fs = Some fs1" "fs' = f # fs1" by auto
    with Cons.IH obtain xs h h' ys where "fs = xs @ h # ys" "f_Name h = name" "name \<notin> f_Name ` set xs" "g h = Some h'" "fs' = f # xs @ h' # ys"
      by blast
    with False show ?thesis by (intro exI [of _ "f # xs"]) auto
  qed
qed simp

lemma change_named_total:
  "change_named (\<lambda>f. Some (g f)) name fs =
     (if name \<in> f_Name ` set fs then Some (map (\<lambda>f. if f_Name f = name then g f else f) fs) else None)"
  if "distinct (map f_Name fs)"
  using that by (induction fs) (auto simp: image_iff intro!: map_idI [symmetric])

definition slot :: "field \<Rightarrow> string \<times> bool \<times> doc_constraint list \<times> bool" where
  "slot f = (f_Name f, f_Required f, s_Constraints (f_Schema f), s_Nullable (f_Schema f))"

lemma with_fields_simps [simp]: "s_Fields (with_fields s fs) = fs" "s_Constraints (with_fields s fs) = s_Constraints s"
  "s_Nullable (with_fields s fs) = s_Nullable s" "s_Constraints (with_items s e) = s_Constraints s" "s_Nullable (with_items s e) = s_Nullable s"
  by (simp_all add: with_fields_def with_items_def)

lemma change_field_head: "change_field g segs s = Some s' \<Longrightarrow> s_Constraints s' = s_Constraints s \<and> s_Nullable s' = s_Nullable s"
  by (induction g segs s rule: change_field.induct) (auto split: prod.splits)

lemma below_arrays_head:
  "below_arrays n (change_field g segs) s = Some s' \<Longrightarrow> s_Constraints s' = s_Constraints s \<and> s_Nullable s' = s_Nullable s"
  using change_field_head by (cases n) (auto split: option.splits)

text \<open>A path into a field's own schema leaves every slot of this one alone.\<close>

lemma at_field_nested:
  assumes "split_at CHR ''.'' path = seg # seg' # segs"
  shows "map slot (s_Fields (at_field g path s)) = map slot (s_Fields s)"
proof (cases "change_field g (seg # seg' # segs) s")
  case None
  with assms show ?thesis by (cases "path = []") (simp_all add: at_field_def)
next
  case (Some s')
  obtain name arrays where na: "splitArraySuffix 0 seg = (name, arrays)" by fastforce
  with Some obtain fs' where fs': "change_named (\<lambda>f. map_option (with_schema f) (below_arrays arrays (change_field g (seg' # segs)) (f_Schema f))) name (s_Fields s) = Some fs'"
    "s' = with_fields s fs'" by auto
  from change_named_Some [OF fs'(1)] obtain xs f e ys where c: "s_Fields s = xs @ f # ys"
    "below_arrays arrays (change_field g (seg' # segs)) (f_Schema f) = Some e" "fs' = xs @ with_schema f e # ys"
    by auto
  from below_arrays_head [OF c(2)] have "slot (with_schema f e) = slot f" by (simp add: slot_def with_schema_def)
  with c(1,3) fs'(2) Some assms show ?thesis by (auto simp: at_field_def)
qed

lemma at_field_top:
  assumes "split_at CHR ''.'' path = [seg]" "path \<noteq> []" "distinct (map f_Name (s_Fields s))"
  shows "s_Fields (at_field g path s) = map (\<lambda>f. if f_Name f = fst (splitArraySuffix 0 seg) then g f else f) (s_Fields s)"
  using assms by (auto simp: at_field_def change_named_total image_iff intro!: map_idI [symmetric])

definition rules_say :: "field_rules \<Rightarrow> string \<times> bool \<times> doc_constraint list \<times> bool \<Rightarrow> string \<times> bool \<times> doc_constraint list \<times> bool" where
  "rules_say rs = (\<lambda>(name, required, constraints, nullable).
     if names_field rs name
     then (name, required \<or> (\<exists>d \<in> set (fr_Rules rs @ fr_Compare rs). d_Name d \<in> set requiredCodes),
       constraints @ map (\<lambda>d. \<lparr>c_Code = d_Name d, c_Params = d_Params d\<rparr>) (filter (\<lambda>d. d_Name d \<notin> set requiredCodes) (fr_Rules rs @ fr_Compare rs)),
       nullable \<and> (\<forall>d \<in> set (fr_Rules rs). d_Name d \<notin> set rejectsNullCodes))
     else (name, required, constraints, nullable))"

lemma slot_describe: "slot (describe_field d f) = (case slot f of (name, required, constraints, nullable) \<Rightarrow>
    (name, required \<or> d_Name d \<in> set requiredCodes,
     constraints @ (if d_Name d \<in> set requiredCodes then [] else [\<lparr>c_Code = d_Name d, c_Params = d_Params d\<rparr>]), nullable))"
  by (auto simp: slot_def describe_field_def applyRuleDescriptor_def Let_def)

lemma slot_nullability: "slot (applyNullability d f) = (case slot f of (name, required, constraints, nullable) \<Rightarrow>
    (name, required, constraints, nullable \<and> d_Name d \<notin> set rejectsNullCodes))"
  by (auto simp: slot_def applyNullability_def with_schema_def Let_def)

lemma slot_rules:
  "slot (foldl (\<lambda>f d. applyNullability d (describe_field d f)) f ds) = (case slot f of (name, required, constraints, nullable) \<Rightarrow>
     (name, required \<or> (\<exists>d \<in> set ds. d_Name d \<in> set requiredCodes),
      constraints @ map (\<lambda>d. \<lparr>c_Code = d_Name d, c_Params = d_Params d\<rparr>) (filter (\<lambda>d. d_Name d \<notin> set requiredCodes) ds),
      nullable \<and> (\<forall>d \<in> set ds. d_Name d \<notin> set rejectsNullCodes)))"
  by (induction ds arbitrary: f) (auto simp: slot_describe slot_nullability split: prod.splits)

lemma slot_compare:
  "slot (foldl (\<lambda>f d. describe_field d f) f ds) = (case slot f of (name, required, constraints, nullable) \<Rightarrow>
     (name, required \<or> (\<exists>d \<in> set ds. d_Name d \<in> set requiredCodes),
      constraints @ map (\<lambda>d. \<lparr>c_Code = d_Name d, c_Params = d_Params d\<rparr>) (filter (\<lambda>d. d_Name d \<notin> set requiredCodes) ds), nullable))"
  by (induction ds arbitrary: f) (auto simp: slot_describe split: prod.splits)

lemma slot_rule_set:
  assumes "names_field rs (f_Name f)"
  shows "slot (apply_rule_set rs f) = rules_say rs (slot f)"
  unfolding apply_rule_set_def slot_compare slot_rules
  using assms by (auto simp: rules_say_def slot_def)

lemma rules_say_other: "\<not> names_field rs (f_Name f) \<Longrightarrow> rules_say rs (slot f) = slot f"
  by (simp add: rules_say_def slot_def)

lemma slots_one:
  assumes "distinct (map f_Name (s_Fields s))"
  shows "map slot (s_Fields (at_field (apply_rule_set rs) (fr_Field rs) s)) = map (rules_say rs) (map slot (s_Fields s))"
proof -
  consider "fr_Field rs = []" | seg where "split_at CHR ''.'' (fr_Field rs) = [seg]" "fr_Field rs \<noteq> []"
    | seg seg' segs where "split_at CHR ''.'' (fr_Field rs) = seg # seg' # segs"
    by (metis list.exhaust split_at_not_Nil)
  then show ?thesis
  proof cases
    case 1
    then show ?thesis by (auto simp: at_field_def rules_say_def names_field_def slot_def)
  next
    case (2 seg)
    have "names_field rs name \<longleftrightarrow> name = fst (splitArraySuffix 0 seg)" for name using 2 by (auto simp: names_field_def)
    then show ?thesis
      unfolding at_field_top [OF 2(1) 2(2) assms] by (simp add: slot_rule_set rules_say_other)
  next
    case (3 seg seg' segs)
    then have "\<not> names_field rs name" for name by (simp add: names_field_def)
    then have "rules_say rs = (\<lambda>x. x)" by (auto simp: rules_say_def)
    with at_field_nested [OF 3] show ?thesis by simp
  qed
qed

lemma rules_say_name: "fst (rules_say rs x) = fst x"
  by (auto simp: rules_say_def split: prod.splits)

lemma slots_all:
  assumes "distinct (map f_Name (s_Fields s))"
  shows "map slot (s_Fields (applyRules rules s)) = map (\<lambda>x. foldl (\<lambda>x rs. rules_say rs x) x rules) (map slot (s_Fields s))"
  using assms
proof (induction rules arbitrary: s)
  case (Cons rs rules)
  let ?s = "at_field (apply_rule_set rs) (fr_Field rs) s"
  note one = slots_one [OF Cons.prems, of rs]
  have names: "map f_Name fs = map fst (map slot fs)" for fs by (simp add: slot_def)
  have "map fst (map slot (s_Fields ?s)) = map fst (map slot (s_Fields s))" unfolding one by (simp add: rules_say_name)
  then have "map f_Name (s_Fields ?s) = map f_Name (s_Fields s)" unfolding names .
  with Cons.prems have "distinct (map f_Name (s_Fields ?s))" by simp
  from Cons.IH [OF this] one show ?case by (simp add: applyRules_def)
qed (simp add: applyRules_def)

lemma rules_say_all:
  "foldl (\<lambda>x rs. rules_say rs x) (name, required, constraints, nullable) rules =
    (name, required \<or> (\<exists>rs \<in> set rules. names_field rs name \<and> (\<exists>d \<in> set (fr_Rules rs @ fr_Compare rs). d_Name d \<in> set requiredCodes)),
     constraints @ concat (map (\<lambda>rs. if names_field rs name
       then map (\<lambda>d. \<lparr>c_Code = d_Name d, c_Params = d_Params d\<rparr>) (filter (\<lambda>d. d_Name d \<notin> set requiredCodes) (fr_Rules rs @ fr_Compare rs)) else []) rules),
     nullable \<and> (\<forall>rs \<in> set rules. names_field rs name \<longrightarrow> (\<forall>d \<in> set (fr_Rules rs). d_Name d \<notin> set rejectsNullCodes)))"
proof (induction rules arbitrary: required constraints nullable)
  case (Cons rs rules)
  show ?case
  proof (cases "names_field rs name")
    case True
    then have "rules_say rs (name, required, constraints, nullable) =
      (name, required \<or> (\<exists>d \<in> set (fr_Rules rs @ fr_Compare rs). d_Name d \<in> set requiredCodes),
       constraints @ map (\<lambda>d. \<lparr>c_Code = d_Name d, c_Params = d_Params d\<rparr>) (filter (\<lambda>d. d_Name d \<notin> set requiredCodes) (fr_Rules rs @ fr_Compare rs)),
       nullable \<and> (\<forall>d \<in> set (fr_Rules rs). d_Name d \<notin> set rejectsNullCodes))"
      by (simp add: rules_say_def)
    with True show ?thesis unfolding foldl_Cons by (simp only: Cons.IH) auto
  next
    case False
    then have "rules_say rs (name, required, constraints, nullable) = (name, required, constraints, nullable)"
      by (simp add: rules_say_def)
    with False show ?thesis unfolding foldl_Cons by (simp only: Cons.IH) auto
  qed
qed simp

text \<open>
  The schema says of a field what the rules check. In the documentation of a struct's fields each
  keeps its place and its name; it is required exactly when a rule naming it requires a value,
  nullable exactly when its type is and no rule refuses null, and shows every other rule naming it,
  in the order they are declared.
\<close>

theorem documented_as_checked:
  assumes "SchemaFromType env (Some t) = Some s" "distinct (map f_Name (s_Fields s))"
  shows "map slot (s_Fields (applyRules rules s)) = map (\<lambda>f.
    (f_Name f,
     \<exists>rs \<in> set rules. names_field rs (f_Name f) \<and> (\<exists>d \<in> set (fr_Rules rs @ fr_Compare rs). d_Name d \<in> set requiredCodes),
     concat (map (\<lambda>rs. if names_field rs (f_Name f)
       then map (\<lambda>d. \<lparr>c_Code = d_Name d, c_Params = d_Params d\<rparr>) (filter (\<lambda>d. d_Name d \<notin> set requiredCodes) (fr_Rules rs @ fr_Compare rs)) else []) rules),
     s_Nullable (f_Schema f) \<and> (\<forall>rs \<in> set rules. names_field rs (f_Name f) \<longrightarrow> (\<forall>d \<in> set (fr_Rules rs). d_Name d \<notin> set rejectsNullCodes)))) (s_Fields s)"
proof -
  have fresh: "s_Constraints (buildSchema env vis u) = []" for vis u
    by (subst buildSchema.simps) (auto split: prod.splits gotype.splits option.splits)
  from assms(1) have s: "s = buildSchema env [] t" by (auto simp: SchemaFromType_def Let_def split: if_splits)
  have "\<not> f_Required f \<and> s_Constraints (f_Schema f) = []" if "f \<in> set (s_Fields s)" for f
    using that unfolding s
    by (subst (asm) buildSchema.simps) (auto simp: fresh split: prod.splits gotype.splits option.splits if_splits)
  then show ?thesis unfolding slots_all [OF assms(2)] by (auto simp: slot_def rules_say_all)
qed

section \<open>Applied\<close>

definition chain_structs :: structs where
  "chain_structs = [(''Node'', \<lparr>st_Name = ''Node'', st_String = ''dto.Node'', st_PkgPath = ''app/dto'', st_fields =
     [\<lparr>sf_Name = ''Next'', sf_Exported = True, sf_Tag = ''next'', sf_Type = GoPtr (GoStruct ''Node'')\<rparr>]\<rparr>)]"

theorem recursive_type_never_documented_witness:
  "\<forall>lower (fk :: nat faker) opts. SchemaFromType chain_structs (Some (GoStruct ''Node'')) \<noteq> None \<and>
     (\<forall>n x. BodySchema n lower fk chain_structs (Some (GoStruct ''Node'')) [] opts [] \<noteq> Some (Inr x))"
  by (intro allI, rule recursive_type_never_documented [where d = "snd (hd chain_structs)" and sf = "hd (st_fields (snd (hd chain_structs)))"])
    (simp_all add: chain_structs_def in_json_def jsonName_def strip_type_def)

definition least_faker :: "nat faker" where
  "least_faker = \<lparr>fk_Email = (\<lambda>g. (''a@b.c'', g)), fk_Name = (\<lambda>g. (''Ann'', g)), fk_URL = (\<lambda>g. (''u'', g)),
     fk_Word = (\<lambda>g. (''word'', g)), fk_Evenly = (\<lambda>g. (even g, g)), fk_IntBt = (\<lambda>lo hi g. (lo, g + 1)),
     fk_Float64Bt = (\<lambda>lo hi g. (lo, g)), fk_Seed = 1\<rparr>"

lemma least_faker_laws: "faker_laws least_faker"
  by (simp add: faker_laws_def least_faker_def)

definition int_rule :: "string \<Rightarrow> string \<Rightarrow> int \<Rightarrow> descriptor" where
  "int_rule code key v = \<lparr>d_Name = code, d_Params = [(key, PInt v)]\<rparr>"

lemma int_rule_simps [simp]: "d_Name (int_rule code key v) = code" "d_Params (int_rule code key v) = [(key, PInt v)]"
  by (simp_all add: int_rule_def)


theorem string_examples_keep_lengths_witness:
  "\<exists>s'. applyLength ''word'' [int_rule ''str_min_length'' ''min'' 6, int_rule ''str_max_length'' ''max'' 8] = Inr s' \<and> 6 \<le> length s' \<and> length s' \<le> 8"
proof -
  let ?ds = "[int_rule ''str_min_length'' ''min'' 6, int_rule ''str_max_length'' ''max'' 8]"
  have "\<forall>l. least_length ?ds l \<longrightarrow> l \<le> int 7" "\<forall>h. greatest_length ?ds h \<longrightarrow> int 7 \<le> h"
    by (simp_all add: least_length_def greatest_length_def)
  from string_examples_keep_lengths [OF this, of "''word''"] show ?thesis
    by (auto simp: least_length_def greatest_length_def)
qed

definition person_structs :: structs where
  "person_structs = [(''Person'', \<lparr>st_Name = ''Person'', st_String = ''dto.Person'', st_PkgPath = ''app/dto'', st_fields =
     [\<lparr>sf_Name = ''Name'', sf_Exported = True, sf_Tag = ''name'', sf_Type = GoPtr (GoScalar KString)\<rparr>,
      \<lparr>sf_Name = ''Age'', sf_Exported = True, sf_Tag = ''age'', sf_Type = GoScalar KInteger\<rparr>]\<rparr>)]"

definition person_rules :: "field_rules list" where
  "person_rules = [\<lparr>fr_Field = ''name'', fr_Rules = [\<lparr>d_Name = ''not_nil'', d_Params = []\<rparr>, int_rule ''str_max_length'' ''max'' 10], fr_Compare = []\<rparr>]"

theorem documented_as_checked_witness:
  "map slot (s_Fields (applyRules person_rules (buildSchema person_structs [] (GoStruct ''Person'')))) =
     [(''name'', True, [\<lparr>c_Code = ''str_max_length'', c_Params = [(''max'', PInt 10)]\<rparr>], False), (''age'', False, [], False)]"
proof -
  let ?s = "buildSchema person_structs [] (GoStruct ''Person'')"
  have fs: "s_Fields ?s =
     [Field ''name'' False False [] (Schema TypeString [] [] [] True [] [] None None),
      Field ''age'' False False [] (Schema TypeInteger [] [] [] False [] [] None None)]"
    by code_simp
  have s: "SchemaFromType person_structs (Some (GoStruct ''Person'')) = Some ?s" by (simp add: SchemaFromType_def Let_def fs)
  have d: "distinct (map f_Name (s_Fields ?s))" by (simp add: fs)
  have name: "splitArraySuffix 0 ''name'' = (''name'', 0)" by code_simp
  show ?thesis
    unfolding documented_as_checked [OF s d]
    by (simp add: fs person_rules_def names_field_def requiredCodes_def rejectsNullCodes_def name)
qed

end
