(* ===== verification/ApiDoc.thy ===== *)
theory ApiDoc
  imports ApiExamples Restkit "HOL-Library.Product_Lexorder"
begin

text \<open>
  The neutral model of the HTTP surface (\<open>internal/plamo/apidoc/describe.go\<close>, \<open>spec.go\<close>): what the
  generated documents are rendered from, read off the endpoints' own declarations.

  Generating an example may panic or not return (\<open>ApiSchema\<close>): a description is \<open>None\<close> beyond the
  fuel and \<open>Some (Inl e)\<close> for a panic.
\<close>

section \<open>What an endpoint declares\<close>

record header_spec =
  hs_Name :: string
  hs_Meaning :: string

record error_spec =
  er_Status :: int
  er_Code :: string
  er_Condition :: string
  er_CallerAction :: string
  er_BodyType :: "gotype option"

record behavior_spec =
  bs_SideEffects :: "string list"
  bs_Idempotent :: "bool option"
  bs_Preconditions :: "string list"

record response_spec =
  rp_Status :: int
  rp_When :: string
  rp_BodyType :: "gotype option"
  rp_Headers :: "header_spec list"

record 'v endpoint_doc =
  dc_Summary :: string
  dc_Description :: string
  dc_FieldDocs :: "(string \<times> string) list"
  dc_RequestFieldDocs :: "(string \<times> string) list"
  dc_ResponseFieldDocs :: "(string \<times> string) list"
  dc_IDPrefix :: string
  dc_Task :: string
  dc_AlsoRead :: "string list"
  dc_Related :: "string list"
  dc_ReqType :: "gotype option"
  dc_ResType :: "gotype option"
  dc_BodyRules :: "field_rules list"
  dc_PathRules :: "field_rules list"
  dc_QueryRules :: "field_rules list"
  dc_Success :: int
  dc_ResponseHeaders :: "header_spec list"
  dc_Produces :: string
  dc_Responses :: "response_spec list"
  dc_Errors :: "error_spec list"
  dc_Security :: "'v security option"
  dc_Behavior :: behavior_spec

datatype 'v doc_controller = Unserved | Undocumented | Documented "'v endpoint_doc"

definition mounted :: "'v doc_controller \<Rightarrow> bool" where
  "mounted c = (case c of Unserved \<Rightarrow> False | _ \<Rightarrow> True)"

record 'v doc_module =
  dm_Path :: string
  dm_Get :: "'v doc_controller"
  dm_Post :: "'v doc_controller"
  dm_Put :: "'v doc_controller"
  dm_Patch :: "'v doc_controller"
  dm_Delete :: "'v doc_controller"

section \<open>What is said of it\<close>

record param_spec =
  pr_Name :: string
  pr_Required :: bool
  pr_Constraints :: "doc_constraint list"

record security_doc =
  sd_Public :: bool
  sd_Schemes :: "string list"
  sd_Scopes :: "string list"
  sd_ResourceConstraint :: string

type_synonym documented_body = "(schema \<times> doc_json) option"

record response_doc =
  rd_Status :: int
  rd_When :: string
  rd_Body :: documented_body
  rd_Headers :: "header_spec list"

record error_doc =
  xd_Status :: int
  xd_Code :: string
  xd_Condition :: string
  xd_CallerAction :: string
  xd_Body :: documented_body

record endpoint_spec =
  es_Method :: string
  es_Path :: string
  es_Summary :: string
  es_Description :: string
  es_Task :: string
  es_AlsoRead :: "string list"
  es_Related :: "string list"
  es_PathParams :: "param_spec list"
  es_QueryParams :: "param_spec list"
  es_SuccessStatus :: int
  es_Request :: documented_body
  es_Response :: documented_body
  es_ResponseMediaType :: string
  es_ResponseHeaders :: "header_spec list"
  es_Responses :: "response_doc list"
  es_Errors :: "error_doc list"
  es_Security :: "security_doc option"
  es_Behavior :: behavior_spec
  es_Untyped :: bool

section \<open>Paths and resources\<close>

definition InternalPathPrefix :: string where "InternalPathPrefix = ''_''"
definition InternalResource :: string where "InternalResource = ''app-system''"

fun first_resource :: "(string \<Rightarrow> string) \<Rightarrow> string list \<Rightarrow> string" where
  "first_resource lower [] = []"
| "first_resource lower (seg # segs) =
     (if seg = [] \<or> HasPrefix seg ''{'' then first_resource lower segs
      else if seg = InternalPathPrefix then InternalResource
      else singular lower seg)"

definition resourceOf :: "(string \<Rightarrow> string) \<Rightarrow> string \<Rightarrow> string" where
  "resourceOf lower path = first_resource lower (split_at CHR ''/'' path)"

definition parsePathParamNames :: "string \<Rightarrow> string list" where
  "parsePathParamNames path =
     map (\<lambda>seg. take (length seg - 2) (drop 1 seg))
       (filter (\<lambda>seg. 2 \<le> length seg \<and> HasPrefix seg ''{'' \<and> HasSuffix seg ''}'') (split_at CHR ''/'' path))"

definition parsePathParams :: "string \<Rightarrow> param_spec list" where
  "parsePathParams path = map (\<lambda>name. \<lparr>pr_Name = name, pr_Required = False, pr_Constraints = []\<rparr>) (parsePathParamNames path)"

definition described_param :: "string \<Rightarrow> descriptor list \<Rightarrow> param_spec" where
  "described_param name ds =
     (case foldl (\<lambda>rc d. applyRuleDescriptor d rc) (False, []) ds of
        (required, constraints) \<Rightarrow> \<lparr>pr_Name = name, pr_Required = required, pr_Constraints = constraints\<rparr>)"

definition buildPathParams :: "string \<Rightarrow> field_rules list \<Rightarrow> param_spec list" where
  "buildPathParams path rules = map (\<lambda>name. described_param name (descriptorsByField rules name)) (parsePathParamNames path)"

definition buildQueryParams :: "field_rules list \<Rightarrow> param_spec list" where
  "buildQueryParams rules = map (\<lambda>rs. described_param (fr_Field rs) (fr_Rules rs @ fr_Compare rs)) rules"

section \<open>Descriptions\<close>

text \<open>One step after another, as long as they return and do not panic.\<close>

definition and_then :: "'a result option \<Rightarrow> ('a \<Rightarrow> 'b result option) \<Rightarrow> 'b result option" where
  "and_then x k = (case x of None \<Rightarrow> None | Some (Inl e) \<Rightarrow> Some (Inl e) | Some (Inr v) \<Rightarrow> k v)"

fun each :: "('a \<Rightarrow> 'b result option) \<Rightarrow> 'a list \<Rightarrow> 'b list result option" where
  "each f [] = Some (Inr [])"
| "each f (x # xs) = and_then (f x) (\<lambda>y. and_then (each f xs) (\<lambda>ys. Some (Inr (y # ys))))"

record 'g documenter =
  dg_fuel :: nat
  dg_lower :: "string \<Rightarrow> string"
  dg_faker :: "'g faker"
  dg_structs :: structs

definition body_of ::
  "'g documenter \<Rightarrow> example_options \<Rightarrow> gotype option \<Rightarrow> field_rules list \<Rightarrow> (string \<times> string) list list \<Rightarrow> documented_body result option" where
  "body_of dg opts t rules docs = BodySchema (dg_fuel dg) (dg_lower dg) (dg_faker dg) (dg_structs dg) t rules opts docs"

definition convertSecurity :: "'v security option \<Rightarrow> security_doc option" where
  "convertSecurity s =
     (case s of
        None \<Rightarrow> None
      | Some sec \<Rightarrow> Some \<lparr>sd_Public = Public sec, sd_Schemes = sec_Schemes sec, sd_Scopes = sec_Scopes sec,
          sd_ResourceConstraint = (case Resource sec of None \<Rightarrow> [] | Some c \<Rightarrow> rc_Description c)\<rparr>)"

definition convertResponses :: "'g documenter \<Rightarrow> example_options \<Rightarrow> response_spec list \<Rightarrow> response_doc list result option" where
  "convertResponses dg opts responses =
     each (\<lambda>r. and_then (body_of dg opts (rp_BodyType r) [] [])
       (\<lambda>b. Some (Inr \<lparr>rd_Status = rp_Status r, rd_When = rp_When r, rd_Body = b, rd_Headers = rp_Headers r\<rparr>))) responses"

fun json_member :: "string \<Rightarrow> doc_json \<Rightarrow> doc_json option" where
  "json_member name (JObj m) = map_of m name"
| "json_member name _ = None"

fun set_member :: "string \<Rightarrow> doc_json \<Rightarrow> doc_json \<Rightarrow> doc_json" where
  "set_member name v (JObj m) = JObj (put name v m)"
| "set_member name v x = x"

definition errorExample :: "string \<Rightarrow> doc_json \<Rightarrow> doc_json" where
  "errorExample code ex =
     (if code = [] then ex
      else case json_member ''error'' ex of
        Some detail \<Rightarrow>
          if json_member ''code'' detail \<noteq> None then set_member ''error'' (set_member ''code'' (JStr code) detail) ex else ex
      | None \<Rightarrow> ex)"

definition convertErrors :: "'g documenter \<Rightarrow> example_options \<Rightarrow> error_spec list \<Rightarrow> error_doc list result option" where
  "convertErrors dg opts errs =
     each (\<lambda>e.
       (let row = \<lparr>xd_Status = er_Status e, xd_Code = er_Code e, xd_Condition = er_Condition e,
              xd_CallerAction = er_CallerAction e, xd_Body = None\<rparr> in
        case SchemaFromType (dg_structs dg) (er_BodyType e) of
          None \<Rightarrow> Some (Inr row)
        | Some body \<Rightarrow>
            and_then (ExampleFromType (dg_fuel dg) (dg_lower dg) (dg_faker dg) (dg_structs dg) (er_BodyType e) [] opts)
              (\<lambda>ex. Some (Inr (row\<lparr>xd_Body := Some (body, errorExample (er_Code e) ex)\<rparr>))))) errs"

definition DescribeEndpoint ::
  "'g documenter \<Rightarrow> string \<Rightarrow> string \<Rightarrow> 'v endpoint_doc \<Rightarrow> (string \<Rightarrow> string option) \<Rightarrow> endpoint_spec result option" where
  "DescribeEndpoint dg meth path doc idPrefixes =
     (let opts = \<lparr>eo_Resource = resourceOf (dg_lower dg) path, eo_IDPrefixes = idPrefixes\<rparr> in
      and_then (body_of dg opts (dc_ReqType doc) (dc_BodyRules doc) [dc_FieldDocs doc, dc_RequestFieldDocs doc]) (\<lambda>req.
      and_then (body_of dg opts (dc_ResType doc) [] [dc_FieldDocs doc, dc_ResponseFieldDocs doc]) (\<lambda>res.
      and_then (convertResponses dg opts (dc_Responses doc)) (\<lambda>responses.
      and_then (convertErrors dg opts (dc_Errors doc)) (\<lambda>errors.
        Some (Inr \<lparr>es_Method = meth, es_Path = path, es_Summary = dc_Summary doc, es_Description = dc_Description doc,
          es_Task = dc_Task doc, es_AlsoRead = dc_AlsoRead doc, es_Related = dc_Related doc,
          es_PathParams = buildPathParams path (dc_PathRules doc), es_QueryParams = buildQueryParams (dc_QueryRules doc),
          es_SuccessStatus = dc_Success doc, es_Request = req, es_Response = res, es_ResponseMediaType = dc_Produces doc,
          es_ResponseHeaders = dc_ResponseHeaders doc, es_Responses = responses, es_Errors = errors,
          es_Security = convertSecurity (dc_Security doc), es_Behavior = dc_Behavior doc, es_Untyped = False\<rparr>))))))"

definition undocumented_spec :: "string \<Rightarrow> string \<Rightarrow> endpoint_spec" where
  "undocumented_spec meth path = \<lparr>es_Method = meth, es_Path = path, es_Summary = [], es_Description = [], es_Task = [],
     es_AlsoRead = [], es_Related = [], es_PathParams = parsePathParams path, es_QueryParams = [], es_SuccessStatus = 0,
     es_Request = None, es_Response = None, es_ResponseMediaType = [], es_ResponseHeaders = [], es_Responses = [],
     es_Errors = [], es_Security = None, es_Behavior = \<lparr>bs_SideEffects = [], bs_Idempotent = None, bs_Preconditions = []\<rparr>,
     es_Untyped = True\<rparr>"

definition doc_routes :: "'v doc_module \<Rightarrow> (string \<times> 'v doc_controller) list" where
  "doc_routes m = [(''GET'', dm_Get m), (''POST'', dm_Post m), (''PUT'', dm_Put m), (''PATCH'', dm_Patch m), (''DELETE'', dm_Delete m)]"

definition DescribeModule :: "'g documenter \<Rightarrow> 'v doc_module \<Rightarrow> (string \<Rightarrow> string option) \<Rightarrow> endpoint_spec list result option" where
  "DescribeModule dg m idPrefixes =
     each (\<lambda>(meth, c). case c of
         Documented doc \<Rightarrow> DescribeEndpoint dg meth (dm_Path m) doc idPrefixes
       | _ \<Rightarrow> Some (Inr (undocumented_spec meth (dm_Path m))))
       (filter (\<lambda>(meth, c). mounted c) (doc_routes m))"

definition collectIDPrefixes :: "(string \<Rightarrow> string) \<Rightarrow> 'v doc_module list \<Rightarrow> string \<Rightarrow> string option" where
  "collectIDPrefixes lower modules =
     foldl (\<lambda>prefixes m.
       (let resource = resourceOf lower (dm_Path m) in
        if resource = [] then prefixes
        else foldl (\<lambda>prefixes (meth, c). case c of
               Documented doc \<Rightarrow> if dc_IDPrefix doc \<noteq> [] then prefixes(resource \<mapsto> dc_IDPrefix doc) else prefixes
             | _ \<Rightarrow> prefixes) prefixes (doc_routes m))) (\<lambda>_. None) modules"

text \<open>\<open>sort.SliceStable\<close> keeps what is equal in order.\<close>

definition sortEndpoints :: "endpoint_spec list \<Rightarrow> endpoint_spec list" where
  "sortEndpoints = sort_key (\<lambda>e. (es_Path e, es_Method e))"

definition BuildAPI :: "'g documenter \<Rightarrow> 'v doc_module list \<Rightarrow> endpoint_spec list result option" where
  "BuildAPI dg modules =
     (let idPrefixes = collectIDPrefixes (dg_lower dg) modules in
      and_then (each (\<lambda>m. DescribeModule dg m idPrefixes) modules) (\<lambda>specs. Some (Inr (sortEndpoints (concat specs)))))"

definition CommonErrorSchema :: "'g documenter \<Rightarrow> gotype option \<Rightarrow> documented_body result option" where
  "CommonErrorSchema dg t =
     (case SchemaFromType (dg_structs dg) t of
        None \<Rightarrow> Some (Inr None)
      | Some s \<Rightarrow>
          and_then (ExampleFromType (dg_fuel dg) (dg_lower dg) (dg_faker dg) (dg_structs dg) t []
              \<lparr>eo_Resource = [], eo_IDPrefixes = (\<lambda>_. None)\<rparr>)
            (\<lambda>ex. Some (Inr (Some (s, ex)))))"

section \<open>Descriptions one by one\<close>

lemma and_then_simps [simp]:
  "and_then None k = None" "and_then (Some (Inl e)) k = Some (Inl e)" "and_then (Some (Inr v)) k = k v"
  by (simp_all add: and_then_def)

lemma and_then_done: "and_then x k = Some (Inr y) \<longleftrightarrow> (\<exists>v. x = Some (Inr v) \<and> k v = Some (Inr y))"
  by (auto simp: and_then_def split: option.splits sum.splits)

lemma each_done: "each f xs = Some (Inr ys) \<longleftrightarrow> list_all2 (\<lambda>x y. f x = Some (Inr y)) xs ys"
  by (induction xs arbitrary: ys) (auto simp: and_then_done list_all2_Cons1)

lemma each_reordered:
  assumes "each f xs = Some (Inr ys)" "mset xs' = mset xs"
  shows "\<exists>ys'. each f xs' = Some (Inr ys') \<and> mset ys' = mset ys"
  using list_all2_reorder_left_invariance [OF assms(1) [unfolded each_done] assms(2)] by (auto simp: each_done)

lemma all2_map: "list_all2 (\<lambda>x y. g y = f x) xs ys \<longleftrightarrow> map g ys = map f xs"
  by (induction xs ys rule: list_induct2') auto

lemma mset_concat_reordered: "mset xss' = mset xss \<Longrightarrow> mset (concat xss') = mset (concat xss)"
  by (metis mset_concat mset_map sum_mset_sum_list)

section \<open>A document that does not depend on the order of the modules\<close>

definition declared_prefixes :: "(string \<Rightarrow> string) \<Rightarrow> 'v doc_module \<Rightarrow> (string \<times> string) list" where
  "declared_prefixes lower m =
     (let resource = resourceOf lower (dm_Path m) in
      if resource = [] then []
      else concat (map (\<lambda>(meth, c). case c of
             Documented doc \<Rightarrow> if dc_IDPrefix doc \<noteq> [] then [(resource, dc_IDPrefix doc)] else []
           | _ \<Rightarrow> []) (doc_routes m)))"

definition record_prefixes :: "(string \<Rightarrow> string option) \<Rightarrow> (string \<times> string) list \<Rightarrow> string \<Rightarrow> string option" where
  "record_prefixes = foldl (\<lambda>prefixes (resource, p). prefixes(resource \<mapsto> p))"

lemma collectIDPrefixes_declared:
  "collectIDPrefixes lower modules = record_prefixes (\<lambda>_. None) (concat (map (declared_prefixes lower) modules))"
proof -
  have routes: "foldl (\<lambda>prefixes (meth, c). case c of
        Documented doc \<Rightarrow> if dc_IDPrefix doc \<noteq> [] then prefixes(resource \<mapsto> dc_IDPrefix doc) else prefixes
      | _ \<Rightarrow> prefixes) prefixes rs =
    record_prefixes prefixes (concat (map (\<lambda>(meth, c). case c of
        Documented doc \<Rightarrow> if dc_IDPrefix doc \<noteq> [] then [(resource, dc_IDPrefix doc)] else []
      | _ \<Rightarrow> []) rs))" for resource prefixes and rs :: "(string \<times> 'a doc_controller) list"
    by (induction rs arbitrary: prefixes) (auto simp: record_prefixes_def split: doc_controller.splits)
  show ?thesis
    unfolding collectIDPrefixes_def routes Let_def
    by (induction modules rule: rev_induct) (auto simp: record_prefixes_def declared_prefixes_def Let_def)
qed

text \<open>Prefixes that agree are those of the set of declarations.\<close>

definition agreeing :: "(string \<times> string) list \<Rightarrow> bool" where
  "agreeing ps = (\<forall>(r, p) \<in> set ps. \<forall>(r', p') \<in> set ps. r = r' \<longrightarrow> p = p')"

lemma agreeing_snoc: "agreeing (ps @ [(r, p)]) \<longleftrightarrow> agreeing ps \<and> (\<forall>p'. (r, p') \<in> set ps \<longrightarrow> p' = p)"
  by (auto simp: agreeing_def)

lemma record_prefixes_agreeing:
  "agreeing ps \<Longrightarrow> record_prefixes (\<lambda>_. None) ps r = Some p \<longleftrightarrow> (r, p) \<in> set ps"
proof (induction ps rule: rev_induct)
  case (snoc x ps)
  obtain r0 p0 where x: "x = (r0, p0)" by fastforce
  with snoc show ?case by (auto simp: agreeing_snoc record_prefixes_def)
qed (simp add: record_prefixes_def)

lemma record_prefixes_set:
  assumes "agreeing ps" "set ps' = set ps"
  shows "record_prefixes (\<lambda>_. None) ps' = record_prefixes (\<lambda>_. None) ps"
proof
  fix r
  have "agreeing ps'" using assms by (simp add: agreeing_def)
  then show "record_prefixes (\<lambda>_. None) ps' r = record_prefixes (\<lambda>_. None) ps r"
    using record_prefixes_agreeing [OF assms(1), of r] record_prefixes_agreeing [of ps' r] assms(2)
    by (metis not_Some_eq)
qed

definition endpoint_key :: "endpoint_spec \<Rightarrow> string \<times> string" where
  "endpoint_key e = (es_Path e, es_Method e)"

lemma sortEndpoints_reordered:
  assumes "mset es' = mset es" "distinct (map endpoint_key (sortEndpoints es))"
  shows "sortEndpoints es' = sortEndpoints es"
proof -
  have "endpoint_key = (\<lambda>e. (es_Path e, es_Method e))" by (rule ext) (simp add: endpoint_key_def)
  then have key: "sortEndpoints = sort_key endpoint_key" by (intro ext) (simp add: sortEndpoints_def)
  have "inj_on endpoint_key (set es')"
    using assms by (metis distinct_map key mset_eq_setD mset_sort)
  with assms(1) show ?thesis unfolding key by (intro sort_key_inj_key_eq) simp_all
qed

text \<open>
  The document is the same in whatever order the container delivers the modules, as long as no
  two endpoints share a path and a method and a resource is given one prefix for its ids.
\<close>

theorem document_order_independent:
  assumes "BuildAPI dg modules = Some (Inr es)" "mset modules' = mset modules"
    and "distinct (map endpoint_key es)" "agreeing (concat (map (declared_prefixes (dg_lower dg)) modules))"
  shows "BuildAPI dg modules' = Some (Inr es)"
proof -
  have same: "collectIDPrefixes (dg_lower dg) modules' = collectIDPrefixes (dg_lower dg) modules"
    unfolding collectIDPrefixes_declared
    by (rule record_prefixes_set [OF assms(4)]) (simp add: mset_eq_setD [OF assms(2)])
  let ?f = "\<lambda>m. DescribeModule dg m (collectIDPrefixes (dg_lower dg) modules)"
  from assms(1) obtain specs where specs: "each ?f modules = Some (Inr specs)" "es = sortEndpoints (concat specs)"
    by (auto simp: BuildAPI_def Let_def and_then_done)
  from each_reordered [OF specs(1) assms(2)] obtain specs' where
    s': "each ?f modules' = Some (Inr specs')" "mset specs' = mset specs" by blast
  have "sortEndpoints (concat specs') = es" unfolding specs(2)
    by (rule sortEndpoints_reordered) (use mset_concat_reordered [OF s'(2)] assms(3) specs(2) in auto)
  with s'(1) show ?thesis by (simp add: BuildAPI_def same)
qed

section \<open>What the document says of a route\<close>

definition served :: "'v doc_module list \<Rightarrow> (string \<times> string \<times> 'v doc_controller) list" where
  "served modules = concat (map (\<lambda>m. map (\<lambda>(meth, c). (dm_Path m, meth, c)) (filter (\<lambda>(meth, c). mounted c) (doc_routes m))) modules)"

definition declared_security :: "'v doc_controller \<Rightarrow> security_doc option" where
  "declared_security c = (case c of Documented doc \<Rightarrow> convertSecurity (dc_Security doc) | _ \<Rightarrow> None)"

definition is_documented :: "'v doc_controller \<Rightarrow> bool" where
  "is_documented c = (case c of Documented doc \<Rightarrow> True | _ \<Rightarrow> False)"

lemma DescribeEndpoint_done:
  "DescribeEndpoint dg meth path doc ids = Some (Inr e) \<Longrightarrow>
     es_Path e = path \<and> es_Method e = meth \<and> \<not> es_Untyped e \<and> es_Security e = convertSecurity (dc_Security doc)"
  by (auto simp: DescribeEndpoint_def Let_def and_then_done)

definition row_of :: "endpoint_spec \<Rightarrow> string \<times> string \<times> bool \<times> security_doc option" where
  "row_of e = (es_Path e, es_Method e, es_Untyped e, es_Security e)"

lemma DescribeModule_rows:
  assumes "DescribeModule dg m ids = Some (Inr specs)"
  shows "map row_of specs = map (\<lambda>(meth, c). (dm_Path m, meth, \<not> is_documented c, declared_security c)) (filter (\<lambda>(meth, c). mounted c) (doc_routes m))"
proof -
  have row: "row_of e = (dm_Path m, meth, \<not> is_documented c, declared_security c)"
    if "(case c of Documented doc \<Rightarrow> DescribeEndpoint dg meth (dm_Path m) doc ids | _ \<Rightarrow> Some (Inr (undocumented_spec meth (dm_Path m)))) = Some (Inr e)"
    for meth and c :: "'b doc_controller" and e
    using that
    by (cases c) (auto simp: row_of_def is_documented_def declared_security_def undocumented_spec_def dest: DescribeEndpoint_done)
  show ?thesis
    using assms unfolding DescribeModule_def each_done all2_map [symmetric]
    by (rule list_all2_mono) (auto simp: case_prod_unfold dest: row)
qed

lemma BuildAPI_rows:
  assumes "BuildAPI dg modules = Some (Inr es)"
  shows "mset (map row_of es) = mset (map (\<lambda>(path, meth, c). (path, meth, \<not> is_documented c, declared_security c)) (served modules))"
proof -
  from assms obtain specs where specs:
    "list_all2 (\<lambda>m s. DescribeModule dg m (collectIDPrefixes (dg_lower dg) modules) = Some (Inr s)) modules specs"
    "es = sortEndpoints (concat specs)"
    by (auto simp: BuildAPI_def Let_def and_then_done each_done)
  have "map row_of (concat specs) = map (\<lambda>(path, meth, c). (path, meth, \<not> is_documented c, declared_security c)) (served modules)"
    using specs(1) unfolding served_def
    by (induction rule: list_all2_induct) (auto dest: DescribeModule_rows)
  moreover have "mset (map row_of es) = mset (map row_of (concat specs))"
    unfolding specs(2) sortEndpoints_def mset_map mset_sort ..
  ultimately show ?thesis by simp
qed

text \<open>Who may call, as a reader of the document takes it: nothing said means any verified caller.\<close>

definition document_admits :: "security_doc option \<Rightarrow> request \<Rightarrow> bool" where
  "document_admits s r =
     (case s of
        None \<Rightarrow> PrincipalFrom (rq_ctx r) \<noteq> None
      | Some d \<Rightarrow> sd_Public d \<or>
          (PrincipalFrom (rq_ctx r) \<noteq> None \<and> HasScheme (PrincipalFrom (rq_ctx r)) (sd_Schemes d) \<and>
           SatisfiesScopes (PrincipalFrom (rq_ctx r)) (sd_Scopes d)))"

lemma document_admits_authorize: "document_admits (convertSecurity sec) r \<longleftrightarrow> (authorize sec r :: 'b response option) = None"
  by (auto simp: document_admits_def convertSecurity_def authorize_def Let_def HasScheme_def SatisfiesScopes_def split: option.splits)

text \<open>
  C27. The document names every route that is served and no other, in order of path and method, and for
  an endpoint that declares itself it admits exactly the callers the adapter admits.
\<close>

theorem document_says_who_may_call:
  assumes "BuildAPI dg modules = Some (Inr es)"
  shows "sorted (map (\<lambda>e. (es_Path e, es_Method e)) es) \<and>
    mset (map (\<lambda>e. (es_Path e, es_Method e)) es) = mset (map (\<lambda>(path, meth, c). (path, meth)) (served modules)) \<and>
    (\<forall>e \<in> set es. \<not> es_Untyped e \<longrightarrow>
       (\<exists>doc. (es_Path e, es_Method e, Documented doc) \<in> set (served modules) \<and>
          (\<forall>r. document_admits (es_Security e) r \<longleftrightarrow> (authorize (dc_Security doc) r :: unit response option) = None)))"
proof (intro conjI ballI impI)
  note rows = BuildAPI_rows [OF assms]
  from assms show "sorted (map (\<lambda>e. (es_Path e, es_Method e)) es)"
    by (auto simp: BuildAPI_def Let_def and_then_done sortEndpoints_def)
  have "image_mset (\<lambda>(path, meth, u, s). (path, meth)) (mset (map row_of es)) =
    image_mset (\<lambda>(path, meth, u, s). (path, meth)) (mset (map (\<lambda>(path, meth, c). (path, meth, \<not> is_documented c, declared_security c)) (served modules)))"
    using rows by simp
  then show "mset (map (\<lambda>e. (es_Path e, es_Method e)) es) = mset (map (\<lambda>(path, meth, c). (path, meth)) (served modules))"
    by (simp add: row_of_def image_mset.compositionality comp_def case_prod_unfold)
  fix e
  assume e: "e \<in> set es" "\<not> es_Untyped e"
  then have "row_of e \<in> set (map (\<lambda>(path, meth, c). (path, meth, \<not> is_documented c, declared_security c)) (served modules))"
    using mset_eq_setD [OF rows] by auto
  then obtain path meth c where c: "(path, meth, c) \<in> set (served modules)" "row_of e = (path, meth, \<not> is_documented c, declared_security c)"
    by auto
  with e(2) obtain doc where doc: "c = Documented doc" by (auto simp: row_of_def is_documented_def split: doc_controller.splits)
  with c have "(es_Path e, es_Method e, Documented doc) \<in> set (served modules)" "es_Security e = convertSecurity (dc_Security doc)"
    by (simp_all add: row_of_def declared_security_def)
  with document_admits_authorize show "\<exists>doc. (es_Path e, es_Method e, Documented doc) \<in> set (served modules) \<and>
      (\<forall>r. document_admits (es_Security e) r \<longleftrightarrow> (authorize (dc_Security doc) r :: unit response option) = None)"
    by metis
qed

section \<open>When the document comes out\<close>

text \<open>A description that is one and the same from some depth on.\<close>

definition settles :: "(nat \<Rightarrow> 'a option) \<Rightarrow> bool" where
  "settles x = (\<exists>r n. \<forall>m \<ge> n. x m = Some r)"

lemma settlesI: "\<forall>m \<ge> n. x m = Some r \<Longrightarrow> settles x"
  by (auto simp: settles_def)

lemma settles_const [simp]: "settles (\<lambda>n. Some r)"
  by (auto simp: settles_def)

lemma settles_and_then:
  assumes "settles x" "\<And>v. settles (\<lambda>n. k n v)"
  shows "settles (\<lambda>n. and_then (x n) (k n))"
proof -
  from assms(1) obtain r n where r: "\<forall>m \<ge> n. x m = Some r" by (auto simp: settles_def)
  show ?thesis
  proof (cases r)
    case (Inl e)
    with r have "\<forall>m \<ge> n. and_then (x m) (k m) = Some (Inl e)" by simp
    then show ?thesis by (rule settlesI)
  next
    case (Inr v)
    from assms(2) [of v] obtain r' n' where r': "\<forall>m \<ge> n'. k m v = Some r'" by (auto simp: settles_def)
    with r Inr have "\<forall>m \<ge> max n n'. and_then (x m) (k m) = Some r'" by simp
    then show ?thesis by (rule settlesI)
  qed
qed

lemma settles_each:
  assumes "\<And>x. x \<in> set xs \<Longrightarrow> settles (\<lambda>n. f n x)"
  shows "settles (\<lambda>n. each (f n) xs)"
  using assms by (induction xs) (auto intro!: settles_and_then)

lemma settles_example:
  assumes "acyclic (contains env)"
  shows "settles (\<lambda>n. ExampleFromType n lower fk env t rules opts)"
  using example_generation_returns [OF assms, of lower fk t rules opts] by (auto simp: settles_def)

lemma BodySchema_and_then:
  "BodySchema n lower fk env t rules opts docs =
     (case SchemaFromType env t of None \<Rightarrow> Some (Inr None)
      | Some s \<Rightarrow> and_then (ExampleFromType n lower fk env t rules opts)
          (\<lambda>x. Some (Inr (Some (foldl (\<lambda>s (path, meaning). setFieldMeaning path meaning s) (applyRules rules s) (concat docs), x)))))"
  by (cases "SchemaFromType env t") (simp_all add: BodySchema_def and_then_def Let_def)

lemma settles_body:
  assumes "acyclic (contains (dg_structs dg))"
  shows "settles (\<lambda>n. body_of (dg\<lparr>dg_fuel := n\<rparr>) opts t rules docs)"
  unfolding body_of_def BodySchema_and_then
  by (cases "SchemaFromType (dg_structs dg) t") (auto intro!: settles_and_then settles_example assms)

lemma settles_endpoint:
  assumes "acyclic (contains (dg_structs dg))"
  shows "settles (\<lambda>n. DescribeEndpoint (dg\<lparr>dg_fuel := n\<rparr>) meth path doc ids)"
proof -
  have errors: "settles (\<lambda>n. convertErrors (dg\<lparr>dg_fuel := n\<rparr>) opts errs)" for opts errs
    unfolding convertErrors_def Let_def
  proof (rule settles_each)
    fix e
    show "settles (\<lambda>n. case SchemaFromType (dg_structs (dg\<lparr>dg_fuel := n\<rparr>)) (er_BodyType e) of
        None \<Rightarrow> Some (Inr \<lparr>xd_Status = er_Status e, xd_Code = er_Code e, xd_Condition = er_Condition e, xd_CallerAction = er_CallerAction e, xd_Body = None\<rparr>)
      | Some body \<Rightarrow> and_then (ExampleFromType (dg_fuel (dg\<lparr>dg_fuel := n\<rparr>)) (dg_lower (dg\<lparr>dg_fuel := n\<rparr>)) (dg_faker (dg\<lparr>dg_fuel := n\<rparr>))
            (dg_structs (dg\<lparr>dg_fuel := n\<rparr>)) (er_BodyType e) [] opts)
          (\<lambda>ex. Some (Inr (\<lparr>xd_Status = er_Status e, xd_Code = er_Code e, xd_Condition = er_Condition e, xd_CallerAction = er_CallerAction e, xd_Body = None\<rparr>
            \<lparr>xd_Body := Some (body, errorExample (er_Code e) ex)\<rparr>))))"
      by (cases "SchemaFromType (dg_structs dg) (er_BodyType e)") (auto intro!: settles_and_then settles_example assms)
  qed
  have responses: "settles (\<lambda>n. convertResponses (dg\<lparr>dg_fuel := n\<rparr>) opts rs)" for opts rs
    unfolding convertResponses_def by (intro settles_each settles_and_then settles_body assms settles_const)
  have lower: "dg_lower (dg\<lparr>dg_fuel := n\<rparr>) = dg_lower dg" for n by simp
  show ?thesis unfolding DescribeEndpoint_def Let_def lower
    by (intro settles_and_then settles_body assms responses errors settles_const)
qed

text \<open>
  C34. When no type contains itself, the document of the whole application comes out: building it
  returns, with a result that no longer depends on how deep the recursion is allowed to go.
\<close>

theorem document_comes_out:
  assumes "acyclic (contains (dg_structs dg))"
  shows "\<exists>r n. \<forall>m \<ge> n. BuildAPI (dg\<lparr>dg_fuel := m\<rparr>) modules = Some r"
proof -
  have route: "settles (\<lambda>n. case c of Documented doc \<Rightarrow> DescribeEndpoint (dg\<lparr>dg_fuel := n\<rparr>) meth path doc ids
      | _ \<Rightarrow> Some (Inr (undocumented_spec meth path)))" for meth path ids and c :: "'b doc_controller"
    by (cases c) (simp_all add: settles_endpoint [OF assms])
  have "settles (\<lambda>n. DescribeModule (dg\<lparr>dg_fuel := n\<rparr>) m ids)" for m :: "'b doc_module" and ids
    unfolding DescribeModule_def by (rule settles_each) (auto simp: route)
  then have "settles (\<lambda>n. BuildAPI (dg\<lparr>dg_fuel := n\<rparr>) modules)"
    unfolding BuildAPI_def Let_def by (intro settles_and_then settles_each) simp_all
  then show ?thesis by (simp add: settles_def)
qed

section \<open>An application to document\<close>

definition sample_structs :: structs where
  "sample_structs =
     [(''dto.User'', \<lparr>st_Name = ''User'', st_String = ''dto.User'', st_PkgPath = ''app/dto'', st_fields =
        [\<lparr>sf_Name = ''ID'', sf_Exported = True, sf_Tag = ''id'', sf_Type = GoScalar KString\<rparr>,
         \<lparr>sf_Name = ''Home'', sf_Exported = True, sf_Tag = ''home,omitempty'', sf_Type = GoPtr (GoStruct ''dto.Address'')\<rparr>]\<rparr>),
      (''dto.Address'', \<lparr>st_Name = ''Address'', st_String = ''dto.Address'', st_PkgPath = ''app/dto'', st_fields =
        [\<lparr>sf_Name = ''Floor'', sf_Exported = True, sf_Tag = ''floor'', sf_Type = GoScalar KInteger\<rparr>]\<rparr>)]"

definition sample_faker :: "nat faker" where
  "sample_faker = \<lparr>fk_Email = (\<lambda>g. (''a@b.c'', g + 1)), fk_Name = (\<lambda>g. (''Ann'', g + 1)), fk_URL = (\<lambda>g. (''u'', g + 1)),
     fk_Word = (\<lambda>g. (''word'', g + 1)), fk_Evenly = (\<lambda>g. (even g, g + 1)), fk_IntBt = (\<lambda>lo hi g. (lo, g + 1)),
     fk_Float64Bt = (\<lambda>lo hi g. (lo, g + 1)), fk_Seed = 1\<rparr>"

definition sample_documenter :: "nat documenter" where
  "sample_documenter = \<lparr>dg_fuel = 4, dg_lower = (\<lambda>s. s), dg_faker = sample_faker, dg_structs = sample_structs\<rparr>"

definition sample_doc :: "string \<Rightarrow> gotype option \<Rightarrow> unit security option \<Rightarrow> unit endpoint_doc" where
  "sample_doc idPrefix res security = \<lparr>dc_Summary = [], dc_Description = [], dc_FieldDocs = [], dc_RequestFieldDocs = [], dc_ResponseFieldDocs = [],
     dc_IDPrefix = idPrefix, dc_Task = [], dc_AlsoRead = [], dc_Related = [], dc_ReqType = None, dc_ResType = res, dc_BodyRules = [],
     dc_PathRules = [], dc_QueryRules = [], dc_Success = 200, dc_ResponseHeaders = [], dc_Produces = [], dc_Responses = [], dc_Errors = [],
     dc_Security = security, dc_Behavior = \<lparr>bs_SideEffects = [], bs_Idempotent = Some True, bs_Preconditions = []\<rparr>\<rparr>"

definition sample_modules :: "unit doc_module list" where
  "sample_modules =
     [\<lparr>dm_Path = ''/users/{id}'', dm_Get = Documented (sample_doc ''usr'' (Some (GoStruct ''dto.User'')) None), dm_Post = Unserved, dm_Put = Unserved,
        dm_Patch = Unserved, dm_Delete = Unserved\<rparr>,
      \<lparr>dm_Path = ''/health'', dm_Get = Documented (sample_doc [] None (Some (empty_security\<lparr>Public := True\<rparr>))), dm_Post = Undocumented, dm_Put = Unserved,
        dm_Patch = Unserved, dm_Delete = Unserved\<rparr>]"

lemma sample_contains: "contains sample_structs \<subseteq> {(''dto.Address'', ''dto.User'')}"
  by (auto simp: contains_def sample_structs_def split: if_splits)

lemma sample_acyclic: "acyclic (contains sample_structs)"
  by (rule acyclic_subset [OF _ sample_contains]) (simp add: acyclic_insert wf_acyclic)

definition sample_document :: "endpoint_spec list" where
  "sample_document = (case BuildAPI sample_documenter sample_modules of Some (Inr es) \<Rightarrow> es | _ \<Rightarrow> [])"

lemma sample_built: "BuildAPI sample_documenter sample_modules = Some (Inr sample_document)"
  by code_simp

lemma sample_routes: "map endpoint_key sample_document = [(''/health'', ''GET''), (''/health'', ''POST''), (''/users/{id}'', ''GET'')]"
  by code_simp

lemma sample_agreeing: "agreeing (concat (map (declared_prefixes (dg_lower sample_documenter)) sample_modules))"
  by code_simp

theorem document_order_independent_witness: "BuildAPI sample_documenter (rev sample_modules) = Some (Inr sample_document)"
  by (rule document_order_independent [OF sample_built mset_rev _ sample_agreeing]) (simp add: sample_routes)

theorem document_says_who_may_call_witness:
  "mset (map (\<lambda>e. (es_Path e, es_Method e)) sample_document) = {#(''/health'', ''GET''), (''/health'', ''POST''), (''/users/{id}'', ''GET'')#} \<and>
   length sample_document = 3"
proof -
  note all = document_says_who_may_call [OF sample_built, THEN conjunct2, THEN conjunct1]
  have "mset (map (\<lambda>(path, meth, c). (path, meth)) (served sample_modules)) = {#(''/health'', ''GET''), (''/health'', ''POST''), (''/users/{id}'', ''GET'')#}"
    by (simp add: served_def sample_modules_def doc_routes_def mounted_def)
  moreover have "length (map endpoint_key sample_document) = 3" unfolding sample_routes by simp
  ultimately show ?thesis unfolding all by simp
qed

theorem document_comes_out_witness: "\<exists>r n. \<forall>m \<ge> n. BuildAPI (sample_documenter\<lparr>dg_fuel := m\<rparr>) sample_modules = Some r"
  by (rule document_comes_out) (simp add: sample_documenter_def sample_acyclic)

end
