(* ===== verification/MsgDoc.thy ===== *)
theory MsgDoc
  imports ApiDoc Broker
begin

text \<open>
  The neutral model of the messaging surface (\<open>internal/plamo/msgdoc\<close>): what is documented of broker
  subscriptions and publications and of WebSocket channels, and in which order.

  Names the broker library gives its kinds, the media type, \<open>reflect\<close>'s type names and \<open>%q\<close> are
  parameters (\<open>msg_documenter\<close>). A channel's declaration is the one \<open>Wskit\<close> runs, with its prose.
\<close>

section \<open>What is documented\<close>

definition ActionSend :: string where "ActionSend = ''send''"
definition ActionReceive :: string where "ActionReceive = ''receive''"
definition ProtocolWebSocket :: string where "ProtocolWebSocket = ''websocket''"

record channel_spec =
  cs_Address :: string
  cs_Title :: string
  cs_Parameters :: "string list"
  cs_ServerNames :: "string list"

record message_spec =
  mp_Name :: string
  mp_Summary :: string
  mp_ContentType :: string
  mp_Payload :: documented_body
  mp_When :: string

record delivery_doc =
  dl_Guarantee :: string
  dl_Notes :: "string list"
  dl_Resolved :: "(string \<times> string) list"

record behavior_doc =
  bd_SideEffects :: "string list"
  bd_Idempotent :: "bool option"
  bd_Preconditions :: "string list"
  bd_Ordering :: string
  bd_Delivery :: "delivery_doc option"

record operation_spec =
  op_Action :: string
  op_Protocol :: string
  op_Channel :: "channel_spec option"
  op_Messages :: "message_spec list"
  op_Behavior :: "behavior_doc option"
  op_Summary :: string
  op_Description :: string
  op_Task :: string
  op_AlsoRead :: "string list"
  op_Related :: "string list"
  op_Untyped :: bool

section \<open>Delivery settings\<close>

definition DeliveryErrorStrategy :: string where "DeliveryErrorStrategy = ''error_strategy''"
definition DeliveryMaxRetries :: string where "DeliveryMaxRetries = ''max_retries''"
definition DeliveryAutoAck :: string where "DeliveryAutoAck = ''auto_ack''"
definition DeliveryQueueGroup :: string where "DeliveryQueueGroup = ''queue_group''"
definition DeliveryDurable :: string where "DeliveryDurable = ''durable''"
definition DeliveryAutoDelete :: string where "DeliveryAutoDelete = ''auto_delete''"
definition DeliveryExclusive :: string where "DeliveryExclusive = ''exclusive''"
definition DeliveryConsumerGroup :: string where "DeliveryConsumerGroup = ''consumer_group''"
definition DeliveryAutoCommit :: string where "DeliveryAutoCommit = ''auto_commit''"
definition DeliveryStartOffset :: string where "DeliveryStartOffset = ''start_offset''"
definition DeliveryDeliveryMode :: string where "DeliveryDeliveryMode = ''delivery_mode''"
definition DeliveryPriority :: string where "DeliveryPriority = ''priority''"
definition DeliveryExpiration :: string where "DeliveryExpiration = ''expiration''"

lemmas delivery_keys = DeliveryErrorStrategy_def DeliveryMaxRetries_def DeliveryAutoAck_def DeliveryQueueGroup_def DeliveryDurable_def
  DeliveryAutoDelete_def DeliveryExclusive_def DeliveryConsumerGroup_def DeliveryAutoCommit_def DeliveryStartOffset_def

text \<open>The broker library's settings, as far as they are read; its enumerations may grow.\<close>

datatype error_strategy = ErrorStrategyRequeue | ErrorStrategyDiscard | ErrorStrategyDeadLetter | ErrorStrategyRetry | OtherStrategy int
datatype offset_position = OffsetBeginning | OffsetEnd | OffsetStored | OtherOffset int

record subscribe_config =
  sc_ErrorStrategy :: error_strategy
  sc_AutoAck :: bool
  sc_MaxRetries :: int
  sc_ConsumerGroup :: string
  sc_AutoCommit :: bool
  sc_StartOffset :: offset_position
  sc_Durable :: bool
  sc_AutoDelete :: bool
  sc_Exclusive :: bool
  sc_QueueGroup :: string

record publish_config =
  pc_DeliveryMode :: "8 word"
  pc_Priority :: "8 word"
  pc_Expiration :: string

definition FormatBool :: "bool \<Rightarrow> string" where
  "FormatBool b = (if b then ''true'' else ''false'')"

fun errorStrategyName :: "error_strategy \<Rightarrow> string" where
  "errorStrategyName ErrorStrategyRequeue = ''requeue''"
| "errorStrategyName ErrorStrategyDiscard = ''discard''"
| "errorStrategyName ErrorStrategyDeadLetter = ''dead-letter''"
| "errorStrategyName ErrorStrategyRetry = ''retry''"
| "errorStrategyName (OtherStrategy n) = ''unknown''"

fun offsetName :: "offset_position \<Rightarrow> string" where
  "offsetName OffsetBeginning = ''beginning''"
| "offsetName OffsetEnd = ''end''"
| "offsetName OffsetStored = ''stored''"
| "offsetName (OtherOffset n) = ''unknown''"

definition deliveryModePersistent :: "8 word" where "deliveryModePersistent = 2"

definition deliveryModeName :: "8 word \<Rightarrow> string" where
  "deliveryModeName mode = (if mode = deliveryModePersistent then ''persistent'' else ''transient'')"

text \<open>The options are functions on the settings, applied to the library's defaults.\<close>

definition ResolveSubscribeConfig :: "subscribe_config \<Rightarrow> (subscribe_config \<Rightarrow> subscribe_config) list \<Rightarrow> subscribe_config" where
  "ResolveSubscribeConfig defaults opts = foldl (\<lambda>cfg opt. opt cfg) defaults opts"

definition ResolvePublishConfig :: "publish_config \<Rightarrow> (publish_config \<Rightarrow> publish_config) list \<Rightarrow> publish_config" where
  "ResolvePublishConfig defaults opts = foldl (\<lambda>cfg opt. opt cfg) defaults opts"

text \<open>\<open>streams\<close> are the library's names of the brokers whose subscriptions are streams.\<close>

definition resolvedSubscribe :: "string list \<Rightarrow> subscribe_config option \<Rightarrow> string \<Rightarrow> (string \<times> string) list" where
  "resolvedSubscribe streams cfg protocol =
     (case cfg of
        None \<Rightarrow> []
      | Some c \<Rightarrow>
          let resolved0 = [(DeliveryErrorStrategy, errorStrategyName (sc_ErrorStrategy c)), (DeliveryAutoAck, FormatBool (sc_AutoAck c))];
              resolved = (if sc_ErrorStrategy c = ErrorStrategyRetry then put DeliveryMaxRetries (Itoa (sc_MaxRetries c)) resolved0 else resolved0)
          in if protocol \<in> set streams then
               put DeliveryStartOffset (offsetName (sc_StartOffset c))
                 (put DeliveryAutoCommit (FormatBool (sc_AutoCommit c)) (put DeliveryConsumerGroup (sc_ConsumerGroup c) resolved))
             else
               let queue = put DeliveryExclusive (FormatBool (sc_Exclusive c))
                 (put DeliveryAutoDelete (FormatBool (sc_AutoDelete c)) (put DeliveryDurable (FormatBool (sc_Durable c)) resolved))
               in if sc_QueueGroup c \<noteq> [] then put DeliveryQueueGroup (sc_QueueGroup c) queue else queue)"

definition resolvedPublish :: "string list \<Rightarrow> publish_config option \<Rightarrow> string \<Rightarrow> (string \<times> string) list" where
  "resolvedPublish streams cfg protocol =
     (case cfg of
        None \<Rightarrow> []
      | Some c \<Rightarrow>
          if protocol \<in> set streams then []
          else
            let resolved = [(DeliveryDeliveryMode, deliveryModeName (pc_DeliveryMode c)), (DeliveryPriority, Itoa (uint (pc_Priority c)))]
            in if pc_Expiration c \<noteq> [] then put DeliveryExpiration (pc_Expiration c) resolved else resolved)"

section \<open>What is declared\<close>

record mb_behavior =
  mb_SideEffects :: "string list"
  mb_Idempotent :: "bool option"
  mb_Preconditions :: "string list"
  mb_Guarantee :: string
  mb_Notes :: "string list"
  mb_Ordering :: string

record 'c broker_doc =
  bk_Target :: string
  bk_Summary :: string
  bk_Description :: string
  bk_FieldDocs :: "(string \<times> string) list"
  bk_Task :: string
  bk_AlsoRead :: "string list"
  bk_Related :: "string list"
  bk_MsgType :: "gotype option"
  bk_BodyRules :: "field_rules list"
  bk_Behavior :: mb_behavior
  bk_Config :: "'c option"

text \<open>\<open>SubscriptionDoc\<close> and \<open>PublicationDoc\<close> differ in the settings they resolve.\<close>

type_synonym subscription_doc = "subscribe_config broker_doc"
type_synonym publication_doc = "publish_config broker_doc"

record ws_behavior =
  wb_SideEffects :: "string list"
  wb_Idempotent :: "bool option"
  wb_Preconditions :: "string list"
  wb_Ordering :: string

record message_opts =
  mo_Summary :: string
  mo_Description :: string
  mo_FieldDocs :: "(string \<times> string) list"
  mo_BodyRules :: "field_rules list"
  mo_When :: string

record message_doc =
  md_Name :: string
  md_Summary :: string
  md_Description :: string
  md_FieldDocs :: "(string \<times> string) list"
  md_MsgType :: "gotype option"
  md_BodyRules :: "field_rules list"
  md_When :: string
  md_Security :: "message_security option"

record module_doc =
  mu_Path :: string
  mu_Summary :: string
  mu_Description :: string
  mu_Task :: string
  mu_AlsoRead :: "string list"
  mu_Related :: "string list"
  mu_Security :: "ws_security option"
  mu_Behavior :: ws_behavior
  mu_Receive :: "message_doc list"
  mu_Send :: "message_doc list"
  mu_Untyped :: bool

record 'g msg_documenter =
  mg_dg :: "'g documenter"
  mg_MediaTypeJSON :: string
  mg_streams :: "string list"                  \<comment> \<open>the names of Kafka, Redpanda and Kinesis\<close>
  mg_TypeName :: "gotype \<Rightarrow> string"
  mg_quote :: "string \<Rightarrow> string"

section \<open>WebSocket declarations\<close>

definition EnvelopeTypeField :: string where "EnvelopeTypeField = ''type''"
definition EnvelopePayloadField :: string where "EnvelopePayloadField = ''data''"

definition whenOf :: "(string \<Rightarrow> string) \<Rightarrow> string \<Rightarrow> string \<Rightarrow> string" where
  "whenOf quote name declared = (if declared \<noteq> [] then declared else EnvelopeTypeField @ '' is '' @ quote name)"

text \<open>A receiver with the payload type it was made for and its prose.\<close>

record 'w declared_receiver =
  dr_receiver :: "'w receiver"
  dr_type :: gotype
  dr_opts :: message_opts

record declared_sender =
  dn_name :: string
  dn_type :: gotype
  dn_opts :: message_opts

definition receiver_MessageDoc :: "(string \<Rightarrow> string) \<Rightarrow> 'w declared_receiver \<Rightarrow> message_doc" where
  "receiver_MessageDoc quote r = \<lparr>md_Name = rv_name (dr_receiver r), md_Summary = mo_Summary (dr_opts r),
     md_Description = mo_Description (dr_opts r), md_FieldDocs = mo_FieldDocs (dr_opts r), md_MsgType = Some (dr_type r),
     md_BodyRules = mo_BodyRules (dr_opts r), md_When = whenOf quote (rv_name (dr_receiver r)) (mo_When (dr_opts r)),
     md_Security = rv_Security (dr_receiver r)\<rparr>"

definition sender_MessageDoc :: "(string \<Rightarrow> string) \<Rightarrow> declared_sender \<Rightarrow> message_doc" where
  "sender_MessageDoc quote s = \<lparr>md_Name = dn_name s, md_Summary = mo_Summary (dn_opts s),
     md_Description = mo_Description (dn_opts s), md_FieldDocs = mo_FieldDocs (dn_opts s), md_MsgType = Some (dn_type s),
     md_BodyRules = mo_BodyRules (dn_opts s), md_When = whenOf quote (dn_name s) (mo_When (dn_opts s)), md_Security = None\<rparr>"

record ('s, 'w, 'b) declared_channel =
  cd_Path :: string
  cd_Summary :: string
  cd_Description :: string
  cd_Task :: string
  cd_AlsoRead :: "string list"
  cd_Related :: "string list"
  cd_Receive :: "'w declared_receiver list"
  cd_Send :: "declared_sender list"
  cd_Security :: "ws_security option"
  cd_Behavior :: ws_behavior
  cd_Configure :: "(('s, 'w, 'b) runtime_module \<Rightarrow> ('s, 'w, 'b) runtime_module) option"

definition running :: "('s, 'w, 'b) declared_channel \<Rightarrow> ('s, 'w, 'b) channel" where
  "running c = \<lparr>ch_Path = cd_Path c, ch_Receive = map dr_receiver (cd_Receive c), ch_Security = cd_Security c, ch_Configure = cd_Configure c\<rparr>"

definition channelDoc :: "(string \<Rightarrow> string) \<Rightarrow> ('s, 'w, 'b) declared_channel \<Rightarrow> module_doc" where
  "channelDoc quote c = \<lparr>mu_Path = cd_Path c, mu_Summary = cd_Summary c, mu_Description = cd_Description c, mu_Task = cd_Task c,
     mu_AlsoRead = cd_AlsoRead c, mu_Related = cd_Related c, mu_Security = cd_Security c, mu_Behavior = cd_Behavior c,
     mu_Receive = map (receiver_MessageDoc quote) (cd_Receive c), mu_Send = map (sender_MessageDoc quote) (cd_Send c), mu_Untyped = False\<rparr>"

definition rawDoc :: "string \<Rightarrow> ws_security option \<Rightarrow> module_doc" where
  "rawDoc path security = \<lparr>mu_Path = path, mu_Summary = [], mu_Description = [], mu_Task = [], mu_AlsoRead = [], mu_Related = [],
     mu_Security = security, mu_Behavior = \<lparr>wb_SideEffects = [], wb_Idempotent = None, wb_Preconditions = [], wb_Ordering = []\<rparr>,
     mu_Receive = [], mu_Send = [], mu_Untyped = True\<rparr>"

section \<open>Descriptions\<close>

definition is_separator :: "char \<Rightarrow> bool" where
  "is_separator c = (c \<in> {CHR ''/'', CHR ''.'', CHR ''_'', CHR ''-''})"

fun FieldsFunc :: "(char \<Rightarrow> bool) \<Rightarrow> string \<Rightarrow> string \<Rightarrow> string list" where
  "FieldsFunc f cur [] = (if cur = [] then [] else [rev cur])"
| "FieldsFunc f cur (c # cs) =
     (if f c then (if cur = [] then FieldsFunc f [] cs else rev cur # FieldsFunc f [] cs) else FieldsFunc f (c # cur) cs)"

definition TrimPrefix :: "string \<Rightarrow> string \<Rightarrow> string" where
  "TrimPrefix s x = (if HasPrefix s x then drop (length x) s else s)"

fun first_word :: "(string \<Rightarrow> string) \<Rightarrow> string list \<Rightarrow> string" where
  "first_word lower [] = []"
| "first_word lower (seg # segs) =
     (if seg = [] \<or> HasPrefix seg ''{'' \<or> seg = ''ws'' then first_word lower segs else singular lower seg)"

definition msg_resourceOf :: "(string \<Rightarrow> string) \<Rightarrow> string \<Rightarrow> string" where
  "msg_resourceOf lower address = first_word lower (FieldsFunc is_separator [] (TrimPrefix address ''/''))"

definition pathParameters :: "string \<Rightarrow> string list" where
  "pathParameters path =
     map (\<lambda>seg. take (length seg - 2) (drop 1 seg))
       (filter (\<lambda>seg. 2 \<le> length seg \<and> HasPrefix seg ''{'' \<and> HasSuffix seg ''}'') (split_at CHR ''/'' path))"

definition messageName :: "'g msg_documenter \<Rightarrow> gotype option \<Rightarrow> string \<Rightarrow> string" where
  "messageName mg t address =
     (case t of None \<Rightarrow> address | Some t' \<Rightarrow> if mg_TypeName mg t' \<noteq> [] then mg_TypeName mg t' else address)"

definition payloadSchema ::
  "'g msg_documenter \<Rightarrow> gotype option \<Rightarrow> field_rules list \<Rightarrow> (string \<times> string) list \<Rightarrow> string \<Rightarrow> documented_body result option" where
  "payloadSchema mg msgType rules fieldDocs address =
     body_of (mg_dg mg) \<lparr>eo_Resource = msg_resourceOf (dg_lower (mg_dg mg)) address, eo_IDPrefixes = (\<lambda>_. None)\<rparr> msgType rules [fieldDocs]"

definition mbBehavior :: "mb_behavior \<Rightarrow> (string \<times> string) list \<Rightarrow> behavior_doc" where
  "mbBehavior d resolved = \<lparr>bd_SideEffects = mb_SideEffects d, bd_Idempotent = mb_Idempotent d, bd_Preconditions = mb_Preconditions d,
     bd_Ordering = mb_Ordering d, bd_Delivery = Some \<lparr>dl_Guarantee = mb_Guarantee d, dl_Notes = mb_Notes d, dl_Resolved = resolved\<rparr>\<rparr>"

definition subscribeBehavior :: "string list \<Rightarrow> mb_behavior \<Rightarrow> subscribe_config option \<Rightarrow> string \<Rightarrow> behavior_doc" where
  "subscribeBehavior streams d cfg protocol = mbBehavior d (resolvedSubscribe streams cfg protocol)"

definition publishBehavior :: "string list \<Rightarrow> mb_behavior \<Rightarrow> publish_config option \<Rightarrow> string \<Rightarrow> behavior_doc" where
  "publishBehavior streams d cfg protocol = mbBehavior d (resolvedPublish streams cfg protocol)"

definition wsBehavior :: "ws_behavior \<Rightarrow> behavior_doc" where
  "wsBehavior d = \<lparr>bd_SideEffects = wb_SideEffects d, bd_Idempotent = wb_Idempotent d, bd_Preconditions = wb_Preconditions d,
     bd_Ordering = wb_Ordering d, bd_Delivery = None\<rparr>"

definition describe_broker ::
  "'g msg_documenter \<Rightarrow> string \<Rightarrow> behavior_doc \<Rightarrow> 'c broker_doc \<Rightarrow> string \<Rightarrow> string list \<Rightarrow> operation_spec result option" where
  "describe_broker mg action behavior doc protocol serverNames =
     and_then (payloadSchema mg (bk_MsgType doc) (bk_BodyRules doc) (bk_FieldDocs doc) (bk_Target doc)) (\<lambda>payload.
       Some (Inr \<lparr>op_Action = action, op_Protocol = protocol,
         op_Channel = Some \<lparr>cs_Address = bk_Target doc, cs_Title = [], cs_Parameters = [], cs_ServerNames = serverNames\<rparr>,
         op_Messages = [\<lparr>mp_Name = messageName mg (bk_MsgType doc) (bk_Target doc), mp_Summary = [],
           mp_ContentType = mg_MediaTypeJSON mg, mp_Payload = payload, mp_When = []\<rparr>],
         op_Behavior = Some behavior, op_Summary = bk_Summary doc, op_Description = bk_Description doc, op_Task = bk_Task doc,
         op_AlsoRead = bk_AlsoRead doc, op_Related = bk_Related doc, op_Untyped = False\<rparr>))"

definition DescribeSubscription :: "'g msg_documenter \<Rightarrow> subscription_doc \<Rightarrow> string \<Rightarrow> string list \<Rightarrow> operation_spec result option" where
  "DescribeSubscription mg doc protocol serverNames =
     describe_broker mg ActionReceive (subscribeBehavior (mg_streams mg) (bk_Behavior doc) (bk_Config doc) protocol) doc protocol serverNames"

definition DescribePublication :: "'g msg_documenter \<Rightarrow> publication_doc \<Rightarrow> string \<Rightarrow> string list \<Rightarrow> operation_spec result option" where
  "DescribePublication mg doc protocol serverNames =
     describe_broker mg ActionSend (publishBehavior (mg_streams mg) (bk_Behavior doc) (bk_Config doc) protocol) doc protocol serverNames"

definition channelOf :: "module_doc \<Rightarrow> string list \<Rightarrow> channel_spec" where
  "channelOf doc serverNames = \<lparr>cs_Address = mu_Path doc, cs_Title = mu_Summary doc, cs_Parameters = pathParameters (mu_Path doc), cs_ServerNames = serverNames\<rparr>"

definition channelMessages :: "'g msg_documenter \<Rightarrow> message_doc list \<Rightarrow> string \<Rightarrow> message_spec list result option" where
  "channelMessages mg docs path =
     each (\<lambda>d. and_then (payloadSchema mg (md_MsgType d) (md_BodyRules d) (md_FieldDocs d) path) (\<lambda>payload.
       Some (Inr \<lparr>mp_Name = md_Name d, mp_Summary = md_Summary d, mp_ContentType = mg_MediaTypeJSON mg, mp_Payload = payload, mp_When = md_When d\<rparr>))) docs"

definition wsOperation :: "module_doc \<Rightarrow> string \<Rightarrow> message_spec list \<Rightarrow> string list \<Rightarrow> operation_spec" where
  "wsOperation doc action messages serverNames = \<lparr>op_Action = action, op_Protocol = ProtocolWebSocket,
     op_Channel = Some (channelOf doc serverNames), op_Messages = messages, op_Behavior = Some (wsBehavior (mu_Behavior doc)),
     op_Summary = mu_Summary doc, op_Description = mu_Description doc, op_Task = mu_Task doc, op_AlsoRead = mu_AlsoRead doc,
     op_Related = mu_Related doc, op_Untyped = False\<rparr>"

definition DescribeChannel :: "'g msg_documenter \<Rightarrow> module_doc \<Rightarrow> string list \<Rightarrow> operation_spec list result option" where
  "DescribeChannel mg doc serverNames =
     (if mu_Untyped doc then
        Some (Inr [\<lparr>op_Action = ActionReceive, op_Protocol = ProtocolWebSocket, op_Channel = Some (channelOf doc serverNames), op_Messages = [],
          op_Behavior = None, op_Summary = mu_Summary doc, op_Description = mu_Description doc, op_Task = [], op_AlsoRead = [], op_Related = [],
          op_Untyped = True\<rparr>])
      else
        and_then (channelMessages mg (mu_Receive doc) (mu_Path doc)) (\<lambda>received.
        and_then (channelMessages mg (mu_Send doc) (mu_Path doc)) (\<lambda>sent.
          Some (Inr ((if received \<noteq> [] then [wsOperation doc ActionReceive received serverNames] else []) @
                     (if sent \<noteq> [] then [wsOperation doc ActionSend sent serverNames] else []))))))"

section \<open>The whole surface\<close>

definition channelAddress :: "operation_spec \<Rightarrow> string" where
  "channelAddress op = (case op_Channel op of None \<Rightarrow> [] | Some c \<Rightarrow> cs_Address c)"

definition SortOperations :: "operation_spec list \<Rightarrow> operation_spec list" where
  "SortOperations = sort_key (\<lambda>op. (channelAddress op, op_Action op, op_Protocol op))"

definition BuildOperations :: "operation_spec list \<Rightarrow> operation_spec list" where
  "BuildOperations ops = SortOperations ops"

text \<open>What \<open>BuildMessaging\<close> does with the declarations it resolved (\<open>describe/messaging.go\<close>).\<close>

definition wsServerName :: string where "wsServerName = ''websocket''"
definition brokerServerName :: string where "brokerServerName = ''broker''"

definition describe_messaging ::
  "'g msg_documenter \<Rightarrow> string option \<Rightarrow> subscription_doc list \<Rightarrow> publication_doc list \<Rightarrow> module_doc list \<Rightarrow> operation_spec list result option" where
  "describe_messaging mg broker subs pubs channels =
     (let protocol = (case broker of None \<Rightarrow> [] | Some t \<Rightarrow> t);
          servers = (case broker of None \<Rightarrow> [] | Some t \<Rightarrow> [brokerServerName])
      in and_then (each (\<lambda>d. DescribeSubscription mg d protocol servers) subs) (\<lambda>received.
         and_then (each (\<lambda>d. DescribePublication mg d protocol servers) pubs) (\<lambda>sent.
         and_then (each (\<lambda>d. DescribeChannel mg d [wsServerName]) channels) (\<lambda>ops.
           Some (Inr (BuildOperations (received @ sent @ concat ops)))))))"

section \<open>A message is documented exactly when it is handled\<close>

lemma channelMessages_names:
  assumes "channelMessages mg docs path = Some (Inr msgs)"
  shows "map mp_Name msgs = map md_Name docs"
proof -
  have "list_all2 (\<lambda>d m. mp_Name m = md_Name d) docs msgs"
    using assms unfolding channelMessages_def each_done by (rule list_all2_mono) (auto simp: and_then_done)
  then show ?thesis by (simp add: all2_map)
qed

definition messages_to :: "string \<Rightarrow> operation_spec list \<Rightarrow> string list" where
  "messages_to action ops = concat (map (\<lambda>op. if op_Action op = action then map mp_Name (op_Messages op) else []) ops)"

lemma DescribeChannel_messages:
  assumes "DescribeChannel mg (channelDoc quote c) servers = Some (Inr ops)"
  shows "messages_to ActionReceive ops = map (rv_name \<circ> dr_receiver) (cd_Receive c)"
    and "messages_to ActionSend ops = map dn_name (cd_Send c)"
proof -
  from assms obtain received sent where m:
    "channelMessages mg (map (receiver_MessageDoc quote) (cd_Receive c)) (cd_Path c) = Some (Inr received)"
    "channelMessages mg (map (sender_MessageDoc quote) (cd_Send c)) (cd_Path c) = Some (Inr sent)"
    "ops = (if received \<noteq> [] then [wsOperation (channelDoc quote c) ActionReceive received servers] else []) @
       (if sent \<noteq> [] then [wsOperation (channelDoc quote c) ActionSend sent servers] else [])"
    by (auto simp: DescribeChannel_def channelDoc_def and_then_done)
  have "map mp_Name received = map (rv_name \<circ> dr_receiver) (cd_Receive c)" "map mp_Name sent = map dn_name (cd_Send c)"
    using channelMessages_names [OF m(1)] channelMessages_names [OF m(2)] by (simp_all add: receiver_MessageDoc_def sender_MessageDoc_def comp_def)
  moreover have "messages_to ActionReceive ops = map mp_Name received" "messages_to ActionSend ops = map mp_Name sent"
    unfolding m(3) by (simp_all add: messages_to_def wsOperation_def ActionReceive_def ActionSend_def)
  ultimately show "messages_to ActionReceive ops = map (rv_name \<circ> dr_receiver) (cd_Receive c)" "messages_to ActionSend ops = map dn_name (cd_Send c)"
    by simp_all
qed

text \<open>
  C31. What a channel documents is what it handles. A message a client sends under a documented name
  goes to a receiver declared under that name, which refuses the caller or handles the payload; one
  under any other name is answered \<open>unknown_message_type\<close>, with the connection open and nothing changed.
\<close>

theorem documented_messages_handled:
  assumes "DescribeChannel mg (channelDoc quote c) servers = Some (Inr ops)"
    and "parse (MessageData event) = Some envelope" "in_Type envelope \<noteq> []"
    and "on_message = rt_OnMessage (wm_runtime (NewModule parse preferred newDefault (running c)))"
  shows "(in_Type envelope \<in> set (messages_to ActionReceive ops) \<longrightarrow>
       (\<exists>r \<in> set (cd_Receive c). rv_name (dr_receiver r) = in_Type envelope \<and> on_message ctx event w =
          (case refusalOf ctx (rv_Security (dr_receiver r)) (in_Type envelope) of
             Some refusal \<Rightarrow> (None, [refusal], w)
           | None \<Rightarrow> (case rv_handle (dr_receiver r) ctx event (payloadOf envelope) w of (errs, e, w') \<Rightarrow>
               if errs \<noteq> [] then (None, [validationPayload preferred event (in_Type envelope) errs], w') else (e, [], w'))))) \<and>
    (in_Type envelope \<notin> set (messages_to ActionReceive ops) \<longrightarrow>
       on_message ctx event w = (None, [\<lparr>ep_Code = CodeUnknownMessageType, ep_Message = msgUnknownMessageType,
         ep_MessageType = in_Type envelope, ep_FieldErrors = []\<rparr>], w))"
proof -
  let ?rs = "map dr_receiver (cd_Receive c)"
  have names: "set (messages_to ActionReceive ops) = rv_name ` set ?rs"
    unfolding DescribeChannel_messages(1) [OF assms(1)] by auto
  have on: "on_message = dispatch parse preferred (receivers_map ?rs)"
    by (simp add: assms(4) NewModule_def running_def Let_def)
  show ?thesis
  proof (cases "find (\<lambda>r. rv_name r = in_Type envelope) (rev ?rs)")
    case None
    then have "in_Type envelope \<notin> rv_name ` set ?rs" by (auto simp: find_None_iff)
    moreover have "on_message ctx event w = (None, [\<lparr>ep_Code = CodeUnknownMessageType, ep_Message = msgUnknownMessageType,
         ep_MessageType = in_Type envelope, ep_FieldErrors = []\<rparr>], w)"
      using None assms(2,3) by (simp add: on dispatch_def receivers_map_of)
    ultimately show ?thesis using names by simp
  next
    case (Some rv)
    then obtain i where i: "i < length (rev ?rs)" "rv_name (rev ?rs ! i) = in_Type envelope" "rv = rev ?rs ! i"
      unfolding find_Some_iff by blast
    then have "rv \<in> set ?rs" using nth_mem [OF i(1)] by simp
    then obtain r where r: "r \<in> set (cd_Receive c)" "rv = dr_receiver r" by auto
    have "on_message ctx event w =
        (case refusalOf ctx (rv_Security rv) (in_Type envelope) of
             Some refusal \<Rightarrow> (None, [refusal], w)
           | None \<Rightarrow> (case rv_handle rv ctx event (payloadOf envelope) w of (errs, e, w') \<Rightarrow>
               if errs \<noteq> [] then (None, [validationPayload preferred event (in_Type envelope) errs], w') else (e, [], w')))"
      using Some assms(2,3) by (simp add: on dispatch_def receivers_map_of)
    moreover have "in_Type envelope \<in> set (messages_to ActionReceive ops)"
      using \<open>rv \<in> set ?rs\<close> i(2,3) unfolding names by (metis imageI)
    ultimately show ?thesis using r i(2,3) by auto
  qed
qed

section \<open>The order of the declarations\<close>

definition operation_key :: "operation_spec \<Rightarrow> string \<times> string \<times> string" where
  "operation_key op = (channelAddress op, op_Action op, op_Protocol op)"

lemma SortOperations_reordered:
  assumes "mset ops' = mset ops" "distinct (map operation_key (SortOperations ops))"
  shows "SortOperations ops' = SortOperations ops"
proof -
  have "operation_key = (\<lambda>op. (channelAddress op, op_Action op, op_Protocol op))" by (rule ext) (simp add: operation_key_def)
  then have key: "SortOperations = sort_key operation_key" by (intro ext) (simp add: SortOperations_def)
  have "inj_on operation_key (set ops')"
    using assms by (metis distinct_map key mset_eq_setD mset_sort)
  with assms(1) show ?thesis unfolding key by (intro sort_key_inj_key_eq) simp_all
qed

text \<open>
  The messaging document is the same in whatever order the container delivers the declarations, as
  long as no two operations share an address, a direction and a protocol.
\<close>

theorem messaging_order_independent:
  assumes "describe_messaging mg broker subs pubs channels = Some (Inr ops)" "distinct (map operation_key ops)"
    and "mset subs' = mset subs" "mset pubs' = mset pubs" "mset channels' = mset channels"
  shows "describe_messaging mg broker subs' pubs' channels' = Some (Inr ops)"
proof -
  let ?protocol = "case broker of None \<Rightarrow> [] | Some t \<Rightarrow> t" and ?servers = "case broker of None \<Rightarrow> [] | Some t \<Rightarrow> [brokerServerName]"
  from assms(1) obtain received sent chans where d:
    "each (\<lambda>d. DescribeSubscription mg d ?protocol ?servers) subs = Some (Inr received)"
    "each (\<lambda>d. DescribePublication mg d ?protocol ?servers) pubs = Some (Inr sent)"
    "each (\<lambda>d. DescribeChannel mg d [wsServerName]) channels = Some (Inr chans)"
    "ops = SortOperations (received @ sent @ concat chans)"
    by (auto simp: describe_messaging_def Let_def and_then_done BuildOperations_def)
  from each_reordered [OF d(1) assms(3)] each_reordered [OF d(2) assms(4)] each_reordered [OF d(3) assms(5)]
  obtain received' sent' chans' where d':
    "each (\<lambda>d. DescribeSubscription mg d ?protocol ?servers) subs' = Some (Inr received')" "mset received' = mset received"
    "each (\<lambda>d. DescribePublication mg d ?protocol ?servers) pubs' = Some (Inr sent')" "mset sent' = mset sent"
    "each (\<lambda>d. DescribeChannel mg d [wsServerName]) channels' = Some (Inr chans')" "mset chans' = mset chans"
    by blast
  have "SortOperations (received' @ sent' @ concat chans') = ops" unfolding d(4)
  proof (rule SortOperations_reordered)
    show "mset (received' @ sent' @ concat chans') = mset (received @ sent @ concat chans)"
      unfolding mset_append d'(2,4) mset_concat_reordered [OF d'(6)] ..
    show "distinct (map operation_key (SortOperations (received @ sent @ concat chans)))" using assms(2) d(4) by simp
  qed
  with d'(1,3,5) show ?thesis by (simp add: describe_messaging_def BuildOperations_def)
qed

section \<open>Settings that apply\<close>

lemma queue_settings:
  assumes "protocol \<notin> set streams"
  shows "set (map fst (resolvedSubscribe streams (Some c) protocol)) =
    {DeliveryErrorStrategy, DeliveryAutoAck, DeliveryDurable, DeliveryAutoDelete, DeliveryExclusive} \<union>
    (if sc_ErrorStrategy c = ErrorStrategyRetry then {DeliveryMaxRetries} else {}) \<union> (if sc_QueueGroup c \<noteq> [] then {DeliveryQueueGroup} else {})"
  using assms by (auto simp: resolvedSubscribe_def Let_def delivery_keys)

lemma stream_settings:
  assumes "protocol \<in> set streams"
  shows "set (map fst (resolvedSubscribe streams (Some c) protocol)) =
    {DeliveryErrorStrategy, DeliveryAutoAck, DeliveryConsumerGroup, DeliveryAutoCommit, DeliveryStartOffset} \<union>
    (if sc_ErrorStrategy c = ErrorStrategyRetry then {DeliveryMaxRetries} else {})"
  using assms by (auto simp: resolvedSubscribe_def Let_def delivery_keys)

section \<open>Applied\<close>

definition sample_msg_documenter :: "nat msg_documenter" where
  "sample_msg_documenter = \<lparr>mg_dg = sample_documenter, mg_MediaTypeJSON = ''application/json'', mg_streams = [''kafka''],
     mg_TypeName = (\<lambda>t. case t of GoStruct i \<Rightarrow> i | _ \<Rightarrow> []), mg_quote = (\<lambda>s. s)\<rparr>"

definition no_behavior :: ws_behavior where
  "no_behavior = \<lparr>wb_SideEffects = [], wb_Idempotent = None, wb_Preconditions = [], wb_Ordering = []\<rparr>"

definition echo_channel :: "(unit, nat, unit) declared_channel" where
  "echo_channel = \<lparr>cd_Path = ''/ws/user'', cd_Summary = [], cd_Description = [], cd_Task = [], cd_AlsoRead = [], cd_Related = [],
     cd_Receive = [\<lparr>dr_receiver = Receive ''user.echo'' None (\<lambda>data. Inr data) (\<lambda>ctx event msg n. (None, n + 1)), dr_type = GoScalar KString,
       dr_opts = \<lparr>mo_Summary = [], mo_Description = [], mo_FieldDocs = [], mo_BodyRules = [], mo_When = []\<rparr>\<rparr>],
     cd_Send = [], cd_Security = None, cd_Behavior = no_behavior, cd_Configure = None\<rparr>"

definition echo_operations :: "operation_spec list" where
  "echo_operations = (case DescribeChannel sample_msg_documenter (channelDoc (\<lambda>s. s) echo_channel) [wsServerName] of Some (Inr ops) \<Rightarrow> ops | _ \<Rightarrow> [])"

lemma echo_described:
  "DescribeChannel sample_msg_documenter (channelDoc (\<lambda>s. s) echo_channel) [wsServerName] = Some (Inr echo_operations)"
  by code_simp

theorem documented_messages_handled_witness:
  "\<forall>ctx. rt_OnMessage (wm_runtime (NewModule (\<lambda>s. Some \<lparr>in_Type = s, in_Data = []\<rparr>) (\<lambda>_. []) (\<lambda>path. \<lparr>rt_Path = path, rt_OnMessage = (\<lambda>ctx ev w. (None, [], w)), rt_HTTPMiddlewares = []\<rparr>) (running echo_channel)))
     ctx \<lparr>MessageData = ''user.echo'', Handshake = None\<rparr> 4 = (None, [], 5)"
  (is "\<forall>ctx. rt_OnMessage (wm_runtime (NewModule ?parse ?preferred ?new _)) _ ?ev _ = _")
proof
  fix ctx
  have names: "messages_to ActionReceive echo_operations = [''user.echo'']"
    unfolding DescribeChannel_messages(1) [OF echo_described] by (simp add: echo_channel_def Receive_def)
  have p: "?parse (MessageData ?ev) = Some \<lparr>in_Type = ''user.echo'', in_Data = []\<rparr>" by simp
  have t: "in_Type \<lparr>in_Type = ''user.echo'', in_Data = []\<rparr> \<noteq> []" by simp
  from documented_messages_handled [where parse = ?parse and event = ?ev and envelope = "\<lparr>in_Type = ''user.echo'', in_Data = []\<rparr>"
      and ctx = ctx and w = 4 and preferred = ?preferred and newDefault = ?new, OF echo_described p t refl, THEN conjunct1]
  show "rt_OnMessage (wm_runtime (NewModule ?parse ?preferred ?new (running echo_channel))) ctx ?ev 4 = (None, [], 5)"
    by (simp add: names echo_channel_def Receive_def refusalOf_def message_Decide_def)
qed

definition sample_subscription :: subscription_doc where
  "sample_subscription = \<lparr>bk_Target = ''user.created'', bk_Summary = [], bk_Description = [], bk_FieldDocs = [], bk_Task = [], bk_AlsoRead = [],
     bk_Related = [], bk_MsgType = Some (GoStruct ''dto.User''), bk_BodyRules = [], bk_Behavior = \<lparr>mb_SideEffects = [], mb_Idempotent = None,
       mb_Preconditions = [], mb_Guarantee = ''at-least-once'', mb_Notes = [], mb_Ordering = []\<rparr>,
     bk_Config = Some \<lparr>sc_ErrorStrategy = ErrorStrategyRetry, sc_AutoAck = False, sc_MaxRetries = 3, sc_ConsumerGroup = ''g'', sc_AutoCommit = True,
       sc_StartOffset = OffsetEnd, sc_Durable = True, sc_AutoDelete = False, sc_Exclusive = False, sc_QueueGroup = []\<rparr>\<rparr>"

definition sample_subscriptions :: "subscription_doc list" where
  "sample_subscriptions = [sample_subscription, sample_subscription\<lparr>bk_Target := ''order.paid''\<rparr>]"

definition sample_operations :: "operation_spec list" where
  "sample_operations = (case describe_messaging sample_msg_documenter (Some ''rabbitmq'') sample_subscriptions [] [channelDoc (\<lambda>s. s) echo_channel] of
     Some (Inr ops) \<Rightarrow> ops | _ \<Rightarrow> [])"

lemma sample_described:
  "describe_messaging sample_msg_documenter (Some ''rabbitmq'') sample_subscriptions [] [channelDoc (\<lambda>s. s) echo_channel] = Some (Inr sample_operations)"
  by code_simp

lemma sample_keys:
  "map operation_key sample_operations =
     [(''/ws/user'', ''receive'', ''websocket''), (''order.paid'', ''receive'', ''rabbitmq''), (''user.created'', ''receive'', ''rabbitmq'')]"
  by code_simp

theorem messaging_order_independent_witness:
  "describe_messaging sample_msg_documenter (Some ''rabbitmq'') (rev sample_subscriptions) [] [channelDoc (\<lambda>s. s) echo_channel] = Some (Inr sample_operations)"
  by (rule messaging_order_independent [OF sample_described _ mset_rev refl refl]) (simp add: sample_keys)

end
