(* ===== verification/Describe.thy ===== *)
theory Describe
  imports MsgDoc SessionApi
begin

text \<open>
  What the generated documents say beyond the endpoints (\<open>internal/app/bootstrap/describe\<close>): which
  credentials are accepted and where a caller puts them (\<open>security.go\<close>), and where a client connects
  (\<open>messaging.go\<close>), together with the broker configuration both the application and the document are
  built from (\<open>internal/infra/mb/conn.go\<close>).

  The vocabulary of the documents and the configuration's default cookie name are other packages'
  constants (\<open>vocabulary\<close>). \<open>url.Parse\<close> is a parameter (\<open>parse_url\<close>): the scheme and the host,
  \<open>None\<close> for an error; what is relied on of it is \<open>url_laws\<close>.
\<close>

section \<open>Credentials\<close>

record vocabulary =
  vc_HTTP :: string
  vc_APIKey :: string
  vc_InHeader :: string
  vc_InCookie :: string
  vc_Bearer :: string
  vc_JWT :: string
  vc_DefaultSessionCookieName :: string

record security_scheme =
  sx_Name :: string
  sx_Type :: string
  sx_Scheme :: string
  sx_BearerFormat :: string
  sx_In :: string
  sx_ParameterName :: string
  sx_Description :: string

definition sessionCookieName :: "vocabulary \<Rightarrow> auth_config option \<Rightarrow> string" where
  "sessionCookieName vc auth =
     (case auth of
        Some cfg \<Rightarrow>
          (case ac_Session cfg of
             Some s \<Rightarrow> if as_CookieName s \<noteq> [] then as_CookieName s else vc_DefaultSessionCookieName vc
           | None \<Rightarrow> vc_DefaultSessionCookieName vc)
      | None \<Rightarrow> vc_DefaultSessionCookieName vc)"

definition apiKeyHeaderName :: "auth_config option \<Rightarrow> string" where
  "apiKeyHeaderName auth =
     (case auth of
        Some cfg \<Rightarrow> if ac_APIKeyHeader cfg \<noteq> [] then ac_APIKeyHeader cfg else defaultAPIKeyHeader
      | None \<Rightarrow> defaultAPIKeyHeader)"

text \<open>\<open>None\<close> is the panic on a name without a descriptor.\<close>

definition describeScheme :: "vocabulary \<Rightarrow> string \<Rightarrow> auth_config option \<Rightarrow> security_scheme option" where
  "describeScheme vc name auth =
     (if name = SchemeJWT then Some \<lparr>sx_Name = SchemeJWT, sx_Type = vc_HTTP vc, sx_Scheme = vc_Bearer vc, sx_BearerFormat = vc_JWT vc,
        sx_In = [], sx_ParameterName = [], sx_Description = ''Bearer token issued by the identity provider''\<rparr>
      else if name = SchemeAPIKey then Some \<lparr>sx_Name = SchemeAPIKey, sx_Type = vc_APIKey vc, sx_Scheme = [], sx_BearerFormat = [],
        sx_In = vc_InHeader vc, sx_ParameterName = apiKeyHeaderName auth, sx_Description = ''Key issued to a machine caller''\<rparr>
      else if name = SchemeSession then Some \<lparr>sx_Name = SchemeSession, sx_Type = vc_APIKey vc, sx_Scheme = [], sx_BearerFormat = [],
        sx_In = vc_InCookie vc, sx_ParameterName = sessionCookieName vc auth,
        sx_Description = ''Session cookie, obtained by trading a token at POST '' @ SessionPath\<rparr>
      else None)"

fun describe_schemes :: "vocabulary \<Rightarrow> auth_config option \<Rightarrow> string list \<Rightarrow> security_scheme list option" where
  "describe_schemes vc auth [] = Some []"
| "describe_schemes vc auth (name # names) =
     (case describeScheme vc name auth of
        None \<Rightarrow> None
      | Some s \<Rightarrow> map_option (\<lambda>ss. s # ss) (describe_schemes vc auth names))"

definition securitySchemes :: "vocabulary \<Rightarrow> auth_config option \<Rightarrow> security_scheme list option" where
  "securitySchemes vc auth = describe_schemes vc auth (ConfiguredSchemes auth)"

section \<open>Servers\<close>

record server_spec =
  sv_Name :: string
  sv_Protocol :: string
  sv_Host :: string
  sv_Environment :: string
  sv_Description :: string

record broker_params =
  bp_Type :: string
  bp_URL :: string
  bp_QueueName :: string
  bp_Username :: string
  bp_Password :: string
  bp_Token :: string
  bp_SASLMechanism :: string
  bp_Configured :: bool                 \<comment> \<open>the configuration package's own methods\<close>
  bp_HasCredentials :: bool

record broker_credentials =
  br_Username :: string
  br_Password :: string
  br_Token :: string
  br_SASLMechanism :: string

record broker_config =
  bc_Type :: string
  bc_URL :: string
  bc_QueueName :: string
  bc_Credentials :: "broker_credentials option"

definition brokerConfigFromParams :: "broker_params \<Rightarrow> broker_config option" where
  "brokerConfigFromParams p =
     (if \<not> bp_Configured p then None
      else Some \<lparr>bc_Type = bp_Type p, bc_URL = bp_URL p, bc_QueueName = bp_QueueName p,
        bc_Credentials = (if bp_HasCredentials p \<or> bp_SASLMechanism p \<noteq> [] then
           Some \<lparr>br_Username = bp_Username p, br_Password = bp_Password p, br_Token = bp_Token p, br_SASLMechanism = bp_SASLMechanism p\<rparr>
         else None)\<rparr>)"

definition BrokerConfig :: "broker_params result \<Rightarrow> broker_config option result" where
  "BrokerConfig params =
     (case params of
        Inl e \<Rightarrow> Inl (Errorf ''broker configuration unavailable: %w'' [] [e])
      | Inr p \<Rightarrow> Inr (brokerConfigFromParams p))"

type_synonym parse_url = "string \<Rightarrow> (string \<times> string) option"

definition wsProtocol :: string where "wsProtocol = ''ws''"
definition wssProtocol :: string where "wssProtocol = ''wss''"

definition websocketAddress :: "parse_url \<Rightarrow> string \<Rightarrow> string \<times> string" where
  "websocketAddress parse publicURL =
     (case parse publicURL of
        None \<Rightarrow> (wsProtocol, publicURL)
      | Some (scheme, host) \<Rightarrow>
          if host = [] then (wsProtocol, publicURL)
          else if scheme = ''https'' then (wssProtocol, host)
          else (wsProtocol, host))"

definition splitBrokerURL :: "parse_url \<Rightarrow> string \<Rightarrow> string \<times> string" where
  "splitBrokerURL parse raw =
     (if raw = [] then ([], [])
      else case parse raw of
        None \<Rightarrow> ([], TrimSuffix raw ''/'')
      | Some (scheme, host) \<Rightarrow> if host = [] then ([], TrimSuffix raw ''/'') else (scheme, host))"

definition brokerServer :: "parse_url \<Rightarrow> broker_config option \<Rightarrow> string \<Rightarrow> server_spec option" where
  "brokerServer parse broker env =
     (case broker of
        None \<Rightarrow> None
      | Some b \<Rightarrow>
          (case splitBrokerURL parse (bc_URL b) of
             (protocol, host) \<Rightarrow> Some \<lparr>sv_Name = brokerServerName, sv_Protocol = (if protocol = [] then bc_Type b else protocol),
               sv_Host = host, sv_Environment = env, sv_Description = bc_Type b @ '' broker used by this application''\<rparr>))"

definition SortServers :: "server_spec list \<Rightarrow> server_spec list" where
  "SortServers = sort_key sv_Name"

text \<open>\<open>publicURL\<close> is \<open>None\<close> when the module's parameters cannot be read.\<close>

definition buildServers :: "parse_url \<Rightarrow> string option \<Rightarrow> string option \<Rightarrow> broker_config option \<Rightarrow> server_spec list" where
  "buildServers parse envVal publicURL broker =
     (let env = (case envVal of None \<Rightarrow> [] | Some e \<Rightarrow> e);
          own = (case publicURL of
            None \<Rightarrow> []
          | Some u \<Rightarrow> (case websocketAddress parse u of (protocol, host) \<Rightarrow>
              [\<lparr>sv_Name = wsServerName, sv_Protocol = protocol, sv_Host = host, sv_Environment = env,
                sv_Description = ''WebSocket endpoint served by this application''\<rparr>]));
          brokers = (case brokerServer parse broker env of None \<Rightarrow> [] | Some s \<Rightarrow> [s])
      in SortServers (own @ brokers))"

text \<open>The fix a resolution failure is reported with; \<open>names\<close> are the matches of \<open>missing type:\<close>.\<close>

definition withStubHint :: "string list \<Rightarrow> goerr \<Rightarrow> goerr" where
  "withStubHint names err =
     (if names = [] then err else Errorf ''%w - describe has no stub for: %s - add one for each to %s'' (foldl add_new [] names) [err])"

text \<open>The record of a panic in a subscription: the metadata without the headers that carry who started the work.\<close>

definition OnPanic :: "string \<Rightarrow> metadata \<Rightarrow> (string \<times> metadata) \<times> logs" where
  "OnPanic target md = ((target, WithoutHeaders md), [(Error, ''subscriber_panic_log'')])"

section \<open>What the document says is accepted\<close>

lemma describeScheme_known:
  "name \<in> {SchemeJWT, SchemeAPIKey, SchemeSession} \<Longrightarrow> \<exists>s. describeScheme vc name auth = Some s \<and> sx_Name s = name"
  by (auto simp: describeScheme_def)

lemma describe_schemes_known:
  "set names \<subseteq> {SchemeJWT, SchemeAPIKey, SchemeSession} \<Longrightarrow>
     \<exists>ss. describe_schemes vc auth names = Some ss \<and> map sx_Name ss = names \<and>
       (\<forall>s \<in> set ss. describeScheme vc (sx_Name s) auth = Some s)"
proof (induction names)
  case (Cons name names)
  then obtain ss where ss: "describe_schemes vc auth names = Some ss" "map sx_Name ss = names"
    "\<forall>s \<in> set ss. describeScheme vc (sx_Name s) auth = Some s" by auto
  from Cons.prems obtain s where s: "describeScheme vc name auth = Some s" "sx_Name s = name"
    using describeScheme_known [of name vc auth] by auto
  with ss show ?case by simp
qed simp

lemma ConfiguredSchemes_known: "set (ConfiguredSchemes auth) \<subseteq> {SchemeJWT, SchemeAPIKey, SchemeSession}"
  by (auto simp: ConfiguredSchemes_def split: option.splits)

text \<open>
  Every credential the document names has a descriptor, and where it says to put an API key or a
  session id is where the verifier looks. Tokens and sessions that are accepted are documented;
  the one way the document says more is a secret or a key set address without a mode, which
  documents tokens the verifier refuses.
\<close>

theorem documented_credentials:
  assumes "NewVerifier jwks (Some cfg) ks ss = Inr v"
  shows "\<exists>docs. securitySchemes vc (Some cfg) = Some docs \<and> map sx_Name docs = ConfiguredSchemes (Some cfg) \<and>
    (SchemeJWT \<in> set (Schemes v) \<longrightarrow> SchemeJWT \<in> sx_Name ` set docs) \<and>
    (SchemeJWT \<in> sx_Name ` set docs \<and> SchemeJWT \<notin> set (Schemes v) \<longleftrightarrow> ac_Mode cfg = [] \<and> (ac_Secret cfg \<noteq> [] \<or> ac_JWKSURL cfg \<noteq> [])) \<and>
    (SchemeSession \<in> sx_Name ` set docs \<longleftrightarrow> SchemeSession \<in> set (Schemes v)) \<and>
    (\<forall>d \<in> set docs. sx_Name d = SchemeAPIKey \<longrightarrow> sx_In d = vc_InHeader vc \<and> sx_ParameterName d = apiKeyHeader v) \<and>
    (\<forall>d \<in> set docs. sx_Name d = SchemeSession \<longrightarrow> sx_In d = vc_InCookie vc \<and> (\<exists>c. cookies v = Some c \<and> sx_ParameterName d = CookieName c))"
proof -
  define v0 where "v0 = new_verifier cfg ks ss"
  from assms obtain v1 where v1: "configureSessions cfg v0 = Inr v1" and v2: "configureJWT jwks cfg v1 = Inr v"
    by (auto simp: NewVerifier_def v0_def split: sum.splits)
  note s = configureSessions_Inr [OF v1] and j = configureJWT_Inr [OF v2]
  from s obtain c where c: "v1 = v0\<lparr>cookies := c\<rparr>" by blast
  from j obtain k os where "v = v1\<lparr>jwtKeyfunc := k, parserOpts := os\<rparr>" by blast
  with c have same: "sessions v = sessions v0" "cookies v = cookies v1" "apiKeyHeader v = apiKeyHeader v0" by simp_all
  have sess: "sessions v \<noteq> None \<longleftrightarrow> ac_Session cfg \<noteq> None" using s same by simp
  have jwt: "jwtKeyfunc v \<noteq> None \<longleftrightarrow> ac_Mode cfg \<noteq> []" "ac_Mode cfg \<noteq> [] \<Longrightarrow> ac_Secret cfg \<noteq> [] \<or> ac_JWKSURL cfg \<noteq> []"
    using j v2 c by (auto simp: v0_def new_verifier_def configureJWT_def split: if_splits sum.splits)
  have header: "apiKeyHeader v = apiKeyHeaderName (Some cfg)" by (simp add: same v0_def new_verifier_def apiKeyHeaderName_def)
  have cookie: "\<exists>c. cookies v = Some c \<and> sessionCookieName vc (Some cfg) = CookieName c" if session: "ac_Session cfg = Some a" for a
  proof -
    from v1 session obtain c where c: "NewConfig (Some a) = Inr c" "v1 = v0\<lparr>cookies := Some c\<rparr>"
      by (auto simp: configureSessions_def split: if_splits sum.splits)
    then have "CookieName c = as_CookieName a" "CookieName c \<noteq> []"
      by (auto simp: NewConfig_def Let_def Validate_def split: sum.splits option.splits if_splits)
    with c(2) session show ?thesis by (simp add: same sessionCookieName_def)
  qed
  note names = SchemeJWT_def SchemeAPIKey_def SchemeSession_def
  from describe_schemes_known [OF ConfiguredSchemes_known] obtain docs where docs:
    "securitySchemes vc (Some cfg) = Some docs" "map sx_Name docs = ConfiguredSchemes (Some cfg)"
    "\<forall>d \<in> set docs. describeScheme vc (sx_Name d) (Some cfg) = Some d"
    unfolding securitySchemes_def by blast
  have named: "sx_Name ` set docs = set (ConfiguredSchemes (Some cfg))" using arg_cong [OF docs(2), of set] by simp
  have "SchemeJWT \<in> sx_Name ` set docs \<longleftrightarrow> ac_Secret cfg \<noteq> [] \<or> ac_JWKSURL cfg \<noteq> []"
    "SchemeSession \<in> sx_Name ` set docs \<longleftrightarrow> ac_Session cfg \<noteq> None" unfolding named by (simp_all add: ConfiguredSchemes_def names)
  moreover have "SchemeJWT \<in> set (Schemes v) \<longleftrightarrow> jwtKeyfunc v \<noteq> None" "SchemeSession \<in> set (Schemes v) \<longleftrightarrow> sessions v \<noteq> None"
    by (simp_all add: Schemes_def names)
  moreover have "sx_In d = vc_InHeader vc \<and> sx_ParameterName d = apiKeyHeader v" if "d \<in> set docs" "sx_Name d = SchemeAPIKey" for d
    using docs(3) that by (auto simp: describeScheme_def header names dest!: bspec)
  moreover have "sx_In d = vc_InCookie vc \<and> (\<exists>c. cookies v = Some c \<and> sx_ParameterName d = CookieName c)"
    if d: "d \<in> set docs" "sx_Name d = SchemeSession" for d
  proof -
    have "SchemeSession \<in> set (ConfiguredSchemes (Some cfg))" using d named by (metis imageI)
    then obtain a where "ac_Session cfg = Some a" by (auto simp: ConfiguredSchemes_def names split: if_splits)
    from cookie [OF this] obtain c where "cookies v = Some c" "sessionCookieName vc (Some cfg) = CookieName c" by blast
    moreover have "describeScheme vc SchemeSession (Some cfg) = Some d" using docs(3) d by metis
    ultimately show ?thesis by (auto simp: describeScheme_def names)
  qed
  ultimately show ?thesis using docs(1,2) sess jwt by blast
qed

lemma documented_credentials_witness:
  "\<forall>vc. \<exists>docs. securitySchemes vc (Some demo_auth) = Some docs \<and> map sx_Name docs = [SchemeJWT, SchemeAPIKey] \<and>
     (\<forall>d \<in> set docs. sx_Name d = SchemeAPIKey \<longrightarrow> sx_ParameterName d = ''X-API-Key'')"
proof
  fix vc
  show "\<exists>docs. securitySchemes vc (Some demo_auth) = Some docs \<and> map sx_Name docs = [SchemeJWT, SchemeAPIKey] \<and>
     (\<forall>d \<in> set docs. sx_Name d = SchemeAPIKey \<longrightarrow> sx_ParameterName d = ''X-API-Key'')"
    using documented_credentials [OF demo_verifier_built, of vc]
    by (auto simp: ConfiguredSchemes_def demo_auth_def demo_verifier_def)
qed

section \<open>What the document says of the broker\<close>

text \<open>
  Of \<open>url.Parse\<close>: a host holds no user information, and an authority whose port is not a number is an
  error. The authority ends at the first slash.
\<close>

definition url_laws :: "parse_url \<Rightarrow> bool" where
  "url_laws parse \<longleftrightarrow>
     (\<forall>raw scheme host. parse raw = Some (scheme, host) \<longrightarrow> CHR ''@'' \<notin> set host) \<and>
     (\<forall>scheme host port rest. set host \<inter> {CHR ''/'', CHR '':'', CHR ''@'', CHR ''['', CHR ''?'', CHR ''#''} = {} \<longrightarrow>
        set port \<inter> {CHR ''/'', CHR '':'', CHR ''@'', CHR ''?'', CHR ''#''} = {} \<longrightarrow> (\<exists>c \<in> set port. digit_of c = None) \<longrightarrow>
        parse (scheme @ ''://'' @ host @ '':'' @ port @ ''/'' @ rest) = None)"

lemma url_laws_port:
  assumes "url_laws parse" "set host \<inter> {CHR ''/'', CHR '':'', CHR ''@'', CHR ''['', CHR ''?'', CHR ''#''} = {}"
    "set port \<inter> {CHR ''/'', CHR '':'', CHR ''@'', CHR ''?'', CHR ''#''} = {}" "\<exists>c \<in> set port. digit_of c = None"
  shows "parse (scheme @ ''://'' @ host @ '':'' @ port @ ''/'' @ rest) = None"
  using assms(1) [unfolded url_laws_def, THEN conjunct2, rule_format, OF assms(2-4)] .

lemma url_laws_host: "url_laws parse \<Longrightarrow> parse raw = Some (scheme, host) \<Longrightarrow> CHR ''@'' \<notin> set host"
  by (simp add: url_laws_def)


text \<open>A parser that keeps the laws: no address is understood but those of a plain host.\<close>

definition plain_parse :: parse_url where
  "plain_parse raw = (if list_all (\<lambda>c. c \<notin> {CHR '':'', CHR ''@''}) raw then Some ([], raw) else None)"

lemma plain_parse_laws: "url_laws plain_parse"
  by (auto simp: url_laws_def plain_parse_def list_all_iff split: if_splits)


end
