(* ===== verification/AdminApi.thy ===== *)
theory AdminApi
  imports AuthMw
begin

text \<open>
  The operators' endpoints for the scheduler and the worker (\<open>internal/app/scheduler/api\<close>,
  \<open>internal/app/worker/api\<close>), and how tasks and jobs are registered (\<open>internal/app/scheduler/scheduler.go\<close>,
  \<open>internal/app/worker/worker.go\<close>).

  The scheduler and the worker are libraries: what their calls do is a parameter (\<open>scheduler_ops\<close>,
  \<open>worker_ops\<close>) over a world \<open>'w\<close>. \<open>errText\<close> is \<open>err.Error()\<close>, a body and its validation are parameters of
  the endpoints.
\<close>

section \<open>What is answered\<close>

record task_state =
  ts_TaskName :: string
  ts_Status :: string
  ts_PausedAt :: "time option"
  ts_DisabledAt :: "time option"
  ts_Reason :: string
  ts_UpdatedAt :: time

record task_state_response =
  tr_TaskName :: string
  tr_Status :: string
  tr_PausedAt :: "time option"
  tr_DisabledAt :: "time option"
  tr_Reason :: string
  tr_UpdatedAt :: time

record task_reason =
  pt_Reason :: string                          \<comment> \<open>\<open>PauseTask\<close> and \<open>DisableTask\<close>\<close>

definition taskStateResponse :: "task_state \<Rightarrow> task_state_response" where
  "taskStateResponse s = \<lparr>tr_TaskName = ts_TaskName s, tr_Status = ts_Status s, tr_PausedAt = ts_PausedAt s,
     tr_DisabledAt = ts_DisabledAt s, tr_Reason = ts_Reason s, tr_UpdatedAt = ts_UpdatedAt s\<rparr>"

record job_status =
  js_Id :: string
  js_Status :: string

record 'j dead_letter_list =
  dj_Jobs :: "'j list"
  dj_Count :: nat

record dead_letter_retry =
  dt_Id :: string
  dt_Message :: string
  dt_RetryCount :: int

record dead_letter_deleted =
  dd_Id :: string

record retry_by_name =
  rn_JobName :: string

section \<open>Scopes and codes\<close>

definition ScopeTasksRead :: string where "ScopeTasksRead = ''scheduler.tasks:read''"
definition ScopeTasksWrite :: string where "ScopeTasksWrite = ''scheduler.tasks:write''"
definition CodeTaskNotFound :: string where "CodeTaskNotFound = ''task_not_found''"
definition CodeTaskControlFailed :: string where "CodeTaskControlFailed = ''task_control_failed''"
definition ScopeJobsRead :: string where "ScopeJobsRead = ''worker.jobs:read''"
definition ScopeJobsWrite :: string where "ScopeJobsWrite = ''worker.jobs:write''"
definition CodeJobNotFound :: string where "CodeJobNotFound = ''job_not_found''"
definition CodeNotImplemented :: string where "CodeNotImplemented = ''not_implemented''"

definition scoped :: "string \<Rightarrow> 'v security option" where
  "scoped scope = Some \<lparr>Public = False, sec_Schemes = [], sec_Scopes = [scope], Resource = None\<rparr>"

text \<open>The middleware of these modules lets everything through.\<close>

definition SysAdminOnly :: "('w, 'b) continuation \<Rightarrow> ('w, 'b) continuation" where
  "SysAdminOnly next = (\<lambda>r. next r)"

section \<open>Task endpoints\<close>

record 'w scheduler_ops =
  so_PauseTask :: "string \<Rightarrow> string \<Rightarrow> 'w \<Rightarrow> goerr option \<times> 'w"
  so_ResumeTask :: "string \<Rightarrow> 'w \<Rightarrow> goerr option \<times> 'w"
  so_DisableTask :: "string \<Rightarrow> string \<Rightarrow> 'w \<Rightarrow> goerr option \<times> 'w"
  so_EnableTask :: "string \<Rightarrow> 'w \<Rightarrow> goerr option \<times> 'w"
  so_ListTaskStates :: "'w \<Rightarrow> task_state list result"
  so_GetTaskState :: "string \<Rightarrow> 'w \<Rightarrow> task_state result"

definition nameRules :: "rule_set list" where "nameRules = [\<lparr>rule_Field = ''name''\<rparr>]"

definition newControl ::
  "(request \<Rightarrow> validation_error list + 'q) \<Rightarrow> (goerr \<Rightarrow> string) \<Rightarrow> string \<Rightarrow> (string \<Rightarrow> 'q \<Rightarrow> 'w \<Rightarrow> goerr option \<times> 'w) \<Rightarrow>
     ('w, 'v, 'q, string) endpoint" where
  "newControl body errText done action =
     \<lparr>ep_Security = scoped ScopeTasksWrite, ep_Body = body, ep_PathRules = nameRules, ep_QueryRules = [], ep_Success = 200,
      ep_Produces = [], ep_Responses = [],
      ep_Handle = (\<lambda>r req.
        let name = value_or_empty (rq_PathParam r ''name'') in
        Get (\<lambda>w. case action name req w of
          (Some e, w') \<Rightarrow> Put w' (Return (Inl (HTTPErr 409 CodeTaskControlFailed (errText e))))
        | (None, w') \<Rightarrow> Put w' (Return (Inr (''task ['' @ name @ ''] '' @ done)))))\<rparr>"

definition NewPauseTask :: "(request \<Rightarrow> validation_error list + task_reason) \<Rightarrow> (goerr \<Rightarrow> string) \<Rightarrow> 'w scheduler_ops \<Rightarrow> ('w, 'v, task_reason, string) endpoint" where
  "NewPauseTask body errText sch = newControl body errText ''paused'' (\<lambda>name req. so_PauseTask sch name (pt_Reason req))"

definition NewResumeTask :: "(request \<Rightarrow> validation_error list + unit) \<Rightarrow> (goerr \<Rightarrow> string) \<Rightarrow> 'w scheduler_ops \<Rightarrow> ('w, 'v, unit, string) endpoint" where
  "NewResumeTask body errText sch = newControl body errText ''resumed'' (\<lambda>name _. so_ResumeTask sch name)"

definition NewDisableTask :: "(request \<Rightarrow> validation_error list + task_reason) \<Rightarrow> (goerr \<Rightarrow> string) \<Rightarrow> 'w scheduler_ops \<Rightarrow> ('w, 'v, task_reason, string) endpoint" where
  "NewDisableTask body errText sch = newControl body errText ''disabled'' (\<lambda>name req. so_DisableTask sch name (pt_Reason req))"

definition NewEnableTask :: "(request \<Rightarrow> validation_error list + unit) \<Rightarrow> (goerr \<Rightarrow> string) \<Rightarrow> 'w scheduler_ops \<Rightarrow> ('w, 'v, unit, string) endpoint" where
  "NewEnableTask body errText sch = newControl body errText ''enabled'' (\<lambda>name _. so_EnableTask sch name)"

definition NewListTasks :: "(request \<Rightarrow> validation_error list + unit) \<Rightarrow> 'w scheduler_ops \<Rightarrow> ('w, 'v, unit, task_state_response list) endpoint" where
  "NewListTasks body sch =
     \<lparr>ep_Security = scoped ScopeTasksRead, ep_Body = body, ep_PathRules = [], ep_QueryRules = [], ep_Success = 200, ep_Produces = [],
      ep_Responses = [],
      ep_Handle = (\<lambda>r _. Get (\<lambda>w. case so_ListTaskStates sch w of
          Inl e \<Rightarrow> Return (Inl e)
        | Inr found \<Rightarrow> Return (Inr (map taskStateResponse found))))\<rparr>"

definition NewGetStatus ::
  "(request \<Rightarrow> validation_error list + unit) \<Rightarrow> (goerr \<Rightarrow> string) \<Rightarrow> 'w scheduler_ops \<Rightarrow> ('w, 'v, unit, task_state_response) endpoint" where
  "NewGetStatus body errText sch =
     \<lparr>ep_Security = scoped ScopeTasksRead, ep_Body = body, ep_PathRules = nameRules, ep_QueryRules = [], ep_Success = 200, ep_Produces = [],
      ep_Responses = [],
      ep_Handle = (\<lambda>r _. Get (\<lambda>w. case so_GetTaskState sch (value_or_empty (rq_PathParam r ''name'')) w of
          Inl e \<Rightarrow> Return (Inl (HTTPErr 404 CodeTaskNotFound (errText e)))
        | Inr ts \<Rightarrow> Return (Inr (taskStateResponse ts))))\<rparr>"

section \<open>Job endpoints\<close>

record ('w, 'j) worker_ops =
  wo_Cancel :: "string \<Rightarrow> 'w \<Rightarrow> goerr option \<times> 'w"
  wo_GetJobStatus :: "string \<Rightarrow> 'w \<Rightarrow> string result"
  wo_GetDeadLetterJobs :: "nat \<Rightarrow> 'w \<Rightarrow> 'j list result"
  wo_DeleteDeadLetterJob :: "string \<Rightarrow> 'w \<Rightarrow> goerr option \<times> 'w"
  wo_RetryDeadLetterJob :: "string \<Rightarrow> 'w \<Rightarrow> goerr option \<times> 'w"
  wo_RetryDeadLetterJobsByName :: "string \<Rightarrow> 'w \<Rightarrow> int result \<times> 'w"
  wo_RetryAllDeadLetterJobs :: "'w \<Rightarrow> int result \<times> 'w"

definition idRules :: "rule_set list" where "idRules = [\<lparr>rule_Field = ''id''\<rparr>]"
definition deadLetterListLimit :: nat where "deadLetterListLimit = 100"

definition notImplementedError :: "string \<Rightarrow> goerr" where
  "notImplementedError what = HTTPErr 501 CodeNotImplemented what"

definition path_id :: "request \<Rightarrow> string" where
  "path_id r = value_or_empty (rq_PathParam r ''id'')"

definition NewListJobs :: "(request \<Rightarrow> validation_error list + unit) \<Rightarrow> ('w, 'v, unit, unit) endpoint" where
  "NewListJobs body =
     \<lparr>ep_Security = scoped ScopeJobsRead, ep_Body = body, ep_PathRules = [], ep_QueryRules = [], ep_Success = 200, ep_Produces = [],
      ep_Responses = [], ep_Handle = (\<lambda>r _. Return (Inl (notImplementedError ''listing jobs is not implemented'')))\<rparr>"

definition NewJobStatus :: "(request \<Rightarrow> validation_error list + unit) \<Rightarrow> (goerr \<Rightarrow> string) \<Rightarrow> ('w, 'j) worker_ops \<Rightarrow> ('w, 'v, unit, job_status) endpoint" where
  "NewJobStatus body errText wrk =
     \<lparr>ep_Security = scoped ScopeJobsRead, ep_Body = body, ep_PathRules = idRules, ep_QueryRules = [], ep_Success = 200, ep_Produces = [],
      ep_Responses = [],
      ep_Handle = (\<lambda>r _. Get (\<lambda>w. case wo_GetJobStatus wrk (path_id r) w of
          Inl e \<Rightarrow> Return (Inl (HTTPErr 404 CodeJobNotFound (errText e)))
        | Inr status \<Rightarrow> Return (Inr \<lparr>js_Id = path_id r, js_Status = status\<rparr>)))\<rparr>"

definition NewCancelJob :: "(request \<Rightarrow> validation_error list + unit) \<Rightarrow> (goerr \<Rightarrow> string) \<Rightarrow> ('w, 'j) worker_ops \<Rightarrow> ('w, 'v, unit, unit) endpoint" where
  "NewCancelJob body errText wrk =
     \<lparr>ep_Security = scoped ScopeJobsWrite, ep_Body = body, ep_PathRules = idRules, ep_QueryRules = [], ep_Success = 204, ep_Produces = [],
      ep_Responses = [],
      ep_Handle = (\<lambda>r _. Get (\<lambda>w. case wo_Cancel wrk (path_id r) w of
          (Some e, w') \<Rightarrow> Put w' (Return (Inl (HTTPErr 404 CodeJobNotFound (errText e))))
        | (None, w') \<Rightarrow> Put w' (Return (Inr ()))))\<rparr>"

definition NewListDeadLetterJobs :: "(request \<Rightarrow> validation_error list + unit) \<Rightarrow> ('w, 'j) worker_ops \<Rightarrow> ('w, 'v, unit, 'j dead_letter_list) endpoint" where
  "NewListDeadLetterJobs body wrk =
     \<lparr>ep_Security = scoped ScopeJobsRead, ep_Body = body, ep_PathRules = [], ep_QueryRules = [], ep_Success = 200, ep_Produces = [],
      ep_Responses = [],
      ep_Handle = (\<lambda>r _. Get (\<lambda>w. case wo_GetDeadLetterJobs wrk deadLetterListLimit w of
          Inl e \<Rightarrow> Return (Inl e)
        | Inr jobs \<Rightarrow> Return (Inr \<lparr>dj_Jobs = jobs, dj_Count = length jobs\<rparr>)))\<rparr>"

definition NewGetDeadLetterJobs :: "(request \<Rightarrow> validation_error list + unit) \<Rightarrow> ('w, 'v, unit, unit) endpoint" where
  "NewGetDeadLetterJobs body =
     \<lparr>ep_Security = scoped ScopeJobsRead, ep_Body = body, ep_PathRules = idRules, ep_QueryRules = [], ep_Success = 200, ep_Produces = [],
      ep_Responses = [], ep_Handle = (\<lambda>r _. Return (Inl (notImplementedError ''fetching one dead letter job is not implemented'')))\<rparr>"

definition NewDeleteDeadLetterJob ::
  "(request \<Rightarrow> validation_error list + unit) \<Rightarrow> (goerr \<Rightarrow> string) \<Rightarrow> ('w, 'j) worker_ops \<Rightarrow> ('w, 'v, unit, dead_letter_deleted) endpoint" where
  "NewDeleteDeadLetterJob body errText wrk =
     \<lparr>ep_Security = scoped ScopeJobsWrite, ep_Body = body, ep_PathRules = idRules, ep_QueryRules = [], ep_Success = 200, ep_Produces = [],
      ep_Responses = [],
      ep_Handle = (\<lambda>r _. Get (\<lambda>w. case wo_DeleteDeadLetterJob wrk (path_id r) w of
          (Some e, w') \<Rightarrow> Put w' (Return (Inl (HTTPErr 404 CodeJobNotFound (errText e))))
        | (None, w') \<Rightarrow> Put w' (Return (Inr \<lparr>dd_Id = path_id r\<rparr>))))\<rparr>"

definition NewRetryDeadLetterJob ::
  "(request \<Rightarrow> validation_error list + unit) \<Rightarrow> (goerr \<Rightarrow> string) \<Rightarrow> ('w, 'j) worker_ops \<Rightarrow> ('w, 'v, unit, dead_letter_retry) endpoint" where
  "NewRetryDeadLetterJob body errText wrk =
     \<lparr>ep_Security = scoped ScopeJobsWrite, ep_Body = body, ep_PathRules = idRules, ep_QueryRules = [], ep_Success = 200, ep_Produces = [],
      ep_Responses = [],
      ep_Handle = (\<lambda>r _. Get (\<lambda>w. case wo_RetryDeadLetterJob wrk (path_id r) w of
          (Some e, w') \<Rightarrow> Put w' (Return (Inl (HTTPErr 404 CodeJobNotFound (errText e))))
        | (None, w') \<Rightarrow> Put w' (Return (Inr \<lparr>dt_Id = path_id r, dt_Message = ''Job retried successfully'', dt_RetryCount = 0\<rparr>))))\<rparr>"

definition NewRetryDeadLetterJobsByName ::
  "(request \<Rightarrow> validation_error list + retry_by_name) \<Rightarrow> ('w, 'j) worker_ops \<Rightarrow> ('w, 'v, retry_by_name, dead_letter_retry) endpoint" where
  "NewRetryDeadLetterJobsByName body wrk =
     \<lparr>ep_Security = scoped ScopeJobsWrite, ep_Body = body, ep_PathRules = [], ep_QueryRules = [], ep_Success = 200, ep_Produces = [],
      ep_Responses = [],
      ep_Handle = (\<lambda>r req. Get (\<lambda>w. case wo_RetryDeadLetterJobsByName wrk (rn_JobName req) w of
          (Inl e, w') \<Rightarrow> Put w' (Return (Inl e))
        | (Inr n, w') \<Rightarrow> Put w' (Return (Inr \<lparr>dt_Id = rn_JobName req, dt_Message = ''jobs retried successfully'', dt_RetryCount = n\<rparr>))))\<rparr>"

definition NewRetryAllDeadLetterJobs ::
  "(request \<Rightarrow> validation_error list + unit) \<Rightarrow> ('w, 'j) worker_ops \<Rightarrow> ('w, 'v, unit, dead_letter_retry) endpoint" where
  "NewRetryAllDeadLetterJobs body wrk =
     \<lparr>ep_Security = scoped ScopeJobsWrite, ep_Body = body, ep_PathRules = [], ep_QueryRules = [], ep_Success = 200, ep_Produces = [],
      ep_Responses = [],
      ep_Handle = (\<lambda>r _. Get (\<lambda>w. case wo_RetryAllDeadLetterJobs wrk w of
          (Inl e, w') \<Rightarrow> Put w' (Return (Inl e))
        | (Inr n, w') \<Rightarrow> Put w' (Return (Inr \<lparr>dt_Id = [], dt_Message = ''all jobs retried successfully'', dt_RetryCount = n\<rparr>))))\<rparr>"

section \<open>Registration\<close>

type_synonym 'w task_fun = "request_context \<Rightarrow> 'w \<Rightarrow> goerr option \<times> 'w"

record ('c, 'w) scheduled_task =
  st_Name :: string
  st_Cron :: 'c
  st_Task :: "'w task_fun"

definition asSystemTask :: "'w task_fun \<Rightarrow> 'w task_fun" where
  "asSystemTask task = (\<lambda>ctx. task (WithSystem ctx))"

fun RegisterTasks ::
  "(string \<Rightarrow> 'c \<Rightarrow> 'w task_fun \<Rightarrow> 's \<Rightarrow> goerr option \<times> 's) \<Rightarrow> ('c, 'w) scheduled_task list \<Rightarrow> 's \<Rightarrow> goerr option \<times> 's" where
  "RegisterTasks setSchedule [] s = (None, s)"
| "RegisterTasks setSchedule (t # ts) s =
     (case setSchedule (st_Name t) (st_Cron t) (asSystemTask (st_Task t)) s of
        (Some e, s') \<Rightarrow> (Some e, s')
      | (None, s') \<Rightarrow> RegisterTasks setSchedule ts s')"

text \<open>What registering did is not looked at. Starting and stopping are hooks of the container.\<close>

definition NewSchedulerApp ::
  "(string \<Rightarrow> 'c \<Rightarrow> 'w task_fun \<Rightarrow> 's \<Rightarrow> goerr option \<times> 's) \<Rightarrow> ('c, 'w) scheduled_task list \<Rightarrow> 's \<Rightarrow> goerr option \<times> 's" where
  "NewSchedulerApp setSchedule tasks s = (None, snd (RegisterTasks setSchedule tasks s))"

section \<open>Who changes what\<close>

lemma scoped_admits:
  "(authorize (scoped scope) r :: 'b response option) = None \<longleftrightarrow>
     (\<exists>p. PrincipalFrom (rq_ctx r) = Some p \<and> SatisfiesScopes (Some p) [scope])"
  by (auto simp: authorize_None_iff scoped_def HasScheme_def)

text \<open>What an endpoint without a resource check does once a request is let in.\<close>

lemma Handle_unchecked:
  fixes lib :: "('r, 'b) libs"
  assumes "(authorize (ep_Security ep) r :: 'b response option) = None" "resourceCheckOf (ep_Security ep) = None" "ep_Body ep r = Inr req"
    "validatePathParams (lib_vmap lib) r (ep_PathRules ep) = []" "validateQueryParams (lib_vmap lib) r (ep_QueryRules ep) = []"
    and "ep_Handle ep r req = Get (\<lambda>w. Put (f w) (Return (x w)))"
  shows "Handle strict lib ep r w =
    (case x w of Inl e \<Rightarrow> (Responded (errorResponse e), f w, [])
     | Inr v \<Rightarrow> (case finish strict lib ep r v of (o', l) \<Rightarrow> (o', f w, l)))"
  using Handle_valid [OF assms(1,3,4,5) refl, where w = w and strict = strict] assms(2)
  by (auto simp: assms(6) split: sum.split)

lemma scoped_unchecked [simp]: "resourceCheckOf (scoped scope) = None"
  by (simp add: resourceCheckOf_def scoped_def)


text \<open>
  Whatever goes wrong looking a job up, or cancelling it, is reported as a missing job, with the
  error's own text in the response: an unreachable queue is answered 404 with its message.
\<close>

theorem job_failures_are_not_found:
  fixes lib :: "(job_status, 'b) libs" and lib' :: "(unit, 'b) libs"
  assumes "PrincipalFrom (rq_ctx r) = Some p" "SatisfiesScopes (Some p) [ScopeJobsRead, ScopeJobsWrite]"
    and "body r = Inr ()" "validatePathParams (lib_vmap lib) r idRules = []" "validatePathParams (lib_vmap lib') r idRules = []"
  shows "(wo_GetJobStatus wrk (path_id r) w = Inl e \<longrightarrow>
      Handle strict lib (NewJobStatus body errText wrk) r w = (Responded (error_response 404 CodeJobNotFound (errText e)), w, [])) \<and>
    (wo_Cancel wrk (path_id r) w = (Some e, w') \<longrightarrow>
      Handle strict lib' (NewCancelJob body errText wrk) r w = (Responded (error_response 404 CodeJobNotFound (errText e)), w', []))"
proof -
  have scopes: "SatisfiesScopes (Some p) [ScopeJobsRead]" "SatisfiesScopes (Some p) [ScopeJobsWrite]"
    using assms(2) by (auto simp: SatisfiesScopes_def Let_def split: option.splits if_splits)
  have a: "(authorize (scoped ScopeJobsRead) r :: 'b response option) = None" "(authorize (scoped ScopeJobsWrite) r :: 'b response option) = None"
    using assms(1) scopes by (auto simp: scoped_admits)
  show ?thesis
  proof (intro conjI impI)
    assume e: "wo_GetJobStatus wrk (path_id r) w = Inl e"
    note h = Handle_valid(1) [where ep = "NewJobStatus body errText wrk" and lib = lib and r = r and w = w and strict = strict, OF _ _ _ _ refl]
    show "Handle strict lib (NewJobStatus body errText wrk) r w = (Responded (error_response 404 CodeJobNotFound (errText e)), w, [])"
      by (subst h [where req = "()" and e = "HTTPErr 404 CodeJobNotFound (errText e)"])
        (simp_all add: NewJobStatus_def a(1) assms(3,4) e validateQueryParams_def)
  next
    assume e: "wo_Cancel wrk (path_id r) w = (Some e, w')"
    note h = Handle_valid(1) [where ep = "NewCancelJob body errText wrk" and lib = lib' and r = r and w = w and strict = strict, OF _ _ _ _ refl]
    show "Handle strict lib' (NewCancelJob body errText wrk) r w = (Responded (error_response 404 CodeJobNotFound (errText e)), w', [])"
      by (subst h [where req = "()" and e = "HTTPErr 404 CodeJobNotFound (errText e)"])
        (simp_all add: NewCancelJob_def a(2) assms(3,5) e validateQueryParams_def)
  qed
qed

section \<open>Registering tasks\<close>

lemma RegisterTasks_stops:
  assumes "RegisterTasks setSchedule ts s = (None, s1)"
  shows "RegisterTasks setSchedule (ts @ us) s = RegisterTasks setSchedule us s1"
  using assms by (induction ts arbitrary: s) (auto split: prod.splits option.splits)

text \<open>
  A task the scheduler refuses stops the registration without stopping the application: the tasks
  after it are not registered, and the application is told of nothing.
\<close>

theorem refused_task_unnoticed:
  assumes "RegisterTasks setSchedule ts s = (None, s1)" "setSchedule (st_Name t) (st_Cron t) (asSystemTask (st_Task t)) s1 = (Some e, s2)"
  shows "RegisterTasks setSchedule (ts @ t # us) s = (Some e, s2) \<and> NewSchedulerApp setSchedule (ts @ t # us) s = (None, s2)"
  using assms by (simp add: NewSchedulerApp_def RegisterTasks_stops)

text \<open>A scheduled task runs as the system's work, and with the authority of nobody new.\<close>

lemma scheduled_as_system:
  "asSystemTask task ctx = task (WithSystem ctx)" "i_kind (From (WithSystem ctx)) = KindSystem" "PrincipalFrom (WithSystem ctx) = PrincipalFrom ctx"
  by (simp_all add: asSystemTask_def WithSystem_def With_def From_def PrincipalFrom_def)

section \<open>Applied\<close>

text \<open>A scheduler with one task, \<open>nightly\<close>: the world is whether it is paused.\<close>

definition one_task :: "bool scheduler_ops" where
  "one_task = \<lparr>so_PauseTask = (\<lambda>name reason w. if name = ''nightly'' \<and> \<not> w then (None, True) else (Some (Errorf ''refused'' [] []), w)),
     so_ResumeTask = (\<lambda>name w. if name = ''nightly'' \<and> w then (None, False) else (Some (Errorf ''refused'' [] []), w)),
     so_DisableTask = (\<lambda>name reason w. (None, w)), so_EnableTask = (\<lambda>name w. (None, w)),
     so_ListTaskStates = (\<lambda>w. Inr []), so_GetTaskState = (\<lambda>name w. Inl (Errorf ''none'' [] []))\<rparr>"

definition operator :: principal where
  "operator = \<lparr>p_Subject = ''ops'', p_Scopes = [ScopeTasksWrite, ScopeJobsRead, ScopeJobsWrite], p_Scheme = SchemeJWT, p_Claims = [], implied = None\<rparr>"

definition operator_request :: request where
  "operator_request = (request_as (Some operator))\<lparr>rq_PathParam := [''name'' \<mapsto> ''nightly'', ''id'' \<mapsto> ''job_1'']\<rparr>"

lemma operator_request_simps [simp]:
  "PrincipalFrom (rq_ctx operator_request) = Some operator" "rq_PathParam operator_request = [''name'' \<mapsto> ''nightly'', ''id'' \<mapsto> ''job_1'']"
  by (simp_all add: operator_request_def request_as_def)

lemma operator_scopes: "set scopes \<subseteq> {ScopeTasksWrite, ScopeJobsRead, ScopeJobsWrite} \<Longrightarrow> SatisfiesScopes (Some operator) scopes"
proof -
  have "set scopes \<subseteq> set held \<Longrightarrow> all_held held scopes" for held by (induction held scopes rule: all_held.induct) auto
  then show "set scopes \<subseteq> {ScopeTasksWrite, ScopeJobsRead, ScopeJobsWrite} \<Longrightarrow> SatisfiesScopes (Some operator) scopes"
    by (simp add: SatisfiesScopes_def operator_def)
qed

definition any_libs :: "('r, unit) libs" where
  "any_libs = \<lparr>lib_vmap = (\<lambda>_ _. []), lib_langs = (\<lambda>_. [''en'']), lib_response = (\<lambda>x status. demo_ok)\<rparr>"

definition pause_nightly :: "(bool, unit, task_reason, string) endpoint" where
  "pause_nightly = newControl (\<lambda>_. Inr \<lparr>pt_Reason = ''upgrade''\<rparr>) (\<lambda>e. []) ''paused'' (\<lambda>name req. so_PauseTask one_task name (pt_Reason req))"

lemma pause_served: "Handle True any_libs pause_nightly operator_request False = (Responded demo_ok, True, [])"
  by (subst Handle_unchecked [where req = "\<lparr>pt_Reason = ''upgrade''\<rparr>" and f = "\<lambda>w. snd (so_PauseTask one_task ''nightly'' ''upgrade'' w)"
        and x = "\<lambda>w. case fst (so_PauseTask one_task ''nightly'' ''upgrade'' w) of
          Some e \<Rightarrow> Inl (HTTPErr 409 CodeTaskControlFailed []) | None \<Rightarrow> Inr ''task [nightly] paused''"])
    (auto simp: pause_nightly_def newControl_def scoped_admits operator_scopes any_libs_def validatePathParams_def validateQueryParams_def value_or_empty_def
      one_task_def finish_def checkDeclaredStatus_def isDeclaredStatus_def demo_ok_def Let_def fun_eq_iff split: prod.split option.split)


definition broken_worker :: "(bool, unit) worker_ops" where
  "broken_worker = \<lparr>wo_Cancel = (\<lambda>i w. (Some (Errorf ''redis: connection refused'' [] []), w)),
     wo_GetJobStatus = (\<lambda>i w. Inl (Errorf ''redis: connection refused'' [] [])), wo_GetDeadLetterJobs = (\<lambda>n w. Inr []),
     wo_DeleteDeadLetterJob = (\<lambda>i w. (None, w)), wo_RetryDeadLetterJob = (\<lambda>i w. (None, w)),
     wo_RetryDeadLetterJobsByName = (\<lambda>n w. (Inr 0, w)), wo_RetryAllDeadLetterJobs = (\<lambda>w. (Inr 0, w))\<rparr>"

lemma job_failures_are_not_found_witness:
  "Handle True any_libs (NewJobStatus (\<lambda>_. Inr ()) (\<lambda>e. case e of Errorf f _ _ \<Rightarrow> f | _ \<Rightarrow> []) broken_worker :: (bool, unit, unit, job_status) endpoint)
     operator_request True = (Responded (error_response 404 CodeJobNotFound ''redis: connection refused''), True, [])"
proof -
  have p: "validatePathParams (lib_vmap any_libs) operator_request idRules = []" by (simp add: any_libs_def validatePathParams_def)
  have s: "SatisfiesScopes (Some operator) [ScopeJobsRead, ScopeJobsWrite]" by (rule operator_scopes) simp
  from job_failures_are_not_found [where strict = True and wrk = broken_worker and w = True and w' = True and e = "Errorf ''redis: connection refused'' [] []"
      and errText = "\<lambda>e. case e of Errorf f _ _ \<Rightarrow> f | _ \<Rightarrow> []" and body = "\<lambda>_. Inr ()" and lib = any_libs and lib' = any_libs,
      OF operator_request_simps(1) s refl p p, THEN conjunct1]
  show ?thesis by (simp add: broken_worker_def)
qed

text \<open>A scheduler that takes a cron of at most 59, and the tasks it was given.\<close>

definition sample_task :: "string \<Rightarrow> int \<Rightarrow> (int, unit) scheduled_task" where
  "sample_task name cron = \<lparr>st_Name = name, st_Cron = cron, st_Task = (\<lambda>_ w. (None, w))\<rparr>"

definition take_schedule :: "string \<Rightarrow> int \<Rightarrow> unit task_fun \<Rightarrow> string list \<Rightarrow> goerr option \<times> string list" where
  "take_schedule name cron task names = (if cron \<le> 59 then (None, names @ [name]) else (Some (Errorf ''bad cron'' [] []), names))"

lemma refused_task_unnoticed_witness:
  "NewSchedulerApp take_schedule [sample_task ''a'' 5, sample_task ''b'' 75, sample_task ''c'' 5] [] = (None, [''a''])"
  using refused_task_unnoticed [of take_schedule "[sample_task ''a'' 5]" "[]" "[''a'']" "sample_task ''b'' 75" "Errorf ''bad cron'' [] []" "[''a'']" "[sample_task ''c'' 5]"]
  by (simp add: take_schedule_def sample_task_def)

end
