(* ===== verification/UserModule.thy ===== *)
theory UserModule
  imports Broker
begin

text \<open>
  The sample user module (\<open>internal/module/user\<close>): its endpoints, the messages it publishes and consumes,
  and the channel \<open>/ws/user\<close>, under the scope policy and the carried claims the application ships
  with (\<open>internal/app/auth/scopes.go\<close>, \<open>initiator_claims.go\<close>).

  Writing to a connection and the clock are parameters (\<open>socket_ops\<close>), and so are the validators and
  what Go's runes are of a string. The service behind the endpoints is not called for its result.
\<close>

section \<open>The application's policy\<close>

definition scopeImplications :: "(string \<times> string list) list" where
  "scopeImplications = [(''admin'', [''orders:read'', ''orders:write'', ''users:read'', ''users:write'', ''announcements:write''])]"

definition ScopeImplicationTable :: "(string \<times> string list) list" where
  "ScopeImplicationTable = foldl (\<lambda>out (scope, implied). put scope implied out) [] scopeImplications"

definition NewScopeExpander :: "scope_implications result option" where
  "NewScopeExpander = NewScopeImplications scopeImplications"

definition initiatorClaims :: "string list" where "initiatorClaims = []"
definition InitiatorClaimNames :: "string list" where "InitiatorClaimNames = initiatorClaims"
definition NewInitiatorClaims :: "claim_set result" where "NewInitiatorClaims = NewClaimSet initiatorClaims"

section \<open>Messages\<close>

definition UserCreatedTarget :: string where "UserCreatedTarget = ''user.created''"
definition HelloWorldTarget :: string where "HelloWorldTarget = ''hello_world''"
definition EchoMessage :: string where "EchoMessage = ''user.echo''"
definition EchoReplyMessage :: string where "EchoReplyMessage = ''user.echo_reply''"
definition WhoAmIMessage :: string where "WhoAmIMessage = ''user.whoami''"
definition WhoAmIReplyMessage :: string where "WhoAmIReplyMessage = ''user.whoami_reply''"
definition AnnounceMessage :: string where "AnnounceMessage = ''user.announce''"
definition AnnouncementMessage :: string where "AnnouncementMessage = ''user.announcement''"
definition announceScope :: string where "announceScope = ''announcements:write''"
definition LogTypeAnnouncementUndelivered :: string where "LogTypeAnnouncementUndelivered = ''user_announcement_undelivered_log''"
definition maxLoggedMessageType :: nat where "maxLoggedMessageType = 64"

lemmas message_names = EchoMessage_def WhoAmIMessage_def AnnounceMessage_def

record hello_world =
  hw_Message :: string
  hw_Source :: string

record user_created =
  uc_ID :: "64 word"
  uc_Name :: string
  uc_Email :: string

datatype user_message =
    UserEchoReply string time
  | UserWhoAmIReply string string
  | UserAnnouncement string time

section \<open>The channel\<close>

text \<open>
  Writing one envelope to the connection, and to every connection on the path; \<open>ctx.Err()\<close> and the clock.
\<close>

record 'w socket_ops =
  sk_JSON :: "string \<times> user_message \<Rightarrow> 'w \<Rightarrow> goerr option \<times> 'w"
  sk_BroadcastJSON :: "string \<times> user_message \<Rightarrow> 'w \<Rightarrow> goerr option \<times> 'w"
  sk_Err :: "goerr option"
  sk_Now :: time

definition no_rules :: "user_message \<Rightarrow> validation_error list" where "no_rules m = []"

definition handleEcho :: "'w socket_ops \<Rightarrow> request_context \<Rightarrow> ws_event \<Rightarrow> string \<Rightarrow> 'w \<Rightarrow> goerr option \<times> 'w" where
  "handleEcho ops ctx event msg w = Send (sk_Err ops) EchoReplyMessage no_rules (sk_JSON ops) (UserEchoReply msg (sk_Now ops)) w"

definition handleWhoAmI :: "'w socket_ops \<Rightarrow> request_context \<Rightarrow> ws_event \<Rightarrow> unit \<Rightarrow> 'w \<Rightarrow> goerr option \<times> 'w" where
  "handleWhoAmI ops ctx event msg w =
     (case PrincipalFrom ctx of
        None \<Rightarrow> (Some (Errorf ''user.whoami reached its handler without a caller'' [] []), w)
      | Some caller \<Rightarrow> Send (sk_Err ops) WhoAmIReplyMessage no_rules (sk_JSON ops) (UserWhoAmIReply (p_Subject caller) (p_Scheme caller)) w)"

text \<open>What could not be delivered is logged; the record is not part of what a handler returns here.\<close>

definition handleAnnounce :: "'w socket_ops \<Rightarrow> request_context \<Rightarrow> ws_event \<Rightarrow> string \<Rightarrow> 'w \<Rightarrow> goerr option \<times> 'w" where
  "handleAnnounce ops ctx event msg w =
     (case Send (sk_Err ops) AnnouncementMessage no_rules (sk_BroadcastJSON ops) (UserAnnouncement msg (sk_Now ops)) w of
        (err, w') \<Rightarrow> (None, w'))"

definition announce_logs :: "goerr option \<Rightarrow> logs" where
  "announce_logs err = (case err of None \<Rightarrow> [] | Some e \<Rightarrow> [(Warn, LogTypeAnnouncementUndelivered)])"

text \<open>\<open>echo_body\<close> and \<open>announce_body\<close> decode and validate their message's text, \<open>whoami_body\<close> an object.\<close>

record bodies =
  bo_echo :: "string \<Rightarrow> validation_error list + string"
  bo_whoami :: "string \<Rightarrow> validation_error list + unit"
  bo_announce :: "string \<Rightarrow> validation_error list + string"

definition user_receivers :: "bodies \<Rightarrow> 'w socket_ops \<Rightarrow> 'w receiver list" where
  "user_receivers bo ops =
     [Receive EchoMessage None (bo_echo bo) (handleEcho ops),
      Receive WhoAmIMessage (Some \<lparr>ms_Scopes = []\<rparr>) (bo_whoami bo) (handleWhoAmI ops),
      Receive AnnounceMessage (Some \<lparr>ms_Scopes = [announceScope]\<rparr>) (bo_announce bo) (handleAnnounce ops)]"

text \<open>\<open>configure\<close> adds the logging below and the handler of new connections.\<close>

definition Declare :: "bodies \<Rightarrow> 'w socket_ops \<Rightarrow> (('s, 'w, 'b) runtime_module \<Rightarrow> ('s, 'w, 'b) runtime_module) \<Rightarrow> ('s, 'w, 'b) channel" where
  "Declare bo ops configure = \<lparr>ch_Path = ''/ws/user'', ch_Receive = user_receivers bo ops,
     ch_Security = Some \<lparr>ws_Public = True, ws_Schemes = [], ws_Scopes = []\<rparr>, ch_Configure = Some configure\<rparr>"

text \<open>A record of a message: its type, cut to so many characters, and its size.\<close>

definition truncate_runes :: "(string \<Rightarrow> string list) \<Rightarrow> string \<Rightarrow> nat \<Rightarrow> string" where
  "truncate_runes runes s limit = (if length (runes s) \<le> limit then s else concat (take limit (runes s)))"

record message_record =
  mr_message_type :: string
  mr_bytes :: nat

definition LogOnMessage ::
  "(string \<Rightarrow> string list) \<Rightarrow> parse_envelope \<Rightarrow> 'w on_message option \<Rightarrow> request_context \<Rightarrow> ws_event \<Rightarrow> 'w \<Rightarrow>
     (goerr option \<times> error_payload list \<times> 'w) \<times> message_record" where
  "LogOnMessage runes parse next ctx event w =
     ((case next of None \<Rightarrow> (None, [], w) | Some f \<Rightarrow> f ctx event w),
      \<lparr>mr_message_type = truncate_runes runes (MessageTypeOf parse (MessageData event)) maxLoggedMessageType, mr_bytes = length (MessageData event)\<rparr>)"

section \<open>Publishing and consuming\<close>

definition NewHelloWorldPublication ::
  "(hello_world \<Rightarrow> validation_error list) \<Rightarrow> ('o, 'b) publish_fun option \<Rightarrow> ('o, hello_world, 'b) publication" where
  "NewHelloWorldPublication check publish =
     NewPublication publish (Some \<lparr>ps_Target = HelloWorldTarget, ps_check = check, ps_Options = []\<rparr>)"

text \<open>\<open>persistent\<close> is the broker library's option.\<close>

definition NewUserCreatedPublication ::
  "(user_created \<Rightarrow> validation_error list) \<Rightarrow> 'o \<Rightarrow> ('o, 'b) publish_fun option \<Rightarrow> ('o, user_created, 'b) publication" where
  "NewUserCreatedPublication check persistent publish =
     NewPublication publish (Some \<lparr>ps_Target = UserCreatedTarget, ps_check = check, ps_Options = [persistent]\<rparr>)"

text \<open>The handler writes a record and changes nothing.\<close>

definition NewHelloWorldSubscription ::
  "(string \<Rightarrow> validation_error list + hello_world) \<Rightarrow> 'o \<Rightarrow> ('o, 'w) subscription_module" where
  "NewHelloWorldSubscription body discard =
     NewSubscriptionModule \<lparr>sb_Target = HelloWorldTarget, sb_body = body, sb_Options = [discard], sb_OnInvalid = InvalidDiscard,
       sb_Handle = (\<lambda>ctx msg meta w. (None, w))\<rparr>"

section \<open>Endpoints\<close>

record user_dto =
  ud_ID :: "64 word"
  ud_Name :: string

record 'r user_result =
  ur_Body :: 'r
  ur_Status :: "int option"
  ur_Headers :: "(string \<times> string) list"

definition user_endpoint :: "string \<Rightarrow> (request \<Rightarrow> validation_error list + 'q) \<Rightarrow> int \<Rightarrow> (request \<Rightarrow> 'q \<Rightarrow> ('w, 'v, 'r result) handler) \<Rightarrow>
    ('w, 'v, 'q, 'r) endpoint" where
  "user_endpoint scope body success handle =
     \<lparr>ep_Security = Some \<lparr>Public = False, sec_Schemes = [], sec_Scopes = [scope], Resource = None\<rparr>, ep_Body = body, ep_PathRules = [],
      ep_QueryRules = [], ep_Success = success, ep_Produces = [], ep_Responses = [], ep_Handle = handle\<rparr>"

text \<open>A log record of the publication itself is its own; the failure's is this endpoint's.\<close>

fun log_all :: "logs \<Rightarrow> ('w, 'v, 'r) handler \<Rightarrow> ('w, 'v, 'r) handler" where
  "log_all [] h = h"
| "log_all ((lev, t) # l) h = Log lev t (log_all l h)"

definition NewPost ::
  "(request \<Rightarrow> validation_error list + user_dto) \<Rightarrow> (user_created \<Rightarrow> string result) \<Rightarrow> ('o, user_created, 'b) publication \<Rightarrow>
     ('b, 'v, user_dto, user_dto user_result) endpoint" where
  "NewPost body marshal userCreated =
     (user_endpoint ''users:write'' body 201 (\<lambda>r req.
        if rq_Query r ''async'' = Some ''true'' then
          Return (Inr \<lparr>ur_Body = \<lparr>ud_ID = 1, ud_Name = ud_Name req\<rparr>, ur_Status = Some 202, ur_Headers = [(''Retry-After'', ''5'')]\<rparr>)
        else
          Get (\<lambda>b. case Publish marshal userCreated (rq_ctx r) \<lparr>uc_ID = 1, uc_Name = ud_Name req, uc_Email = []\<rparr> [] [] b of
            (e, b', l) \<Rightarrow> Put b' (log_all (l @ (if e = None then [] else [(Error, [])]))
              (Return (Inr \<lparr>ur_Body = \<lparr>ud_ID = 1, ud_Name = ud_Name req\<rparr>, ur_Status = None, ur_Headers = []\<rparr>))))))
       \<lparr>ep_Responses := [202]\<rparr>"

record update_user =
  uu_Name :: "string option option"           \<comment> \<open>\<open>Optional\<close>: absent, null or a value\<close>
  uu_Nickname :: "string option option"

definition NewPatch :: "(request \<Rightarrow> validation_error list + update_user) \<Rightarrow> ('w, 'v, update_user, user_dto user_result) endpoint" where
  "NewPatch body =
     (user_endpoint ''users:write'' body 200 (\<lambda>r req.
        Return (Inr \<lparr>ur_Body = \<lparr>ud_ID = 1, ud_Name = (case uu_Name req of Some (Some name) \<Rightarrow> name | _ \<Rightarrow> ''hoge'')\<rparr>,
          ur_Status = None, ur_Headers = []\<rparr>)))\<lparr>ep_PathRules := [\<lparr>rule_Field = ''id''\<rparr>]\<rparr>"

section \<open>The policy in force\<close>

lemma shipped_states: "(h, r) \<in> states scopeImplications \<longleftrightarrow>
    h = ''admin'' \<and> r \<in> {''orders:read'', ''orders:write'', ''users:read'', ''users:write'', ''announcements:write''}"
  by (auto simp: states_def scopeImplications_def)

lemma shipped_acyclic: "acyclic (states scopeImplications)"
proof (unfold acyclic_def, intro allI notI)
  fix x
  assume "(x, x) \<in> (states scopeImplications)\<^sup>+"
  then obtain y where "(x, y) \<in> states scopeImplications" "(y, x) \<in> (states scopeImplications)\<^sup>*" by (auto dest: tranclD)
  then have "x = ''admin''" "y \<noteq> ''admin''" "\<exists>z. (z, x) \<in> states scopeImplications"
    by (auto simp: shipped_states elim: rtranclE)
  then show False by (auto simp: shipped_states)
qed

lemma shipped_loads: "\<exists>s. NewScopeImplications scopeImplications = Some (Inr s)"
proof (rule NewScopeImplications_cases)
  show "distinct (map fst scopeImplications)" by (simp add: scopeImplications_def)
  show thesis if "has_empty_name scopeImplications" for thesis :: bool
    using that by (simp add: has_empty_name_def scopeImplications_def)
qed (use is_cycle_not_acyclic shipped_acyclic in blast)+

lemma SatisfiesScopes_built:
  assumes "distinct (map fst table)" "NewScopeImplications table = Some (Inr t)"
  shows "SatisfiesScopes (WithScopeExpander (Some (Expand (Some t))) (Some p)) [scope] \<longleftrightarrow>
    (\<exists>h \<in> set (p_Scopes p). (h, scope) \<in> (states table)\<^sup>*)"
proof -
  have "WithScopeExpander (Some (Expand (Some t))) (Some p) \<noteq> None" by (simp add: WithScopeExpander_def)
  then have "SatisfiesScopes (WithScopeExpander (Some (Expand (Some t))) (Some p)) [scope] \<longleftrightarrow>
      scope \<in> (states table)\<^sup>* `` set (p_Scopes p)"
    unfolding SatisfiesScopes_iff EffectiveScopes_attached Expand_built [OF assms] by simp
  then show ?thesis by blast
qed

lemma shipped_grants:
  assumes "NewScopeImplications scopeImplications = Some (Inr t)"
  shows "SatisfiesScopes (WithScopeExpander (Some (Expand (Some t))) (Some p)) [scope] \<longleftrightarrow>
    scope \<in> set (p_Scopes p) \<or>
    (''admin'' \<in> set (p_Scopes p) \<and> scope \<in> {''orders:read'', ''orders:write'', ''users:read'', ''users:write'', ''announcements:write''})"
proof -
  let ?implied = "{''orders:read'', ''orders:write'', ''users:read'', ''users:write'', ''announcements:write''}"
  have d: "distinct (map fst scopeImplications)" by (simp add: scopeImplications_def)
  have reach: "(h, r) \<in> (states scopeImplications)\<^sup>* \<longleftrightarrow> h = r \<or> (h = ''admin'' \<and> r \<in> ?implied)" for h r
  proof
    assume "(h, r) \<in> (states scopeImplications)\<^sup>*"
    then show "h = r \<or> (h = ''admin'' \<and> r \<in> ?implied)" by (induction rule: rtrancl_induct) (auto simp: shipped_states)
  next
    assume "h = r \<or> (h = ''admin'' \<and> r \<in> ?implied)"
    then have "h = r \<or> (h, r) \<in> states scopeImplications" by (simp only: shipped_states)
    then show "(h, r) \<in> (states scopeImplications)\<^sup>*" by auto
  qed
  have alg: "(\<exists>h \<in> A. h = r \<or> (h = a \<and> r \<in> I)) \<longleftrightarrow> r \<in> A \<or> (a \<in> A \<and> r \<in> I)" for A I and r a :: string by blast
  show ?thesis unfolding SatisfiesScopes_built [OF d assms] reach by (rule alg)
qed

text \<open>
  C19. The shipped policy loads, and under it holding \<open>admin\<close> stands for each scope the table lists and no
  other scope stands for anything but itself.
\<close>

theorem shipped_policy:
  "\<exists>s. NewScopeExpander = Some (Inr s) \<and>
     (\<forall>p scope. SatisfiesScopes (WithScopeExpander (Some (Expand (Some s))) (Some p)) [scope] \<longleftrightarrow>
        scope \<in> set (p_Scopes p) \<or>
        (''admin'' \<in> set (p_Scopes p) \<and> scope \<in> {''orders:read'', ''orders:write'', ''users:read'', ''users:write'', ''announcements:write''}))"
proof -
  obtain t where t: "NewScopeImplications scopeImplications = Some (Inr t)" using shipped_loads by blast
  from shipped_grants [OF t] show ?thesis unfolding NewScopeExpander_def by (intro exI [of _ t] conjI t allI)
qed

section \<open>Who may announce\<close>

lemma Send_keeps:
  assumes "\<forall>e w. obs (snd (deliver e w)) = obs w"
  shows "obs (snd (Send err name check deliver m w)) = obs w"
  using assms by (auto simp: Send_def split: sum.split)

lemma handleWhoAmI_keeps:
  assumes "\<forall>e w. obs (snd (sk_JSON ops e w)) = obs w"
  shows "obs (snd (handleWhoAmI ops ctx event msg w)) = obs w"
  using Send_keeps [OF assms] by (simp add: handleWhoAmI_def split: option.split)

lemma dispatch_built_cases:
  assumes "reached parse (receivers_map rs) ctx event = Some (envelope, Receive name sec body h)"
    and "\<forall>errs data. body data = Inl errs \<longrightarrow> errs \<noteq> []"
    and "dispatch parse preferred (receivers_map rs) ctx event w = (e, replies, w')"
  obtains "e = None" "w' = w" | msg where "body (payloadOf envelope) = Inr msg" "h ctx event msg w = (e, w')" "replies = []"
  using assms(3) dispatch_built [OF assms(1,2), of preferred w]
  by (cases "body (payloadOf envelope)"; cases "h ctx event (projr (body (payloadOf envelope))) w") auto

text \<open>What a frame reaches on this channel.\<close>

lemma user_receiver:
  assumes "rv \<in> set (user_receivers bo ops)"
  obtains "rv = Receive EchoMessage None (bo_echo bo) (handleEcho ops)"
  | "rv = Receive WhoAmIMessage (Some \<lparr>ms_Scopes = []\<rparr>) (bo_whoami bo) (handleWhoAmI ops)"
  | "rv = Receive AnnounceMessage (Some \<lparr>ms_Scopes = [announceScope]\<rparr>) (bo_announce bo) (handleAnnounce ops)"
  using assms by (auto simp: user_receivers_def)

text \<open>
  C18. On the sample channel, only a verified caller with the announcing scope makes anything
  happen beyond an answer on the sender's own connection, and only with a well-formed announcement; a connection is
  closed by nothing but a failed answer, so an announcement that reaches nobody closes none and the caller question is
  never put to a connection without one.
\<close>

theorem announcements_need_scope:
  fixes obs :: "'w \<Rightarrow> 'o"
  assumes "dispatch parse preferred (receivers_map (user_receivers bo ops)) ctx event w = (e, replies, w')"
    and own: "\<forall>m w. obs (snd (sk_JSON ops m w)) = obs w"
    and rules: "\<forall>errs d. bo_echo bo d = Inl errs \<longrightarrow> errs \<noteq> []" "\<forall>errs d. bo_whoami bo d = Inl errs \<longrightarrow> errs \<noteq> []"
      "\<forall>errs d. bo_announce bo d = Inl errs \<longrightarrow> errs \<noteq> []"
  shows "(obs w' \<noteq> obs w \<longrightarrow> e = None \<and> replies = [] \<and> PrincipalFrom ctx \<noteq> None \<and> SatisfiesScopes (PrincipalFrom ctx) [announceScope] \<and>
      (\<exists>envelope msg. parse (MessageData event) = Some envelope \<and> in_Type envelope = AnnounceMessage \<and>
         bo_announce bo (payloadOf envelope) = Inr msg \<and>
         w' = snd (sk_BroadcastJSON ops (AnnouncementMessage, UserAnnouncement msg (sk_Now ops)) w))) \<and>
    (e \<noteq> None \<longrightarrow> (\<exists>name m. (e, w') = Send (sk_Err ops) name no_rules (sk_JSON ops) m w \<and>
      (name = WhoAmIReplyMessage \<longrightarrow> (\<exists>p. PrincipalFrom ctx = Some p \<and> m = UserWhoAmIReply (p_Subject p) (p_Scheme p)))))"
    (is "?changed \<and> ?closed")
proof (cases "reached parse (receivers_map (user_receivers bo ops)) ctx event")
  case None
  then show ?thesis using dispatch_unreached [OF None, of preferred w] assms(1) by auto
next
  case (Some p)
  then obtain envelope rv where p: "reached parse (receivers_map (user_receivers bo ops)) ctx event = Some (envelope, rv)"
    by (cases p) auto
  note d = reached_declared [OF p]
  from d(4) show ?thesis
  proof (cases rule: user_receiver)
    case 1
    from dispatch_built_cases [OF p [unfolded 1] rules(1) assms(1)] show ?thesis
    proof cases
      case (2 msg)
      then have "(e, w') = Send (sk_Err ops) EchoReplyMessage no_rules (sk_JSON ops) (UserEchoReply msg (sk_Now ops)) w"
        by (simp add: handleEcho_def)
      moreover from this have "obs w' = obs w" using Send_keeps [OF own] by (metis snd_conv)
      moreover have "EchoReplyMessage \<noteq> WhoAmIReplyMessage" by (simp add: EchoReplyMessage_def WhoAmIReplyMessage_def)
      ultimately show ?thesis by blast
    qed simp
  next
    case 2
    with d(3) obtain c where c: "PrincipalFrom ctx = Some c" by (auto simp: Receive_def message_Decide_def split: if_splits)
    from dispatch_built_cases [OF p [unfolded 2] rules(2) assms(1)] show ?thesis
    proof cases
      case (2 msg)
      then have "(e, w') = Send (sk_Err ops) WhoAmIReplyMessage no_rules (sk_JSON ops) (UserWhoAmIReply (p_Subject c) (p_Scheme c)) w"
        by (simp add: handleWhoAmI_def c)
      moreover from this have "obs w' = obs w" using Send_keeps [OF own] by (metis snd_conv)
      ultimately show ?thesis using c by blast
    qed simp
  next
    case 3
    with d(3) have c: "PrincipalFrom ctx \<noteq> None" "SatisfiesScopes (PrincipalFrom ctx) [announceScope]"
      by (auto simp: Receive_def message_Decide_def split: if_splits)
    have t: "in_Type envelope = AnnounceMessage" using d(5) 3 by (simp add: Receive_def)
    from dispatch_built_cases [OF p [unfolded 3] rules(3) assms(1)] show ?thesis
    proof cases
      case (2 msg)
      then have "e = None" "w' = w \<or> w' = snd (sk_BroadcastJSON ops (AnnouncementMessage, UserAnnouncement msg (sk_Now ops)) w)"
        by (auto simp: handleAnnounce_def Send_def sender_envelope_def no_rules_def split: prod.splits option.splits)
      with 2 c t d(1) show ?thesis by blast
    qed simp
  qed
qed

definition demo_user_ops :: "nat socket_ops" where
  "demo_user_ops = \<lparr>sk_JSON = (\<lambda>e n. (None, n)), sk_BroadcastJSON = (\<lambda>e n. (None, n + 1)), sk_Err = None, sk_Now = 0\<rparr>"

definition demo_bodies :: bodies where
  "demo_bodies = \<lparr>bo_echo = Inr, bo_whoami = (\<lambda>_. Inr ()), bo_announce = Inr\<rparr>"

lemma announcements_need_scope_witness:
  "SatisfiesScopes (PrincipalFrom (WithPrincipal Background (Some (demo_caller [''announcements:write''])))) [announceScope]"
proof -
  let ?ctx = "WithPrincipal Background (Some (demo_caller [''announcements:write'']))"
  let ?parse = "\<lambda>frame. Some \<lparr>in_Type = AnnounceMessage, in_Data = frame\<rparr>"
  have r: "receivers_map (user_receivers demo_bodies demo_user_ops) = map (\<lambda>r. (rv_name r, r)) (user_receivers demo_bodies demo_user_ops)"
    by (simp add: receivers_map_def user_receivers_def Receive_def message_names)
  have "dispatch ?parse (\<lambda>_. []) (receivers_map (user_receivers demo_bodies demo_user_ops)) ?ctx demo_event 0 = (None, [], 1)"
    unfolding r
    by (simp add: dispatch_def demo_event_def user_receivers_def Receive_def refusalOf_def message_names demo_bodies_def
        message_Decide_def demo_caller_def SatisfiesScopes_def announceScope_def handleAnnounce_def Send_def sender_envelope_def no_rules_def demo_user_ops_def payloadOf_def)
  from announcements_need_scope [OF this, of id, THEN conjunct1, THEN mp] show ?thesis
    by (simp add: demo_user_ops_def demo_bodies_def)
qed

end
