(* ===== verification/ExampleTypes.thy ===== *)
theory ExampleTypes
  imports ApiExamples
begin

text \<open>
  The example shown with a body has the type the schema beside it shows
  (\<open>internal/plamo/apidoc/schema.go\<close>, \<open>example.go\<close>, \<open>body.go\<close>): \<open>fits\<close> types generated values by schemas,
  whatever rules and meanings are written into the schema afterwards.
\<close>

section \<open>A value of a schema\<close>

text \<open>
  An object has exactly the fields its schema names; an object whose schema has a schema of its values
  may have any. The schema of a type JSON has nothing for is empty, and its value is null.
\<close>

lemma field_schema_size: "f \<in> set fs \<Longrightarrow> size (f_Schema f) < Suc (size_list size fs)"
proof -
  assume "f \<in> set fs"
  then have "size f \<le> size_list size fs" by (rule size_list_estimation') simp
  then show ?thesis by (cases f) simp
qed

function fits :: "schema \<Rightarrow> doc_json \<Rightarrow> bool" where
  "fits (Schema ty fm gt pkg nl cs fs items vals) v =
     (if ty = TypeString then (case v of JStr x \<Rightarrow> True | _ \<Rightarrow> False)
      else if ty = TypeInteger then (case v of JInt x \<Rightarrow> True | _ \<Rightarrow> False)
      else if ty = TypeNumber then (case v of JFloat x \<Rightarrow> True | _ \<Rightarrow> False)
      else if ty = TypeBoolean then (case v of JBool x \<Rightarrow> True | _ \<Rightarrow> False)
      else if ty = TypeArray then
        (case v of JArr xs \<Rightarrow> (case items of None \<Rightarrow> True | Some e \<Rightarrow> \<forall>x \<in> set xs. fits e x) | _ \<Rightarrow> False)
      else if ty = TypeObject then
        (case v of
           JObj m \<Rightarrow>
             (case vals of
                Some e \<Rightarrow> \<forall>x \<in> snd ` set m. fits e x
              | None \<Rightarrow> fst ` set m = f_Name ` set fs \<and>
                  (\<forall>f \<in> set fs. case map_of m (f_Name f) of None \<Rightarrow> False | Some x \<Rightarrow> fits (f_Schema f) x))
         | _ \<Rightarrow> False)
      else v = JNull)"
  by pat_completeness auto
termination fits
  by (relation "measure (size \<circ> fst)") (auto dest: field_schema_size)

declare fits.simps [simp del]

lemmas type_names = TypeString_def TypeInteger_def TypeNumber_def TypeBoolean_def TypeObject_def TypeArray_def

text \<open>Of a field only the name and the values its schema has are looked at.\<close>

definition face :: "field \<Rightarrow> string \<times> (doc_json \<Rightarrow> bool)" where
  "face f = (f_Name f, fits (f_Schema f))"

lemma fits_faces:
  "fits (Schema ty fm gt pkg nl cs fs items vals) v =
     (if ty = TypeObject then
        (case v of
           JObj m \<Rightarrow>
             (case vals of
                Some e \<Rightarrow> \<forall>x \<in> snd ` set m. fits e x
              | None \<Rightarrow> fst ` set m = fst ` face ` set fs \<and>
                  (\<forall>(name, p) \<in> face ` set fs. case map_of m name of None \<Rightarrow> False | Some x \<Rightarrow> p x))
         | _ \<Rightarrow> False)
      else fits (Schema ty fm gt pkg nl cs [] items vals) v)"
  by (cases v) (auto simp: fits.simps [of ty] face_def image_image type_names split: option.splits)

lemma fits_same_faces:
  assumes "face ` set fs = face ` set fs'"
  shows "fits (Schema ty fm gt pkg nl cs fs items vals) = fits (Schema ty fm' gt' pkg' nl' cs' fs' items vals)"
  by (rule ext) (simp only: fits_faces [of ty _ _ _ _ _ fs] fits_faces [of ty _ _ _ _ _ fs'] assms, auto simp: fits.simps [of ty])

lemma fits_with_fields: "face ` set fs = face ` set (s_Fields s) \<Longrightarrow> fits (with_fields s fs) = fits s"
  by (cases s) (simp add: with_fields_def fits_same_faces)

lemma fits_with_items: "s_Items s = Some e \<Longrightarrow> fits e' = fits e \<Longrightarrow> fits (with_items s e') = fits s"
  by (cases s) (auto simp: with_items_def fits.simps fun_eq_iff split: doc_json.splits)

section \<open>Rules and meanings leave the type alone\<close>

lemma change_named_faces:
  assumes "change_named g name fs = Some fs'" "\<And>f f'. f \<in> set fs \<Longrightarrow> g f = Some f' \<Longrightarrow> face f' = face f"
  shows "map face fs' = map face fs"
  using assms by (induction fs arbitrary: fs') (auto split: if_splits)

lemma below_arrays_fits:
  assumes "below_arrays n g s = Some s'" "\<And>s s'. g s = Some s' \<Longrightarrow> fits s' = fits s"
  shows "fits s' = fits s"
  using assms(1) by (induction n arbitrary: s s') (auto simp: assms(2) fits_with_items split: option.splits)

lemma change_field_fits:
  assumes "\<And>f. face (g f) = face f" "change_field g segs s = Some s'"
  shows "fits s' = fits s"
  using assms(2)
proof (induction segs arbitrary: s s')
  case (Cons seg segs)
  obtain name arrays where na: "splitArraySuffix 0 seg = (name, arrays)" by fastforce
  show ?case
  proof (cases segs)
    case Nil
    with Cons.prems na obtain fs where fs: "change_named (\<lambda>f. Some (g f)) name (s_Fields s) = Some fs" "s' = with_fields s fs" by auto
    then have "map face fs = map face (s_Fields s)" by (rule_tac change_named_faces) (auto simp: assms(1))
    then show ?thesis using fs(2) by (metis fits_with_fields set_map)
  next
    case (Cons seg' segs')
    let ?g = "\<lambda>f. map_option (with_schema f) (below_arrays arrays (change_field g segs) (f_Schema f))"
    from Cons.prems na Cons obtain fs where fs: "change_named ?g name (s_Fields s) = Some fs" "s' = with_fields s fs" by auto
    have "face f' = face f" if "?g f = Some f'" for f f'
      using that below_arrays_fits [of arrays "change_field g segs"] Cons.IH by (auto simp: face_def with_schema_def)
    then have "map face fs = map face (s_Fields s)" using change_named_faces [OF fs(1)] by blast
    then show ?thesis using fs(2) by (metis fits_with_fields set_map)
  qed
qed simp

lemma at_field_fits:
  assumes "\<And>f. face (g f) = face f"
  shows "fits (at_field g path s) = fits s"
  using change_field_fits [of g, OF assms] by (simp add: at_field_def split: option.split)

lemma face_describe: "face (describe_field d f) = face f" "face (applyNullability d f) = face f"
proof -
  have "fits (Schema (s_Type s) (s_Format s) (s_GoType s) (s_PkgPath s) nl cs (s_Fields s) (s_Items s) (s_Values s)) = fits s" for nl cs s
    by (cases s) (simp add: fits_same_faces)
  then show "face (describe_field d f) = face f" "face (applyNullability d f) = face f"
    by (simp_all add: face_def describe_field_def applyNullability_def with_schema_def Let_def split: prod.split)
qed

lemma face_rule_set: "face (apply_rule_set rs f) = face f"
proof -
  have "face (foldl (\<lambda>f d. describe_field d f) f ds) = face f" for ds f
    by (induction ds arbitrary: f) (simp_all add: face_describe)
  moreover have "face (foldl (\<lambda>f d. applyNullability d (describe_field d f)) f ds) = face f" for ds f
    by (induction ds arbitrary: f) (simp_all add: face_describe)
  ultimately show ?thesis by (simp add: apply_rule_set_def)
qed

lemma applyRules_fits: "fits (applyRules rules s) = fits s"
  unfolding applyRules_def by (induction rules arbitrary: s) (simp_all add: at_field_fits face_rule_set)

lemma setFieldMeaning_fits: "fits (setFieldMeaning path meaning s) = fits s"
  unfolding setFieldMeaning_def by (rule at_field_fits) (simp add: face_def)

lemma meanings_fits: "fits (foldl (\<lambda>s (path, meaning). setFieldMeaning path meaning s) s docs) = fits s"
  by (induction docs arbitrary: s) (auto simp: setFieldMeaning_fits)

section \<open>What is generated\<close>

text \<open>No two fields of a struct have one name in JSON.\<close>

definition unambiguous :: "structs \<Rightarrow> bool" where
  "unambiguous env \<longleftrightarrow> list_all (\<lambda>(i, d). distinct (map jsonName (filter in_json (st_fields d)))) env"

lemma structValue_fields:
  assumes "structValue tv sfs pre m g = Some (Inr v, g')"
  shows "\<exists>m'. v = JObj m' \<and> fst ` set m' = fst ` set m \<union> jsonName ` set (filter in_json sfs) \<and>
    (\<forall>name. name \<notin> jsonName ` set (filter in_json sfs) \<longrightarrow> map_of m' name = map_of m name) \<and>
    (distinct (map jsonName (filter in_json sfs)) \<longrightarrow>
      (\<forall>sf \<in> set (filter in_json sfs). \<exists>path g1 x g2. map_of m' (jsonName sf) = Some x \<and> tv (sf_Type sf) path g1 = Some (Inr x, g2)))"
  using assms
proof (induction sfs arbitrary: m g)
  case (Cons sf sfs)
  show ?case
  proof (cases "in_json sf")
    case True
    with Cons.prems obtain path x g1 where x: "tv (sf_Type sf) path g = Some (Inr x, g1)"
      and rest: "structValue tv sfs pre (put (jsonName sf) x m) g1 = Some (Inr v, g')"
      by (auto simp: Let_def split: option.splits prod.splits sum.splits)
    from Cons.IH [OF rest] obtain m' where m': "v = JObj m'"
      "fst ` set m' = fst ` set (put (jsonName sf) x m) \<union> jsonName ` set (filter in_json sfs)"
      "\<And>name. name \<notin> jsonName ` set (filter in_json sfs) \<Longrightarrow> map_of m' name = map_of (put (jsonName sf) x m) name"
      "distinct (map jsonName (filter in_json sfs)) \<longrightarrow>
        (\<forall>sf \<in> set (filter in_json sfs). \<exists>path g1 x g2. map_of m' (jsonName sf) = Some x \<and> tv (sf_Type sf) path g1 = Some (Inr x, g2))"
      by blast
    have this0: "\<exists>path g1 x g2. map_of m' (jsonName sf) = Some x \<and> tv (sf_Type sf) path g1 = Some (Inr x, g2)"
      if "jsonName sf \<notin> jsonName ` set (filter in_json sfs)"
      using m'(3) [OF that] x by (auto simp: map_of_put)
    have "fst ` set (put (jsonName sf) x m) = insert (jsonName sf) (fst ` set m)"
      using set_keys_put [of "jsonName sf" x m] by simp
    then have "fst ` set m' = fst ` set m \<union> jsonName ` set (filter in_json (sf # sfs))" using m'(2) True by simp
    moreover have "map_of m' name = map_of m name" if "name \<notin> jsonName ` set (filter in_json (sf # sfs))" for name
      using m'(3) [of name] that True by simp
    moreover have "\<exists>path g1 x g2. map_of m' (jsonName sf') = Some x \<and> tv (sf_Type sf') path g1 = Some (Inr x, g2)"
      if "distinct (map jsonName (filter in_json (sf # sfs)))" "sf' \<in> set (filter in_json (sf # sfs))" for sf'
    proof (cases "sf' = sf")
      case True
      with that(1) \<open>in_json sf\<close> this0 show ?thesis by simp
    next
      case False
      with that m'(4) \<open>in_json sf\<close> show ?thesis by simp
    qed
    ultimately show ?thesis using m'(1) by blast
  next
    case False
    with Cons show ?thesis by simp
  qed
qed auto

text \<open>
  \<open>visiting\<close> are structs above this type; without a struct that contains itself none of them is met again, so
  the schema is not cut off where the example goes on.
\<close>

lemma typeValue_fits:
  assumes "acyclic (contains env)" "unambiguous env"
  shows "typeValue n lower eg env t path g = Some (Inr v, g') \<Longrightarrow>
    \<forall>i \<in> set visiting. \<forall>j \<in> set (mentions t). (j, i) \<in> (contains env)\<^sup>+ \<Longrightarrow> fits (buildSchema env visiting t) v"
proof (induction n arbitrary: t path g v g' visiting)
  case (Suc n)
  obtain nl t' where t': "strip_type t = (nl, t')" by fastforce
  have sub: "set (mentions t') \<subseteq> set (mentions t)" using mentions_strip_type [of t] t' by simp
  show ?case
  proof (cases "struct_id t'")
    case None
    show ?thesis
    proof (cases t')
      case (GoScalar k)
      then show ?thesis using Suc.prems t'
        by (cases k) (auto simp: buildSchema.simps [of env visiting t] fits.simps type_names scalarValue_def Let_def split: prod.splits sum.splits)
    next
      case (GoSlice e)
      with Suc.prems(1) t' obtain x g1 where x: "typeValue n lower eg env e (path @ ''[]'') g = Some (Inr x, g1)" "v = JArr [x]"
        by (auto split: option.splits prod.splits sum.splits)
      have "\<forall>i \<in> set visiting. \<forall>j \<in> set (mentions e). (j, i) \<in> (contains env)\<^sup>+" using sub Suc.prems(2) GoSlice by auto
      from Suc.IH [OF x(1) this] x(2) GoSlice t' show ?thesis
        by (simp add: buildSchema.simps [of env visiting t] fits.simps type_names)
    qed (use Suc.prems t' None in \<open>auto simp: buildSchema.simps [of env visiting t] fits.simps type_names\<close>)
  next
    case (Some i)
    have i: "i \<in> set (mentions t)" using sub Some by (cases t') auto
    show ?thesis
    proof (cases "map_of env i")
      case None
      with Some Suc.prems(1) t' have "v = JObj []" by (cases t') auto
      moreover have "buildSchema env visiting t = Schema TypeObject [] [] [] nl [] [] None None"
        using None Some t' by (cases t') (auto simp: buildSchema.simps [of env visiting t])
      ultimately show ?thesis by (simp add: fits.simps type_names)
    next
      case d: (Some d)
      have fresh: "i \<notin> set visiting" using Suc.prems(2) i assms(1) by (auto simp: acyclic_def)
      let ?fs = "map (\<lambda>sf. Field (jsonName sf) False (hasOmitempty sf \<or> is_optional (sf_Type sf)) []
        (buildSchema env (i # visiting) (sf_Type sf))) (filter in_json (st_fields d))"
      have b: "buildSchema env visiting t = Schema TypeObject [] (goTypeName d) (st_PkgPath d) nl [] ?fs None None"
        using d Some t' fresh by (cases t') (auto simp: buildSchema.simps [of env visiting t])
      from Some d Suc.prems(1) t' have v: "structValue (typeValue n lower eg env) (st_fields d) path [] g = Some (Inr v, g')"
        by (cases t') auto
      have "distinct (map jsonName (filter in_json (st_fields d)))"
        using assms(2) map_of_SomeD [OF d] by (auto simp: unambiguous_def list_all_iff)
      with structValue_fields [OF v] obtain m where m: "v = JObj m" "fst ` set m = jsonName ` set (filter in_json (st_fields d))"
        "\<And>sf. sf \<in> set (filter in_json (st_fields d)) \<Longrightarrow>
          \<exists>path g1 x g2. map_of m (jsonName sf) = Some x \<and> typeValue n lower eg env (sf_Type sf) path g1 = Some (Inr x, g2)"
        by auto
      have "case map_of m (jsonName sf) of None \<Rightarrow> False | Some x \<Rightarrow> fits (buildSchema env (i # visiting) (sf_Type sf)) x"
        if sf: "sf \<in> set (filter in_json (st_fields d))" for sf
      proof -
        from m(3) [OF sf] obtain path1 g1 x g2 where x: "map_of m (jsonName sf) = Some x"
          "typeValue n lower eg env (sf_Type sf) path1 g1 = Some (Inr x, g2)" by blast
        have "(j, i) \<in> contains env" if "j \<in> set (mentions (sf_Type sf))" for j
          using that d sf by (auto simp: contains_def)
        then have "\<forall>i' \<in> set (i # visiting). \<forall>j \<in> set (mentions (sf_Type sf)). (j, i') \<in> (contains env)\<^sup>+"
          using Suc.prems(2) i by (auto intro: trancl_into_trancl2)
        from Suc.IH [OF x(2) this] x(1) show ?thesis by simp
      qed
      with m(1,2) show ?thesis by (simp add: b fits.simps type_names image_image cong: option.case_cong)
    qed
  qed
qed simp

text \<open>
  C29. The example shown with a body has the type the schema beside it shows, field by field, with every
  rule and meaning written into that schema: exactly the named fields, each with a value of its own
  type. For types whose structs do not contain themselves and name their fields apart.
\<close>

theorem example_has_documented_type:
  assumes "acyclic (contains env)" "unambiguous env"
    and "BodySchema n lower fk env t rules opts docs = Some (Inr (Some (s, x)))"
  shows "fits s x"
proof -
  from assms(3) obtain t' s0 where t: "t = Some t'" "s0 = buildSchema env [] t'"
    "s = foldl (\<lambda>s (path, meaning). setFieldMeaning path meaning s) (applyRules rules s0) (concat docs)"
    "ExampleFromType n lower fk env t rules opts = Some (Inr x)"
    by (auto simp: BodySchema_def SchemaFromType_def Let_def split: option.splits sum.splits if_splits)
  from t(1,4) obtain g' where "typeValue n lower \<lparr>eg_faker = fk, eg_constraints = descriptorsByField rules, eg_opts = opts\<rparr> env t' [] (fk_Seed fk)
      = Some (Inr x, g')" by (auto simp: ExampleFromType_def)
  from typeValue_fits [OF assms(1,2) this, of "[]"] show ?thesis
    by (simp add: t(2,3) meanings_fits applyRules_fits)
qed

definition pet_structs :: structs where
  "pet_structs = [(''Pet'', \<lparr>st_Name = ''Pet'', st_String = ''dto.Pet'', st_PkgPath = ''dto'', st_fields =
     [\<lparr>sf_Name = ''Name'', sf_Exported = True, sf_Tag = ''name'', sf_Type = GoScalar KString\<rparr>,
      \<lparr>sf_Name = ''Ages'', sf_Exported = True, sf_Tag = ''ages'', sf_Type = GoSlice (GoPtr (GoScalar KInteger))\<rparr>,
      \<lparr>sf_Name = ''Home'', sf_Exported = True, sf_Tag = ''home'', sf_Type = GoStruct ''Home''\<rparr>]\<rparr>),
    (''Home'', \<lparr>st_Name = ''Home'', st_String = ''dto.Home'', st_PkgPath = ''dto'', st_fields =
     [\<lparr>sf_Name = ''Since'', sf_Exported = True, sf_Tag = ''since'', sf_Type = GoTime\<rparr>]\<rparr>)]"

lemma pet_structs_ok: "acyclic (contains pet_structs)" "unambiguous pet_structs"
proof -
  have "contains pet_structs \<subseteq> {(''Home'', ''Pet'')}"
    by (auto simp: contains_def pet_structs_def split: if_splits)
  then have "acyclic (contains pet_structs)" by (rule acyclic_subset [rotated]) (simp add: acyclic_insert wf_acyclic)
  then show "acyclic (contains pet_structs)" .
  show "unambiguous pet_structs" by (simp add: unambiguous_def pet_structs_def in_json_def jsonName_def)
qed

definition pet :: doc_json where
  "pet = JObj [(''name'', JStr ''Ann''), (''ages'', JArr [JInt 1]), (''home'', JObj [(''since'', JStr fixtureTime)])]"

lemma pet_described:
  "SchemaFromType pet_structs (Some (GoStruct ''Pet'')) \<noteq> None"
  "ExampleFromType 4 id least_faker pet_structs (Some (GoStruct ''Pet'')) [] \<lparr>eo_Resource = [], eo_IDPrefixes = (\<lambda>_. None)\<rparr> = Some (Inr pet)"
proof -
  have "case SchemaFromType pet_structs (Some (GoStruct ''Pet'')) of None \<Rightarrow> False | Some s \<Rightarrow> True" by code_simp
  then show "SchemaFromType pet_structs (Some (GoStruct ''Pet'')) \<noteq> None" by (auto split: option.splits)
  show "ExampleFromType 4 id least_faker pet_structs (Some (GoStruct ''Pet'')) [] \<lparr>eo_Resource = [], eo_IDPrefixes = (\<lambda>_. None)\<rparr> = Some (Inr pet)"
    by code_simp
qed

lemma example_has_documented_type_witness:
  "\<exists>s. SchemaFromType pet_structs (Some (GoStruct ''Pet'')) = Some s \<and> fits s pet"
proof -
  obtain s where s: "SchemaFromType pet_structs (Some (GoStruct ''Pet'')) = Some s" using pet_described(1) by blast
  have "BodySchema 4 id least_faker pet_structs (Some (GoStruct ''Pet'')) [] \<lparr>eo_Resource = [], eo_IDPrefixes = (\<lambda>_. None)\<rparr> [] =
    Some (Inr (Some (s, pet)))" by (simp add: BodySchema_def s pet_described(2) applyRules_def)
  from example_has_documented_type [OF pet_structs_ok this] s show ?thesis by blast
qed

end
