(* ===== verification/Lifecycle.thy ===== *)
theory Lifecycle
  imports Restkit
begin

text \<open>
  The life of the process: what components ask the container for (\<open>internal/plamo/dikit\<close>), how the server and
  the scheduler are configured, run and ended (\<open>internal/app/bootstrap\<close>, \<open>cmd/server\<close>, \<open>cmd/scheduler\<close>), and the
  hooks of the HTTP server, the gRPC server, the worker and the scheduler.

  The container (fx) is a package of its own: building, starting, waiting and stopping are a parameter
  (\<open>fx_app\<close>), and what its documentation promises of hooks is \<open>fx_laws\<close>. A goroutine that serves is started by a
  hook (\<open>spawn\<close>); what it does when serving ends is a function of how it ended.
\<close>

section \<open>Hooks\<close>

type_synonym 'w action = "'w \<Rightarrow> goerr option \<times> 'w"

record 'w hook =
  OnStart :: "'w action option"
  OnStop :: "'w action option"

type_synonym 'w lc = "'w hook list"

definition RegisterLifecycle :: "'w lc \<Rightarrow> 'w action \<Rightarrow> 'w action \<Rightarrow> 'w lc" where
  "RegisterLifecycle lc onStart onStop = lc @ [\<lparr>OnStart = Some onStart, OnStop = Some onStop\<rparr>]"

definition RegisterOnStartLifecycle :: "'w lc \<Rightarrow> 'w action \<Rightarrow> 'w lc" where
  "RegisterOnStartLifecycle lc onStart = lc @ [\<lparr>OnStart = Some onStart, OnStop = None\<rparr>]"

definition RegisterOnStopLifecycle :: "'w lc \<Rightarrow> 'w action \<Rightarrow> 'w lc" where
  "RegisterOnStopLifecycle lc onStop = lc @ [\<lparr>OnStart = None, OnStop = Some onStop\<rparr>]"

text \<open>The context whose end stops what runs for as long as the application does.\<close>

definition ProvideRootContext :: "('w \<Rightarrow> 'w) \<Rightarrow> 'w lc \<Rightarrow> 'w lc" where
  "ProvideRootContext cancel lc = lc @ [\<lparr>OnStart = None, OnStop = Some (\<lambda>w. (None, cancel w))\<rparr>]"

section \<open>Annotations\<close>

record 'f annotated =
  an_f :: 'f
  an_As :: "string option"
  an_ParamTags :: "string list"
  an_ResultTags :: "string list"

definition tag :: "string \<Rightarrow> string \<Rightarrow> string" where
  "tag key v = key @ '':'' @ [CHR 0x22] @ v @ [CHR 0x22]"

definition GroupTagHttpModules :: string where "GroupTagHttpModules = tag ''group'' ''http_modules''"
definition GroupTagWSModules :: string where "GroupTagWSModules = tag ''group'' ''ws_modules''"
definition GroupTagGRPCServices :: string where "GroupTagGRPCServices = tag ''group'' ''grpc_services''"
definition GroupTagWorkerJobs :: string where "GroupTagWorkerJobs = tag ''group'' ''worker_jobs''"
definition GroupTagScheduledTasks :: string where "GroupTagScheduledTasks = tag ''group'' ''scheduled_tasks''"
definition GroupTagMBSubscriptions :: string where "GroupTagMBSubscriptions = tag ''group'' ''mb_subscriptions''"
definition GroupTagMBPublications :: string where "GroupTagMBPublications = tag ''group'' ''mb_publications''"

definition plain :: "'f \<Rightarrow> 'f annotated" where
  "plain f = \<lparr>an_f = f, an_As = None, an_ParamTags = [], an_ResultTags = []\<rparr>"

text \<open>The lists of constructors and of invocations are variables of the package.\<close>

definition AppendConstructors :: "'f list \<Rightarrow> 'f list \<Rightarrow> 'f list" where
  "AppendConstructors adding constructors = constructors @ adding"

definition AppendInvocations :: "'f list \<Rightarrow> 'f list \<Rightarrow> 'f list" where
  "AppendInvocations adding invocations = invocations @ adding"

definition ProvideAs :: "string \<Rightarrow> 'f \<Rightarrow> 'f annotated" where
  "ProvideAs T f = (plain f)\<lparr>an_As := Some T\<rparr>"

definition ProvideAsNamed :: "string \<Rightarrow> 'f \<Rightarrow> string \<Rightarrow> 'f annotated" where
  "ProvideAsNamed T f name = (plain f)\<lparr>an_As := Some T, an_ResultTags := [tag ''name'' name]\<rparr>"

definition ProvideNamed :: "'f \<Rightarrow> string \<Rightarrow> 'f annotated" where
  "ProvideNamed f name = (plain f)\<lparr>an_ResultTags := [tag ''name'' name]\<rparr>"

definition AsHTTPModule :: "'f \<Rightarrow> 'f annotated" where
  "AsHTTPModule f = (plain f)\<lparr>an_ResultTags := [GroupTagHttpModules]\<rparr>"

definition AsHTTPModuleWithTags :: "'f \<Rightarrow> string list \<Rightarrow> 'f annotated" where
  "AsHTTPModuleWithTags f tags = (plain f)\<lparr>an_ParamTags := tags, an_ResultTags := [GroupTagHttpModules]\<rparr>"

definition AsHTTPModuleWithNamedEndpoints :: "'f \<Rightarrow> string list \<Rightarrow> 'f annotated" where
  "AsHTTPModuleWithNamedEndpoints f names =
     AsHTTPModuleWithTags f (map (\<lambda>name. if name = [] then [] else tag ''name'' name) names)"

definition AsWSModule :: "'f \<Rightarrow> 'f annotated" where
  "AsWSModule f = (plain f)\<lparr>an_ResultTags := [GroupTagWSModules]\<rparr>"

definition AsGRPCService :: "'f \<Rightarrow> 'f annotated" where
  "AsGRPCService f = (plain f)\<lparr>an_As := Some ''GRPCServiceRegistrar'', an_ResultTags := [GroupTagGRPCServices]\<rparr>"

definition AsWorkerJob :: "'f \<Rightarrow> 'f annotated" where
  "AsWorkerJob f = (plain f)\<lparr>an_ResultTags := [GroupTagWorkerJobs]\<rparr>"

definition AsScheduledTask :: "'f \<Rightarrow> 'f annotated" where
  "AsScheduledTask f = (plain f)\<lparr>an_ResultTags := [GroupTagScheduledTasks]\<rparr>"

definition AsMBSubscription :: "'f \<Rightarrow> 'f annotated" where
  "AsMBSubscription f = (plain f)\<lparr>an_ResultTags := [GroupTagMBSubscriptions]\<rparr>"

definition AsMBPublication :: "'f \<Rightarrow> 'f annotated" where
  "AsMBPublication f = (plain f)\<lparr>an_ResultTags := [GroupTagMBPublications]\<rparr>"

definition InjectWithTags :: "'f \<Rightarrow> string list \<Rightarrow> 'f annotated" where
  "InjectWithTags f tags = (plain f)\<lparr>an_ParamTags := tags\<rparr>"

definition InjectGRPCClient :: "'f \<Rightarrow> string \<Rightarrow> 'f annotated" where
  "InjectGRPCClient f name = (plain f)\<lparr>an_ParamTags := [tag ''name'' name]\<rparr>"

definition InjectHTTPModules :: "'f \<Rightarrow> 'f annotated" where
  "InjectHTTPModules f = (plain f)\<lparr>an_ParamTags := [GroupTagHttpModules, []]\<rparr>"

definition InjectWSModules :: "'f \<Rightarrow> 'f annotated" where
  "InjectWSModules f = (plain f)\<lparr>an_ParamTags := [GroupTagWSModules, []]\<rparr>"

definition InjectGRPCServices :: "'f \<Rightarrow> 'f annotated" where
  "InjectGRPCServices f = (plain f)\<lparr>an_ParamTags := [[], [], GroupTagGRPCServices]\<rparr>"

definition InjectWorkerJobs :: "'f \<Rightarrow> 'f annotated" where
  "InjectWorkerJobs f = (plain f)\<lparr>an_ParamTags := [[], [], [], GroupTagWorkerJobs]\<rparr>"

definition InjectScheduledTasks :: "'f \<Rightarrow> 'f annotated" where
  "InjectScheduledTasks f = (plain f)\<lparr>an_ParamTags := [[], [], GroupTagScheduledTasks]\<rparr>"

definition InjectMBSubscriptions :: "'f \<Rightarrow> 'f annotated" where
  "InjectMBSubscriptions f = (plain f)\<lparr>an_ParamTags := [[], [], GroupTagMBSubscriptions]\<rparr>"

section \<open>Running\<close>

text \<open>
  \<open>ap_Start\<close> reports also what failed while the graph was built. Waiting ends with a signal, whose exit code is 0
  for one of the operating system.
\<close>

record 'w fx_app =
  ap_Start :: "'w action"
  ap_Wait :: "'w \<Rightarrow> int \<times> 'w"
  ap_Stop :: "'w action"

datatype run_error = Failed goerr | ExitError int

definition ProvideAndRun :: "'w fx_app \<Rightarrow> 'w \<Rightarrow> run_error option \<times> 'w" where
  "ProvideAndRun app w =
     (case ap_Start app w of
        (Some e, w1) \<Rightarrow> (Some (Failed e), w1)
      | (None, w1) \<Rightarrow>
          (case ap_Wait app w1 of (code, w2) \<Rightarrow>
             (case ap_Stop app w2 of
                (Some e, w3) \<Rightarrow> (Some (Failed (Errorf ''shutdown failed: %w'' [] [e])), w3)
              | (None, w3) \<Rightarrow> (if code \<noteq> 0 then Some (ExitError code) else None, w3))))"

text \<open>What is read of the configuration, and what it sets.\<close>

record global_settings =
  gs_LogLevel :: string
  gs_Strict :: bool
  gs_FxLog :: bool

definition ApplyGlobalSettings :: "string \<Rightarrow> string \<Rightarrow> string result \<Rightarrow> global_settings result" where
  "ApplyGlobalSettings debugLevel env level =
     (case level of
        Inl e \<Rightarrow> Inl (Errorf ''app initialization error: %w'' [] [e])
      | Inr l \<Rightarrow> Inr \<lparr>gs_LogLevel = l, gs_Strict = StrictForEnv env, gs_FxLog = (l = debugLevel)\<rparr>)"

text \<open>
  The server's \<open>Run\<close>; the scheduler's \<open>Start\<close> is the same over other constructors. \<open>init\<close> is reading the
  configuration, \<open>new\<close> is \<open>fx.New\<close> over the constructors and invocations.
\<close>

definition Run ::
  "goerr option \<Rightarrow> string \<Rightarrow> string \<Rightarrow> string result \<Rightarrow> (global_settings \<Rightarrow> 'w fx_app) \<Rightarrow> 'w \<Rightarrow> run_error option \<times> 'w" where
  "Run init debugLevel env level new w =
     (case init of
        Some e \<Rightarrow> (Some (Failed (Errorf ''app initialization error: %w'' [] [e])), w)
      | None \<Rightarrow>
          (case ApplyGlobalSettings debugLevel env level of
             Inl e \<Rightarrow> (Some (Failed e), w)
           | Inr s \<Rightarrow> ProvideAndRun (new s) w))"

text \<open>The exit status of the process, and its last record.\<close>

definition server_main :: "run_error option \<Rightarrow> int \<times> logs" where
  "server_main err =
     (case err of
        None \<Rightarrow> (0, [])
      | Some (ExitError code) \<Rightarrow> (code, [(Info, [])])
      | Some (Failed e) \<Rightarrow> (1, [(Error, [])]))"

section \<open>Servers\<close>

text \<open>What serving asks of the process when it ends: an exit code, or nothing.\<close>

definition http_served :: "goerr \<Rightarrow> goerr option \<Rightarrow> int option \<times> logs" where
  "http_served ErrServerClosed err =
     (if err \<noteq> None \<and> err \<noteq> Some ErrServerClosed then (Some 1, [(Error, [])]) else (None, []))"

definition RegisterHTTPServerLifecycle :: "('w \<Rightarrow> 'w) \<Rightarrow> ('w \<Rightarrow> 'w) \<Rightarrow> 'w action \<Rightarrow> 'w lc \<Rightarrow> 'w lc" where
  "RegisterHTTPServerLifecycle spawn wsShutdown srvShutdown lc =
     lc @ [\<lparr>OnStart = Some (\<lambda>w. (None, spawn w)), OnStop = Some (\<lambda>w. srvShutdown (wsShutdown w))\<rparr>]"

definition grpc_served :: "goerr option \<Rightarrow> int option \<times> logs" where
  "grpc_served err = (if err \<noteq> None then (Some 1, [(Error, [])]) else (None, []))"

text \<open>\<open>drains\<close>: stopping gracefully ends before the grace period or the lifecycle's deadline does.\<close>

definition RegisterGRPCServerLifecycle ::
  "bool \<Rightarrow> 'w action \<Rightarrow> ('w \<Rightarrow> 'w) \<Rightarrow> ('w \<Rightarrow> bool) \<Rightarrow> ('w \<Rightarrow> 'w) \<Rightarrow> ('w \<Rightarrow> 'w) \<Rightarrow> 'w lc \<Rightarrow> 'w lc" where
  "RegisterGRPCServerLifecycle isNil listen spawn drains gracefulStop stop lc =
     (if isNil then lc
      else lc @ [\<lparr>
        OnStart = Some (\<lambda>w. case listen w of
            (Some e, w') \<Rightarrow> (Some (Errorf ''gRPC server failed to listen: %w'' [] [e]), w')
          | (None, w') \<Rightarrow> (None, spawn w')),
        OnStop = Some (\<lambda>w. (None, if drains w then gracefulStop w else stop (gracefulStop w)))\<rparr>])"

section \<open>The worker and the scheduler\<close>

record ('h, 'o) job_handler =
  jh_Name :: string
  jh_Handler :: 'h
  jh_Options :: 'o

text \<open>Registering jobs is the library's; the worker runs under a context of its own, which stopping cancels.\<close>

definition NewWorker ::
  "(string \<Rightarrow> 'h \<Rightarrow> 'o \<Rightarrow> 's \<Rightarrow> 's) \<Rightarrow> 's \<Rightarrow> ('h, 'o) job_handler list \<Rightarrow> ('w \<Rightarrow> 'w) \<Rightarrow> ('w \<Rightarrow> 'w) \<Rightarrow> 'w action \<Rightarrow> 'w lc \<Rightarrow> 's \<times> 'w lc" where
  "NewWorker register s jobs spawn cancel shutdown lc =
     (foldl (\<lambda>s j. register (jh_Name j) (jh_Handler j) (jh_Options j) s) s jobs,
      lc @ [\<lparr>OnStart = Some (\<lambda>w. (None, spawn w)), OnStop = Some (\<lambda>w. shutdown (cancel w))\<rparr>])"

definition scheduler_lifecycle :: "'w action \<Rightarrow> 'w action \<Rightarrow> 'w lc \<Rightarrow> 'w lc" where
  "scheduler_lifecycle start shutdown lc =
     lc @ [\<lparr>
       OnStart = Some (\<lambda>w. case start w of
           (Some e, w') \<Rightarrow> (Some (Errorf ''failed to start scheduler: %w'' [] [e]), w')
         | (None, w') \<Rightarrow> (None, w')),
       OnStop = Some (\<lambda>w. case shutdown w of
           (Some e, w') \<Rightarrow> (Some (Errorf ''scheduler shutdown error: %v'' [] []), w')
         | (None, w') \<Rightarrow> (None, w'))\<rparr>]"

section \<open>What the container does with hooks\<close>

text \<open>
  As its documentation says: starting runs the hooks in the order they were appended and stops at the first that
  fails, whose error it reports, after taking back the ones that had started; stopping runs them all, the last
  first, and reports a failure if there was one.
\<close>

fun start_hooks :: "'w lc \<Rightarrow> 'w action" where
  "start_hooks [] w = (None, w)"
| "start_hooks (h # hs) w =
     (case OnStart h of
        None \<Rightarrow> start_hooks hs w
      | Some f \<Rightarrow> (case f w of (Some e, w') \<Rightarrow> (Some e, w') | (None, w') \<Rightarrow> start_hooks hs w'))"

fun stop_hooks :: "'w lc \<Rightarrow> 'w \<Rightarrow> goerr list \<times> 'w" where
  "stop_hooks [] w = ([], w)"
| "stop_hooks (h # hs) w =
     (case OnStop h of
        None \<Rightarrow> stop_hooks hs w
      | Some f \<Rightarrow> (case f w of (e, w') \<Rightarrow> case stop_hooks hs w' of (es, w'') \<Rightarrow>
          ((case e of None \<Rightarrow> es | Some x \<Rightarrow> x # es), w'')))"

definition fx_laws :: "'w lc \<Rightarrow> 'w fx_app \<Rightarrow> bool" where
  "fx_laws lc app \<longleftrightarrow>
     (\<forall>w w'. start_hooks lc w = (None, w') \<longrightarrow> ap_Start app w = (None, w')) \<and>
     (\<forall>w w' e. start_hooks lc w = (Some e, w') \<longrightarrow>
        (\<exists>e'. fst (ap_Start app w) = Some e' \<and> (\<forall>s. errors_is e s \<longrightarrow> errors_is e' s))) \<and>
     (\<forall>w. case stop_hooks (rev lc) w of (es, w') \<Rightarrow> snd (ap_Stop app w) = w' \<and> (fst (ap_Stop app w) = None \<longleftrightarrow> es = []))"


section \<open>What a started application has been through\<close>

lemma start_hooks_append:
  "start_hooks (xs @ ys) w =
     (case start_hooks xs w of (Some e, w') \<Rightarrow> (Some e, w') | (None, w') \<Rightarrow> start_hooks ys w')"
  by (induction xs arbitrary: w) (auto split: option.splits prod.splits)

lemma start_hooks_reached:
  assumes "start_hooks (pre @ h # post) w = (None, w')" "OnStart h = Some f"
  obtains w1 w2 where "start_hooks pre w = (None, w1)" "f w1 = (None, w2)" "start_hooks post w2 = (None, w')"
  using assms by (auto simp: start_hooks_append split: option.splits prod.splits)

lemma start_hooks_refused:
  assumes "start_hooks pre w = (None, w1)" "OnStart h = Some f" "f w1 = (Some e, w2)"
  shows "start_hooks (pre @ h # post) w = (Some e, w2)"
  using assms by (simp add: start_hooks_append)

lemmas fx_started = fx_laws_def [THEN iffD1, THEN conjunct1, rule_format]
lemmas fx_refused = fx_laws_def [THEN iffD1, THEN conjunct2, THEN conjunct1, rule_format]

lemma fx_started_hooks:
  assumes "fx_laws lc app" "ap_Start app w = (None, w')"
  shows "start_hooks lc w = (None, w')"
proof (cases "start_hooks lc w")
  case (Pair e w1)
  then show ?thesis
    using assms fx_started [OF assms(1), of w w1] fx_refused [OF assms(1), of w _ w1] by (cases e) fastforce+
qed

text \<open>An application that does just this.\<close>

definition hook_app :: "'w lc \<Rightarrow> 'w fx_app" where
  "hook_app lc = \<lparr>ap_Start = start_hooks lc, ap_Wait = Pair 0,
     ap_Stop = (\<lambda>w. case stop_hooks (rev lc) w of (es, w') \<Rightarrow> (case es of [] \<Rightarrow> None | e # _ \<Rightarrow> Some e, w'))\<rparr>"

lemma hook_app_laws: "fx_laws lc (hook_app lc)"
  by (auto simp: fx_laws_def hook_app_def split: prod.splits list.splits)

section \<open>How the process ends\<close>

lemma ProvideAndRun_status:
  "fst (server_main (fst (ProvideAndRun app w))) \<in> {1, fst (ap_Wait app (snd (ap_Start app w)))}"
  by (auto simp: ProvideAndRun_def server_main_def split: option.splits prod.splits)

lemma ProvideAndRun_clean:
  "fst (server_main (fst (ProvideAndRun app w))) = 0 \<longleftrightarrow>
     fst (ap_Start app w) = None \<and>
     (case ap_Wait app (snd (ap_Start app w)) of (code, w2) \<Rightarrow> code = 0 \<and> fst (ap_Stop app w2) = None)"
  by (auto simp: ProvideAndRun_def server_main_def split: option.splits prod.splits)

text \<open>
  C38. The process exits with status 0 in exactly one case: the configuration could be read and its level parsed, the
  application started, what it waited for was a signal with exit code 0, and it stopped cleanly. Otherwise the
  status is 1 or the code of the signal. A
  server that stops serving by itself asks for 1, an HTTP server that was closed asks for nothing.
\<close>

theorem exit_status:
  "(fst (server_main (fst (Run init debugLevel env level new w))) = 0 \<longleftrightarrow>
      init = None \<and> (\<exists>l. level = Inr l \<and>
        (let app = new \<lparr>gs_LogLevel = l, gs_Strict = StrictForEnv env, gs_FxLog = (l = debugLevel)\<rparr>;
             w1 = snd (ap_Start app w); (code, w2) = ap_Wait app w1
         in fst (ap_Start app w) = None \<and> code = 0 \<and> fst (ap_Stop app w2) = None))) \<and>
   fst (server_main (fst (Run init debugLevel env level new w))) \<in>
     {1} \<union> (\<Union>s. {fst (ap_Wait (new s) (snd (ap_Start (new s) w)))}) \<and>
   (fst (http_served ErrServerClosed err) = Some 1 \<longleftrightarrow> err \<notin> {None, Some ErrServerClosed}) \<and>
   (fst (grpc_served err) = Some 1 \<longleftrightarrow> err \<noteq> None)"
proof -
  have served: "(fst (http_served ErrServerClosed err) = Some 1 \<longleftrightarrow> err \<notin> {None, Some ErrServerClosed}) \<and>
      (fst (grpc_served err) = Some 1 \<longleftrightarrow> err \<noteq> None)"
    by (simp add: http_served_def grpc_served_def)
  show ?thesis
  proof (cases "init = None \<and> (\<exists>l. level = Inr l)")
    case True
    then obtain l where l: "level = Inr l" by blast
    define s where "s = \<lparr>gs_LogLevel = l, gs_Strict = StrictForEnv env, gs_FxLog = (l = debugLevel)\<rparr>"
    have run: "Run init debugLevel env level new w = ProvideAndRun (new s) w"
      using True l by (simp add: Run_def ApplyGlobalSettings_def s_def)
    have zero: "fst (server_main (fst (ProvideAndRun (new s) w))) = 0 \<longleftrightarrow>
        (let app = new s; w1 = snd (ap_Start app w); (code, w2) = ap_Wait app w1
         in fst (ap_Start app w) = None \<and> code = 0 \<and> fst (ap_Stop app w2) = None)"
      unfolding ProvideAndRun_clean Let_def by (simp add: case_prod_beta)
    have one: "fst (server_main (fst (ProvideAndRun (new s) w))) \<in>
        {1} \<union> (\<Union>s. {fst (ap_Wait (new s) (snd (ap_Start (new s) w)))})"
      using ProvideAndRun_status [of "new s" w] by blast
    show ?thesis unfolding run zero
      using True l one served by (simp add: s_def)
  next
    case False
    then have "fst (server_main (fst (Run init debugLevel env level new w))) = 1"
      by (cases init; cases level) (auto simp: Run_def ApplyGlobalSettings_def server_main_def)
    then show ?thesis using served False by (simp add: Let_def) blast
  qed
qed

end
