(* ===== verification/Connections.thy ===== *)
theory Connections
  imports Lifecycle Describe KeyStores
begin

text \<open>
  Opening connections (\<open>internal/infra\<close>): the Redis clients, the databases, the key store that \<open>AUTH_KEYSTORE\<close>
  names, the broker, the disks and the client of another service. Every constructor takes the lifecycle and
  gives back what it built with the hooks it left there.

  The clients are libraries: what they do when pinged, connected or closed is an action on the world, given with
  the client. A hook's log record is left out. A constructor that would dereference nil has no result (\<open>None\<close>).
\<close>

section \<open>Settings\<close>

record redis_settings =
  rd_Host :: string
  rd_Port :: int
  rd_User :: string
  rd_Password :: string
  rd_DB :: int
  rd_TLSEnabled :: bool

record db_settings =
  db_Driver :: string
  db_Host :: string
  db_Port :: int
  db_User :: string
  db_Password :: string
  db_DBName :: string
  db_SSLMode :: string
  db_MaxOpenConns :: int
  db_MaxIdleConns :: int
  db_ConnMaxLifetime :: int
  db_ConnMaxIdleTime :: int

record cache_settings =
  ch_Redis :: "redis_settings option"
  ch_MaxEntries :: int
  ch_NearTTL :: int

record job_settings =
  jb_Redis :: "redis_settings option"
  jb_HistoryDB :: "db_settings option"

record app_params =
  pa_Cache :: "cache_settings option"
  pa_Worker :: "job_settings option"
  pa_Scheduler :: "job_settings option"

section \<open>Redis\<close>

definition cacheKeyPrefix :: string where "cacheKeyPrefix = ''app''"
definition cacheName :: string where "cacheName = ''app''"
definition appCachePurpose :: string where "appCachePurpose = ''cache''"
definition workerPurpose :: string where "workerPurpose = ''worker cache''"
definition schedulerPurpose :: string where "schedulerPurpose = ''scheduler cache''"
definition keyStorePurpose :: string where "keyStorePurpose = ''API key store''"
definition sessionPurpose :: string where "sessionPurpose = ''session store''"
definition sessionCacheKeyPrefix :: string where "sessionCacheKeyPrefix = ''auth''"

record redis_options =
  ro_Addr :: string
  ro_Username :: string
  ro_Password :: string
  ro_DB :: int
  ro_MinTLS12 :: bool              \<comment> \<open>whether there is a TLS configuration\<close>

text \<open>\<open>net.JoinHostPort\<close>\<close>

definition JoinHostPort :: "string \<Rightarrow> string \<Rightarrow> string" where
  "JoinHostPort host port =
     (if CHR '':'' \<in> set host then ''['' @ host @ '']:'' @ port else host @ '':'' @ port)"

definition redisOptions :: "redis_settings option \<Rightarrow> redis_options option" where
  "redisOptions cfg = (case cfg of
     None \<Rightarrow> None
   | Some c \<Rightarrow> Some \<lparr>ro_Addr = JoinHostPort (rd_Host c) (Itoa (rd_Port c)), ro_Username = rd_User c,
       ro_Password = rd_Password c, ro_DB = rd_DB c, ro_MinTLS12 = rd_TLSEnabled c\<rparr>)"

definition cacheParams :: "app_params result \<Rightarrow> app_params result" where
  "cacheParams params = (case params of
     Inl e \<Rightarrow> Inl (Errorf ''cache configuration is unavailable: %w'' [] [e]) | Inr p \<Rightarrow> Inr p)"

record 'w client =
  cl_Ping :: "'w action"
  cl_Close :: "'w action"

text \<open>The check of a connection at startup; \<open>format\<close> is the text of its failure.\<close>

definition check_connection :: "string \<Rightarrow> string list \<Rightarrow> 'w action \<Rightarrow> 'w action" where
  "check_connection format args ping w = (case ping w of
     (Some e, w') \<Rightarrow> (Some (Errorf format args [e]), w')
   | (None, w') \<Rightarrow> (None, w'))"

text \<open>\<open>NewClient\<close> is \<open>goredis.NewClient\<close>, which panics (\<open>None\<close>) without options.\<close>

definition newRedisClient ::
  "(redis_options option \<Rightarrow> 'w client option) \<Rightarrow> 'w lc \<Rightarrow> redis_settings option \<Rightarrow> string \<Rightarrow> ('w client \<times> 'w lc) option" where
  "newRedisClient NewClient lc cfg purpose =
     (case NewClient (redisOptions cfg) of
        None \<Rightarrow> None
      | Some client \<Rightarrow> Some (client, lc @ [\<lparr>
          OnStart = Some (check_connection ''%s connection check failed: %w'' [purpose] (cl_Ping client)),
          OnStop = Some (cl_Close client)\<rparr>]))"

definition NewKeyStoreCache ::
  "(redis_options option \<Rightarrow> 'w client option) \<Rightarrow> ('w client \<Rightarrow> string \<Rightarrow> 'c) \<Rightarrow> string \<Rightarrow> 'w lc \<Rightarrow> redis_settings option
     \<Rightarrow> ('c \<times> 'w lc) option" where
  "NewKeyStoreCache NewClient cacheredis RedisNamespace lc cfg =
     map_option (\<lambda>(client, lc'). (cacheredis client RedisNamespace, lc')) (newRedisClient NewClient lc cfg keyStorePurpose)"

definition NewSessionCache ::
  "(redis_options option \<Rightarrow> 'w client option) \<Rightarrow> ('w client \<Rightarrow> string \<Rightarrow> 'c) \<Rightarrow> 'w lc \<Rightarrow> redis_settings option
     \<Rightarrow> ('c \<times> 'w lc) option" where
  "NewSessionCache NewClient cacheredis lc cfg =
     map_option (\<lambda>(client, lc'). (cacheredis client sessionCacheKeyPrefix, lc')) (newRedisClient NewClient lc cfg sessionPurpose)"

definition NewDefaultWorkerCacheClient ::
  "(redis_options option \<Rightarrow> 'w client option) \<Rightarrow> app_params result \<Rightarrow> 'w lc \<Rightarrow> ('w client result \<times> 'w lc) option" where
  "NewDefaultWorkerCacheClient NewClient params lc =
     (case cacheParams params of
        Inl e \<Rightarrow> Some (Inl e, lc)
      | Inr p \<Rightarrow> (case pa_Worker p of
          None \<Rightarrow> None
        | Some j \<Rightarrow> map_option (\<lambda>(client, lc'). (Inr client, lc')) (newRedisClient NewClient lc (jb_Redis j) workerPurpose)))"

definition NewDefaultSchedulerCacheClient ::
  "(redis_options option \<Rightarrow> 'w client option) \<Rightarrow> app_params result \<Rightarrow> 'w lc \<Rightarrow> ('w client result \<times> 'w lc) option" where
  "NewDefaultSchedulerCacheClient NewClient params lc =
     (case cacheParams params of
        Inl e \<Rightarrow> Some (Inl e, lc)
      | Inr p \<Rightarrow> (case pa_Scheduler p of
          None \<Rightarrow> None
        | Some j \<Rightarrow> map_option (\<lambda>(client, lc'). (Inr client, lc')) (newRedisClient NewClient lc (jb_Redis j) schedulerPurpose)))"

text \<open>\<open>errors.Join\<close> of two: nil when both are.\<close>

definition errors_Join :: "goerr option \<Rightarrow> goerr option \<Rightarrow> goerr option" where
  "errors_Join a b = (case [e. Some e \<leftarrow> [a, b]] of [] \<Rightarrow> None | e # es \<Rightarrow> Some (Errorf ''errors.Join'' [] (e # es)))"

text \<open>
  The application's cache: an in-process tier over Redis. \<open>closer\<close> is its \<open>Close\<close>, for a cache that has one.
\<close>

definition NewDefaultCache ::
  "(redis_options option \<Rightarrow> 'w client option) \<Rightarrow> (string \<Rightarrow> int \<Rightarrow> 'l1 result) \<Rightarrow> ('w client \<Rightarrow> string \<Rightarrow> 'l2) \<Rightarrow>
   ('l1 \<Rightarrow> 'l2 \<Rightarrow> int \<Rightarrow> string \<Rightarrow> 'c result) \<Rightarrow> ('c \<Rightarrow> 'w action option) \<Rightarrow>
   app_params result \<Rightarrow> 'w lc \<Rightarrow> ('c result \<times> 'w lc) option" where
  "NewDefaultCache NewClient otter redisStore tiered closer params lc =
     (case cacheParams params of
        Inl e \<Rightarrow> Some (Inl e, lc)
      | Inr p \<Rightarrow> (case pa_Cache p of
          None \<Rightarrow> None
        | Some cfg \<Rightarrow> (case NewClient (redisOptions (ch_Redis cfg)) of
            None \<Rightarrow> None
          | Some client \<Rightarrow>
              (case otter cacheKeyPrefix (ch_MaxEntries cfg) of
                 Inl e \<Rightarrow> Some (Inl (Errorf ''cache L1 init failed: %w'' [] [e]), lc)
               | Inr l1 \<Rightarrow>
                   (case tiered l1 (redisStore client cacheKeyPrefix) (ch_NearTTL cfg) cacheName of
                      Inl e \<Rightarrow> Some (Inl (Errorf ''cache init failed: %w'' [] [e]), lc)
                    | Inr c \<Rightarrow> Some (Inr c, lc @ [\<lparr>
                        OnStart = Some (check_connection ''%s connection check failed: %w'' [appCachePurpose] (cl_Ping client)),
                        OnStop = Some (\<lambda>w.
                          (case (case closer c of None \<Rightarrow> (None, w) | Some close \<Rightarrow> close w) of (closeErr, w1) \<Rightarrow>
                             (case cl_Close client w1 of (err, w2) \<Rightarrow> (errors_Join closeErr err, w2))))\<rparr>]))))))"

section \<open>Databases\<close>

definition workerDBPurpose :: string where "workerDBPurpose = ''worker history''"
definition schedulerDBPurpose :: string where "schedulerDBPurpose = ''scheduler history''"
definition keyStoreDBPurpose :: string where "keyStoreDBPurpose = ''API key store''"
definition sqliteDriver :: string where "sqliteDriver = ''sqlite''"
definition postgresDriver :: string where "postgresDriver = ''postgres''"
definition mysqlDriver :: string where "mysqlDriver = ''mysql''"
definition mysqlParams :: string where "mysqlParams = ''parseTime=true&loc=UTC''"

text \<open>The worker's and the scheduler's \<open>DatabaseConfig\<close>, of the same fields.\<close>

record library_db =
  ld_Type :: string
  ld_Host :: string
  ld_Port :: int
  ld_User :: string
  ld_Password :: string
  ld_Database :: string
  ld_TLSMode :: string
  ld_MaxOpenConns :: int
  ld_MaxIdleConns :: int
  ld_ConnMaxLifetime :: int
  ld_ConnMaxIdleTime :: int

definition databaseFor :: "db_settings \<Rightarrow> string" where
  "databaseFor cfg = (if db_Driver cfg = sqliteDriver \<and> db_DBName cfg = [] then db_Host cfg else db_DBName cfg)"

definition workerDBConfig :: "db_settings \<Rightarrow> library_db" where
  "workerDBConfig cfg = \<lparr>ld_Type = db_Driver cfg, ld_Host = db_Host cfg, ld_Port = db_Port cfg, ld_User = db_User cfg,
     ld_Password = db_Password cfg, ld_Database = databaseFor cfg, ld_TLSMode = db_SSLMode cfg,
     ld_MaxOpenConns = db_MaxOpenConns cfg, ld_MaxIdleConns = db_MaxIdleConns cfg,
     ld_ConnMaxLifetime = db_ConnMaxLifetime cfg, ld_ConnMaxIdleTime = db_ConnMaxIdleTime cfg\<rparr>"

definition schedulerDBConfig :: "db_settings \<Rightarrow> library_db" where
  "schedulerDBConfig cfg = \<lparr>ld_Type = db_Driver cfg, ld_Host = db_Host cfg, ld_Port = db_Port cfg, ld_User = db_User cfg,
     ld_Password = db_Password cfg, ld_Database = databaseFor cfg, ld_TLSMode = db_SSLMode cfg,
     ld_MaxOpenConns = db_MaxOpenConns cfg, ld_MaxIdleConns = db_MaxIdleConns cfg,
     ld_ConnMaxLifetime = db_ConnMaxLifetime cfg, ld_ConnMaxIdleTime = db_ConnMaxIdleTime cfg\<rparr>"

definition dbParams :: "app_params result \<Rightarrow> app_params result" where
  "dbParams params = (case params of
     Inl e \<Rightarrow> Inl (Errorf ''database configuration is unavailable: %w'' [] [e]) | Inr p \<Rightarrow> Inr p)"

definition appendDBHooks :: "'w lc \<Rightarrow> 'w client \<Rightarrow> string \<Rightarrow> 'w lc" where
  "appendDBHooks lc client purpose = lc @ [\<lparr>
     OnStart = Some (check_connection ''%s DB connection check failed: %w'' [purpose] (cl_Ping client)),
     OnStop = Some (cl_Close client)\<rparr>]"

definition NewDefaultWorkerDBClient ::
  "(library_db \<Rightarrow> 'w client result) \<Rightarrow> app_params result \<Rightarrow> 'w lc \<Rightarrow> 'w client result \<times> 'w lc" where
  "NewDefaultWorkerDBClient NewDatabaseClient params lc =
     (case dbParams params of
        Inl e \<Rightarrow> (Inl e, lc)
      | Inr p \<Rightarrow>
          (case Option.bind (pa_Worker p) jb_HistoryDB of
             None \<Rightarrow> (Inl (Errorf ''%s DB: no database is configured'' [workerDBPurpose] []), lc)
           | Some db \<Rightarrow>
               (case NewDatabaseClient (workerDBConfig db) of
                  Inl e \<Rightarrow> (Inl (Errorf ''%s DB connection failed: %w'' [workerDBPurpose] [e]), lc)
                | Inr client \<Rightarrow> (Inr client, appendDBHooks lc client workerDBPurpose))))"

definition NewDefaultSchedulerDBClient ::
  "(library_db \<Rightarrow> 'w client result) \<Rightarrow> app_params result \<Rightarrow> 'w lc \<Rightarrow> 'w client result \<times> 'w lc" where
  "NewDefaultSchedulerDBClient NewDatabaseClient params lc =
     (case dbParams params of
        Inl e \<Rightarrow> (Inl e, lc)
      | Inr p \<Rightarrow>
          (case Option.bind (pa_Scheduler p) jb_HistoryDB of
             None \<Rightarrow> (Inl (Errorf ''%s DB: no database is configured'' [schedulerDBPurpose] []), lc)
           | Some db \<Rightarrow>
               (case NewDatabaseClient (schedulerDBConfig db) of
                  Inl e \<Rightarrow> (Inl (Errorf ''%s DB connection failed: %w'' [schedulerDBPurpose] [e]), lc)
                | Inr client \<Rightarrow> (Inr client, appendDBHooks lc client schedulerDBPurpose))))"

definition dataSourceName :: "db_settings \<Rightarrow> string result" where
  "dataSourceName cfg =
     (if db_Driver cfg = postgresDriver then
        Inr (''host='' @ db_Host cfg @ '' port='' @ Itoa (db_Port cfg) @ '' user='' @ db_User cfg @
          '' password='' @ db_Password cfg @ '' dbname='' @ db_DBName cfg @ '' sslmode='' @ db_SSLMode cfg)
      else if db_Driver cfg = mysqlDriver then
        Inr (db_User cfg @ '':'' @ db_Password cfg @ ''@tcp('' @ db_Host cfg @ '':'' @ Itoa (db_Port cfg) @ '')/'' @
          db_DBName cfg @ ''?'' @ mysqlParams @ ''&tls='' @ db_SSLMode cfg)
      else if db_Driver cfg = sqliteDriver then Inr (databaseFor cfg)
      else Inl (Errorf ''cannot open a %q database: expected %q, %q or %q''
        [db_Driver cfg, postgresDriver, mysqlDriver, sqliteDriver] []))"

record 'w sql_conn =
  sq_client :: "'w client"
  sq_MaxOpenConns :: int
  sq_MaxIdleConns :: int
  sq_ConnMaxLifetime :: int
  sq_ConnMaxIdleTime :: int

definition NewKeyStoreDB ::
  "(string \<Rightarrow> string \<Rightarrow> 'w client result) \<Rightarrow> 'w lc \<Rightarrow> db_settings \<Rightarrow> 'w sql_conn result \<times> 'w lc" where
  "NewKeyStoreDB sql_Open lc cfg =
     (case dataSourceName cfg of
        Inl e \<Rightarrow> (Inl e, lc)
      | Inr dsn \<Rightarrow>
          (case sql_Open (db_Driver cfg) dsn of
             Inl e \<Rightarrow> (Inl (Errorf ''%s DB connection could not be opened: %w'' [keyStoreDBPurpose] [e]), lc)
           | Inr conn \<Rightarrow>
               (Inr \<lparr>sq_client = conn, sq_MaxOpenConns = db_MaxOpenConns cfg, sq_MaxIdleConns = db_MaxIdleConns cfg,
                  sq_ConnMaxLifetime = db_ConnMaxLifetime cfg, sq_ConnMaxIdleTime = db_ConnMaxIdleTime cfg\<rparr>,
                lc @ [\<lparr>OnStart = Some (check_connection ''%s DB connection check failed: %w'' [keyStoreDBPurpose] (cl_Ping conn)),
                       OnStop = Some (cl_Close conn)\<rparr>])))"

section \<open>The key store of the configuration\<close>

text \<open>\<open>plamo/keystore\<close>: the statement is built once, by the shared package.\<close>

record 'w db_store =
  ds_db :: "'w sql_conn"
  ds_query :: string

definition NewDB :: "(string \<Rightarrow> string result) \<Rightarrow> 'w sql_conn option \<Rightarrow> string \<Rightarrow> 'w db_store result" where
  "NewDB SelectSQL conn driver =
     (case conn of
        None \<Rightarrow> Inl (Errorf ''keystore: no database to read keys from'' [] [])
      | Some db \<Rightarrow>
          (case SelectSQL driver of
             Inl e \<Rightarrow> Inl e
           | Inr query \<Rightarrow> Inr \<lparr>ds_db = db, ds_query = query\<rparr>))"

record key_store_settings =
  ks_Redis :: "redis_settings option"
  ks_DB :: "db_settings option"

text \<open>
  The libraries under the key store: the clients, reading a record of the cache at a world, the row lookup of a
  statement, the clock, and the shared format.
\<close>

record ('w, 'c) key_libs =
  kl_NewClient :: "redis_options option \<Rightarrow> 'w client option"
  kl_cacheredis :: "'w client \<Rightarrow> string \<Rightarrow> 'c"
  kl_get :: "'c \<Rightarrow> 'w \<Rightarrow> string \<Rightarrow> key_record option result"
  kl_RedisNamespace :: string
  kl_sql_Open :: "string \<Rightarrow> string \<Rightarrow> 'w client result"
  kl_SelectSQL :: "string \<Rightarrow> string result"
  kl_row :: "'w sql_conn \<Rightarrow> string \<Rightarrow> string \<Rightarrow> 'w \<Rightarrow> key_row result \<times> 'w"
  kl_now :: "'w \<Rightarrow> time"
  kl_Fingerprint :: "string \<Rightarrow> string"
  kl_DecodeScopes :: "string \<Rightarrow> string list"

definition ready_action :: "('w, 'c) key_libs \<Rightarrow> 'w db_store \<Rightarrow> 'w action" where
  "ready_action L store w =
     (Ready (\<lambda>f. fst (kl_row L (ds_db store) (ds_query store) f w)),
      snd (kl_row L (ds_db store) (ds_query store) readinessFingerprint w))"

type_synonym 'w world_store = "'w \<Rightarrow> string \<Rightarrow> principal option result"

definition redis_at :: "('w, 'c) key_libs \<Rightarrow> 'c \<Rightarrow> 'w world_store" where
  "redis_at L c w = redis_Lookup (kl_Fingerprint L) (kl_get L c w)"

definition db_at :: "('w, 'c) key_libs \<Rightarrow> 'w db_store \<Rightarrow> 'w world_store" where
  "db_at L store w = db_Lookup (kl_Fingerprint L) (kl_DecodeScopes L)
     (\<lambda>f. fst (kl_row L (ds_db store) (ds_query store) f w)) (kl_now L w)"

text \<open>No settings, or none for the key store, is no store and no error. \<open>None\<close> is the panic of a client without options.\<close>

definition build ::
  "('w, 'c) key_libs \<Rightarrow> 'w lc \<Rightarrow> key_store_settings option \<Rightarrow> ('w world_store option result \<times> 'w lc) option" where
  "build L lc cfg =
     (case cfg of
        None \<Rightarrow> Some (Inr None, lc)
      | Some ks \<Rightarrow>
          if ks_Redis ks \<noteq> None then
            (case NewKeyStoreCache (kl_NewClient L) (kl_cacheredis L) (kl_RedisNamespace L) lc (ks_Redis ks) of
               None \<Rightarrow> None
             | Some (cache, lc') \<Rightarrow> Some (Inr (Some (redis_at L cache)), lc'))
          else (case ks_DB ks of
            Some db \<Rightarrow>
              (case NewKeyStoreDB (kl_sql_Open L) lc db of
                 (Inl e, lc') \<Rightarrow> Some (Inl e, lc')
               | (Inr conn, lc') \<Rightarrow>
                   (case NewDB (kl_SelectSQL L) (Some conn) (db_Driver db) of
                      Inl e \<Rightarrow> Some (Inl e, lc')
                    | Inr store \<Rightarrow>
                        Some (Inr (Some (db_at L store)), lc' @ [\<lparr>OnStart = Some (ready_action L store), OnStop = None\<rparr>])))
          | None \<Rightarrow> Some (Inl (Errorf ''keystore: AUTH_KEYSTORE selected no backend'' [] []), lc)))"

definition configured_key_store ::
  "('w, 'c) key_libs \<Rightarrow> key_store_settings option result \<Rightarrow> 'w lc \<Rightarrow> ('w world_store option result \<times> 'w lc) option" where
  "configured_key_store L params lc =
     (case params of
        Inl e \<Rightarrow> Some (Inl (Errorf ''keystore: reading the %s configuration: %w'' [''default''] [e]), lc)
      | Inr cfg \<Rightarrow> build L lc cfg)"

section \<open>The broker\<close>

definition errNoBroker :: goerr where
  "errNoBroker = Errorf ''message broker is not configured: set BROKER_TYPE (and BROKER_URL)'' [] []"

record 'w broker_conn =
  bk_Connect :: "'w action"
  bk_Ping :: "'w action"
  bk_Close :: "'w action"

definition connect_hook :: "string \<Rightarrow> string \<Rightarrow> 'w broker_conn \<Rightarrow> 'w hook" where
  "connect_hook noConnection noAnswer conn = \<lparr>
     OnStart = Some (\<lambda>w. case bk_Connect conn w of
         (Some e, w1) \<Rightarrow> (Some (Errorf noConnection [] [e]), w1)
       | (None, w1) \<Rightarrow> check_connection noAnswer [] (bk_Ping conn) w1),
     OnStop = Some (bk_Close conn)\<rparr>"

definition NewSubscriberConnection ::
  "(broker_config \<Rightarrow> 'w broker_conn result) \<Rightarrow> broker_params result \<Rightarrow> 'w lc \<Rightarrow> 'w broker_conn result \<times> 'w lc" where
  "NewSubscriberConnection NewSubscriber params lc =
     (case BrokerConfig params of
        Inl e \<Rightarrow> (Inl e, lc)
      | Inr None \<Rightarrow> (Inl errNoBroker, lc)
      | Inr (Some config) \<Rightarrow>
          (case NewSubscriber config of
             Inl e \<Rightarrow> (Inl (Errorf ''failed to create subscriber: %w'' [] [e]), lc)
           | Inr conn \<Rightarrow> (Inr conn, lc @ [connect_hook ''MB subscriber connection failed: %w''
               ''MB subscriber connection check failed: %w'' conn])))"

definition NewPublisherConnection ::
  "(broker_config \<Rightarrow> 'w broker_conn result) \<Rightarrow> broker_params result \<Rightarrow> 'w lc \<Rightarrow> 'w broker_conn result \<times> 'w lc" where
  "NewPublisherConnection NewPublisher params lc =
     (case BrokerConfig params of
        Inl e \<Rightarrow> (Inl e, lc)
      | Inr None \<Rightarrow> (Inl errNoBroker, lc)
      | Inr (Some config) \<Rightarrow>
          (case NewPublisher config of
             Inl e \<Rightarrow> (Inl (Errorf ''failed to create publisher: %w'' [] [e]), lc)
           | Inr conn \<Rightarrow> (Inr conn, lc @ [connect_hook ''MB publisher connection failed: %w''
               ''MB publisher connection check failed: %w'' conn])))"

section \<open>Disks\<close>

definition DiskLocal :: string where "DiskLocal = ''local''"
definition DiskS3 :: string where "DiskS3 = ''s3''"
definition DefaultDisk :: string where "DefaultDisk = DiskS3"
definition localRoot :: string where "localRoot = ''./.storage/local''"
definition s3Endpoint :: string where "s3Endpoint = ''http://localhost:9000''"
definition s3Region :: string where "s3Region = ''us-east-1''"
definition s3Bucket :: string where "s3Bucket = ''ensoria''"
definition s3KeyPrefix :: string where "s3KeyPrefix = ''uploads''"
definition s3AccessKey :: string where "s3AccessKey = ''minioadmin''"
definition s3SecretKey :: string where "s3SecretKey = ''minioadmin''"

record s3_options =
  s3_Region :: string
  s3_BaseEndpoint :: string
  s3_Credentials :: "string \<times> string"
  s3_UsePathStyle :: bool
  s3_ChecksumsWhenRequired :: "bool \<times> bool"     \<comment> \<open>of requests, of responses\<close>

definition newS3Client :: "(s3_options \<Rightarrow> 's3) \<Rightarrow> 's3" where
  "newS3Client s3_New = s3_New \<lparr>s3_Region = s3Region, s3_BaseEndpoint = s3Endpoint,
     s3_Credentials = (s3AccessKey, s3SecretKey), s3_UsePathStyle = True, s3_ChecksumsWhenRequired = (True, True)\<rparr>"

record ('w, 's3, 'fs, 'st) disk_libs =
  dl_s3_New :: "s3_options \<Rightarrow> 's3"
  dl_filelocal :: "string \<Rightarrow> 'fs result"
  dl_files3 :: "'s3 \<Rightarrow> string \<Rightarrow> string \<Rightarrow> 'fs"
  dl_NewStorage :: "(string \<times> 'fs) list \<Rightarrow> string \<Rightarrow> 'st result"
  dl_HeadBucket :: "'s3 \<Rightarrow> string \<Rightarrow> 'w action"
  dl_Closer :: "'fs \<Rightarrow> 'w action option"
  dl_Default :: "'st \<Rightarrow> 'fs option"

definition NewDefaultStorage :: "('w, 's3, 'fs, 'st) disk_libs \<Rightarrow> 'w lc \<Rightarrow> 'st result \<times> 'w lc" where
  "NewDefaultStorage L lc =
     (case dl_filelocal L localRoot of
        Inl e \<Rightarrow> (Inl (Errorf ''local disk init failed: %w'' [] [e]), lc)
      | Inr disk \<Rightarrow>
          (let s3Client = newS3Client (dl_s3_New L); s3fs = dl_files3 L s3Client s3Bucket s3KeyPrefix in
           case dl_NewStorage L [(DiskLocal, disk), (DiskS3, s3fs)] DefaultDisk of
             Inl e \<Rightarrow> (Inl (Errorf ''storage init failed: %w'' [] [e]), lc)
           | Inr storage \<Rightarrow> (Inr storage, lc @ [\<lparr>
               OnStart = Some (check_connection ''S3 bucket check failed (bucket=%q): %w'' [s3Bucket] (dl_HeadBucket L s3Client s3Bucket)),
               OnStop = Some (\<lambda>w. case dl_Closer L disk of None \<Rightarrow> (None, w) | Some close \<Rightarrow> close w)\<rparr>])))"

definition NewDefaultFileSystem :: "('w, 's3, 'fs, 'st) disk_libs \<Rightarrow> 'st \<Rightarrow> 'fs result" where
  "NewDefaultFileSystem L storage = (case dl_Default L storage of
     None \<Rightarrow> Inl (Errorf ''storage has no default disk'' [] []) | Some fsys \<Rightarrow> Inr fsys)"

section \<open>The client of another service\<close>

definition PostConnName :: string where "PostConnName = ''postConn''"

record client_metadata =
  cm_StaticMetadata :: "(string \<times> string) list"
  cm_RequestIDKey :: string
  cm_RequestIdGenerator :: "string \<Rightarrow> string"     \<comment> \<open>of the next UUID\<close>

datatype 'r call_interceptor = ClientMetadata client_metadata | ClientRetry 'r

datatype 'r dial_option =
  ChainUnary "'r call_interceptor list" | ChainStream "'r call_interceptor list" | InsecureTransport

definition post_metadata :: client_metadata where
  "post_metadata = \<lparr>cm_StaticMetadata = [(''x-api-version'', ''v1''), (''x-app-name'', ''ensoria'')],
     cm_RequestIDKey = ''x-request-id'', cm_RequestIdGenerator = (\<lambda>uuid. ''req_'' @ uuid)\<rparr>"

definition NewUserPostConnection ::
  "'r \<Rightarrow> (string \<Rightarrow> 'r dial_option list \<Rightarrow> ('c \<times> 'w action) result) \<Rightarrow> 'w lc \<Rightarrow> 'c result \<times> 'w lc" where
  "NewUserPostConnection retryConfig NewClient lc =
     (case NewClient ''localhost:50051''
         [ChainUnary [ClientMetadata post_metadata, ClientRetry retryConfig],
          ChainStream [ClientMetadata post_metadata, ClientRetry retryConfig],
          InsecureTransport] of
        Inl e \<Rightarrow> (Inl e, lc)
      | Inr (conn, close) \<Rightarrow>
          (Inr conn, lc @ [\<lparr>OnStart = Some (\<lambda>w. (None, w)), OnStop = Some close\<rparr>]))"

section \<open>What startup has checked\<close>

lemma check_connection_passed:
  "check_connection format args ping w = (None, w') \<longleftrightarrow> ping w = (None, w')"
  by (auto simp: check_connection_def split: option.splits prod.splits)

lemma check_connection_error:
  "check_connection format args ping w = (Some e, w') \<longleftrightarrow> (\<exists>e0. ping w = (Some e0, w') \<and> e = Errorf format args [e0])"
  by (auto simp: check_connection_def split: option.splits prod.splits)

lemma build_store_contract:
  assumes "build L lc cfg = Some (Inr (Some store), lc')"
  shows "key_store (store v)"
proof -
  from assms obtain c st where "store = redis_at L c \<or> store = db_at L st"
    by (auto simp: build_def split: option.splits if_splits prod.splits sum.splits)
  then show ?thesis
    unfolding redis_at_def [abs_def] db_at_def [abs_def]
    using redis.key_store_axioms db.key_store_axioms by auto
qed

lemma build_hooks_redis:
  assumes "build L lc (Some ks) = Some (Inr (Some store), lc')" "ks_Redis ks = Some r"
  obtains client where "kl_NewClient L (redisOptions (Some r)) = Some client"
    "lc' = lc @ [\<lparr>OnStart = Some (check_connection ''%s connection check failed: %w'' [keyStorePurpose] (cl_Ping client)),
                   OnStop = Some (cl_Close client)\<rparr>]"
  using assms by (auto simp: build_def NewKeyStoreCache_def newRedisClient_def split: option.splits)

lemma build_hooks_db:
  assumes "build L lc (Some ks) = Some (Inr (Some store), lc')" "ks_Redis ks = None"
  obtains db dsn conn st where "ks_DB ks = Some db" "dataSourceName db = Inr dsn" "kl_sql_Open L (db_Driver db) dsn = Inr conn"
    "sq_client (ds_db st) = conn" "store = db_at L st"
    "lc' = lc @ [\<lparr>OnStart = Some (check_connection ''%s DB connection check failed: %w'' [keyStoreDBPurpose] (cl_Ping conn)),
                   OnStop = Some (cl_Close conn)\<rparr>] @ [\<lparr>OnStart = Some (ready_action L st), OnStop = None\<rparr>]"
proof -
  from assms obtain db sq lc1 st where b: "ks_DB ks = Some db" "NewKeyStoreDB (kl_sql_Open L) lc db = (Inr sq, lc1)"
      "NewDB (kl_SelectSQL L) (Some sq) (db_Driver db) = Inr st" "store = db_at L st"
      "lc' = lc1 @ [\<lparr>OnStart = Some (ready_action L st), OnStop = None\<rparr>]"
    by (auto simp: build_def split: option.splits if_splits prod.splits sum.splits)
  from b(2) obtain dsn conn where "dataSourceName db = Inr dsn" "kl_sql_Open L (db_Driver db) dsn = Inr conn" "sq_client sq = conn"
      "lc1 = lc @ [\<lparr>OnStart = Some (check_connection ''%s DB connection check failed: %w'' [keyStoreDBPurpose] (cl_Ping conn)),
                   OnStop = Some (cl_Close conn)\<rparr>]"
    by (auto simp: NewKeyStoreDB_def split: sum.splits)
  moreover from b(3) have "ds_db st = sq" by (auto simp: NewDB_def split: sum.splits)
  ultimately show thesis using b by (intro that [of db dsn conn st]) simp_all
qed

text \<open>The readiness lookup could be run at a world, leaving another.\<close>

definition table_read :: "('w, 'c) key_libs \<Rightarrow> 'w db_store \<Rightarrow> 'w \<Rightarrow> 'w \<Rightarrow> bool" where
  "table_read L st w w' =
     (case kl_row L (ds_db st) (ds_query st) readinessFingerprint w of
        (Inl e, v) \<Rightarrow> v = w' \<and> errors_is e ErrNoRows | (Inr row, v) \<Rightarrow> v = w')"

lemma ready_action_passed: "ready_action L st w = (None, w') \<longleftrightarrow> table_read L st w w'"
  by (auto simp: ready_action_def Ready_def table_read_def split: sum.splits prod.splits)

lemma started_redis:
  assumes "start_hooks (lc' @ post) w = (None, w')" "build L lc (Some ks) = Some (Inr (Some store), lc')" "ks_Redis ks = Some r"
  shows "\<exists>client w1 w2. kl_NewClient L (redisOptions (Some r)) = Some client \<and> cl_Ping client w1 = (None, w2)"
proof (rule build_hooks_redis [OF assms(2,3)])
  fix client
  assume c: "kl_NewClient L (redisOptions (Some r)) = Some client"
    "lc' = lc @ [\<lparr>OnStart = Some (check_connection ''%s connection check failed: %w'' [keyStorePurpose] (cl_Ping client)),
               OnStop = Some (cl_Close client)\<rparr>]"
  from assms(1) [unfolded c(2)] show ?thesis
    by (auto simp: c(1) start_hooks_append check_connection_passed split: option.splits prod.splits)
qed

lemma started_db:
  assumes "start_hooks (lc' @ post) w = (None, w')" "build L lc (Some ks) = Some (Inr (Some store), lc')" "ks_Redis ks = None"
  shows "\<exists>db dsn st w1 w2 w3. ks_DB ks = Some db \<and> dataSourceName db = Inr dsn \<and>
    kl_sql_Open L (db_Driver db) dsn = Inr (sq_client (ds_db st)) \<and> store = db_at L st \<and>
    cl_Ping (sq_client (ds_db st)) w1 = (None, w2) \<and> table_read L st w2 w3 \<and> start_hooks post w3 = (None, w')"
proof (rule build_hooks_db [OF assms(2,3)])
  fix db dsn conn st
  assume b: "ks_DB ks = Some db" "dataSourceName db = Inr dsn" "kl_sql_Open L (db_Driver db) dsn = Inr conn"
    "sq_client (ds_db st) = conn" "store = db_at L st"
    "lc' = lc @ [\<lparr>OnStart = Some (check_connection ''%s DB connection check failed: %w'' [keyStoreDBPurpose] (cl_Ping conn)),
               OnStop = Some (cl_Close conn)\<rparr>] @ [\<lparr>OnStart = Some (ready_action L st), OnStop = None\<rparr>]"
  from assms(1) [unfolded b(6)] obtain w1 w2 w3 where "cl_Ping conn w1 = (None, w2)" "ready_action L st w2 = (None, w3)"
      "start_hooks post w3 = (None, w')"
    by (auto simp: start_hooks_append check_connection_passed split: option.splits prod.splits)
  then show ?thesis using b by (auto simp: ready_action_passed intro!: exI [of _ st])
qed


text \<open>A database that answers, with a table that holds no readiness record.\<close>

definition demo_key_libs :: "(nat, unit) key_libs" where
  "demo_key_libs = \<lparr>kl_NewClient = (\<lambda>o'. None), kl_cacheredis = (\<lambda>c n. ()), kl_get = (\<lambda>c w f. Inr None), kl_RedisNamespace = ''auth'',
     kl_sql_Open = (\<lambda>driver dsn. Inr \<lparr>cl_Ping = (\<lambda>w. (None, w + 1)), cl_Close = Pair None\<rparr>),
     kl_SelectSQL = Inr, kl_row = (\<lambda>conn q f w. (Inl (Sentinel ErrNoRows), w)),
     kl_now = int, kl_Fingerprint = id, kl_DecodeScopes = (\<lambda>s. [s])\<rparr>"

definition demo_key_db :: db_settings where
  "demo_key_db = \<lparr>db_Driver = ''sqlite'', db_Host = ''keys.db'', db_Port = 0, db_User = [], db_Password = [], db_DBName = [],
     db_SSLMode = [], db_MaxOpenConns = 1, db_MaxIdleConns = 1, db_ConnMaxLifetime = 0, db_ConnMaxIdleTime = 0\<rparr>"

definition demo_key_settings :: key_store_settings where
  "demo_key_settings = \<lparr>ks_Redis = None, ks_DB = Some demo_key_db\<rparr>"

definition demo_key_store :: "nat db_store" where
  "demo_key_store = \<lparr>ds_db = \<lparr>sq_client = \<lparr>cl_Ping = (\<lambda>w. (None, w + 1)), cl_Close = Pair None\<rparr>, sq_MaxOpenConns = 1,
     sq_MaxIdleConns = 1, sq_ConnMaxLifetime = 0, sq_ConnMaxIdleTime = 0\<rparr>, ds_query = ''sqlite''\<rparr>"

definition demo_key_lc :: "nat lc" where
  "demo_key_lc =
     [\<lparr>OnStart = Some (check_connection ''%s DB connection check failed: %w'' [keyStoreDBPurpose] (\<lambda>w. (None, w + 1))), OnStop = Some (Pair None)\<rparr>,
      \<lparr>OnStart = Some (ready_action demo_key_libs demo_key_store), OnStop = None\<rparr>]"

lemma demo_build:
  "build demo_key_libs [] (Some demo_key_settings) = Some (Inr (Some (db_at demo_key_libs demo_key_store)), demo_key_lc)"
  by (simp add: build_def demo_key_settings_def demo_key_db_def demo_key_lc_def demo_key_store_def NewKeyStoreDB_def
      NewDB_def dataSourceName_def databaseFor_def sqliteDriver_def postgresDriver_def mysqlDriver_def demo_key_libs_def)

lemma demo_started: "ap_Start (hook_app (demo_key_lc @ [])) 0 = (None, 1)"
  by (simp add: hook_app_def demo_key_lc_def check_connection_def ready_action_def Ready_def demo_key_libs_def)


section \<open>Data source names\<close>

lemma nat_digits_char: "c \<in> set (nat_digits n) \<Longrightarrow> (48 :: nat) \<le> of_char c"
proof (induction n rule: nat_digits.induct)
  case (1 n)
  then show ?case
    by (subst (asm) nat_digits.simps) (auto split: if_splits)
qed

lemma no_space_Itoa: "CHR '' '' \<notin> set (Itoa i)"
  using nat_digits_char [of "CHR '' ''"] by (auto simp: Itoa_def)

lemma split_six:
  "split_at d (a @ d # b @ d # c @ d # e @ d # f @ d # g) = [a, b, c, e, f, g] \<longleftrightarrow>
     d \<notin> set (a @ b @ c @ e @ f @ g)" (is "split_at d ?s = ?parts \<longleftrightarrow> _")
proof
  assume "split_at d ?s = ?parts"
  then have "d \<notin> set part" if "part \<in> set ?parts" for part using split_at_parts [of part d ?s] that by simp
  then show "d \<notin> set (a @ b @ c @ e @ f @ g)" by simp
next
  assume "d \<notin> set (a @ b @ c @ e @ f @ g)"
  then show "split_at d ?s = ?parts" by (simp add: split_at_append split_at_no_sep)
qed

text \<open>
  The text that opens a PostgreSQL database consists, between its spaces, of the six settings exactly when no value
  of theirs contains a space: values are written as they are, with no quoting.
\<close>

theorem postgres_dsn_settings:
  "\<exists>dsn. dataSourceName (cfg\<lparr>db_Driver := ''postgres''\<rparr>) = Inr dsn \<and>
     (split_at CHR '' '' dsn =
        [''host='' @ db_Host cfg, ''port='' @ Itoa (db_Port cfg), ''user='' @ db_User cfg,
         ''password='' @ db_Password cfg, ''dbname='' @ db_DBName cfg, ''sslmode='' @ db_SSLMode cfg] \<longleftrightarrow>
      CHR '' '' \<notin> set (db_Host cfg @ db_User cfg @ db_Password cfg @ db_DBName cfg @ db_SSLMode cfg))"
  using no_space_Itoa [of "db_Port cfg"]
    split_six [of "CHR '' ''" "''host='' @ db_Host cfg" "''port='' @ Itoa (db_Port cfg)" "''user='' @ db_User cfg"
      "''password='' @ db_Password cfg" "''dbname='' @ db_DBName cfg" "''sslmode='' @ db_SSLMode cfg"]
  by (simp add: dataSourceName_def postgresDriver_def del: split_at.simps)

end
