(* ===== verification/RpcServer.thy ===== *)
theory RpcServer
  imports Lifecycle Origins
begin

text \<open>
  The gRPC server (\<open>internal/app/grpc\<close>): its options from the configuration, the order of its interceptors, what it
  writes of a call (\<open>log_config.go\<close>) and of a panic (\<open>recovery_config.go\<close>).

  The server, its interceptors and reflection are libraries: an interceptor is recorded with the functions it is
  given. What they collected of the client is a map with string keys; a record is the list of its fields.
\<close>

section \<open>What a record says of a call\<close>

datatype 'v field = Text string | Num int | Flag bool | Client 'v

type_synonym 'v record_fields = "(string \<times> 'v field) list"
type_synonym 'v client_info = "(string \<times> 'v) list"

definition canonical :: "string \<Rightarrow> string" where
  "canonical k = map (\<lambda>c. if c = CHR ''-'' then CHR ''_'' else c) k"

definition promote_fields :: "string list \<Rightarrow> 'v client_info \<Rightarrow> 'v record_fields" where
  "promote_fields promote client = [(k, Client (the (map_of client k))). k \<leftarrow> promote, map_of client k \<noteq> None]"

definition user_agent_field :: "'v client_info \<Rightarrow> 'v record_fields" where
  "user_agent_field client = (case map_of client ''user-agent'' of None \<Rightarrow> [] | Some ua \<Rightarrow> [(''user_agent'', Client ua)])"

text \<open>\<open>seen\<close>: the promoted keys that are there, and \<open>user-agent\<close> if it is.\<close>

definition remaining_keys :: "string list \<Rightarrow> 'v client_info \<Rightarrow> string list" where
  "remaining_keys promote client = [k. (k, v) \<leftarrow> client, k \<notin> set promote, k \<noteq> ''user-agent'']"

definition remaining_fields :: "string list \<Rightarrow> string list \<Rightarrow> 'v client_info \<Rightarrow> 'v record_fields" where
  "remaining_fields promote filterOut client =
     [(canonical k, Client (the (map_of client k))).
        k \<leftarrow> sort (remaining_keys promote client), k \<notin> set filterOut, canonical k \<noteq> ''user_agent'']"

definition common_promote :: "string list" where
  "common_promote = [''request_id'', ''trace_id'', ''span_id'', ''retry_attempt'', ''client_ip'', ''client_port'', ''network'',
     ''deadline_remaining_ms'', ''deadline_unix'', ''trace_sampled'', ''auth_type'']"

definition common_filter :: "string list" where
  "common_filter = [''method'', ''code'', ''duration_ms'']"

definition baseCommonAttrs :: "int \<Rightarrow> int \<Rightarrow> string \<Rightarrow> 'v client_info \<Rightarrow> 'v record_fields" where
  "baseCommonAttrs code durationMS fullMethod client =
     [(''method'', Text fullMethod), (''code'', Num code), (''duration_ms'', Num durationMS)] @
     promote_fields common_promote client @ user_agent_field client @
     remaining_fields common_promote common_filter client"

record 'v unary_info =
  ui_Code :: int
  ui_DurationMS :: int
  ui_FullMethod :: string
  ui_Client :: "'v client_info"
  ui_Err :: "string option"

record 'v stream_info = "'v unary_info" +
  si_IsClientStream :: bool
  si_IsServerStream :: bool

type_synonym 'v written = "(level \<times> string \<times> 'v record_fields) list"

definition error_field :: "string option \<Rightarrow> 'v record_fields" where
  "error_field err = (case err of None \<Rightarrow> [] | Some text \<Rightarrow> [(''error'', Text text)])"

definition CreateBasicUnaryLogFuncs :: "('v unary_info \<Rightarrow> 'v written) \<times> ('v unary_info \<Rightarrow> 'v written)" where
  "CreateBasicUnaryLogFuncs =
     (let build_attrs = (\<lambda>info. baseCommonAttrs (ui_Code info) (ui_DurationMS info) (ui_FullMethod info) (ui_Client info) @
            error_field (ui_Err info))
      in (\<lambda>info. [(Info, ''gRPC unary'', build_attrs info)], \<lambda>info. [(Error, ''gRPC unary'', build_attrs info)]))"

definition CreateBasicStreamLogFuncs :: "('v stream_info \<Rightarrow> 'v written) \<times> ('v stream_info \<Rightarrow> 'v written)" where
  "CreateBasicStreamLogFuncs =
     (let build_attrs = (\<lambda>info. baseCommonAttrs (ui_Code info) (ui_DurationMS info) (ui_FullMethod info) (ui_Client info) @
            [(''client_stream'', Flag (si_IsClientStream info)), (''server_stream'', Flag (si_IsServerStream info))] @
            error_field (ui_Err info))
      in (\<lambda>info. [(Info, ''gRPC stream'', build_attrs info)], \<lambda>info. [(Error, ''gRPC stream'', build_attrs info)]))"

section \<open>What a record says of a panic\<close>

definition panic_promote :: "string list" where
  "panic_promote = [''request_id'', ''retry_attempt'', ''client_ip'', ''client_port'', ''network'', ''auth_type'',
     ''deadline_remaining_ms'', ''deadline_unix'']"

definition panic_exclude :: "string list" where
  "panic_exclude = [''method'', ''panic_value'', ''stack_trace'', ''trace_id'', ''span_id'', ''trace_sampled'']"

record 'v panic_info =
  pi_FullMethod :: string
  pi_Client :: "'v client_info"
  pi_Value :: string                      \<comment> \<open>as \<open>fmt.Sprint\<close> writes it\<close>
  pi_ValueTrunc :: bool
  pi_Stack :: string
  pi_StackTrunc :: bool
  pi_TraceID :: string
  pi_SpanID :: string
  pi_TraceSampled :: bool

definition panic_head :: "'v panic_info \<Rightarrow> 'v record_fields" where
  "panic_head info =
     [(''method'', Text (pi_FullMethod info)), (''panic_value'', Text (pi_Value info))] @
     (if pi_ValueTrunc info then [(''panic_value_truncated'', Flag True)] else []) @
     (if pi_Stack info \<noteq> [] then
        (''stack_trace'', Text (pi_Stack info)) # (if pi_StackTrunc info then [(''stack_truncated'', Flag True)] else [])
      else []) @
     (if pi_TraceID info \<noteq> [] then [(''trace_id'', Text (pi_TraceID info))] else []) @
     (if pi_SpanID info \<noteq> [] then [(''span_id'', Text (pi_SpanID info))] else []) @
     (if pi_TraceSampled info then [(''trace_sampled'', Flag True)] else [])"

definition buildPanicLog :: "'v panic_info \<Rightarrow> 'v record_fields \<Rightarrow> 'v record_fields" where
  "buildPanicLog info extra =
     panic_head info @ promote_fields panic_promote (pi_Client info) @ user_agent_field (pi_Client info) @
     remaining_fields panic_promote panic_exclude (pi_Client info) @ extra"

definition CreateBasicPanicLogFuncs ::
  "('v panic_info \<Rightarrow> 'v written) \<times> ('v panic_info \<Rightarrow> bool \<Rightarrow> bool \<Rightarrow> 'v written)" where
  "CreateBasicPanicLogFuncs =
     (\<lambda>info. [(Error, ''gRPC unary handler panic recovered'', buildPanicLog info [])],
      \<lambda>info isClientStream isServerStream. [(Error, ''gRPC stream handler panic recovered'',
        buildPanicLog info [(''client_stream'', Flag isClientStream), (''server_stream'', Flag isServerStream)])])"

section \<open>The server\<close>

record grpc_settings =
  gc_Port :: int
  gc_LogSuccessSampleRate :: real
  gc_LogMaxHeaderValueLen :: int
  gc_MaxRecvMsgSize :: int
  gc_MaxSendMsgSize :: int
  gc_KeepaliveTime :: int
  gc_KeepaliveTimeout :: int
  gc_KeepaliveMinTime :: int
  gc_KeepalivePermitWithoutStream :: bool
  gc_ReflectionEnabled :: "bool \<Rightarrow> bool"   \<comment> \<open>the configuration package's own, of the default\<close>

record log_server_config =
  lg_RequestIDKey :: string
  lg_TraceIDKey :: string
  lg_RetryAttemptKey :: string
  lg_IncludeHeaders :: "string list"
  lg_ExcludeHeaders :: "string list"
  lg_SensitiveHeaders :: "string list"
  lg_MaskWith :: string
  lg_AutoLevel :: bool
  lg_SuccessSampleRate :: real
  lg_MaxHeaderValueLen :: int
  lg_SkipMethodPrefixes :: "string list"

definition LogConfig :: "grpc_settings \<Rightarrow> log_server_config" where
  "LogConfig config = \<lparr>lg_RequestIDKey = ''x-request-id'', lg_TraceIDKey = ''x-trace-id'', lg_RetryAttemptKey = ''x-retry-attempt'',
     lg_IncludeHeaders = [''user-agent'', ''grpc-accept-encoding'', ''x-user-id''], lg_ExcludeHeaders = [''grpc-version''],
     lg_SensitiveHeaders = [''authorization'', ''x-api-key'', ''cookie'', ''x-user-id''], lg_MaskWith = ''***'',
     lg_AutoLevel = True, lg_SuccessSampleRate = gc_LogSuccessSampleRate config,
     lg_MaxHeaderValueLen = gc_LogMaxHeaderValueLen config, lg_SkipMethodPrefixes = [''/grpc.health.v1.'']\<rparr>"

datatype ('v, 'r) interceptor =
    RecoveryUnary "'v panic_info \<Rightarrow> 'v written" log_server_config 'r
  | LoggingUnary "'v unary_info \<Rightarrow> 'v written" "'v unary_info \<Rightarrow> 'v written" log_server_config
  | RecoveryStream "'v panic_info \<Rightarrow> bool \<Rightarrow> bool \<Rightarrow> 'v written" log_server_config 'r
  | LoggingStream "'v stream_info \<Rightarrow> 'v written" "'v stream_info \<Rightarrow> 'v written" log_server_config

datatype ('v, 'r) server_option =
    ChainUnaryInterceptor "('v, 'r) interceptor list"
  | ChainStreamInterceptor "('v, 'r) interceptor list"
  | MaxRecvMsgSize int
  | MaxSendMsgSize int
  | KeepaliveParams int int               \<comment> \<open>time, timeout\<close>
  | KeepaliveEnforcementPolicy int bool   \<comment> \<open>least time between pings, without a stream\<close>

definition serverLimits :: "grpc_settings \<Rightarrow> ('v, 'r) server_option list" where
  "serverLimits config =
     (if 0 < gc_MaxRecvMsgSize config then [MaxRecvMsgSize (gc_MaxRecvMsgSize config)] else []) @
     (if 0 < gc_MaxSendMsgSize config then [MaxSendMsgSize (gc_MaxSendMsgSize config)] else []) @
     (if 0 < gc_KeepaliveTime config \<or> 0 < gc_KeepaliveTimeout config then
        [KeepaliveParams (gc_KeepaliveTime config) (gc_KeepaliveTimeout config)] else []) @
     (if 0 < gc_KeepaliveMinTime config \<or> gc_KeepalivePermitWithoutStream config then
        [KeepaliveEnforcementPolicy (gc_KeepaliveMinTime config) (gc_KeepalivePermitWithoutStream config)] else [])"

definition NewGRPCServer :: "(('v, 'r) server_option list \<Rightarrow> 'srv) \<Rightarrow> 'r \<Rightarrow> grpc_settings \<Rightarrow> 'srv" where
  "NewGRPCServer NewServer recCfg config =
     (let logCfg = LogConfig config;
          (unarySuccess0, unaryError) = CreateBasicUnaryLogFuncs;
          (streamSuccess0, streamError) = CreateBasicStreamLogFuncs;
          (unaryPanic, streamPanic) = CreateBasicPanicLogFuncs;
          silent = (gc_LogSuccessSampleRate config = 0);
          unarySuccess = (if silent then (\<lambda>info. []) else unarySuccess0);
          streamSuccess = (if silent then (\<lambda>info. []) else streamSuccess0)
      in NewServer (
        [ChainUnaryInterceptor [RecoveryUnary unaryPanic logCfg recCfg, LoggingUnary unarySuccess unaryError logCfg],
         ChainStreamInterceptor [RecoveryStream streamPanic logCfg recCfg, LoggingStream streamSuccess streamError logCfg]] @
        serverLimits config))"

definition reflectionDefaultForEnv :: "string option \<Rightarrow> bool" where
  "reflectionDefaultForEnv envVal = (case envVal of
     None \<Rightarrow> False | Some v \<Rightarrow> v = ''local'' \<or> v = ''development'')"

definition envName :: "string option \<Rightarrow> string" where
  "envName envVal = (case envVal of None \<Rightarrow> [] | Some v \<Rightarrow> v)"

text \<open>
  \<open>listen\<close> is \<open>net.Listen\<close> on an address, \<open>serving\<close> the goroutine that serves. The record that reflection is on
  names the environment.
\<close>

definition NewGRPCApp ::
  "(('v, 'r) server_option list \<Rightarrow> 'srv) \<Rightarrow> 'r \<Rightarrow> ('srv \<Rightarrow> 'srv) \<Rightarrow> (string \<Rightarrow> 'w action) \<Rightarrow> ('srv \<Rightarrow> 'w \<Rightarrow> 'w) \<Rightarrow>
   ('w \<Rightarrow> bool) \<Rightarrow> ('w \<Rightarrow> 'w) \<Rightarrow> ('w \<Rightarrow> 'w) \<Rightarrow> string option \<Rightarrow> grpc_settings result \<Rightarrow> 'w lc \<Rightarrow> ('srv \<Rightarrow> 'srv) list \<Rightarrow>
   'srv result \<times> 'w lc \<times> (string \<times> string) list" where
  "NewGRPCApp NewServer recCfg reflection listen serving drains gracefulStop stop envVal params lc services =
     (case params of
        Inl e \<Rightarrow> (Inl (Errorf ''default config parameters not found: %w'' [] [e]), lc, [])
      | Inr config \<Rightarrow>
          (let srv0 = NewGRPCServer NewServer recCfg config;
               reflected = gc_ReflectionEnabled config (reflectionDefaultForEnv envVal);
               srv1 = (if reflected then reflection srv0 else srv0);
               srv = foldl (\<lambda>s register. register s) srv1 services
           in (Inr srv,
               RegisterGRPCServerLifecycle False (listen ('':'' @ Itoa (gc_Port config))) (serving srv) drains gracefulStop stop lc,
               if reflected then [(''gRPC reflection enabled'', envName envVal)] else [])))"

section \<open>What a record keeps of the client\<close>

text \<open>A key of the client a record leaves out.\<close>

definition lost_key :: "string list \<Rightarrow> string \<Rightarrow> bool" where
  "lost_key filterOut k \<longleftrightarrow> k \<in> set filterOut \<or> canonical k = ''user_agent'' \<and> k \<noteq> ''user-agent''"

text \<open>The keys it does show, in its order.\<close>

definition shown_keys :: "string list \<Rightarrow> string list \<Rightarrow> 'v client_info \<Rightarrow> string list" where
  "shown_keys promote filterOut client =
     filter (\<lambda>k. k \<in> dom (map_of client)) (promote @ [''user-agent'']) @
     filter (\<lambda>k. \<not> lost_key filterOut k) (sort (remaining_keys promote client))"

definition plain_keys :: "string list \<Rightarrow> string list \<Rightarrow> bool" where
  "plain_keys promote filterOut \<longleftrightarrow> distinct promote \<and> ''user-agent'' \<notin> set promote \<and> ''user-agent'' \<notin> set filterOut \<and>
     (\<forall>k \<in> set promote. canonical k = k \<and> k \<noteq> ''user_agent'' \<and> k \<notin> set filterOut)"

lemma plain_common: "plain_keys common_promote common_filter"
  unfolding plain_keys_def common_promote_def common_filter_def canonical_def by simp

lemma plain_panic: "plain_keys panic_promote panic_exclude"
  unfolding plain_keys_def panic_promote_def panic_exclude_def canonical_def by simp

lemma canonical_user_agent [simp]: "canonical ''user-agent'' = ''user_agent''"
  by (simp add: canonical_def)

lemma promote_fields_shown:
  "\<forall>k \<in> set promote. canonical k = k \<Longrightarrow>
     promote_fields promote client =
       map (\<lambda>k. (canonical k, Client (the (map_of client k)))) (filter (\<lambda>k. k \<in> dom (map_of client)) promote)"
  by (induction promote) (auto simp: promote_fields_def)

lemma user_agent_shown:
  "user_agent_field client =
     map (\<lambda>k. (canonical k, Client (the (map_of client k)))) (filter (\<lambda>k. k \<in> dom (map_of client)) [''user-agent''])"
  by (auto simp: user_agent_field_def split: option.splits)

lemma remaining_fields_shown:
  "remaining_fields promote filterOut client =
     map (\<lambda>k. (canonical k, Client (the (map_of client k))))
       (filter (\<lambda>k. \<not> lost_key filterOut k) (sort (remaining_keys promote client)))"
proof -
  have "''user-agent'' \<notin> set ks \<Longrightarrow>
      [(canonical k, Client (the (map_of client k))). k \<leftarrow> ks, k \<notin> set filterOut, canonical k \<noteq> ''user_agent''] =
      map (\<lambda>k. (canonical k, Client (the (map_of client k)))) (filter (\<lambda>k. \<not> lost_key filterOut k) ks)" for ks
    by (induction ks) (auto simp: lost_key_def)
  then show ?thesis by (simp add: remaining_fields_def remaining_keys_def)
qed

lemma client_fields_shown:
  assumes "plain_keys promote filterOut"
  shows "promote_fields promote client @ user_agent_field client @ remaining_fields promote filterOut client =
    map (\<lambda>k. (canonical k, Client (the (map_of client k)))) (shown_keys promote filterOut client)"
  using assms
  by (simp add: plain_keys_def promote_fields_shown user_agent_shown remaining_fields_shown shown_keys_def)

lemma set_remaining_keys: "set (remaining_keys promote client) = dom (map_of client) - set promote - {''user-agent''}"
  by (force simp: remaining_keys_def dom_map_of_conv_image_fst)

lemma set_shown_keys:
  assumes "plain_keys promote filterOut"
  shows "set (shown_keys promote filterOut client) = {k \<in> dom (map_of client). \<not> lost_key filterOut k}"
  using assms by (auto simp: shown_keys_def set_remaining_keys plain_keys_def lost_key_def)

lemma distinct_shown_keys:
  assumes "plain_keys promote filterOut" "distinct (map fst client)"
  shows "distinct (shown_keys promote filterOut client)"
proof -
  have "remaining_keys promote client = filter (\<lambda>k. k \<notin> set promote \<and> k \<noteq> ''user-agent'') (map fst client)"
    by (induction client) (auto simp: remaining_keys_def)
  then have "distinct (remaining_keys promote client)" using assms(2) by simp
  then show ?thesis using assms(1) by (auto simp: shown_keys_def set_remaining_keys plain_keys_def)
qed

lemma shown_keys_order:
  assumes "distinct (map fst client)" "mset client' = mset client"
  shows "map_of client' = map_of client" "shown_keys promote filterOut client' = shown_keys promote filterOut client"
proof -
  have "distinct (map fst client')" using assms by (metis mset_eq_imp_distinct_iff mset_map)
  then have "map_of client' k = Some v \<longleftrightarrow> map_of client k = Some v" for k v
    using assms(1) mset_eq_setD [OF assms(2)] by simp
  then show m: "map_of client' = map_of client" by (intro ext) (metis not_Some_eq)
  have "mset (remaining_keys promote client') = mset (remaining_keys promote client)"
  proof -
    have "mset (remaining_keys promote c) = filter_mset (\<lambda>k. k \<notin> set promote \<and> k \<noteq> ''user-agent'') (image_mset fst (mset c))"
      for c :: "'a client_info" by (induction c) (auto simp: remaining_keys_def)
    then show ?thesis using assms(2) by simp
  qed
  then have "sort (remaining_keys promote client') = sort (remaining_keys promote client)"
    by (metis sorted_list_of_multiset_mset)
  then show "shown_keys promote filterOut client' = shown_keys promote filterOut client"
    by (simp add: shown_keys_def m)
qed

lemma baseCommonAttrs_shown:
  "baseCommonAttrs code durationMS fullMethod client =
     [(''method'', Text fullMethod), (''code'', Num code), (''duration_ms'', Num durationMS)] @
     map (\<lambda>k. (canonical k, Client (the (map_of client k)))) (shown_keys common_promote common_filter client)"
  using client_fields_shown [OF plain_common, of client] by (simp add: baseCommonAttrs_def)

lemma buildPanicLog_shown:
  "buildPanicLog info extra =
     panic_head info @
     map (\<lambda>k. (canonical k, Client (the (map_of (pi_Client info) k)))) (shown_keys panic_promote panic_exclude (pi_Client info)) @ extra"
  using client_fields_shown [OF plain_panic, of "pi_Client info"] by (simp add: buildPanicLog_def flip: append_assoc)

lemma no_client_head: "(n, Client v) \<notin> set (panic_head info)"
  by (simp add: panic_head_def)

text \<open>
  What a call's record says of the client is every entry of the map under its key with hyphens as underscores,
  except the keys \<open>method\<close>, \<open>code\<close> and \<open>duration_ms\<close> and every other key than \<open>user-agent\<close> that is written
  \<open>user_agent\<close>, which is left out also when there is no \<open>user-agent\<close>. A panic's record leaves out the trace's
  keys, also when the panic came with no trace of its own, and the names of its first two fields and the stack.
\<close>

theorem rpc_record_keeps:
  "{(n, v). (n, Client v) \<in> set (baseCommonAttrs code durationMS fullMethod client)} =
     (\<lambda>k. (canonical k, the (map_of client k))) `
       {k \<in> dom (map_of client). \<not> lost_key [''method'', ''code'', ''duration_ms''] k} \<and>
   {(n, v). (n, Client v) \<in> set (buildPanicLog info [])} =
     (\<lambda>k. (canonical k, the (map_of (pi_Client info) k))) `
       {k \<in> dom (map_of (pi_Client info)). \<not> lost_key [''method'', ''panic_value'', ''stack_trace'', ''trace_id'', ''span_id'', ''trace_sampled''] k}"
proof
  show "{(n, v). (n, Client v) \<in> set (baseCommonAttrs code durationMS fullMethod client)} =
     (\<lambda>k. (canonical k, the (map_of client k))) `
       {k \<in> dom (map_of client). \<not> lost_key [''method'', ''code'', ''duration_ms''] k}"
    unfolding common_filter_def [symmetric] set_shown_keys [OF plain_common, symmetric] baseCommonAttrs_shown by auto
  show "{(n, v). (n, Client v) \<in> set (buildPanicLog info [])} =
     (\<lambda>k. (canonical k, the (map_of (pi_Client info) k))) `
       {k \<in> dom (map_of (pi_Client info)). \<not> lost_key [''method'', ''panic_value'', ''stack_trace'', ''trace_id'', ''span_id'', ''trace_sampled''] k}"
    unfolding panic_exclude_def [symmetric] set_shown_keys [OF plain_panic, symmetric] buildPanicLog_shown
    by (auto simp: no_client_head)
qed

lemma distinct_names:
  assumes "distinct (map fst own)" "distinct ks"
  shows "distinct (map fst (own @ map (\<lambda>k. (f k, g k)) ks)) \<longleftrightarrow> inj_on f (set ks) \<and> f ` set ks \<inter> set (map fst own) = {}"
  using assms by (auto simp: distinct_map comp_def)

lemma distinct_head: "distinct (map fst (panic_head info))"
  by (auto simp: panic_head_def)

lemma panic_head_client: "panic_head (info\<lparr>pi_Client := c\<rparr>) = panic_head info"
  by (simp add: panic_head_def)

text \<open>
  C39. A record does not depend on the order in which the client's map is ranged over. Its names are all different
  exactly when no two of the keys it shows become one by writing hyphens as underscores and none becomes the name of
  one of its own fields: the filter meant to keep those apart looks at the key before it is rewritten, so
  \<open>duration-ms\<close> passes it.
\<close>

theorem rpc_record_names:
  assumes "distinct (map fst client)" "mset client' = mset client"
  shows "baseCommonAttrs code durationMS fullMethod client' = baseCommonAttrs code durationMS fullMethod client \<and>
    buildPanicLog (info\<lparr>pi_Client := client'\<rparr>) extra = buildPanicLog (info\<lparr>pi_Client := client\<rparr>) extra \<and>
    (distinct (map fst (baseCommonAttrs code durationMS fullMethod client)) \<longleftrightarrow>
      (let shown = {k \<in> dom (map_of client). \<not> lost_key common_filter k}
       in inj_on canonical shown \<and> canonical ` shown \<inter> {''method'', ''code'', ''duration_ms''} = {})) \<and>
    (distinct (map fst (buildPanicLog (info\<lparr>pi_Client := client\<rparr>) [])) \<longleftrightarrow>
      (let shown = {k \<in> dom (map_of client). \<not> lost_key panic_exclude k}
       in inj_on canonical shown \<and> canonical ` shown \<inter> set (map fst (panic_head info)) = {}))"
proof (intro conjI)
  show "baseCommonAttrs code durationMS fullMethod client' = baseCommonAttrs code durationMS fullMethod client"
    by (simp add: baseCommonAttrs_shown shown_keys_order [OF assms])
  show "buildPanicLog (info\<lparr>pi_Client := client'\<rparr>) extra = buildPanicLog (info\<lparr>pi_Client := client\<rparr>) extra"
    by (simp add: buildPanicLog_shown panic_head_client shown_keys_order [OF assms])
  show "distinct (map fst (baseCommonAttrs code durationMS fullMethod client)) \<longleftrightarrow>
      (let shown = {k \<in> dom (map_of client). \<not> lost_key common_filter k}
       in inj_on canonical shown \<and> canonical ` shown \<inter> {''method'', ''code'', ''duration_ms''} = {})"
    unfolding Let_def set_shown_keys [OF plain_common, symmetric] baseCommonAttrs_shown
    by (subst distinct_names) (simp_all add: distinct_shown_keys [OF plain_common assms(1)])
  show "distinct (map fst (buildPanicLog (info\<lparr>pi_Client := client\<rparr>) [])) \<longleftrightarrow>
      (let shown = {k \<in> dom (map_of client). \<not> lost_key panic_exclude k}
       in inj_on canonical shown \<and> canonical ` shown \<inter> set (map fst (panic_head info)) = {})"
    unfolding Let_def set_shown_keys [OF plain_panic, symmetric] buildPanicLog_shown panic_head_client append_Nil2
    using distinct_names [OF distinct_head distinct_shown_keys [OF plain_panic assms(1)]] by simp
qed

lemma rpc_record_names_witness:
  "\<not> distinct (map fst (baseCommonAttrs 0 12 ''/user.UserService/Get'' [(''duration-ms'', ''x'')])) \<and>
   baseCommonAttrs 0 12 ''/user.UserService/Get'' [(''a'', ''1''), (''b'', ''2'')] =
   baseCommonAttrs 0 12 ''/user.UserService/Get'' [(''b'', ''2''), (''a'', ''1'')]"
proof
  have shown: "{k \<in> dom (map_of [(''duration-ms'', ''x'')]). \<not> lost_key common_filter k} = {''duration-ms''}"
    by (auto simp: lost_key_def common_filter_def canonical_def split: if_splits)
  show "\<not> distinct (map fst (baseCommonAttrs 0 12 ''/user.UserService/Get'' [(''duration-ms'', ''x'')]))"
    using rpc_record_names [of "[(''duration-ms'', ''x'')]" "[(''duration-ms'', ''x'')]", unfolded shown]
    by (simp add: canonical_def)
  show "baseCommonAttrs 0 12 ''/user.UserService/Get'' [(''a'', ''1''), (''b'', ''2'')] =
   baseCommonAttrs 0 12 ''/user.UserService/Get'' [(''b'', ''2''), (''a'', ''1'')]"
    using rpc_record_names [of "[(''b'', ''2''), (''a'', ''1'')]" "[(''a'', ''1''), (''b'', ''2'')]"] by simp
qed

end
