(* ===== verification/HttpServer.thy ===== *)
theory HttpServer
  imports Startup Lifecycle
begin

text \<open>
  The HTTP server (\<open>NewHTTPApp\<close> of \<open>internal/app/http/http.go\<close>), and the two records its global middlewares write
  (\<open>logging.go\<close>).

  The mux is what the pipeline and the WebSocket router registered, in that order; both registrations are the
  libraries'. A record is the list of its fields; a group is a field whose content is a list of fields.
\<close>

section \<open>The server\<close>

record server_settings =
  sp_Port :: int
  sp_ReadHeaderTimeout :: duration
  sp_ReadTimeout :: duration
  sp_WriteTimeout :: duration
  sp_IdleTimeout :: duration

record 'm http_server =
  hs_Addr :: string
  hs_Handler :: 'm
  hs_ReadHeaderTimeout :: duration
  hs_ReadTimeout :: duration
  hs_WriteTimeout :: duration
  hs_IdleTimeout :: duration

text \<open>\<open>serving\<close> is the goroutine that listens and serves, \<open>Shutdown\<close> closes it.\<close>

definition NewHTTPApp ::
  "'m \<Rightarrow> ('m \<Rightarrow> 'm) \<Rightarrow> ('m \<Rightarrow> 'm) \<Rightarrow> ('m http_server \<Rightarrow> 'w \<Rightarrow> 'w) \<Rightarrow> ('w \<Rightarrow> 'w) \<Rightarrow> ('m http_server \<Rightarrow> 'w action) \<Rightarrow>
   server_settings result \<Rightarrow> 'w lc \<Rightarrow> 'm http_server result \<times> 'w lc" where
  "NewHTTPApp newMux registerPipeline registerRouter serving wsShutdown shutdown params lc =
     (case params of
        Inl e \<Rightarrow> (Inl (Errorf ''default config parameters not found: %w'' [] [e]), lc)
      | Inr s \<Rightarrow>
          (let mux = registerRouter (registerPipeline newMux);
               srv = \<lparr>hs_Addr = '':'' @ Itoa (sp_Port s), hs_Handler = mux, hs_ReadHeaderTimeout = sp_ReadHeaderTimeout s,
                 hs_ReadTimeout = sp_ReadTimeout s, hs_WriteTimeout = sp_WriteTimeout s, hs_IdleTimeout = sp_IdleTimeout s\<rparr>
           in (Inr srv, RegisterHTTPServerLifecycle (serving srv) wsShutdown (shutdown srv) lc)))"

section \<open>Records\<close>

datatype log_value = LString string | LInt int | LGroup "(string \<times> attr) list"

record seen_request =
  sr_Method :: string
  sr_Path :: string
  sr_URL :: string
  sr_RemoteAddr :: string
  sr_UserAgent :: string

definition logIncomingRequest :: "seen_request \<Rightarrow> 'b response \<Rightarrow> level \<times> string \<times> (string \<times> log_value) list" where
  "logIncomingRequest req res = (Info, ''HTTP Request'',
     [(''method'', LString (sr_Method req)), (''path'', LString (sr_Path req)), (''status_code'', LInt (Code res)),
      (''remote_addr'', LString (sr_RemoteAddr req)), (''user_agent'', LString (sr_UserAgent req)), (''type'', LString ''access_log'')])"

definition panicViolationGroup :: string where "panicViolationGroup = ''contract_violation''"

text \<open>What a panic carried: how it and its type are written, and the violation it is, if it is one.\<close>

record panic_value =
  pv_text :: string
  pv_type :: string
  pv_violation :: "violation option"

definition logPanicDetails :: "seen_request \<Rightarrow> panic_value \<Rightarrow> string \<Rightarrow> level \<times> string \<times> (string \<times> log_value) list" where
  "logPanicDetails r v stackTrace = (Error, ''Panic Recovered'',
     [(''method'', LString (sr_Method r)), (''url'', LString (sr_URL r)), (''remote_addr'', LString (sr_RemoteAddr r)),
      (''panic_value'', LString (pv_text v)), (''panic_type'', LString (pv_type v)), (''stack_trace'', LString stackTrace),
      (''type'', LString ''panic_log'')] @
     (case pv_violation v of None \<Rightarrow> [] | Some x \<Rightarrow> [(panicViolationGroup, LGroup (LogArgs x))]))"

text \<open>
  Each record has every name once and its own type, whatever the request and the panic were. A panic that is a
  violation shows all of its fields, each name once and none called \<open>type\<close>, under a name of their own, so that the
  record's method stays the request's.
\<close>

theorem panic_record:
  "(case logPanicDetails r v stackTrace of (level, message, fs) \<Rightarrow>
      level = Error \<and> distinct (map fst fs) \<and> map_of fs ''type'' = Some (LString ''panic_log'') \<and>
      map_of fs ''method'' = Some (LString (sr_Method r)) \<and>
      map_of fs panicViolationGroup = map_option (\<lambda>x. LGroup (LogAttrs x)) (pv_violation v)) \<and>
   (case logIncomingRequest r (res :: 'b response) of (level, message, fs) \<Rightarrow>
      level = Info \<and> distinct (map fst fs) \<and> map_of fs ''type'' = Some (LString ''access_log'') \<and>
      map_of fs ''status_code'' = Some (LInt (Code res))) \<and>
   (case pv_violation v of None \<Rightarrow> True | Some x \<Rightarrow>
      distinct (map fst (LogAttrs x)) \<and> ''type'' \<notin> fst ` set (LogAttrs x))"
proof (intro conjI)
  show "case pv_violation v of None \<Rightarrow> True | Some x \<Rightarrow> distinct (map fst (LogAttrs x)) \<and> ''type'' \<notin> fst ` set (LogAttrs x)"
    using violation.keys_once violation.no_type by (simp add: LogArgs_LogAttrs split: option.split)
qed (auto simp: logPanicDetails_def logIncomingRequest_def panicViolationGroup_def LogArgs_LogAttrs split: option.split)

section \<open>How the server ends\<close>

text \<open>Stopping the server closes the WebSocket connections first.\<close>

lemma NewHTTPApp_stops:
  assumes "NewHTTPApp newMux rp rr serving wsShutdown shutdown (Inr s) [] = (Inr srv, lc)"
  shows "stop_hooks (rev lc) w = (case shutdown srv (wsShutdown w) of (e, w') \<Rightarrow> (case e of None \<Rightarrow> [] | Some x \<Rightarrow> [x], w'))"
  using assms by (auto simp: NewHTTPApp_def RegisterHTTPServerLifecycle_def Let_def split: prod.splits option.splits)

end
