(* ===== verification/Application.thy ===== *)
theory Application
  imports SessionApi Orders UserModule AdminApi Startup Lifecycle
begin

text \<open>
  What the two programs serve together (\<open>internal/app/bootstrap/server\<close>, \<open>scheduler\<close>, the \<open>module.go\<close> of every
  module): the rest of the sample endpoints, the modules and the routes they stand for, which credentials each
  program has to be able to verify, and which types each puts into the container against the stand-ins the
  documentation is generated with (\<open>bootstrap/describe/stubs.go\<close>).

  A module's middlewares are \<open>SysAdminOnly\<close> (\<open>AdminApi\<close>) or none. The container gives the modules of a group in
  no particular order.
\<close>

section \<open>The sample user service\<close>

record user_model =
  um_ID :: "64 word"
  um_Name :: string

definition ToGetUser :: "user_model \<Rightarrow> user_dto" where
  "ToGetUser m = \<lparr>ud_ID = um_ID m, ud_Name = um_Name m\<rparr>"

definition user_repository_GetByID :: "64 word \<Rightarrow> user_model result" where
  "user_repository_GetByID i = Inr \<lparr>um_ID = 1, um_Name = []\<rparr>"

record 'w user_service =
  us_Something :: "'w \<Rightarrow> string \<times> 'w"
  us_GetPostContent :: "string \<Rightarrow> 'w \<Rightarrow> string result \<times> 'w"
  us_GetById :: "64 word \<Rightarrow> user_dto result"

text \<open>
  \<open>enqueue\<close> takes a context, the job's name and the payload, \<open>getPost\<close> is the gRPC client's call.
\<close>

definition NewUserService ::
  "(64 word \<Rightarrow> user_model result) \<Rightarrow> (string \<Rightarrow> 'w \<Rightarrow> string result \<times> 'w) \<Rightarrow> 'w order_service \<Rightarrow>
   (request_context \<Rightarrow> string \<Rightarrow> (string \<times> string) list \<Rightarrow> 'w \<Rightarrow> string result \<times> 'w) \<Rightarrow> 'w user_service" where
  "NewUserService getByID getPost orders enqueue = \<lparr>
     us_Something = (\<lambda>w. case enqueue Background ''simple_log'' [(''message'', ''UserServiceImpl.Something called'')] w of
       (_, w') \<Rightarrow> (''hoge'', w')),
     us_GetPostContent = (\<lambda>postId w. case getPost postId w of
       (Inl e, w') \<Rightarrow> (Inl e, w') | (Inr content, w') \<Rightarrow> (Inr content, w')),
     us_GetById = (\<lambda>i. case getByID i of Inl e \<Rightarrow> Inl e | Inr user \<Rightarrow> Inr (ToGetUser user))\<rparr>"

definition user_NewGet ::
  "string \<Rightarrow> (request \<Rightarrow> validation_error list + unit) \<Rightarrow> 'w user_service \<Rightarrow> (hello_world \<Rightarrow> string result) \<Rightarrow> ('o, hello_world, 'w) publication \<Rightarrow>
     ('w, 'v, unit, user_dto user_result) endpoint" where
  "user_NewGet mediaTypeXML body svc marshal helloWorld =
     (user_endpoint ''users:read'' body 200 (\<lambda>r _.
        Get (\<lambda>w. case us_Something svc w of (_, w1) \<Rightarrow>
          (case Publish marshal helloWorld (rq_ctx r) \<lparr>hw_Message = ''Hello, World!'', hw_Source = ''Get.Handle''\<rparr> [] [] w1 of (_, w2, l) \<Rightarrow>
             (case us_GetPostContent svc ''1'' w2 of (_, w3) \<Rightarrow>
                Put w3 (log_all l (Return (Inr \<lparr>ur_Body = \<lparr>ud_ID = 1, ud_Name = ''hoge''\<rparr>, ur_Status = None,
                  ur_Headers = [(''Server'', ''net/http'')]\<rparr>))))))))
     \<lparr>ep_PathRules := [\<lparr>rule_Field = ''id''\<rparr>], ep_Produces := mediaTypeXML\<rparr>"

record user_reply =
  rp_UserId :: string
  rp_Name :: string
  rp_Email :: string

definition GetUser :: "'w user_service \<Rightarrow> string \<Rightarrow> 'w \<Rightarrow> user_reply result \<times> 'w" where
  "GetUser svc userId w =
     (case us_GetPostContent svc ''1'' w of (_, w') \<Rightarrow>
        (Inr \<lparr>rp_UserId = ''1'', rp_Name = ''John Doe'', rp_Email = ''j@example.com''\<rparr>, w'))"

definition RegisterWithServer :: "('srv \<Rightarrow> 'w user_service \<Rightarrow> 'srv) \<Rightarrow> 'w user_service \<Rightarrow> 'srv \<Rightarrow> 'srv" where
  "RegisterWithServer RegisterUserServer svc srv = RegisterUserServer srv svc"

section \<open>The sample job and task\<close>

record job_options =
  jo_MaxRetries :: int
  jo_RetryDelay :: int      \<comment> \<open>nanoseconds\<close>
  jo_Timeout :: int

text \<open>\<open>parse\<close> is decoding the payload; the job writes two lines and changes nothing.\<close>

definition SimpleLogHandler :: "(string \<Rightarrow> string result) \<Rightarrow> string \<Rightarrow> goerr option" where
  "SimpleLogHandler parse payload =
     (case parse payload of
        Inl e \<Rightarrow> Some (Errorf ''failed to unmarshal payload: %w'' [] [e])
      | Inr message \<Rightarrow> None)"

definition NewUserJob :: "(string \<Rightarrow> string result) \<Rightarrow> (string \<Rightarrow> goerr option, job_options) job_handler" where
  "NewUserJob parse = \<lparr>jh_Name = ''simple_log'', jh_Handler = SimpleLogHandler parse,
     jh_Options = \<lparr>jo_MaxRetries = 3, jo_RetryDelay = 1000000000, jo_Timeout = 30000000000\<rparr>\<rparr>"

definition simple_Run :: "'w task_fun" where
  "simple_Run ctx w = (None, w)"

definition NewUserTask :: "(string list \<Rightarrow> 'c result) \<Rightarrow> ('c, 'w) scheduled_task result" where
  "NewUserTask newCron =
     (case newCron [''*'', ''*'', ''*'', ''*'', ''*''] of
        Inl e \<Rightarrow> Inl e
      | Inr everyMinutes \<Rightarrow> Inr \<lparr>st_Name = ''SimpleUserTask'', st_Cron = everyMinutes, st_Task = simple_Run\<rparr>)"

section \<open>The scheduler\<close>

text \<open>The backend, the two state repositories and the scheduler itself are the library's.\<close>

definition NewScheduler ::
  "('r \<Rightarrow> 'b result) \<Rightarrow> ('r \<Rightarrow> 'rec) \<Rightarrow> ('r \<Rightarrow> string \<Rightarrow> 'ctl) \<Rightarrow> ('b \<Rightarrow> 'rec \<Rightarrow> 'ctl \<Rightarrow> 'd \<Rightarrow> 's) \<Rightarrow> 'r \<Rightarrow> 'd \<Rightarrow> 's result" where
  "NewScheduler NewBackend recovery control new redisClient dbClient =
     (case NewBackend redisClient of
        Inl e \<Rightarrow> Inl e
      | Inr backend \<Rightarrow> Inr (new backend (recovery redisClient) (control redisClient []) dbClient))"

section \<open>The sample post module and the posts of a user\<close>

record post_dto =
  pd_ID :: "64 word"
  pd_UserID :: "64 word"
  pd_Title :: string
  pd_Content :: string

definition service_GetPost :: post_dto where
  "service_GetPost = \<lparr>pd_ID = 1, pd_UserID = 1, pd_Title = ''Hello World'', pd_Content = ''This is a sample post.''\<rparr>"

definition post_NewGet :: "string \<Rightarrow> (request \<Rightarrow> validation_error list + unit) \<Rightarrow> ('w, 'v, unit, post_dto user_result) endpoint" where
  "post_NewGet mediaTypeXML body =
     \<lparr>ep_Security = Some \<lparr>Public = True, sec_Schemes = [], sec_Scopes = [], Resource = None\<rparr>, ep_Body = body, ep_PathRules = [],
      ep_QueryRules = [], ep_Success = 200, ep_Produces = mediaTypeXML, ep_Responses = [],
      ep_Handle = (\<lambda>r _. Return (Inr \<lparr>ur_Body = service_GetPost, ur_Status = None, ur_Headers = [(''Server'', ''net/http'')]\<rparr>))\<rparr>"

text \<open>The post module's gRPC service, which answers the calls of the user service.\<close>

record post_reply =
  pp_PostId :: string
  pp_Content :: string

definition rpc_GetPost :: "string \<Rightarrow> post_reply result" where
  "rpc_GetPost postId = Inr \<lparr>pp_PostId = ''1'', pp_Content = ''Sample Post Content''\<rparr>"

definition post_RegisterWithServer :: "('srv \<Rightarrow> 'svc \<Rightarrow> 'srv) \<Rightarrow> 'svc \<Rightarrow> 'srv \<Rightarrow> 'srv" where
  "post_RegisterWithServer RegisterPostServer svc srv = RegisterPostServer srv svc"

record user_post_record =
  up_ID :: int
  up_CreatedAt :: time
  up_UpdatedAt :: time

definition cacheTTL :: int where "cacheTTL = 300000000000"

definition cacheKeyNamespace :: string where "cacheKeyNamespace = ''user_post''"

definition cacheKey :: "int \<Rightarrow> string" where
  "cacheKey i = cacheKeyNamespace @ '':'' @ Itoa i"

definition user_post_repository_GetByID :: "('w \<Rightarrow> time) \<Rightarrow> int \<Rightarrow> 'w \<Rightarrow> user_post_record result \<times> 'w" where
  "user_post_repository_GetByID now i w = (Inr \<lparr>up_ID = i, up_CreatedAt = now w, up_UpdatedAt = now w\<rparr>, w)"

text \<open>\<open>GetOrSetFunc\<close> is the cache library's read through a key, a time to live and what reads on a miss.\<close>

definition user_post_GetByID ::
  "(string \<Rightarrow> int \<Rightarrow> ('w \<Rightarrow> user_post_record result \<times> 'w) \<Rightarrow> 'w \<Rightarrow> user_post_record result \<times> 'w) \<Rightarrow>
   (int \<Rightarrow> 'w \<Rightarrow> user_post_record result \<times> 'w) \<Rightarrow> int \<Rightarrow> 'w \<Rightarrow> user_post_record result \<times> 'w" where
  "user_post_GetByID GetOrSetFunc getByID i = GetOrSetFunc (cacheKey i) cacheTTL (getByID i)"

text \<open>The id of the path is validated and not read: the endpoint always asks for the first.\<close>

definition user_post_NewGet ::
  "(request \<Rightarrow> validation_error list + unit) \<Rightarrow> (int \<Rightarrow> 'w \<Rightarrow> user_post_record result \<times> 'w) \<Rightarrow> ('w, 'v, unit, int) endpoint" where
  "user_post_NewGet body getByID =
     \<lparr>ep_Security = None, ep_Body = body, ep_PathRules = [\<lparr>rule_Field = ''id''\<rparr>], ep_QueryRules = [], ep_Success = 200,
      ep_Produces = [], ep_Responses = [],
      ep_Handle = (\<lambda>r _. Get (\<lambda>w. case getByID 1 w of
          (Inl e, w') \<Rightarrow> Put w' (Return (Inl e))
        | (Inr user, w') \<Rightarrow> Put w' (Return (Inr (up_ID user)))))\<rparr>"

section \<open>Modules\<close>

definition NewController :: "('w, 'v, 'q, 'r) endpoint \<Rightarrow> 'v controller" where
  "NewController ep = Typed (ep_Security ep)"

definition empty_module :: "string \<Rightarrow> 'v rest_module" where
  "empty_module path = \<lparr>m_Path = path, m_Get = NoController, m_Post = NoController, m_Put = NoController,
     m_Patch = NoController, m_Delete = NoController\<rparr>"

definition NewUserByIDModule :: "('w, 'v, 'q, 'r) endpoint \<Rightarrow> ('w1, 'v, 'q1, 'r1) endpoint \<Rightarrow> 'v rest_module" where
  "NewUserByIDModule get patch = (empty_module ''/users/{id}'')\<lparr>m_Get := NewController get, m_Patch := NewController patch\<rparr>"

definition NewUserCollectionModule :: "('w, 'v, 'q, 'r) endpoint \<Rightarrow> 'v rest_module" where
  "NewUserCollectionModule post = (empty_module ''/users'')\<lparr>m_Post := NewController post\<rparr>"

definition post_NewModule :: "('w, 'v, 'q, 'r) endpoint \<Rightarrow> 'v rest_module" where
  "post_NewModule get = (empty_module ''/post'')\<lparr>m_Get := NewController get\<rparr>"

definition user_post_NewModule :: "('w, 'v, 'q, 'r) endpoint \<Rightarrow> 'v rest_module" where
  "user_post_NewModule get = (empty_module ''/users/{id}/posts'')\<lparr>m_Get := NewController get\<rparr>"

text \<open>
  What the endpoints are built from: reading and validating each kind of body, the services and libraries. The
  text of an error is the library's.
\<close>

record ('w, 'j, 'o) app_deps =
  ad_none :: "request \<Rightarrow> validation_error list + unit"
  ad_update_order :: "request \<Rightarrow> validation_error list + update_order"
  ad_callback :: "request \<Rightarrow> validation_error list + payment_callback"
  ad_user :: "request \<Rightarrow> validation_error list + user_dto"
  ad_update_user :: "request \<Rightarrow> validation_error list + update_user"
  ad_retry :: "request \<Rightarrow> validation_error list + retry_by_name"
  ad_reason :: "request \<Rightarrow> validation_error list + task_reason"
  ad_float :: parse_float
  ad_text :: "goerr \<Rightarrow> string"
  ad_xml :: string
  ad_orders :: "'w order_service"
  ad_users :: "'w user_service"
  ad_hello :: "('o, hello_world, 'w) publication"
  ad_marshal_hello :: "hello_world \<Rightarrow> string result"
  ad_created :: "('o, user_created, 'w) publication"
  ad_marshal_created :: "user_created \<Rightarrow> string result"
  ad_posts :: "int \<Rightarrow> 'w \<Rightarrow> user_post_record result \<times> 'w"
  ad_jobs :: "('w, 'j) worker_ops"
  ad_tasks :: "'w scheduler_ops"
  ad_sessions :: "'w session_store option"
  ad_cookies :: "config option"

definition NewListJobsModule :: "('w, 'j, 'o) app_deps \<Rightarrow> 'v rest_module" where
  "NewListJobsModule D = (empty_module ''/_/jobs'')\<lparr>m_Get := NewController (NewListJobs (ad_none D) :: ('w, 'v, unit, unit) endpoint)\<rparr>"

definition NewJobStatusModule :: "('w, 'j, 'o) app_deps \<Rightarrow> 'v rest_module" where
  "NewJobStatusModule D = (empty_module ''/_/jobs/{id}/status'')
     \<lparr>m_Get := NewController (NewJobStatus (ad_none D) (ad_text D) (ad_jobs D))\<rparr>"

definition NewCancelJobModule :: "('w, 'j, 'o) app_deps \<Rightarrow> 'v rest_module" where
  "NewCancelJobModule D = (empty_module ''/_/jobs/{id}'')
     \<lparr>m_Delete := NewController (NewCancelJob (ad_none D) (ad_text D) (ad_jobs D))\<rparr>"

definition NewListDeadLetterJobsModule :: "('w, 'j, 'o) app_deps \<Rightarrow> 'v rest_module" where
  "NewListDeadLetterJobsModule D = (empty_module ''/_/dead-letter-jobs'')
     \<lparr>m_Get := NewController (NewListDeadLetterJobs (ad_none D) (ad_jobs D))\<rparr>"

definition NewGetDeadLetterJobModule :: "('w, 'j, 'o) app_deps \<Rightarrow> 'v rest_module" where
  "NewGetDeadLetterJobModule D = (empty_module ''/_/dead-letter-jobs/{id}'')
     \<lparr>m_Get := NewController (NewGetDeadLetterJobs (ad_none D) :: ('w, 'v, unit, unit) endpoint),
      m_Delete := NewController (NewDeleteDeadLetterJob (ad_none D) (ad_text D) (ad_jobs D))\<rparr>"

definition NewRetryDeadLetterJobModule :: "('w, 'j, 'o) app_deps \<Rightarrow> 'v rest_module" where
  "NewRetryDeadLetterJobModule D = (empty_module ''/_/dead-letter-jobs/{id}/retry'')
     \<lparr>m_Post := NewController (NewRetryDeadLetterJob (ad_none D) (ad_text D) (ad_jobs D))\<rparr>"

definition NewRetryDeadLetterJobsByNameModule :: "('w, 'j, 'o) app_deps \<Rightarrow> 'v rest_module" where
  "NewRetryDeadLetterJobsByNameModule D = (empty_module ''/_/dead-letter-jobs/retry-by-name'')
     \<lparr>m_Post := NewController (NewRetryDeadLetterJobsByName (ad_retry D) (ad_jobs D))\<rparr>"

definition NewRetryAllDeadLetterJobsModule :: "('w, 'j, 'o) app_deps \<Rightarrow> 'v rest_module" where
  "NewRetryAllDeadLetterJobsModule D = (empty_module ''/_/dead-letter-jobs/retry-all'')
     \<lparr>m_Post := NewController (NewRetryAllDeadLetterJobs (ad_none D) (ad_jobs D))\<rparr>"

definition NewListTasksModule :: "('w, 'j, 'o) app_deps \<Rightarrow> 'v rest_module" where
  "NewListTasksModule D = (empty_module ''/_/tasks'')\<lparr>m_Get := NewController (NewListTasks (ad_none D) (ad_tasks D))\<rparr>"

definition NewTaskStateModule :: "('w, 'j, 'o) app_deps \<Rightarrow> 'v rest_module" where
  "NewTaskStateModule D = (empty_module ''/_/tasks/{name}'')
     \<lparr>m_Get := NewController (NewGetStatus (ad_none D) (ad_text D) (ad_tasks D))\<rparr>"

definition NewPauseTaskModule :: "('w, 'j, 'o) app_deps \<Rightarrow> 'v rest_module" where
  "NewPauseTaskModule D = (empty_module ''/_/tasks/{name}/pause'')
     \<lparr>m_Post := NewController (NewPauseTask (ad_reason D) (ad_text D) (ad_tasks D))\<rparr>"

definition NewResumeTaskModule :: "('w, 'j, 'o) app_deps \<Rightarrow> 'v rest_module" where
  "NewResumeTaskModule D = (empty_module ''/_/tasks/{name}/resume'')
     \<lparr>m_Post := NewController (NewResumeTask (ad_none D) (ad_text D) (ad_tasks D))\<rparr>"

definition NewDisableTaskModule :: "('w, 'j, 'o) app_deps \<Rightarrow> 'v rest_module" where
  "NewDisableTaskModule D = (empty_module ''/_/tasks/{name}/disable'')
     \<lparr>m_Post := NewController (NewDisableTask (ad_reason D) (ad_text D) (ad_tasks D))\<rparr>"

definition NewEnableTaskModule :: "('w, 'j, 'o) app_deps \<Rightarrow> 'v rest_module" where
  "NewEnableTaskModule D = (empty_module ''/_/tasks/{name}/enable'')
     \<lparr>m_Post := NewController (NewEnableTask (ad_none D) (ad_text D) (ad_tasks D))\<rparr>"

section \<open>What each package registers\<close>

definition order_modules :: "('w, 'j, 'o) app_deps \<Rightarrow> order_dto option rest_module list" where
  "order_modules D =
     [NewOrderModule (NewGet (ad_none D) (ad_orders D)), NewOrderByIDModule (NewPut (ad_update_order D) (ad_orders D)),
      NewOrderApprovalModule (NewApprove (ad_float D) (ad_none D) (ad_orders D)),
      NewPaymentCallbackModule (NewPaymentCallback (ad_callback D) (ad_orders D))]"

definition user_modules :: "('w, 'j, 'o) app_deps \<Rightarrow> order_dto option rest_module list" where
  "user_modules D =
     [NewUserByIDModule (user_NewGet (ad_xml D) (ad_none D) (ad_users D) (ad_marshal_hello D) (ad_hello D)) 
         (NewPatch (ad_update_user D) :: ('w, order_dto option, update_user, user_dto user_result) endpoint),
      NewUserCollectionModule (NewPost (ad_user D) (ad_marshal_created D) (ad_created D))]"

definition post_modules :: "('w, 'j, 'o) app_deps \<Rightarrow> order_dto option rest_module list" where
  "post_modules D = [post_NewModule (post_NewGet (ad_xml D) (ad_none D) :: ('w, order_dto option, unit, post_dto user_result) endpoint)]"

definition user_post_modules :: "('w, 'j, 'o) app_deps \<Rightarrow> order_dto option rest_module list" where
  "user_post_modules D = [user_post_NewModule (user_post_NewGet (ad_none D) (ad_posts D))]"

definition worker_modules :: "('w, 'j, 'o) app_deps \<Rightarrow> order_dto option rest_module list" where
  "worker_modules D =
     [NewListJobsModule D, NewJobStatusModule D, NewCancelJobModule D, NewListDeadLetterJobsModule D, NewGetDeadLetterJobModule D,
      NewRetryDeadLetterJobModule D, NewRetryDeadLetterJobsByNameModule D, NewRetryAllDeadLetterJobsModule D]"

definition scheduler_modules :: "('w, 'j, 'o) app_deps \<Rightarrow> order_dto option rest_module list" where
  "scheduler_modules D =
     [NewListTasksModule D, NewTaskStateModule D, NewPauseTaskModule D, NewResumeTaskModule D, NewDisableTaskModule D, NewEnableTaskModule D]"

definition session_modules :: "('w, 'j, 'o) app_deps \<Rightarrow> order_dto option rest_module list" where
  "session_modules D = [NewSessionModule (ad_sessions D) (ad_cookies D)]"

text \<open>What each program imports, directly or through another of its imports.\<close>

definition server_http_modules :: "('w, 'j, 'o) app_deps \<Rightarrow> order_dto option rest_module list" where
  "server_http_modules D =
     session_modules D @ worker_modules D @ order_modules D @ post_modules D @ user_modules D @ user_post_modules D"

definition scheduler_http_modules :: "('w, 'j, 'o) app_deps \<Rightarrow> order_dto option rest_module list" where
  "scheduler_http_modules D =
     scheduler_modules D @ worker_modules D @ order_modules D @ post_modules D @ user_modules D @ user_post_modules D"

definition described_http_modules :: "('w, 'j, 'o) app_deps \<Rightarrow> order_dto option rest_module list" where
  "described_http_modules D =
     session_modules D @ scheduler_modules D @ worker_modules D @ order_modules D @ post_modules D @ user_modules D @ user_post_modules D"

section \<open>Who may call what\<close>

text \<open>An endpoint's name with who is admitted: publicly, the credentials, the scopes, and whether about a resource.\<close>

type_synonym row = "string \<times> bool \<times> string list \<times> string list \<times> bool"

definition row_of :: "string \<times> 'v security \<Rightarrow> row" where
  "row_of e = (case e of (name, s) \<Rightarrow> (name, Public s, sec_Schemes s, sec_Scopes s, Resource s \<noteq> None))"

definition rows :: "'v rest_module list \<Rightarrow> row list" where
  "rows ms = map row_of (endpointsOf (map Some ms))"

lemma rows_Nil [simp]: "rows [] = []" by (simp add: rows_def)

lemma rows_Cons: "rows (m # ms) = map row_of (route_endpoints (m_Path m) (routesOf m)) @ rows ms"
  by (simp add: rows_def)

lemma rows_append: "rows (ms @ ns) = rows ms @ rows ns"
  by (induction ms) (simp_all add: rows_Cons)

lemma row_names: "map fst (endpointsOf (map Some ms)) = map fst (rows ms)"
  by (simp add: rows_def row_of_def comp_def case_prod_beta)

lemma order_rows:
  "rows (order_modules D) =
     [(''GET /order'', False, [], [''orders:read''], False), (''PUT /order/{id}'', False, [], [''orders:write''], True),
      (''POST /order/{id}/approval'', False, [], [''orders:write''], True),
      (''POST /order/payment-callback'', False, [SchemeAPIKey], [''orders:write''], False)]"
  by (simp add: order_modules_def NewOrderModule_def NewOrderByIDModule_def NewOrderApprovalModule_def NewPaymentCallbackModule_def
      NewGet_def NewPut_def NewApprove_def NewPaymentCallback_def rows_Cons routesOf_def order_module_at_def row_of_def)

lemma user_rows:
  "rows (user_modules D) =
     [(''GET /users/{id}'', False, [], [''users:read''], False), (''PATCH /users/{id}'', False, [], [''users:write''], False),
      (''POST /users'', False, [], [''users:write''], False)]"
  by (simp add: user_modules_def NewUserByIDModule_def NewUserCollectionModule_def user_NewGet_def NewPatch_def NewPost_def
      user_endpoint_def NewController_def rows_Cons routesOf_def empty_module_def row_of_def)

lemma post_rows: "rows (post_modules D) = [(''GET /post'', True, [], [], False)]"
  by (simp add: post_modules_def post_NewModule_def post_NewGet_def NewController_def rows_Cons routesOf_def empty_module_def row_of_def)

lemma user_post_rows: "rows (user_post_modules D) = [(''GET /users/{id}/posts'', False, [], [], False)]"
  by (simp add: user_post_modules_def user_post_NewModule_def user_post_NewGet_def NewController_def rows_Cons routesOf_def
      empty_module_def row_of_def empty_security_def)

lemma session_rows:
  "rows (session_modules D) = [(''POST /session'', False, [SchemeJWT], [], False), (''DELETE /session'', False, [SchemeSession], [], False)]"
  by (simp add: session_modules_def NewSessionModule_def NewCreateSession_def NewDeleteSession_def SessionPath_def rows_Cons
      routesOf_def row_of_def)

lemmas worker_module_defs = NewListJobsModule_def NewJobStatusModule_def NewCancelJobModule_def NewListDeadLetterJobsModule_def
  NewGetDeadLetterJobModule_def NewRetryDeadLetterJobModule_def NewRetryDeadLetterJobsByNameModule_def NewRetryAllDeadLetterJobsModule_def
  NewListJobs_def NewJobStatus_def NewCancelJob_def NewListDeadLetterJobs_def NewGetDeadLetterJobs_def NewDeleteDeadLetterJob_def
  NewRetryDeadLetterJob_def NewRetryDeadLetterJobsByName_def NewRetryAllDeadLetterJobs_def

lemma worker_rows:
  "rows (worker_modules D) =
     [(''GET /_/jobs'', False, [], [ScopeJobsRead], False), (''GET /_/jobs/{id}/status'', False, [], [ScopeJobsRead], False),
      (''DELETE /_/jobs/{id}'', False, [], [ScopeJobsWrite], False), (''GET /_/dead-letter-jobs'', False, [], [ScopeJobsRead], False),
      (''GET /_/dead-letter-jobs/{id}'', False, [], [ScopeJobsRead], False),
      (''DELETE /_/dead-letter-jobs/{id}'', False, [], [ScopeJobsWrite], False),
      (''POST /_/dead-letter-jobs/{id}/retry'', False, [], [ScopeJobsWrite], False),
      (''POST /_/dead-letter-jobs/retry-by-name'', False, [], [ScopeJobsWrite], False),
      (''POST /_/dead-letter-jobs/retry-all'', False, [], [ScopeJobsWrite], False)]"
  by (simp add: worker_modules_def worker_module_defs scoped_def NewController_def rows_Cons routesOf_def empty_module_def row_of_def)

lemmas scheduler_module_defs = NewListTasksModule_def NewTaskStateModule_def NewPauseTaskModule_def NewResumeTaskModule_def
  NewDisableTaskModule_def NewEnableTaskModule_def NewListTasks_def NewGetStatus_def NewPauseTask_def NewResumeTask_def
  NewDisableTask_def NewEnableTask_def newControl_def

lemma scheduler_rows:
  "rows (scheduler_modules D) =
     [(''GET /_/tasks'', False, [], [ScopeTasksRead], False), (''GET /_/tasks/{name}'', False, [], [ScopeTasksRead], False),
      (''POST /_/tasks/{name}/pause'', False, [], [ScopeTasksWrite], False), (''POST /_/tasks/{name}/resume'', False, [], [ScopeTasksWrite], False),
      (''POST /_/tasks/{name}/disable'', False, [], [ScopeTasksWrite], False), (''POST /_/tasks/{name}/enable'', False, [], [ScopeTasksWrite], False)]"
  by (simp add: scheduler_modules_def scheduler_module_defs scoped_def NewController_def rows_Cons routesOf_def empty_module_def row_of_def)

lemmas program_rows = server_http_modules_def scheduler_http_modules_def described_http_modules_def rows_append
  order_rows user_rows post_rows user_post_rows session_rows worker_rows scheduler_rows

lemma endpointsOf_append: "endpointsOf (ms @ ns) = endpointsOf ms @ endpointsOf ns"
  by (induction ms rule: endpointsOf.induct) simp_all

text \<open>The startup check looks at the rows only, and not at their order.\<close>

lemma checkAuth_rows:
  "checkAuthConfiguration ms v = None \<longleftrightarrow>
     (\<forall>(name, public, schemes, scopes, resource) \<in> row_of ` set (endpointsOf ms). public \<longrightarrow> \<not> resource \<and> schemes = [] \<and> scopes = []) \<and>
     ((\<exists>(name, public, rest) \<in> row_of ` set (endpointsOf ms). \<not> public) \<longrightarrow>
        (\<exists>u. v = Some u \<and> Schemes u \<noteq> [] \<and>
           (\<forall>(name, public, schemes, rest) \<in> row_of ` set (endpointsOf ms). \<not> public \<longrightarrow> set schemes \<subseteq> set (Schemes u))))"
proof -
  let ?E = "set (endpointsOf ms)"
  have resource: "PublicResourceChecks ms = [] \<longleftrightarrow> (\<forall>(name, s) \<in> ?E. Public s \<longrightarrow> Resource s = None)"
    by (auto simp: PublicResourceChecks_def filter_empty_conv)
  have conditions: "PublicWithConditions ms = [] \<longleftrightarrow> (\<forall>(name, s) \<in> ?E. Public s \<longrightarrow> sec_Schemes s = [] \<and> sec_Scopes s = [])"
    by (auto simp: PublicWithConditions_def filter_empty_conv)
  have required: "RequiresAuthentication ms \<longleftrightarrow> (\<exists>(name, s) \<in> ?E. \<not> Public s)"
    by (auto simp: RequiresAuthentication_def list_ex_iff)
  have missing: "filter (\<lambda>scheme. scheme \<notin> set S) (DeclaredSchemes ms) = [] \<longleftrightarrow>
      (\<forall>(name, s) \<in> ?E. \<not> Public s \<longrightarrow> set (sec_Schemes s) \<subseteq> set S)" for S
    by (simp add: filter_empty_conv Ball_def DeclaredSchemes_iff subset_iff) blast
  have "checkAuthConfiguration ms v = None \<longleftrightarrow>
      (\<forall>(name, s) \<in> ?E. Public s \<longrightarrow> Resource s = None) \<and>
      (\<forall>(name, s) \<in> ?E. Public s \<longrightarrow> sec_Schemes s = [] \<and> sec_Scopes s = []) \<and>
      ((\<exists>(name, s) \<in> ?E. \<not> Public s) \<longrightarrow> (\<exists>u. v = Some u \<and> Schemes u \<noteq> [] \<and>
         (\<forall>(name, s) \<in> ?E. \<not> Public s \<longrightarrow> set (sec_Schemes s) \<subseteq> set (Schemes u))))"
    unfolding checkAuthConfiguration_def resource required conditions missing Let_def
    by (cases v) (simp_all add: missing)
  then show ?thesis by (simp add: row_of_def case_prod_beta ball_conj_distrib) blast
qed

lemma checkSession_rows:
  "checkSessionEndpointsAreServable None ms = None \<longleftrightarrow>
     (\<forall>(name, public, schemes, rest) \<in> row_of ` set (endpointsOf ms). \<not> public \<longrightarrow> SchemeSession \<notin> set schemes)"
proof -
  have "checkSessionEndpointsAreServable None ms = None \<longleftrightarrow>
      (\<forall>(name, s) \<in> set (endpointsOf ms). \<not> Public s \<longrightarrow> SchemeSession \<notin> set (sec_Schemes s))"
    by (simp add: checkSessionEndpointsAreServable_def DeclaredSchemes_iff) blast
  then show ?thesis by (simp add: row_of_def case_prod_beta)
qed

lemma rows_set:
  assumes "set ms = Some ` set (ns :: 'v rest_module list)"
  shows "row_of ` set (endpointsOf ms) = set (rows ns)"
proof -
  have "set (endpointsOf ms) = set (endpointsOf (map Some ns))"
    using assms by (auto simp: endpointsOf_typed intro!: set_eqI)
  then show ?thesis by (simp add: rows_def)
qed

text \<open>
  C17. The server can be started with exactly the verifiers that can check a token, an API key and a session cookie; it is
  refused when browser sessions are not configured, since its sign-out takes nothing else. The scheduler's program
  needs only API keys, which the payment callback asks for, and no sessions. In both nothing is public but reading
  the sample post, no endpoint is registered twice, and an anonymous caller of any other is answered 401.
\<close>

theorem shipped_programs:
  assumes server: "set ms = Some ` set (server_http_modules D)" and scheduler: "set ks = Some ` set (scheduler_http_modules D)"
  shows "(checkAuthConfiguration ms v = None \<longleftrightarrow>
      (\<exists>u. v = Some u \<and> {SchemeJWT, SchemeSession, SchemeAPIKey} \<subseteq> set (Schemes u))) \<and>
    (checkAuthConfiguration ks v = None \<longleftrightarrow> (\<exists>u. v = Some u \<and> SchemeAPIKey \<in> set (Schemes u))) \<and>
    checkSessionEndpointsAreServable None ms \<noteq> None \<and> checkSessionEndpointsAreServable None ks = None \<and>
    distinct (map fst (endpointsOf (map Some (server_http_modules D)))) \<and>
    distinct (map fst (endpointsOf (map Some (scheduler_http_modules D)))) \<and>
    (\<forall>(name, s) \<in> set (endpointsOf ms) \<union> set (endpointsOf ks).
       (PrincipalFrom (rq_ctx r) = None \<longrightarrow> authorize (Some s) r = (if name = ''GET /post'' then None else Some UnauthenticatedResponse)))"
proof (intro conjI)
  note sets = rows_set [OF server] rows_set [OF scheduler]
  show "checkAuthConfiguration ms v = None \<longleftrightarrow> (\<exists>u. v = Some u \<and> {SchemeJWT, SchemeSession, SchemeAPIKey} \<subseteq> set (Schemes u))"
    unfolding checkAuth_rows sets by (auto simp: program_rows)
  show "checkAuthConfiguration ks v = None \<longleftrightarrow> (\<exists>u. v = Some u \<and> SchemeAPIKey \<in> set (Schemes u))"
    unfolding checkAuth_rows sets by (auto simp: program_rows)
  show "checkSessionEndpointsAreServable None ms \<noteq> None" unfolding checkSession_rows sets by (simp add: program_rows)
  show "checkSessionEndpointsAreServable None ks = None"
    unfolding checkSession_rows sets by (simp add: program_rows SchemeSession_def SchemeAPIKey_def)
  show "distinct (map fst (endpointsOf (map Some (server_http_modules D))))" unfolding row_names by (simp add: program_rows)
  show "distinct (map fst (endpointsOf (map Some (scheduler_http_modules D))))" unfolding row_names by (simp add: program_rows)
  have "\<forall>(name, public, rest) \<in> row_of ` (set (endpointsOf ms) \<union> set (endpointsOf ks)). public = (name = ''GET /post'')"
    unfolding image_Un sets by (simp add: program_rows)
  then show "\<forall>(name, s) \<in> set (endpointsOf ms) \<union> set (endpointsOf ks).
       (PrincipalFrom (rq_ctx r) = None \<longrightarrow> authorize (Some s) r = (if name = ''GET /post'' then None else Some UnauthenticatedResponse))"
    by (simp add: row_of_def case_prod_beta authorize_def)
qed

lemma shipped_programs_witness:
  "\<forall>D :: (unit, unit, unit) app_deps. checkAuthConfiguration (map Some (server_http_modules D)) None \<noteq> None \<and>
     checkSessionEndpointsAreServable None (map Some (scheduler_http_modules D)) = None"
proof
  fix D :: "(unit, unit, unit) app_deps"
  have "set (map Some (server_http_modules D)) = Some ` set (server_http_modules D)"
    "set (map Some (scheduler_http_modules D)) = Some ` set (scheduler_http_modules D)" by simp_all
  from shipped_programs [OF this, of None "order_request [] []"]
  show "checkAuthConfiguration (map Some (server_http_modules D)) None \<noteq> None \<and>
     checkSessionEndpointsAreServable None (map Some (scheduler_http_modules D)) = None"
    by (elim conjE) simp
qed

section \<open>What is in the container\<close>

text \<open>The types the constructors give. Two Redis clients of the scheduler's program go by a name.\<close>

datatype provided =
    TRootContext | TRegistry | TRedisClient | TNamedRedisClient string | TCache | TKeyStore | TSessionStore | TSessionCookies
  | TWorkerDB | TSchedulerDB | TSubscriber | TPublisher | TStorage | TFileSystem | TVerifier | TScopeExpander | TClaimSet
  | TOrigins | THTTPPipeline | TWSRouter | TStartSubscription | TPublish | TWorker | TEnqueuer | TScheduler

definition server_provides :: "provided list" where
  "server_provides =
     [TRootContext, TRegistry, TRedisClient, TCache, TKeyStore, TSessionStore, TSessionCookies, TWorkerDB, TSubscriber, TPublisher,
      TStorage, TFileSystem, TVerifier, TScopeExpander, TClaimSet, TOrigins, THTTPPipeline, TWSRouter, TStartSubscription, TPublish,
      TWorker, TEnqueuer]"

definition scheduler_provides :: "provided list" where
  "scheduler_provides =
     [TRootContext, TRegistry, TNamedRedisClient ''schedulerCache'', TCache, TSchedulerDB, TKeyStore, TSessionStore,
      TNamedRedisClient ''workerCache'', TWorkerDB, TSubscriber, TPublisher, TStorage, TFileSystem, TStartSubscription, TPublish,
      TWorker, TEnqueuer, TScheduler, TVerifier, TScopeExpander, TClaimSet, TOrigins, THTTPPipeline, TWSRouter]"

definition stubs :: "provided list" where
  "stubs =
     [TRootContext, TRegistry, TCache, TStorage, TFileSystem, TWorkerDB, TSchedulerDB, TVerifier, TScopeExpander, TClaimSet,
      TKeyStore, TSessionStore, TSessionCookies, TOrigins, TRedisClient, TPublish, TEnqueuer, TSubscriber, TPublisher,
      TStartSubscription, TScheduler, TWorker]"

text \<open>
  The documentation describes exactly the endpoints that one of the two programs serves. It has a stand-in for
  exactly the types they provide, the pipeline and the router apart, which are built from the modules, and apart
  from the two clients that go by a name. Neither program provides a type twice, nor do the stand-ins.
\<close>

theorem documentation_covers_programs:
  "set (endpointsOf (map Some (described_http_modules D))) =
     set (endpointsOf (map Some (server_http_modules D))) \<union> set (endpointsOf (map Some (scheduler_http_modules D))) \<and>
   distinct (map fst (endpointsOf (map Some (described_http_modules D)))) \<and>
   set server_provides \<union> set scheduler_provides =
     set stubs \<union> {THTTPPipeline, TWSRouter} \<union> TNamedRedisClient ` {''schedulerCache'', ''workerCache''} \<and>
   {THTTPPipeline, TWSRouter} \<inter> set stubs = {} \<and> distinct server_provides \<and> distinct scheduler_provides \<and> distinct stubs"
proof (intro conjI)
  show "set (endpointsOf (map Some (described_http_modules D))) =
     set (endpointsOf (map Some (server_http_modules D))) \<union> set (endpointsOf (map Some (scheduler_http_modules D)))"
    by (simp add: described_http_modules_def server_http_modules_def scheduler_http_modules_def endpointsOf_append) blast
  show "distinct (map fst (endpointsOf (map Some (described_http_modules D))))" unfolding row_names by (simp add: program_rows)
  show "set server_provides \<union> set scheduler_provides =
     set stubs \<union> {THTTPPipeline, TWSRouter} \<union> TNamedRedisClient ` {''schedulerCache'', ''workerCache''}"
    unfolding server_provides_def scheduler_provides_def stubs_def by auto
qed (simp_all add: stubs_def server_provides_def scheduler_provides_def)

end
