(* ===== verification/Deployment.thy ===== *)
theory Deployment
  imports Application
begin

text \<open>
  What the shipped programs let whom do. The access matrix is the contract as an operator would write it down: one
  line for each endpoint, with who may reach it. It is held against the whole of the server: the modules it is built
  with, the pipeline that startup makes, the shipped scope policy, the verifier, and the endpoints themselves.
\<close>

section \<open>The access matrix\<close>

text \<open>Anyone, or a verified caller: with which kinds of credential (none named: any), and with which scopes.\<close>

datatype access = Anyone | Caller "string list" "string list"

definition shared_access :: "(string \<times> access) list" where
  "shared_access =
     [(''GET /_/jobs'', Caller [] [''worker.jobs:read'']),
      (''GET /_/jobs/{id}/status'', Caller [] [''worker.jobs:read'']),
      (''DELETE /_/jobs/{id}'', Caller [] [''worker.jobs:write'']),
      (''GET /_/dead-letter-jobs'', Caller [] [''worker.jobs:read'']),
      (''GET /_/dead-letter-jobs/{id}'', Caller [] [''worker.jobs:read'']),
      (''DELETE /_/dead-letter-jobs/{id}'', Caller [] [''worker.jobs:write'']),
      (''POST /_/dead-letter-jobs/{id}/retry'', Caller [] [''worker.jobs:write'']),
      (''POST /_/dead-letter-jobs/retry-by-name'', Caller [] [''worker.jobs:write'']),
      (''POST /_/dead-letter-jobs/retry-all'', Caller [] [''worker.jobs:write'']),
      (''GET /order'', Caller [] [''orders:read'']),
      (''PUT /order/{id}'', Caller [] [''orders:write'']),
      (''POST /order/{id}/approval'', Caller [] [''orders:write'']),
      (''POST /order/payment-callback'', Caller [''apiKey''] [''orders:write'']),
      (''GET /post'', Anyone),
      (''GET /users/{id}'', Caller [] [''users:read'']),
      (''PATCH /users/{id}'', Caller [] [''users:write'']),
      (''POST /users'', Caller [] [''users:write'']),
      (''GET /users/{id}/posts'', Caller [] [])]"

definition server_access :: "(string \<times> access) list" where
  "server_access = [(''POST /session'', Caller [''jwt''] []), (''DELETE /session'', Caller [''session''] [])] @ shared_access"

definition scheduler_access :: "(string \<times> access) list" where
  "scheduler_access =
     [(''GET /_/tasks'', Caller [] [''scheduler.tasks:read'']),
      (''GET /_/tasks/{name}'', Caller [] [''scheduler.tasks:read'']),
      (''POST /_/tasks/{name}/pause'', Caller [] [''scheduler.tasks:write'']),
      (''POST /_/tasks/{name}/resume'', Caller [] [''scheduler.tasks:write'']),
      (''POST /_/tasks/{name}/disable'', Caller [] [''scheduler.tasks:write'']),
      (''POST /_/tasks/{name}/enable'', Caller [] [''scheduler.tasks:write''])] @ shared_access"

text \<open>
  A scope is held by a credential that carries it. The one exception is \<open>admin\<close>, which stands for the sample modules'
  scopes and for none of the operators'.
\<close>

definition holds :: "principal \<Rightarrow> string \<Rightarrow> bool" where
  "holds p scope \<longleftrightarrow> scope \<in> set (p_Scopes p) \<or>
     ''admin'' \<in> set (p_Scopes p) \<and> scope \<in> {''orders:read'', ''orders:write'', ''users:read'', ''users:write'', ''announcements:write''}"

definition grants :: "access \<Rightarrow> principal option \<Rightarrow> bool" where
  "grants a who =
     (case a of
        Anyone \<Rightarrow> True
      | Caller schemes scopes \<Rightarrow>
          (case who of None \<Rightarrow> False
           | Some p \<Rightarrow> (schemes = [] \<or> p_Scheme p \<in> set schemes) \<and> list_all (holds p) scopes))"

section \<open>The modules declare the matrix\<close>

definition access_of :: "row \<Rightarrow> string \<times> access" where
  "access_of r = (case r of (name, public, schemes, scopes, resource) \<Rightarrow> (name, if public then Anyone else Caller schemes scopes))"

lemma server_declares: "set (map access_of (rows (server_http_modules D))) = set server_access"
  by (simp add: program_rows access_of_def server_access_def shared_access_def SchemeJWT_def SchemeSession_def SchemeAPIKey_def
      ScopeJobsRead_def ScopeJobsWrite_def)

lemma scheduler_declares: "set (map access_of (rows (scheduler_http_modules D))) = set scheduler_access"
  by (simp add: program_rows access_of_def scheduler_access_def shared_access_def SchemeAPIKey_def
      ScopeJobsRead_def ScopeJobsWrite_def ScopeTasksRead_def ScopeTasksWrite_def)

lemma distinct_access: "distinct (map fst server_access)" "distinct (map fst scheduler_access)"
  by (simp_all add: server_access_def scheduler_access_def shared_access_def)

lemma declared_access:
  assumes "set ms = Some ` set ns" "set (map access_of (rows ns)) = set matrix" "distinct (map fst matrix)"
    and "Some m \<in> set ms" "(meth, Typed sec) \<in> set (routesOf m)"
  defines "s \<equiv> (case sec of None \<Rightarrow> empty_security | Some s \<Rightarrow> s)"
  shows "map_of matrix (meth @ '' '' @ m_Path m) = Some (if Public s then Anyone else Caller (sec_Schemes s) (sec_Scopes s))"
proof -
  have "(meth @ '' '' @ m_Path m, s) \<in> set (endpointsOf ms)"
    using assms(4,5) unfolding endpointsOf_typed s_def by blast
  then have "row_of (meth @ '' '' @ m_Path m, s) \<in> set (rows ns)" using rows_set [OF assms(1)] by blast
  then have "access_of (row_of (meth @ '' '' @ m_Path m, s)) \<in> set matrix" unfolding assms(2) [symmetric] by simp
  with assms(3) show ?thesis by (simp add: access_of_def row_of_def map_of_eq_Some_iff)
qed

section \<open>The policy is the matrix's\<close>

lemma holds_all:
  assumes "NewScopeExpander = Some (Inr t)"
  shows "SatisfiesScopes (WithScopeExpander (Some (Expand (Some t))) (Some p)) scopes \<longleftrightarrow> list_all (holds p) scopes"
proof -
  from assms have t: "NewScopeImplications scopeImplications = Some (Inr t)" by (simp add: NewScopeExpander_def)
  have "SatisfiesScopes (WithScopeExpander (Some (Expand (Some t))) (Some p)) scopes \<longleftrightarrow>
      (\<forall>scope \<in> set scopes. SatisfiesScopes (WithScopeExpander (Some (Expand (Some t))) (Some p)) [scope])"
    by (auto simp: SatisfiesScopes_iff)
  then show ?thesis unfolding shipped_grants [OF t] by (simp add: list_all_iff holds_def)
qed

lemma scheme_attached: "HasScheme (WithScopeExpander e (Some p)) schemes \<longleftrightarrow> schemes = [] \<or> p_Scheme p \<in> set schemes"
  by (auto simp: WithScopeExpander_def HasScheme_def split: option.splits)

lemma authorize_grants:
  fixes sec :: "'v security option"
  assumes "NewScopeExpander = Some (Inr t)" "PrincipalFrom (rq_ctx r) = WithScopeExpander (Some (Expand (Some t))) who"
  defines "s \<equiv> (case sec of None \<Rightarrow> empty_security | Some s \<Rightarrow> s)"
  shows "(authorize sec r :: 'b response option) = None \<longleftrightarrow>
    grants (if Public s then Anyone else Caller (sec_Schemes s) (sec_Scopes s)) who"
proof (cases who)
  case None
  with assms(2) show ?thesis
    unfolding authorize_None_iff s_def by (cases sec) (simp_all add: grants_def empty_security_def)
next
  case (Some p)
  obtain q where q: "WithScopeExpander (Some (Expand (Some t))) (Some p) = Some q" by (simp add: WithScopeExpander_def)
  have "HasScheme (Some q) schemes \<longleftrightarrow> schemes = [] \<or> p_Scheme p \<in> set schemes"
    and "SatisfiesScopes (Some q) scopes \<longleftrightarrow> list_all (holds p) scopes" for schemes scopes
    using scheme_attached [of "Some (Expand (Some t))" p schemes] holds_all [OF assms(1), of p scopes] by (simp_all add: q)
  with assms(2) Some q show ?thesis
    unfolding authorize_None_iff s_def by (cases sec) (simp_all add: grants_def empty_security_def)
qed

text \<open>Whatever program the modules are of, an endpoint behind its pipeline is reached as its line of the matrix says.\<close>

lemma pipeline_parts:
  assumes "createHTTPPipeline error_dto st jwt valid host_of envVal (Inr ps) ms v os scopes cs = Inr pl"
  obtains d where "pl_GlobalMiddlewares pl = globalMiddlewares st d" "gm_jwt d = jwt" "gm_verifier d = v"
    "gm_scopes d = scopes" "gm_claims d = cs" "gm_crossOrigin d \<noteq> None"
  using assms by (auto simp: createHTTPPipeline_def split: option.splits sum.splits)

lemma matrix_enforced:
  fixes lib :: "('r, 'b) libs"
  assumes "createHTTPPipeline error_dto st jwt valid host_of envVal (Inr ps) ms v os (Some (Expand (Some t))) cs = Inr pl"
    and "NewScopeExpander = Some (Inr t)" "stock_ok st" "PrincipalFrom (rq_ctx r) = None"
    and "set ms = Some ` set ns" "set (map access_of (rows ns)) = set matrix" "distinct (map fst matrix)"
    and "Some m \<in> set ms" "(meth, Typed (ep_Security ep)) \<in> set (routesOf m)"
  shows "\<exists>a. map_of matrix (meth @ '' '' @ m_Path m) = Some a \<and>
    (snd (fst (snd (chained (pl_GlobalMiddlewares pl) (served_by lib ep) r (s, w)))) \<noteq> w \<longrightarrow>
       (\<exists>vr. fst (Verify jwt v r s) = Inr vr \<and> grants a (vr_Principal vr))) \<and>
    (\<forall>vr. fst (Verify jwt v r s) = Inr vr \<longrightarrow>
       (\<exists>r' s'. auth_lets jwt v (Some (Expand (Some t))) cs r s = Some (r', s') \<and>
          ((authorize (ep_Security ep) r' :: 'b response option) = None \<longleftrightarrow> grants a (vr_Principal vr))))"
proof -
  let ?sec = "case ep_Security ep of None \<Rightarrow> empty_security | Some s \<Rightarrow> s"
  let ?a = "if Public ?sec then Anyone else Caller (sec_Schemes ?sec) (sec_Scopes ?sec)"
  obtain d where d: "pl_GlobalMiddlewares pl = globalMiddlewares st d" "gm_jwt d = jwt" "gm_verifier d = v"
    "gm_scopes d = Some (Expand (Some t))" "gm_claims d = cs"
    using pipeline_parts [OF assms(1)] by metis
  have reached: "\<exists>r' s'. auth_lets jwt v (Some (Expand (Some t))) cs r s = Some (r', s') \<and>
      ((authorize (ep_Security ep) r' :: 'b response option) = None \<longleftrightarrow> grants ?a (vr_Principal vr))"
    if vr: "fst (Verify jwt v r s) = Inr vr" for vr
  proof -
    obtain s' l where v: "Verify jwt v r s = (Inr vr, s', l)" using vr by (cases "Verify jwt v r s") auto
    let ?ctx = "case vr_Principal vr of None \<Rightarrow> WithEntry (rq_ctx r) cs
      | Some p \<Rightarrow> WithPrincipal (WithEntry (rq_ctx r) cs) (WithScopeExpander (Some (Expand (Some t))) (Some p))"
    have lets: "auth_lets jwt v (Some (Expand (Some t))) cs r s = Some (r\<lparr>rq_ctx := ?ctx\<rparr>, s')"
      by (simp add: auth_lets_def authenticate_def Let_def v)
    have "rq_ctx (r\<lparr>rq_ctx := x\<rparr>) = x" for x by simp
    then have "PrincipalFrom (rq_ctx (r\<lparr>rq_ctx := ?ctx\<rparr>)) = PrincipalFrom ?ctx" by (rule arg_cong)
    also have "\<dots> = WithScopeExpander (Some (Expand (Some t))) (vr_Principal vr)" by (rule entry_context(1) [OF assms(4)])
    finally have caller: "PrincipalFrom (rq_ctx (r\<lparr>rq_ctx := ?ctx\<rparr>)) = WithScopeExpander (Some (Expand (Some t))) (vr_Principal vr)" .
    show ?thesis by (rule exI, rule exI, rule conjI, rule lets, rule authorize_grants [OF assms(2) caller])
  qed
  have changed: "\<exists>vr. fst (Verify jwt v r s) = Inr vr \<and> grants ?a (vr_Principal vr)"
    if "snd (fst (snd (chained (pl_GlobalMiddlewares pl) (served_by lib ep) r (s, w)))) \<noteq> w"
  proof -
    from chain_changes [OF assms(3,4) that [unfolded d(1)]] obtain vr where vr: "fst (Verify jwt v r s) = Inr vr"
      "(\<exists>sec. ep_Security ep = Some sec \<and> Public sec) \<or>
        (\<exists>p q. vr_Principal vr = Some p \<and> WithScopeExpander (Some (Expand (Some t))) (Some p) = Some q \<and>
           (case ep_Security ep of None \<Rightarrow> True
            | Some sec \<Rightarrow> HasScheme (Some q) (sec_Schemes sec) \<and> SatisfiesScopes (Some q) (sec_Scopes sec)))"
      unfolding d by blast
    have "PrincipalFrom (rq_ctx (request_as q)) = q" for q by simp
    then have "(authorize (ep_Security ep) (request_as (WithScopeExpander (Some (Expand (Some t))) (vr_Principal vr))) :: 'b response option) = None"
      using vr(2) unfolding authorize_None_iff by (auto split: option.splits)
    then have "grants ?a (vr_Principal vr)"
      by (subst (asm) authorize_grants [OF assms(2)]) simp_all
    with vr(1) show ?thesis by blast
  qed
  show ?thesis by (intro exI [of _ ?a] conjI declared_access [OF assms(5-9)] allI impI changed reached)
qed

text \<open>
  C12. The server that was started lets callers do what its access matrix says. Every endpoint it serves has a line there.
  Whatever a request changes, it was verified, and its caller (or nobody, where anyone may) is granted that line under
  the shipped scope policy. And a request whose credentials hold reaches the endpoint in just that case.
\<close>

theorem server_enforces_matrix:
  fixes lib :: "('r, 'b) libs"
  assumes started: "createHTTPPipeline error_dto st jwt valid host_of envVal (Inr ps) ms v os (Some (Expand (Some t))) cs = Inr pl"
    and policy: "NewScopeExpander = Some (Inr t)"
    and libraries: "stock_ok st" "PrincipalFrom (rq_ctx r) = None"
    and modules: "set ms = Some ` set (server_http_modules D)"
    and route: "Some m \<in> set ms" "(meth, Typed (ep_Security ep)) \<in> set (routesOf m)"
  shows "\<exists>a. map_of server_access (meth @ '' '' @ m_Path m) = Some a \<and>
    (snd (fst (snd (chained (pl_GlobalMiddlewares pl) (served_by lib ep) r (s, w)))) \<noteq> w \<longrightarrow>
       (\<exists>vr. fst (Verify jwt v r s) = Inr vr \<and> grants a (vr_Principal vr))) \<and>
    (\<forall>vr. fst (Verify jwt v r s) = Inr vr \<longrightarrow>
       (\<exists>r' s'. auth_lets jwt v (Some (Expand (Some t))) cs r s = Some (r', s') \<and>
          ((authorize (ep_Security ep) r' :: 'b response option) = None \<longleftrightarrow> grants a (vr_Principal vr))))"
  by (rule matrix_enforced [OF started policy libraries modules server_declares distinct_access(1) route])

text \<open>The server started with the three kinds of credential, and a caller with an API key that carries no scope.\<close>

definition demo_operated :: http_params where
  "demo_operated = demo_params\<lparr>hp_Auth := Some (demo_auth\<lparr>ac_Session := Some
     \<lparr>as_CookieName = [], as_CookieSameSite = [], as_CookieSecure = True, as_AbsoluteTTL = 0, as_PersistentAbsoluteTTL = 0, as_IdleTTL = 0\<rparr>\<rparr>)\<rparr>"

definition demo_credentials :: "unit verifier" where
  "demo_credentials = demo_verifier\<lparr>sessions := Some (\<lambda>_ s. (Inl (Sentinel ErrSessionNotFound), s)), cookies := Some demo_config\<rparr>"

lemma server_starts:
  fixes D :: "(unit \<times> nat, unit, unit) app_deps"
  shows "\<exists>pl. createHTTPPipeline (\<lambda>_. ()) (demo_stock :: (unit \<times> nat, unit) stock) (\<lambda>_ _ _. Inr None) (\<lambda>_. True) (\<lambda>_. None) ''prod''
    (Inr demo_operated) (map Some (server_http_modules D)) demo_credentials (Some (ParseOrigins (AllowOrigin demo_cors)))
    scopes None = Inr pl"
proof -
  let ?ms = "map Some (server_http_modules D)"
  have "row_of ` set (endpointsOf ?ms) = set (rows (server_http_modules D))" by (rule rows_set) simp
  then have "checkAuthConfiguration ?ms (Some demo_credentials) = None"
    unfolding checkAuth_rows by (auto simp: program_rows Schemes_def demo_credentials_def demo_verifier_def)
  moreover have "TrimSpace ''https://a.example'' \<noteq> wildcardAllowOrigin" unfolding wildcardAllowOrigin_def by code_simp
  then have "checkSessionConfiguration ''prod'' (Some demo_operated) ?ms = None"
    by (simp add: checkSessionConfiguration_def demo_operated_def demo_params_def sessionSettings_def checkSessionKeysDoSomething_def
        checkSessionEndpointsAreServable_def checkTrustedOrigins_def checkCookieIsSecure_def demo_cors_def)
  ultimately show ?thesis
    by (simp add: createHTTPPipeline_def Named_def demo_cors_origins)
qed

lemma server_enforces_matrix_witness:
  "\<forall>(lib :: (order_dto option, unit) libs) (D :: (unit \<times> nat, unit, unit) app_deps) w. \<exists>pl t. NewScopeExpander = Some (Inr t) \<and>
     createHTTPPipeline (\<lambda>_. ()) (demo_stock :: (unit \<times> nat, unit) stock) (\<lambda>_ _ _. Inr None) (\<lambda>_. True) (\<lambda>_. None) ''prod''
       (Inr demo_operated) (map Some (server_http_modules D)) demo_credentials (Some (ParseOrigins (AllowOrigin demo_cors)))
       (Some (Expand (Some t))) None = Inr pl \<and>
     snd (fst (snd (chained (pl_GlobalMiddlewares pl) (served_by lib (NewPut (ad_update_order D) (ad_orders D)))
       (demo_request ''X-API-Key'' ''key'') ((), w)))) = w"
proof (intro allI)
  fix lib :: "(order_dto option, unit) libs" and D :: "(unit \<times> nat, unit, unit) app_deps" and w :: nat
  let ?ms = "map Some (server_http_modules D)" and ?r = "demo_request ''X-API-Key'' ''key''"
  let ?ep = "NewPut (ad_update_order D) (ad_orders D)" and ?m = "NewOrderByIDModule (NewPut (ad_update_order D) (ad_orders D))"
  obtain t where t: "NewScopeExpander = Some (Inr t)" using shipped_loads by (auto simp: NewScopeExpander_def)
  obtain pl where pl: "createHTTPPipeline (\<lambda>_. ()) (demo_stock :: (unit \<times> nat, unit) stock) (\<lambda>_ _ _. Inr None) (\<lambda>_. True) (\<lambda>_. None) ''prod''
       (Inr demo_operated) ?ms demo_credentials (Some (ParseOrigins (AllowOrigin demo_cors))) (Some (Expand (Some t))) None = Inr pl"
    using server_starts by blast
  have ok: "stock_ok (demo_stock :: (unit \<times> nat, unit) stock)" by (auto simp: stock_ok_def demo_stock_def)
  have anon: "PrincipalFrom (rq_ctx ?r) = None" by (simp add: demo_request_def)
  have modules: "set ?ms = Some ` set (server_http_modules D)" by simp
  have m: "Some ?m \<in> set ?ms" by (simp add: server_http_modules_def order_modules_def)
  have route: "(''PUT'', Typed (ep_Security ?ep)) \<in> set (routesOf ?m)"
    by (simp add: NewOrderByIDModule_def NewController_def routesOf_def order_module_at_def)
  have path: "map_of server_access (''PUT'' @ '' '' @ m_Path ?m) = Some (Caller [] [''orders:write''])"
    by (simp add: NewOrderByIDModule_def order_module_at_def server_access_def shared_access_def)
  have v: "fst (Verify (\<lambda>_ _ _. Inr None) demo_credentials ?r ()) = Inr \<lparr>vr_Principal =
      Some \<lparr>p_Subject = apiKeySubjectPrefix, p_Scopes = [], p_Scheme = SchemeAPIKey, p_Claims = [], implied = None\<rparr>, vr_Discard = []\<rparr>"
    by (simp add: Verify_def bearerToken_def api_key_def demo_request_def demo_credentials_def demo_verifier_def authorizationHeader_def
      caller_result_def verifyAPIKey_def staticKeyStore_def)
  have "snd (fst (snd (chained (pl_GlobalMiddlewares pl) (served_by lib ?ep) ?r ((), w)))) = w"
    using server_enforces_matrix [OF pl t ok anon modules m route, where lib = lib and s = "()" and w = w]
    unfolding path v by (auto simp: grants_def holds_def)
  with t pl show "\<exists>pl t. NewScopeExpander = Some (Inr t) \<and>
     createHTTPPipeline (\<lambda>_. ()) (demo_stock :: (unit \<times> nat, unit) stock) (\<lambda>_ _ _. Inr None) (\<lambda>_. True) (\<lambda>_. None) ''prod''
       (Inr demo_operated) ?ms demo_credentials (Some (ParseOrigins (AllowOrigin demo_cors)))
       (Some (Expand (Some t))) None = Inr pl \<and>
     snd (fst (snd (chained (pl_GlobalMiddlewares pl) (served_by lib ?ep) ?r ((), w)))) = w"
    by blast
qed

text \<open>So does the scheduler's program, over its own matrix.\<close>

lemma scheduler_enforces_matrix:
  fixes lib :: "('r, 'b) libs"
  assumes started: "createHTTPPipeline error_dto st jwt valid host_of envVal (Inr ps) ms v os (Some (Expand (Some t))) cs = Inr pl"
    and policy: "NewScopeExpander = Some (Inr t)"
    and libraries: "stock_ok st" "PrincipalFrom (rq_ctx r) = None"
    and modules: "set ms = Some ` set (scheduler_http_modules D)"
    and route: "Some m \<in> set ms" "(meth, Typed (ep_Security ep)) \<in> set (routesOf m)"
    and changed: "snd (fst (snd (chained (pl_GlobalMiddlewares pl) (served_by lib ep) r (s, w)))) \<noteq> w"
  shows "\<exists>a vr. map_of scheduler_access (meth @ '' '' @ m_Path m) = Some a \<and> fst (Verify jwt v r s) = Inr vr \<and> grants a (vr_Principal vr)"
  using matrix_enforced [OF started policy libraries modules scheduler_declares distinct_access(2) route, of lib s w] changed by blast

end
