(* ===== verification/Rules.thy ===== *)
theory Rules
  imports ApiExamples Restkit Lang
begin

text \<open>
  The rules a value is validated by (\<open>internal/plamo/vkit/vkit.go\<close>) and the bodies of this repository that declare
  them: the types of the \<open>dto\<close> packages with the \<open>BodyRules\<close> of the endpoints, messages and publications.

  Making a rule is the validator library's, and so is judging a value by one; what the comments of \<open>vkit.go\<close> say of
  each is \<open>validator_laws\<close>. A threshold is untyped in Go: a whole or a fractional constant, and which of the two
  decides whether the rule can be kept at all.
\<close>

section \<open>The rules\<close>

datatype threshold = Whole int | Fractional rat

datatype rule =
    Required | MaxLength int | NotNil | NotNullIfSet | SliceNotEmpty | NumNotZero
  | MinValue threshold | MaxValue threshold | MinFloatValue threshold | MaxFloatValue threshold

text \<open>What a caller is told, by language, before the library writes the threshold into it. Texts are UTF-8.\<close>

definition utf8 :: "nat list \<Rightarrow> string" where
  "utf8 = map char_of"

fun messages :: "rule \<Rightarrow> (string \<times> string) list" where
  "messages Required =
     [(''ja'', utf8 [229, 191, 133, 233, 160, 136, 227, 129, 167, 227, 129, 153]), (''en'', ''this field is required'')]"
| "messages (MaxLength n) =
     [(''ja'', utf8 [230, 156, 128, 229, 164, 167, 230, 150, 135, 229, 173, 151, 230, 149, 176] @ ''%d'' @ utf8 [227, 130, 146, 232, 182, 133, 227, 129, 136, 227, 129, 166, 227, 129, 132, 227, 129, 190, 227, 129, 153]), (''en'', ''exceeds maximum length of %d characters'')]"
| "messages NotNil =
     [(''ja'', utf8 [229, 191, 133, 233, 160, 136, 227, 129, 167, 227, 129, 153]), (''en'', ''this field is required'')]"
| "messages NotNullIfSet =
     [(''ja'', utf8 [110, 117, 108, 108, 32, 227, 129, 171, 227, 129, 175, 227, 129, 167, 227, 129, 141, 227, 129, 190, 227, 129, 155, 227, 130, 147]), (''en'', ''cannot be cleared'')]"
| "messages SliceNotEmpty =
     [(''ja'', utf8 [49, 228, 187, 182, 228, 187, 165, 228, 184, 138, 230, 140, 135, 229, 174, 154, 227, 129, 151, 227, 129, 166, 227, 129, 143, 227, 129, 160, 227, 129, 149, 227, 129, 132]), (''en'', ''must contain at least one item'')]"
| "messages NumNotZero =
     [(''ja'', utf8 [229, 191, 133, 233, 160, 136, 227, 129, 167, 227, 129, 153]), (''en'', ''this field is required'')]"
| "messages (MinValue t) =
     [(''ja'', ''%d'' @ utf8 [228, 187, 165, 228, 184, 138, 227, 129, 167, 227, 129, 130, 227, 130, 139, 229, 191, 133, 232, 166, 129, 227, 129, 140, 227, 129, 130, 227, 130, 138, 227, 129, 190, 227, 129, 153]), (''en'', ''must be %d or greater'')]"
| "messages (MaxValue t) =
     [(''ja'', ''%d'' @ utf8 [228, 187, 165, 228, 184, 139, 227, 129, 167, 227, 129, 130, 227, 130, 139, 229, 191, 133, 232, 166, 129, 227, 129, 140, 227, 129, 130, 227, 130, 138, 227, 129, 190, 227, 129, 153]), (''en'', ''must be %d or less'')]"
| "messages (MinFloatValue t) =
     [(''ja'', ''%v'' @ utf8 [228, 187, 165, 228, 184, 138, 227, 129, 167, 227, 129, 130, 227, 130, 139, 229, 191, 133, 232, 166, 129, 227, 129, 140, 227, 129, 130, 227, 130, 138, 227, 129, 190, 227, 129, 153]), (''en'', ''must be %v or greater'')]"
| "messages (MaxFloatValue t) =
     [(''ja'', ''%v'' @ utf8 [228, 187, 165, 228, 184, 139, 227, 129, 167, 227, 129, 130, 227, 130, 139, 229, 191, 133, 232, 166, 129, 227, 129, 140, 227, 129, 130, 227, 130, 138, 227, 129, 190, 227, 129, 153]), (''en'', ''must be %v or less'')]"

type_synonym rule_set = "string \<times> rule list"

text \<open>\<open>RestRequestBody\<close> and \<open>Map\<close> are the library's own functions under another name.\<close>

definition RestRequestBody :: "('r \<Rightarrow> rule_set list \<Rightarrow> validation_error list + 't) \<Rightarrow> 'r \<Rightarrow> rule_set list \<Rightarrow> validation_error list + 't" where
  "RestRequestBody validate r ruleSets = validate r ruleSets"

definition Map :: "((string \<Rightarrow> 'v) \<Rightarrow> rule_set list \<Rightarrow> validation_error list) \<Rightarrow> (string \<Rightarrow> 'v) \<Rightarrow> rule_set list \<Rightarrow> validation_error list" where
  "Map validate m ruleSets = validate m ruleSets"

section \<open>Values of fields\<close>

text \<open>
  A field of a decoded body. \<open>Unset\<close>, \<open>Null\<close> and \<open>Given\<close> are the states of an \<open>optional.Optional\<close>; other kinds of
  value have no rules here.
\<close>

datatype field_value =
    VStr string | VInt int | VFloat rat | VBool bool | VNil | VAt field_value | VItems nat
  | Unset | Null | Given field_value | VOther

text \<open>What \<open>encoding/json\<close> leaves in a field the body does not name, and what it leaves there for a \<open>null\<close>.\<close>

fun zero_value :: "gotype \<Rightarrow> field_value" where
  "zero_value (GoScalar KString) = VStr []"
| "zero_value (GoScalar KBool) = VBool False"
| "zero_value (GoScalar KInteger) = VInt 0"
| "zero_value (GoScalar KFloat) = VFloat 0"
| "zero_value (GoPtr t) = VNil"
| "zero_value (GoSlice t) = VItems 0"
| "zero_value (GoOptional i t) = Unset"
| "zero_value t = VOther"

fun null_value :: "gotype \<Rightarrow> field_value" where
  "null_value (GoOptional i t) = Null"
| "null_value t = zero_value t"

text \<open>
  The types a rule means something for. The comments warn of the others: \<open>NotNil\<close> always holds of what is not a
  pointer, \<open>NotNullIfSet\<close> of what is not an \<open>Optional\<close>, and a bound is never kept by a number of the other kind.
\<close>

fun apt :: "rule \<Rightarrow> gotype \<Rightarrow> bool" where
  "apt Required t \<longleftrightarrow> t = GoScalar KString"
| "apt (MaxLength n) t \<longleftrightarrow> 0 \<le> n \<and> (case t of GoScalar k \<Rightarrow> k = KString | GoOptional i u \<Rightarrow> u = GoScalar KString | _ \<Rightarrow> False)"
| "apt NotNil t \<longleftrightarrow> (case t of GoPtr u \<Rightarrow> True | _ \<Rightarrow> False)"
| "apt NotNullIfSet t \<longleftrightarrow> is_optional t"
| "apt SliceNotEmpty t \<longleftrightarrow> (case t of GoSlice u \<Rightarrow> True | _ \<Rightarrow> False)"
| "apt NumNotZero t \<longleftrightarrow> t \<in> {GoScalar KInteger, GoScalar KFloat}"
| "apt (MinValue b) t \<longleftrightarrow> (case b of Whole k \<Rightarrow> True | Fractional q \<Rightarrow> False) \<and> t \<in> {GoScalar KInteger, GoPtr (GoScalar KInteger)}"
| "apt (MaxValue b) t \<longleftrightarrow> (case b of Whole k \<Rightarrow> True | Fractional q \<Rightarrow> False) \<and> t \<in> {GoScalar KInteger, GoPtr (GoScalar KInteger)}"
| "apt (MinFloatValue b) t \<longleftrightarrow> (case b of Whole k \<Rightarrow> False | Fractional q \<Rightarrow> True) \<and> t \<in> {GoScalar KFloat, GoPtr (GoScalar KFloat)}"
| "apt (MaxFloatValue b) t \<longleftrightarrow> (case b of Whole k \<Rightarrow> False | Fractional q \<Rightarrow> True) \<and> t \<in> {GoScalar KFloat, GoPtr (GoScalar KFloat)}"

section \<open>The validator\<close>

record validator =
  vd_ok :: "rule \<Rightarrow> field_value \<Rightarrow> bool"
  vd_describe :: "rule \<Rightarrow> descriptor"
  vd_validate :: "(string \<Rightarrow> field_value) \<Rightarrow> rule_set list \<Rightarrow> validation_error list"

definition validator_laws :: "validator \<Rightarrow> bool" where
  "validator_laws V \<longleftrightarrow>
     (\<forall>vals rules. vd_validate V vals rules = [] \<longleftrightarrow> (\<forall>(name, rs) \<in> set rules. \<forall>r \<in> set rs. vd_ok V r (vals name))) \<and>
     (\<forall>s. vd_ok V Required (VStr s) \<longleftrightarrow> s \<noteq> []) \<and>
     (\<forall>n s. int (length s) \<le> n \<longrightarrow> vd_ok V (MaxLength n) (VStr s)) \<and> (\<forall>n. vd_ok V (MaxLength n) Unset) \<and>
     (\<forall>n s. vd_ok V (MaxLength n) (Given (VStr s)) = vd_ok V (MaxLength n) (VStr s)) \<and> (\<forall>n. vd_ok V (MaxLength n) Null) \<and>
     \<not> vd_ok V NotNil VNil \<and> (\<forall>v. vd_ok V NotNil (VAt v)) \<and>
     vd_ok V NotNullIfSet Unset \<and> \<not> vd_ok V NotNullIfSet Null \<and> (\<forall>v. vd_ok V NotNullIfSet (Given v)) \<and>
     (\<forall>n. vd_ok V SliceNotEmpty (VItems n) \<longleftrightarrow> n \<noteq> 0) \<and>
     (\<forall>i. vd_ok V NumNotZero (VInt i) \<longleftrightarrow> i \<noteq> 0) \<and> (\<forall>q. vd_ok V NumNotZero (VFloat q) \<longleftrightarrow> q \<noteq> 0) \<and>
     (\<forall>k i v. v \<in> {VInt i, VAt (VInt i)} \<longrightarrow>
        (vd_ok V (MinValue (Whole k)) v \<longleftrightarrow> k \<le> i) \<and> (vd_ok V (MaxValue (Whole k)) v \<longleftrightarrow> i \<le> k) \<and>
        \<not> vd_ok V (MinFloatValue (Whole k)) v \<and> \<not> vd_ok V (MaxFloatValue (Whole k)) v) \<and>
     (\<forall>b q v t. v \<in> {VFloat q, VAt (VFloat q)} \<longrightarrow>
        (vd_ok V (MinFloatValue (Fractional b)) v \<longleftrightarrow> b \<le> q) \<and> (vd_ok V (MaxFloatValue (Fractional b)) v \<longleftrightarrow> q \<le> b) \<and>
        \<not> vd_ok V (MinFloatValue (Whole 0)) v \<and> \<not> vd_ok V (MinValue t) v \<and> \<not> vd_ok V (MaxValue t) v) \<and>
     (\<forall>r. d_Name (vd_describe V r) =
        (case r of Required \<Rightarrow> ''str_not_empty'' | MaxLength n \<Rightarrow> ''str_max_length'' | NotNil \<Rightarrow> ''not_nil''
         | NotNullIfSet \<Rightarrow> ''not_null_if_set'' | SliceNotEmpty \<Rightarrow> ''slice_not_empty'' | NumNotZero \<Rightarrow> ''num_not_zero''
         | MinValue t \<Rightarrow> ''int_min'' | MaxValue t \<Rightarrow> ''int_max'' | MinFloatValue t \<Rightarrow> ''float_min'' | MaxFloatValue t \<Rightarrow> ''float_max''))"

section \<open>The bodies\<close>

text \<open>The types, by the names the packages give them, with the tags a body is read by.\<close>

definition field :: "string \<Rightarrow> string \<Rightarrow> gotype \<Rightarrow> struct_field" where
  "field name j t = \<lparr>sf_Name = name, sf_Exported = True, sf_Tag = j, sf_Type = t\<rparr>"

definition dto_type :: "string \<Rightarrow> string \<Rightarrow> struct_field list \<Rightarrow> struct_type" where
  "dto_type pkg name fs = \<lparr>st_Name = name, st_String = ''dto.'' @ name,
     st_PkgPath = ''github.com/ensoria/ensoria-template/internal/'' @ pkg, st_fields = fs\<rparr>"

definition type_CreateSession :: struct_type where
  "type_CreateSession = dto_type ''app/auth/api/dto'' ''CreateSession''
     [field ''Persistent'' ''persistent'' (GoScalar KBool)]"

definition type_RetryByName :: struct_type where
  "type_RetryByName = dto_type ''app/worker/api/dto'' ''RetryByName''
     [field ''JobName'' ''jobName'' (GoScalar KString)]"

definition type_PauseTask :: struct_type where
  "type_PauseTask = dto_type ''app/scheduler/api/controller/dto'' ''PauseTask''
     [field ''Reason'' ''reason'' (GoScalar KString)]"

definition type_DisableTask :: struct_type where
  "type_DisableTask = dto_type ''app/scheduler/api/controller/dto'' ''DisableTask''
     [field ''Reason'' ''reason'' (GoScalar KString)]"

definition type_UpdateOrder :: struct_type where
  "type_UpdateOrder = dto_type ''module/order/dto'' ''UpdateOrder''
     [field ''Amount'' ''amount'' (GoPtr (GoScalar KFloat)),
      field ''Status'' ''status'' (GoScalar KString)]"

definition type_PaymentCallback :: struct_type where
  "type_PaymentCallback = dto_type ''module/order/dto'' ''PaymentCallback''
     [field ''PaymentId'' ''paymentId'' (GoScalar KString),
      field ''OrderId'' ''orderId'' (GoPtr (GoScalar KInteger)),
      field ''Status'' ''status'' (GoScalar KString)]"

definition type_CreateUser :: struct_type where
  "type_CreateUser = dto_type ''module/user/dto'' ''CreateUser''
     [field ''ID'' ''id'' (GoScalar KInteger),
      field ''Name'' ''name'' (GoScalar KString)]"

definition type_UpdateUser :: struct_type where
  "type_UpdateUser = dto_type ''module/user/dto'' ''UpdateUser''
     [field ''Name'' ''name'' (GoOptional ''Optional[string]'' (GoScalar KString)),
      field ''Nickname'' ''nickname'' (GoOptional ''Optional[string]'' (GoScalar KString))]"

definition type_HelloWorld :: struct_type where
  "type_HelloWorld = dto_type ''module/user/dto'' ''HelloWorld''
     [field ''Message'' ''message'' (GoScalar KString),
      field ''Source'' ''source,omitempty'' (GoScalar KString)]"

definition type_UserEcho :: struct_type where
  "type_UserEcho = dto_type ''module/user/dto'' ''UserEcho''
     [field ''Message'' ''message'' (GoScalar KString)]"

definition type_UserAnnounce :: struct_type where
  "type_UserAnnounce = dto_type ''module/user/dto'' ''UserAnnounce''
     [field ''Message'' ''message'' (GoScalar KString)]"

definition type_UserCreated :: struct_type where
  "type_UserCreated = dto_type ''module/user/dto'' ''UserCreated''
     [field ''ID'' ''id'' (GoScalar KInteger),
      field ''Name'' ''name'' (GoScalar KString),
      field ''Email'' ''email,omitempty'' (GoScalar KString)]"

definition dto_types :: structs where
  "dto_types =
     [(''CreateSession'', type_CreateSession),
      (''RetryByName'', type_RetryByName),
      (''PauseTask'', type_PauseTask),
      (''DisableTask'', type_DisableTask),
      (''UpdateOrder'', type_UpdateOrder),
      (''PaymentCallback'', type_PaymentCallback),
      (''CreateUser'', type_CreateUser),
      (''UpdateUser'', type_UpdateUser),
      (''HelloWorld'', type_HelloWorld),
      (''UserEcho'', type_UserEcho),
      (''UserAnnounce'', type_UserAnnounce),
      (''UserCreated'', type_UserCreated)]"

text \<open>The rules of each body, and of a path where it has any.\<close>

definition put_order_rules :: "rule_set list" where
  "put_order_rules = [(''amount'', [NotNil, MinFloatValue (Fractional 0)]), (''status'', [Required, MaxLength 32])]"

definition payment_callback_rules :: "rule_set list" where
  "payment_callback_rules = [(''paymentId'', [Required, MaxLength 64]), (''status'', [Required]), (''orderId'', [NotNil, MinValue (Whole 1)])]"

definition post_user_rules :: "rule_set list" where
  "post_user_rules = [(''name'', [Required, MaxLength 10])]"

definition patch_user_rules :: "rule_set list" where
  "patch_user_rules = [(''name'', [NotNullIfSet, MaxLength 10])]"

definition retry_by_name_rules :: "rule_set list" where
  "retry_by_name_rules = [(''jobName'', [Required])]"

definition reasonRules :: "rule_set list" where
  "reasonRules = [(''reason'', [Required])]"

definition echo_rules :: "rule_set list" where
  "echo_rules = [(''message'', [Required, MaxLength 200])]"

definition announce_rules :: "rule_set list" where
  "announce_rules = [(''message'', [Required, MaxLength 200])]"

definition hello_subscription_rules :: "rule_set list" where
  "hello_subscription_rules = [(''message'', [Required])]"

definition hello_publication_rules :: "rule_set list" where
  "hello_publication_rules = [(''message'', [Required])]"

definition user_created_rules :: "rule_set list" where
  "user_created_rules = [(''id'', [NumNotZero]), (''name'', [Required])]"

definition shipped_bodies :: "(string \<times> rule_set list) list" where
  "shipped_bodies =
     [(''CreateSession'', []), (''RetryByName'', retry_by_name_rules), (''PauseTask'', reasonRules), (''DisableTask'', reasonRules),
      (''UpdateOrder'', put_order_rules), (''PaymentCallback'', payment_callback_rules), (''CreateUser'', post_user_rules),
      (''UpdateUser'', patch_user_rules), (''UserEcho'', echo_rules), (''UserAnnounce'', announce_rules),
      (''HelloWorld'', hello_subscription_rules), (''HelloWorld'', hello_publication_rules), (''UserCreated'', user_created_rules)]"

section \<open>What is documented of a body with rules\<close>

definition described :: "validator \<Rightarrow> rule_set list \<Rightarrow> field_rules list" where
  "described V rules = map (\<lambda>(name, rs). \<lparr>fr_Field = name, fr_Rules = map (vd_describe V) rs, fr_Compare = []\<rparr>) rules"

definition body_fields :: "string \<Rightarrow> struct_field list" where
  "body_fields name = (case map_of dto_types name of None \<Rightarrow> [] | Some d \<Rightarrow> filter in_json (st_fields d))"

definition documented :: "validator \<Rightarrow> string \<times> rule_set list \<Rightarrow> field list" where
  "documented V b = s_Fields (applyRules (described V (snd b)) (buildSchema dto_types [] (GoStruct (fst b))))"

text \<open>A path that names a field of the body itself.\<close>

definition plain :: "string \<Rightarrow> bool" where
  "plain name \<longleftrightarrow> name \<noteq> [] \<and> CHR ''.'' \<notin> set name \<and> \<not> HasSuffix name ''[]''"

lemma plain_names:
  assumes "plain (fr_Field rs)"
  shows "names_field rs name \<longleftrightarrow> fr_Field rs = name"
proof -
  have "splitArraySuffix 0 (fr_Field rs) = (fr_Field rs, 0)"
    using assms by (subst splitArraySuffix.simps) (simp add: plain_def)
  moreover have "split_at CHR ''.'' (fr_Field rs) = [fr_Field rs]" "fr_Field rs \<noteq> []"
    using assms by (simp_all add: plain_def split_at_no_sep)
  ultimately show ?thesis by (simp add: names_field_def)
qed

text \<open>The rules a field has, those that ask for a value, and those that refuse a \<open>null\<close>.\<close>

definition rules_of :: "rule_set list \<Rightarrow> string \<Rightarrow> rule list" where
  "rules_of rules name = concat (map snd (filter (\<lambda>rs. fst rs = name) rules))"

definition demands :: "rule \<Rightarrow> bool" where
  "demands r \<longleftrightarrow> r \<in> {Required, NotNil, SliceNotEmpty, NumNotZero}"

definition refuses_null :: "rule \<Rightarrow> bool" where
  "refuses_null r \<longleftrightarrow> r \<in> {NotNil, NotNullIfSet}"

lemma described_codes:
  assumes "validator_laws V"
  shows "d_Name (vd_describe V r) \<in> set requiredCodes \<longleftrightarrow> demands r"
    and "d_Name (vd_describe V r) \<in> set rejectsNullCodes \<longleftrightarrow> refuses_null r"
proof -
  from assms have name: "d_Name (vd_describe V r) =
      (case r of Required \<Rightarrow> ''str_not_empty'' | MaxLength n \<Rightarrow> ''str_max_length'' | NotNil \<Rightarrow> ''not_nil''
       | NotNullIfSet \<Rightarrow> ''not_null_if_set'' | SliceNotEmpty \<Rightarrow> ''slice_not_empty'' | NumNotZero \<Rightarrow> ''num_not_zero''
       | MinValue t \<Rightarrow> ''int_min'' | MaxValue t \<Rightarrow> ''int_max'' | MinFloatValue t \<Rightarrow> ''float_min'' | MaxFloatValue t \<Rightarrow> ''float_max'')"
    unfolding validator_laws_def by blast
  show "d_Name (vd_describe V r) \<in> set requiredCodes \<longleftrightarrow> demands r"
    unfolding name by (cases r) (simp_all add: requiredCodes_def demands_def)
  show "d_Name (vd_describe V r) \<in> set rejectsNullCodes \<longleftrightarrow> refuses_null r"
    unfolding name by (cases r) (simp_all add: rejectsNullCodes_def refuses_null_def)
qed

lemma nullable_schema: "s_Nullable (buildSchema env visiting t) = fst (strip_type t)"
  by (simp add: buildSchema.simps [of env visiting t] split: prod.split gotype.split option.split)

lemma documented_flags:
  assumes "validator_laws V" "map_of dto_types name = Some d" "distinct (map jsonName (body_fields name))"
    and "list_all (plain \<circ> fst) rules"
  shows "map (\<lambda>f. (f_Name f, f_Required f, s_Nullable (f_Schema f))) (documented V (name, rules)) =
    map (\<lambda>sf. (jsonName sf, list_ex demands (rules_of rules (jsonName sf)),
      fst (strip_type (sf_Type sf)) \<and> \<not> list_ex refuses_null (rules_of rules (jsonName sf)))) (body_fields name)"
proof -
  let ?s = "buildSchema dto_types [] (GoStruct name)"
  have fields: "s_Fields ?s = map (\<lambda>sf. Field (jsonName sf) False (hasOmitempty sf \<or> is_optional (sf_Type sf)) []
      (buildSchema dto_types [name] (sf_Type sf))) (body_fields name)"
    using assms(2) by (simp add: buildSchema.simps [of _ _ "GoStruct name"] body_fields_def strip_type_def)
  have "distinct (map f_Name (s_Fields ?s))" using assms(3) by (simp add: fields comp_def)
  note slots = slots_all [OF this, of "described V rules"]
  have names: "names_field rs n \<longleftrightarrow> fr_Field rs = n" if "rs \<in> set (described V rules)" for rs n
    using that assms(4) by (intro plain_names) (auto simp: described_def list_all_iff)
  have compare: "fr_Compare rs = []" if "rs \<in> set (described V rules)" for rs using that by (auto simp: described_def)
  have "(\<exists>rs \<in> set (described V rules). fr_Field rs = n \<and> (\<exists>d \<in> set (fr_Rules rs). P (d_Name d))) \<longleftrightarrow>
      (\<exists>r \<in> set (rules_of rules n). P (d_Name (vd_describe V r)))" for n P
    by (force simp: described_def rules_of_def)
  then have of_rules: "(\<exists>rs \<in> set (described V rules). names_field rs n \<and> (\<exists>d \<in> set (fr_Rules rs @ fr_Compare rs). P (d_Name d))) \<longleftrightarrow>
      (\<exists>r \<in> set (rules_of rules n). P (d_Name (vd_describe V r)))" for n P
    using names compare by (simp cong: bex_cong)
  have null: "(\<forall>rs \<in> set (described V rules). names_field rs n \<longrightarrow> (\<forall>d \<in> set (fr_Rules rs). d_Name d \<notin> set rejectsNullCodes)) \<longleftrightarrow>
      \<not> list_ex refuses_null (rules_of rules n)" for n
    using of_rules [of n "\<lambda>c. c \<in> set rejectsNullCodes"] compare unfolding described_codes [OF assms(1)] list_ex_iff by fastforce
  have required: "(\<exists>rs \<in> set (described V rules). names_field rs n \<and> (\<exists>d \<in> set (fr_Rules rs) \<union> set (fr_Compare rs). d_Name d \<in> set requiredCodes)) \<longleftrightarrow>
      list_ex demands (rules_of rules n)" for n
    using of_rules [of n "\<lambda>c. c \<in> set requiredCodes"] unfolding set_append described_codes [OF assms(1)] list_ex_iff .
  let ?flags = "\<lambda>(n, required, cs, nullable). (n, required, nullable)"
  have "map (\<lambda>f. (f_Name f, f_Required f, s_Nullable (f_Schema f))) (documented V (name, rules)) =
      map ?flags (map slot (s_Fields (applyRules (described V rules) ?s)))"
    by (simp add: slot_def documented_def)
  then show ?thesis
    unfolding slots fields
    by (simp add: slot_def rules_say_all null required nullable_schema)
qed

section \<open>What is documented is what is enforced\<close>

text \<open>
  A declaration that says what it means: each rule is for a field of the body and apt for its type, the bounds leave
  room for an ordinary value, and a bounded field asks for one.
\<close>

fun roomy :: "rule \<Rightarrow> bool" where
  "roomy (MaxLength n) \<longleftrightarrow> 1 \<le> n"
| "roomy (MinValue b) \<longleftrightarrow> (case b of Whole k \<Rightarrow> k \<le> 1 | Fractional q \<Rightarrow> False)"
| "roomy (MaxValue b) \<longleftrightarrow> (case b of Whole k \<Rightarrow> 1 \<le> k | Fractional q \<Rightarrow> False)"
| "roomy (MinFloatValue b) \<longleftrightarrow> (case b of Whole k \<Rightarrow> False | Fractional q \<Rightarrow> q \<le> 1)"
| "roomy (MaxFloatValue b) \<longleftrightarrow> (case b of Whole k \<Rightarrow> False | Fractional q \<Rightarrow> 1 \<le> q)"
| "roomy r \<longleftrightarrow> True"

fun bound :: "rule \<Rightarrow> bool" where
  "bound (MinValue b) \<longleftrightarrow> True"
| "bound (MaxValue b) \<longleftrightarrow> True"
| "bound (MinFloatValue b) \<longleftrightarrow> True"
| "bound (MaxFloatValue b) \<longleftrightarrow> True"
| "bound r \<longleftrightarrow> False"

definition well_declared :: "string \<times> rule_set list \<Rightarrow> bool" where
  "well_declared b \<longleftrightarrow> map_of dto_types (fst b) \<noteq> None \<and> distinct (map jsonName (body_fields (fst b))) \<and>
     list_all (\<lambda>rs. plain (fst rs) \<and> fst rs \<in> jsonName ` set (body_fields (fst b))) (snd b) \<and>
     list_all (\<lambda>sf. let rs = rules_of (snd b) (jsonName sf) in
       list_all (\<lambda>r. apt r (sf_Type sf) \<and> roomy r) rs \<and> (list_ex bound rs \<longrightarrow> list_ex demands rs)) (body_fields (fst b))"

lemma shipped_well_declared: "list_all well_declared shipped_bodies"
  by code_simp

fun sample :: "gotype \<Rightarrow> field_value" where
  "sample (GoScalar KString) = VStr ''a''"
| "sample (GoScalar KInteger) = VInt 1"
| "sample (GoScalar KFloat) = VFloat 1"
| "sample (GoPtr t) = VAt (sample t)"
| "sample (GoOptional i t) = Given (sample t)"
| "sample (GoSlice t) = VItems 1"
| "sample t = zero_value t"

lemma judged:
  assumes "validator_laws V" "apt r t"
  shows "demands r \<Longrightarrow> \<not> vd_ok V r (zero_value t)"
    and "refuses_null r \<Longrightarrow> \<not> vd_ok V r (null_value t)"
    and "roomy r \<Longrightarrow> vd_ok V r (sample t)"
    and "\<not> demands r \<Longrightarrow> \<not> bound r \<Longrightarrow> vd_ok V r (zero_value t)"
    and "\<not> refuses_null r \<Longrightarrow> \<not> bound r \<Longrightarrow> fst (strip_type t) \<Longrightarrow> vd_ok V r (null_value t)"
    and "demands r \<Longrightarrow> fst (strip_type t) \<Longrightarrow> refuses_null r"
proof -
  note laws = assms(1) [unfolded validator_laws_def] assms(2)
  show "demands r \<Longrightarrow> \<not> vd_ok V r (zero_value t)"
    using laws by (cases r) (auto simp: demands_def refuses_null_def strip_type_def is_optional_def split: gotype.splits threshold.splits)
  show "refuses_null r \<Longrightarrow> \<not> vd_ok V r (null_value t)"
    using laws by (cases r) (auto simp: demands_def refuses_null_def strip_type_def is_optional_def split: gotype.splits threshold.splits)
  show "roomy r \<Longrightarrow> vd_ok V r (sample t)"
    using laws by (cases r) (auto simp: demands_def refuses_null_def strip_type_def is_optional_def split: gotype.splits threshold.splits)
  show "\<not> demands r \<Longrightarrow> \<not> bound r \<Longrightarrow> vd_ok V r (zero_value t)"
    using laws by (cases r) (auto simp: demands_def refuses_null_def strip_type_def is_optional_def split: gotype.splits threshold.splits)
  show "\<not> refuses_null r \<Longrightarrow> \<not> bound r \<Longrightarrow> fst (strip_type t) \<Longrightarrow> vd_ok V r (null_value t)"
    using laws by (cases r) (auto simp: demands_def refuses_null_def strip_type_def is_optional_def split: gotype.splits threshold.splits)
  show "demands r \<Longrightarrow> fst (strip_type t) \<Longrightarrow> refuses_null r"
    using assms(2) by (cases r) (auto simp: demands_def refuses_null_def strip_type_def is_optional_def split: gotype.splits threshold.splits)
qed

lemma rules_of_iff: "r \<in> set (rules_of rules name) \<longleftrightarrow> (\<exists>rs. (name, rs) \<in> set rules \<and> r \<in> set rs)"
  by (force simp: rules_of_def)

lemma accepted_values:
  assumes "validator_laws V" "list_all (\<lambda>rs. fst rs \<in> jsonName ` set (body_fields name)) rules"
  shows "Map (vd_validate V) vals rules = [] \<longleftrightarrow>
    (\<forall>sf \<in> set (body_fields name). \<forall>r \<in> set (rules_of rules (jsonName sf)). vd_ok V r (vals (jsonName sf)))"
proof -
  have "vd_validate V vals rules = [] \<longleftrightarrow> (\<forall>(n, rs) \<in> set rules. \<forall>r \<in> set rs. vd_ok V r (vals n))"
    by (rule spec [OF spec [OF conjunct1 [OF assms(1) [unfolded validator_laws_def]]]])
  moreover have "(\<forall>(n, rs) \<in> set rules. \<forall>r \<in> set rs. vd_ok V r (vals n)) \<longleftrightarrow>
      (\<forall>sf \<in> set (body_fields name). \<forall>r \<in> set (rules_of rules (jsonName sf)). vd_ok V r (vals (jsonName sf)))"
  proof
    assume all: "\<forall>sf \<in> set (body_fields name). \<forall>r \<in> set (rules_of rules (jsonName sf)). vd_ok V r (vals (jsonName sf))"
    show "\<forall>(n, rs) \<in> set rules. \<forall>r \<in> set rs. vd_ok V r (vals n)"
    proof clarify
      fix n rs r assume r: "(n, rs) \<in> set rules" "r \<in> set rs"
      from r(1) assms(2) obtain sf where "sf \<in> set (body_fields name)" "n = jsonName sf" by (auto simp: list_all_iff)
      moreover from r have "r \<in> set (rules_of rules n)" by (auto simp: rules_of_iff)
      ultimately show "vd_ok V r (vals n)" using all by blast
    qed
  qed (fastforce simp: rules_of_iff)
  ultimately show ?thesis by (simp add: Map_def)
qed

text \<open>A body with one field set to something else can be accepted when that something breaks no rule of the field.\<close>

lemma room_for:
  assumes V: "validator_laws V" and wd: "well_declared (name, rules)" and sf: "sf \<in> set (body_fields name)"
  shows "(\<exists>vals. vals (jsonName sf) = v \<and> Map (vd_validate V) vals rules = []) \<longleftrightarrow>
    (\<forall>r \<in> set (rules_of rules (jsonName sf)). vd_ok V r v)"
proof
  from wd have named: "list_all (\<lambda>rs. fst rs \<in> jsonName ` set (body_fields name)) rules"
    and names: "distinct (map jsonName (body_fields name))"
    by (auto simp: well_declared_def list_all_iff)
  show "\<forall>r \<in> set (rules_of rules (jsonName sf)). vd_ok V r v"
    if "\<exists>vals. vals (jsonName sf) = v \<and> Map (vd_validate V) vals rules = []"
    using that sf by (auto simp: accepted_values [OF V named])
  assume ok: "\<forall>r \<in> set (rules_of rules (jsonName sf)). vd_ok V r v"
  let ?of = "map_of (map (\<lambda>sf. (jsonName sf, sample (sf_Type sf))) (body_fields name))"
  let ?vals = "(\<lambda>n. case ?of n of None \<Rightarrow> VOther | Some x \<Rightarrow> x)(jsonName sf := v)"
  have of_field: "?of (jsonName g) = Some (sample (sf_Type g))" if "g \<in> set (body_fields name)" for g
    using names that by (intro map_of_is_SomeI) (auto simp: comp_def)
  have "vd_ok V r (?vals (jsonName g))"
    if g: "g \<in> set (body_fields name)" and r: "r \<in> set (rules_of rules (jsonName g))" for g r
  proof (cases "jsonName g = jsonName sf")
    case False
    from wd g r have "apt r (sf_Type g)" "roomy r" by (auto simp: well_declared_def list_all_iff Let_def)
    with False of_field [OF g] show ?thesis using judged(3) [OF V] by simp
  qed (use ok r in simp)
  then have "Map (vd_validate V) ?vals rules = []" by (simp add: accepted_values [OF V named] del: fun_upd_apply)
  then show "\<exists>vals. vals (jsonName sf) = v \<and> Map (vd_validate V) vals rules = []" by (intro exI [of _ ?vals]) simp
qed

lemma declared_requirements:
  assumes V: "validator_laws V" and wd: "well_declared (name, rules)" and f: "f \<in> set (documented V (name, rules))"
  shows "\<exists>sf \<in> set (body_fields name). jsonName sf = f_Name f \<and>
    (\<forall>r \<in> set (rules_of rules (f_Name f)). apt r (sf_Type sf)) \<and>
    (f_Required f \<longleftrightarrow> (\<nexists>vals. vals (f_Name f) = zero_value (sf_Type sf) \<and> Map (vd_validate V) vals rules = [])) \<and>
    (fst (strip_type (sf_Type sf)) \<longrightarrow>
      (s_Nullable (f_Schema f) \<longleftrightarrow> (\<exists>vals. vals (f_Name f) = null_value (sf_Type sf) \<and> Map (vd_validate V) vals rules = [])))"
proof -
  let ?row = "\<lambda>sf. (jsonName sf, list_ex demands (rules_of rules (jsonName sf)),
      fst (strip_type (sf_Type sf)) \<and> \<not> list_ex refuses_null (rules_of rules (jsonName sf)))"
  from wd have "map (\<lambda>f. (f_Name f, f_Required f, s_Nullable (f_Schema f))) (documented V (name, rules)) = map ?row (body_fields name)"
    using documented_flags [OF V] by (auto simp: well_declared_def list_all_iff)
  from arg_cong [OF this, of set] f have "(f_Name f, f_Required f, s_Nullable (f_Schema f)) \<in> ?row ` set (body_fields name)"
    unfolding set_map by (metis (no_types, lifting) imageI)
  then obtain sf where sf: "sf \<in> set (body_fields name)" "f_Name f = jsonName sf"
    and required: "f_Required f \<longleftrightarrow> list_ex demands (rules_of rules (jsonName sf))"
    and nullable: "s_Nullable (f_Schema f) \<longleftrightarrow> fst (strip_type (sf_Type sf)) \<and> \<not> list_ex refuses_null (rules_of rules (jsonName sf))"
    by blast
  let ?rs = "rules_of rules (jsonName sf)" and ?t = "sf_Type sf"
  from wd sf(1) have apt: "\<forall>r \<in> set ?rs. apt r ?t" and asks: "list_ex bound ?rs \<longrightarrow> list_ex demands ?rs"
    by (auto simp: well_declared_def list_all_iff Let_def)
  have "list_ex demands ?rs \<longleftrightarrow> \<not> (\<forall>r \<in> set ?rs. vd_ok V r (zero_value ?t))"
    using judged(1,4) [OF V] apt asks unfolding list_ex_iff by blast
  moreover have "\<not> list_ex refuses_null ?rs \<longleftrightarrow> (\<forall>r \<in> set ?rs. vd_ok V r (null_value ?t))" if "fst (strip_type ?t)"
    using judged(2,5,6) [OF V] apt asks that unfolding list_ex_iff by blast
  ultimately show ?thesis
    using sf required nullable apt room_for [OF V wd sf(1)] by (intro bexI [OF _ sf(1)]) simp
qed


text \<open>A validator that is what the comments say.\<close>

fun judge :: "rule \<Rightarrow> field_value \<Rightarrow> bool" where
  "judge Required v \<longleftrightarrow> v \<noteq> VStr []"
| "judge (MaxLength n) v \<longleftrightarrow> (case v of VStr s \<Rightarrow> int (length s) \<le> n | Given (VStr s) \<Rightarrow> int (length s) \<le> n | _ \<Rightarrow> True)"
| "judge NotNil v \<longleftrightarrow> v \<noteq> VNil"
| "judge NotNullIfSet v \<longleftrightarrow> v \<noteq> Null"
| "judge SliceNotEmpty v \<longleftrightarrow> v \<noteq> VItems 0"
| "judge NumNotZero v \<longleftrightarrow> v \<noteq> VInt 0 \<and> v \<noteq> VFloat 0"
| "judge (MinValue t) v \<longleftrightarrow> (case (t, v) of (Whole k, VInt i) \<Rightarrow> k \<le> i | (Whole k, VAt (VInt i)) \<Rightarrow> k \<le> i | _ \<Rightarrow> False)"
| "judge (MaxValue t) v \<longleftrightarrow> (case (t, v) of (Whole k, VInt i) \<Rightarrow> i \<le> k | (Whole k, VAt (VInt i)) \<Rightarrow> i \<le> k | _ \<Rightarrow> False)"
| "judge (MinFloatValue t) v \<longleftrightarrow>
     (case (t, v) of (Fractional b, VFloat q) \<Rightarrow> b \<le> q | (Fractional b, VAt (VFloat q)) \<Rightarrow> b \<le> q | _ \<Rightarrow> False)"
| "judge (MaxFloatValue t) v \<longleftrightarrow>
     (case (t, v) of (Fractional b, VFloat q) \<Rightarrow> q \<le> b | (Fractional b, VAt (VFloat q)) \<Rightarrow> q \<le> b | _ \<Rightarrow> False)"

fun rule_name :: "rule \<Rightarrow> string" where
  "rule_name Required = ''str_not_empty''"
| "rule_name (MaxLength n) = ''str_max_length''"
| "rule_name NotNil = ''not_nil''"
| "rule_name NotNullIfSet = ''not_null_if_set''"
| "rule_name SliceNotEmpty = ''slice_not_empty''"
| "rule_name NumNotZero = ''num_not_zero''"
| "rule_name (MinValue t) = ''int_min''"
| "rule_name (MaxValue t) = ''int_max''"
| "rule_name (MinFloatValue t) = ''float_min''"
| "rule_name (MaxFloatValue t) = ''float_max''"

definition demo_validator :: validator where
  "demo_validator = \<lparr>vd_ok = judge, vd_describe = (\<lambda>r. \<lparr>d_Name = rule_name r, d_Params = []\<rparr>),
     vd_validate = (\<lambda>vals rules. concat (map (\<lambda>(name, rs). map (\<lambda>r. \<lparr>ve_Field = name, ve_Code = rule_name r, ve_Messages = messages r\<rparr>)
       (filter (\<lambda>r. \<not> judge r (vals name)) rs)) rules))\<rparr>"

lemma demo_validator_ok: "validator_laws demo_validator"
  unfolding validator_laws_def demo_validator_def
  by (auto simp: filter_empty_conv split: rule.split threshold.splits)


section \<open>What the caller is told\<close>

text \<open>Every rule has a text in Japanese and one in English, and a caller reads the one preferred.\<close>

lemma told_in_a_language:
  "PickMessage (messages r) langs \<noteq> [] \<and>
   (\<forall>before lang rest. langs = before @ lang # rest \<and> set before \<inter> {''ja'', ''en''} = {} \<and> lang \<in> {''ja'', ''en''} \<longrightarrow>
      map_of (messages r) lang = Some (PickMessage (messages r) langs))"
proof -
  have "\<exists>j e. messages r = [(''ja'', j), (''en'', e)] \<and> j \<noteq> [] \<and> e \<noteq> []" by (cases r; simp add: utf8_def)
  then obtain j e where m: "messages r = [(''ja'', j), (''en'', e)]" "j \<noteq> []" "e \<noteq> []" by blast
  have preferred: "map_of (messages r) lang = Some (PickMessage (messages r) (bs @ lang # rest))"
    if "set bs \<inter> {''ja'', ''en''} = {}" "lang \<in> {''ja'', ''en''}" for bs lang rest
    using that by (induction bs) (auto simp: m)
  show ?thesis
  proof (intro conjI allI impI)
    show "PickMessage (messages r) langs \<noteq> []" by (induction langs) (simp_all add: m)
  qed (elim conjE, hypsubst, rule preferred)
qed

end
