(* ===== verification/Documents.thy ===== *)
theory Documents
  imports Describe Connections Application
begin

text \<open>
  The two documents as a whole (\<open>BuildHTTP\<close> of \<open>internal/app/bootstrap/describe/http.go\<close>, \<open>BuildMessaging\<close> of
  \<open>messaging.go\<close>), the conventions in them, the titles of \<open>internal/app/apiinfo\<close>, and the stand-ins for
  infrastructure (\<open>stubs.go\<close>) as far as they do anything.

  Resolving the declarations is the container's: its result is a parameter, and \<open>missing\<close> are the types that the
  text of a failure names. Reading the default module's parameters is one parameter for all that reads them, since
  they come from one registry. \<open>None\<close> is no document: an example that never ends, or a credential without a
  descriptor.
\<close>

section \<open>Titles\<close>

record doc_license =
  li_Name :: string
  li_Identifier :: string
  li_URL :: string

record doc_info =
  in_Title :: string
  in_Version :: string
  in_Description :: string
  in_License :: doc_license

definition Title :: string where "Title = ''Ensoria API''"
definition Version :: string where "Version = ''0.1.0''"
definition HTTPDescription :: string where "HTTPDescription = ''HTTP API of the Ensoria application.''"
definition MessagingDescription :: string where
  "MessagingDescription = ''Message broker and WebSocket surface of the Ensoria application.''"
definition LicenseName :: string where "LicenseName = ''Proprietary''"
definition LicenseIdentifier :: string where "LicenseIdentifier = []"
definition LicenseURL :: string where "LicenseURL = []"

definition make_info :: "string \<Rightarrow> doc_info" where
  "make_info description = \<lparr>in_Title = Title, in_Version = Version, in_Description = description,
     in_License = \<lparr>li_Name = LicenseName, li_Identifier = LicenseIdentifier, li_URL = LicenseURL\<rparr>\<rparr>"

definition doc_Info :: doc_info where "doc_Info = make_info HTTPDescription"
definition MessagingInfo :: doc_info where "MessagingInfo = make_info MessagingDescription"

section \<open>The HTTP document\<close>

record doc_params =
  dp_PublicURL :: string           \<comment> \<open>\<open>PublicURLOrDefault\<close>\<close>
  dp_Auth :: "auth_config option"
  dp_CORS :: cors_config
  dp_Broker :: broker_params

record api_conventions =
  cv_BaseURLs :: "(string \<times> string) list"
  cv_SecuritySchemes :: "security_scheme list"
  cv_ScopeImplications :: "(string \<times> string list) list"
  cv_CORS :: "cors_config option"
  cv_CommonError :: documented_body
  cv_GlobalMiddlewares :: "string list"

record api_spec =
  as_Info :: doc_info
  as_Endpoints :: "endpoint_spec list"
  as_Conventions :: api_conventions

text \<open>\<open>errorType\<close> is the type of the common error's body.\<close>

definition buildConventions ::
  "'g documenter \<Rightarrow> gotype \<Rightarrow> vocabulary \<Rightarrow> string list \<Rightarrow> doc_params result \<Rightarrow> string \<Rightarrow> api_conventions result option" where
  "buildConventions dg errorType vc middlewares params envVal =
     and_then (CommonErrorSchema dg (Some errorType)) (\<lambda>common.
       let conv = \<lparr>cv_BaseURLs = [], cv_SecuritySchemes = [], cv_ScopeImplications = ScopeImplicationTable, cv_CORS = None,
             cv_CommonError = common, cv_GlobalMiddlewares = middlewares\<rparr>
       in case params of
            Inl e \<Rightarrow> Some (Inr conv)
          | Inr ps \<Rightarrow> (case securitySchemes vc (dp_Auth ps) of
              None \<Rightarrow> None
            | Some schemes \<Rightarrow> Some (Inr (conv\<lparr>cv_BaseURLs := [(envVal, dp_PublicURL ps)], cv_SecuritySchemes := schemes,
                cv_CORS := Some (dp_CORS ps)\<rparr>))))"

definition resolveModules :: "string \<Rightarrow> (goerr \<Rightarrow> string list) \<Rightarrow> 'a result \<Rightarrow> 'a result" where
  "resolveModules format missing resolved =
     (case resolved of
        Inl e \<Rightarrow> (let err = Errorf format [] [e] in Inl (withStubHint (missing err) err))
      | Inr modules \<Rightarrow> Inr modules)"

definition BuildHTTP ::
  "'g documenter \<Rightarrow> gotype \<Rightarrow> vocabulary \<Rightarrow> string list \<Rightarrow> (goerr \<Rightarrow> string list) \<Rightarrow> goerr option \<Rightarrow> 'v doc_module list result \<Rightarrow>
     doc_params result \<Rightarrow> string \<Rightarrow> api_spec result option" where
  "BuildHTTP dg errorType vc middlewares missing init resolved params envVal =
     (case init of
        Some e \<Rightarrow> Some (Inl (Errorf ''app initialization error: %w'' [] [e]))
      | None \<Rightarrow>
          (case resolveModules ''describe: resolve http modules: %w'' missing resolved of
             Inl e \<Rightarrow> Some (Inl e)
           | Inr modules \<Rightarrow>
               and_then (BuildAPI dg modules) (\<lambda>endpoints.
               and_then (buildConventions dg errorType vc middlewares params envVal) (\<lambda>conv.
                 Some (Inr \<lparr>as_Info = doc_Info, as_Endpoints = endpoints, as_Conventions = conv\<rparr>)))))"

section \<open>The messaging document\<close>

definition Perspective :: string where "Perspective = ''ensoria-template''"

record envelope_spec =
  en_Protocol :: string
  en_TypeField :: string
  en_PayloadField :: string
  en_ExampleType :: string
  en_ExampleMessage :: string

record messaging_conventions =
  mc_Envelopes :: "envelope_spec list"
  mc_DeliveryDefaults :: "(string \<times> string) list"
  mc_GlobalMiddlewares :: "string list"
  mc_SecuritySchemes :: "security_scheme list"
  mc_CommonError :: documented_body

record messaging_spec =
  ms_Info :: doc_info
  ms_Perspective :: string
  ms_Servers :: "server_spec list"
  ms_Operations :: "operation_spec list"
  ms_Conventions :: messaging_conventions

text \<open>Of the library's defaults; the strategy is written out.\<close>

definition brokerDefaults :: "subscribe_config \<Rightarrow> (string \<times> string) list" where
  "brokerDefaults defaults =
     [(DeliveryErrorStrategy, ''requeue''), (DeliveryAutoAck, FormatBool (sc_AutoAck defaults)),
      (DeliveryDurable, FormatBool (sc_Durable defaults)), (DeliveryMaxRetries, Itoa (sc_MaxRetries defaults))]"

definition buildMessagingConventions ::
  "'g documenter \<Rightarrow> gotype \<Rightarrow> vocabulary \<Rightarrow> subscribe_config \<Rightarrow> doc_params result \<Rightarrow> messaging_conventions result option" where
  "buildMessagingConventions dg errorType vc defaults params =
     and_then (CommonErrorSchema dg (Some errorType)) (\<lambda>common.
       let conv = \<lparr>mc_Envelopes = [\<lparr>en_Protocol = ProtocolWebSocket, en_TypeField = EnvelopeTypeField,
               en_PayloadField = EnvelopePayloadField, en_ExampleType = ''user.echo'', en_ExampleMessage = ''hello''\<rparr>],
             mc_DeliveryDefaults = brokerDefaults defaults, mc_GlobalMiddlewares = [''auth-upgrade''],
             mc_SecuritySchemes = [], mc_CommonError = common\<rparr>
       in case params of
            Inl e \<Rightarrow> Some (Inr conv)
          | Inr ps \<Rightarrow> (case securitySchemes vc (dp_Auth ps) of
              None \<Rightarrow> None
            | Some schemes \<Rightarrow> Some (Inr (conv\<lparr>mc_SecuritySchemes := schemes\<rparr>))))"

record messaging_modules =
  mm_Subscriptions :: "subscription_doc list"
  mm_Publications :: "publication_doc list"
  mm_Channels :: "module_doc list"

definition BuildMessaging ::
  "'g msg_documenter \<Rightarrow> gotype \<Rightarrow> vocabulary \<Rightarrow> parse_url \<Rightarrow> subscribe_config \<Rightarrow> (goerr \<Rightarrow> string list) \<Rightarrow> goerr option \<Rightarrow>
     messaging_modules result \<Rightarrow> doc_params result \<Rightarrow> string \<Rightarrow> messaging_spec result option" where
  "BuildMessaging mg errorType vc parse defaults missing init resolved params envVal =
     (case init of
        Some e \<Rightarrow> Some (Inl (Errorf ''app initialization error: %w'' [] [e]))
      | None \<Rightarrow>
          (case resolveModules ''describe: resolve messaging modules: %w'' missing resolved of
             Inl e \<Rightarrow> Some (Inl e)
           | Inr declared \<Rightarrow>
               (case BrokerConfig (case params of Inl e \<Rightarrow> Inl e | Inr ps \<Rightarrow> Inr (dp_Broker ps)) of
                  Inl e \<Rightarrow> Some (Inl e)
                | Inr broker \<Rightarrow>
                    and_then (describe_messaging mg (map_option bc_Type broker) (mm_Subscriptions declared)
                      (mm_Publications declared) (mm_Channels declared)) (\<lambda>operations.
                    and_then (buildMessagingConventions (mg_dg mg) errorType vc defaults params) (\<lambda>conv.
                      Some (Inr \<lparr>ms_Info = MessagingInfo, ms_Perspective = Perspective,
                        ms_Servers = buildServers parse (Some envVal)
                          (case params of Inl e \<Rightarrow> None | Inr ps \<Rightarrow> Some (dp_PublicURL ps)) broker,
                        ms_Operations = operations, ms_Conventions = conv\<rparr>))))))"

section \<open>Stand-ins\<close>

definition stubCacheKeyPrefix :: string where "stubCacheKeyPrefix = ''describe''"

definition stubStorage :: "((string \<times> 'fs) list \<Rightarrow> string \<Rightarrow> 'st result) \<Rightarrow> 'fs \<Rightarrow> 'fs \<Rightarrow> 'st result" where
  "stubStorage NewStorage memory1 memory2 = NewStorage [(DiskLocal, memory1), (DiskS3, memory2)] DefaultDisk"

definition stubFileSystem :: "('st \<Rightarrow> 'fs) \<Rightarrow> 'st \<Rightarrow> 'fs" where
  "stubFileSystem Default st = Default st"

definition stub_Verify :: "request \<Rightarrow> 's \<Rightarrow> verify_result result \<times> 's \<times> logs" where
  "stub_Verify r s = (Inr no_caller, s, [])"

definition stub_Schemes :: "string list" where "stub_Schemes = []"

definition stubPublish :: "('o, 'b) publish_fun" where
  "stubPublish ctx target data md opts b = (None, b, [])"

definition stub_Enqueue :: "request_context \<Rightarrow> string \<Rightarrow> 'p \<Rightarrow> 'w \<Rightarrow> string result \<times> 'w" where
  "stub_Enqueue ctx jobName payload w = (Inr [], w)"

definition stubStartSubscription :: "string \<Rightarrow> 'h \<Rightarrow> 'o list \<Rightarrow> 'b \<Rightarrow> goerr option \<times> 'b" where
  "stubStartSubscription target handler opts b = (None, b)"

definition stubSubscriber :: "'w broker_conn" where
  "stubSubscriber = \<lparr>bk_Connect = Pair None, bk_Ping = Pair None, bk_Close = Pair None\<rparr>"

definition stubPublisher :: "'w broker_conn" where
  "stubPublisher = \<lparr>bk_Connect = Pair None, bk_Ping = Pair None, bk_Close = Pair None\<rparr>"

definition stub_CarriesMetadata :: bool where "stub_CarriesMetadata = True"

definition stubWorkerDBClient :: "'w client" where
  "stubWorkerDBClient = \<lparr>cl_Ping = Pair None, cl_Close = Pair None\<rparr>"

definition stubSchedulerDBClient :: "'w client" where
  "stubSchedulerDBClient = \<lparr>cl_Ping = Pair None, cl_Close = Pair None\<rparr>"

section \<open>A messaging document that can be followed\<close>

lemma described_subscription:
  assumes "DescribeSubscription mg d protocol names = Some (Inr op)"
  shows "op_Action op = ActionReceive \<and> op_Protocol op = protocol \<and> channelAddress op = bk_Target d \<and>
    (\<exists>c. op_Channel op = Some c \<and> cs_ServerNames c = names)"
  using assms by (auto simp: DescribeSubscription_def describe_broker_def and_then_done channelAddress_def)

lemma described_publication:
  assumes "DescribePublication mg d protocol names = Some (Inr op)"
  shows "\<exists>c. op_Channel op = Some c \<and> cs_ServerNames c = names"
  using assms by (auto simp: DescribePublication_def describe_broker_def and_then_done)

lemma described_channel:
  assumes "DescribeChannel mg d names = Some (Inr ops)" "op \<in> set ops"
  shows "\<exists>c. op_Channel op = Some c \<and> cs_ServerNames c = names"
  using assms
  by (auto simp: DescribeChannel_def and_then_done wsOperation_def channelOf_def split: if_splits)

lemma each_in: "each f xs = Some (Inr ys) \<Longrightarrow> y \<in> set ys \<Longrightarrow> \<exists>x \<in> set xs. f x = Some (Inr y)"
  by (induction xs arbitrary: ys) (auto simp: and_then_done)

lemma each_out: "each f xs = Some (Inr ys) \<Longrightarrow> x \<in> set xs \<Longrightarrow> \<exists>y \<in> set ys. f x = Some (Inr y)"
  by (induction xs arbitrary: ys) (auto simp: and_then_done)

lemma server_names:
  "sv_Name ` set (buildServers parse envVal (Some url) broker) =
     insert wsServerName (if broker = None then {} else {brokerServerName})"
  by (cases "websocketAddress parse url"; cases broker)
    (auto simp: buildServers_def SortServers_def brokerServer_def Let_def split: option.splits prod.splits)

lemma BuildMessaging_done:
  assumes "BuildMessaging mg errorType vc parse defaults missing init resolved params envVal = Some (Inr spec)"
  obtains declared ps ops where "resolved = Inr declared" "params = Inr ps"
    "describe_messaging mg (map_option bc_Type (brokerConfigFromParams (dp_Broker ps))) (mm_Subscriptions declared)
       (mm_Publications declared) (mm_Channels declared) = Some (Inr ops)" "ms_Operations spec = ops"
    "ms_Servers spec = buildServers parse (Some envVal) (Some (dp_PublicURL ps)) (brokerConfigFromParams (dp_Broker ps))"
  using assms
  by (auto simp: BuildMessaging_def resolveModules_def BrokerConfig_def and_then_done Let_def split: option.splits sum.splits)

lemma messaging_operations:
  assumes "describe_messaging mg broker subs pubs chans = Some (Inr ops)"
    and protocol: "protocol = (case broker of None \<Rightarrow> [] | Some t \<Rightarrow> t)"
    and names: "names = (case broker of None \<Rightarrow> [] | Some t \<Rightarrow> [brokerServerName])"
  shows "op \<in> set ops \<Longrightarrow> \<exists>c. op_Channel op = Some c \<and> cs_ServerNames c \<in> {names, [wsServerName]}"
    and "s \<in> set subs \<Longrightarrow> \<exists>op \<in> set ops. \<exists>c. channelAddress op = bk_Target s \<and> op_Action op = ActionReceive \<and>
      op_Channel op = Some c \<and> op_Protocol op = protocol \<and> cs_ServerNames c = names"
proof -
  from assms obtain received sent streams where d:
    "each (\<lambda>d. DescribeSubscription mg d protocol names) subs = Some (Inr received)"
    "each (\<lambda>d. DescribePublication mg d protocol names) pubs = Some (Inr sent)"
    "each (\<lambda>d. DescribeChannel mg d [wsServerName]) chans = Some (Inr streams)"
    "set ops = set (received @ sent @ concat streams)"
    by (auto simp: describe_messaging_def Let_def and_then_done BuildOperations_def SortOperations_def)
  show "\<exists>c. op_Channel op = Some c \<and> cs_ServerNames c \<in> {names, [wsServerName]}" if "op \<in> set ops"
  proof -
    from that d(4) consider "op \<in> set received" | "op \<in> set sent" | os where "os \<in> set streams" "op \<in> set os" by auto
    then show ?thesis
    proof cases
      case 1
      from each_in [OF d(1) this] show ?thesis by (blast dest: described_subscription)
    next
      case 2
      from each_in [OF d(2) this] show ?thesis by (blast dest: described_publication)
    next
      case 3
      from each_in [OF d(3) 3(1)] 3(2) show ?thesis by (blast dest: described_channel)
    qed
  qed
  show "\<exists>op \<in> set ops. \<exists>c. channelAddress op = bk_Target s \<and> op_Action op = ActionReceive \<and>
      op_Channel op = Some c \<and> op_Protocol op = protocol \<and> cs_ServerNames c = names" if "s \<in> set subs"
  proof -
    from each_out [OF d(1) that] obtain op where op: "op \<in> set received" "DescribeSubscription mg s protocol names = Some (Inr op)" by blast
    from described_subscription [OF op(2)] op(1) d(4) show ?thesis by auto
  qed
qed

text \<open>
  C33. Every server that an operation of the document names is among the document's servers, and the broker is among them
  exactly when one is configured. Every subscription is described either way: without a broker under an empty
  protocol and no server.
\<close>

theorem documented_servers:
  assumes "BuildMessaging mg errorType vc parse defaults missing init (Inr declared) (Inr ps) envVal = Some (Inr spec)"
  shows "(\<forall>op \<in> set (ms_Operations spec). \<exists>c. op_Channel op = Some c \<and>
      set (cs_ServerNames c) \<subseteq> sv_Name ` set (ms_Servers spec)) \<and>
    (brokerServerName \<in> sv_Name ` set (ms_Servers spec) \<longleftrightarrow> bp_Configured (dp_Broker ps)) \<and>
    (\<forall>d \<in> set (mm_Subscriptions declared). \<exists>op \<in> set (ms_Operations spec). \<exists>c.
      channelAddress op = bk_Target d \<and> op_Action op = ActionReceive \<and> op_Channel op = Some c \<and>
      (op_Protocol op, cs_ServerNames c) =
        (if bp_Configured (dp_Broker ps) then (bp_Type (dp_Broker ps), [brokerServerName]) else ([], [])))"
proof -
  let ?broker = "brokerConfigFromParams (dp_Broker ps)"
  from assms obtain ops where b: "describe_messaging mg (map_option bc_Type ?broker) (mm_Subscriptions declared)
       (mm_Publications declared) (mm_Channels declared) = Some (Inr ops)" "ms_Operations spec = ops"
    "ms_Servers spec = buildServers parse (Some envVal) (Some (dp_PublicURL ps)) ?broker"
    by (rule BuildMessaging_done) simp
  note operations = messaging_operations [OF b(1) refl refl]
  show ?thesis
  proof (cases "bp_Configured (dp_Broker ps)")
    case True
    then have "map_option bc_Type ?broker = Some (bp_Type (dp_Broker ps))"
      and "sv_Name ` set (ms_Servers spec) = {wsServerName, brokerServerName}"
      unfolding b(3) server_names by (simp_all add: brokerConfigFromParams_def)
    with operations True b(2) show ?thesis by fastforce
  next
    case False
    then have "map_option bc_Type ?broker = None" and "sv_Name ` set (ms_Servers spec) = {wsServerName}"
      unfolding b(3) server_names by (simp_all add: brokerConfigFromParams_def)
    moreover have "brokerServerName \<noteq> wsServerName" by (simp add: brokerServerName_def wsServerName_def)
    ultimately show ?thesis using operations False b(2) by fastforce
  qed
qed

definition sample_doc_params :: doc_params where
  "sample_doc_params = \<lparr>dp_PublicURL = ''http://localhost:8080'', dp_Auth = None,
     dp_CORS = \<lparr>AllowOrigin = [], AllowMethods = [], AllowHeaders = [], ExposeHeaders = [], AllowCredentials = False, CORS_MaxAge = 0\<rparr>,
     dp_Broker = \<lparr>bp_Type = [], bp_URL = [], bp_QueueName = [], bp_Username = [], bp_Password = [], bp_Token = [], bp_SASLMechanism = [],
       bp_Configured = False, bp_HasCredentials = False\<rparr>\<rparr>"

definition sample_declared :: messaging_modules where
  "sample_declared = \<lparr>mm_Subscriptions = sample_subscriptions, mm_Publications = [], mm_Channels = [channelDoc (\<lambda>s. s) echo_channel]\<rparr>"

definition sample_defaults :: subscribe_config where
  "sample_defaults = \<lparr>sc_ErrorStrategy = ErrorStrategyRequeue, sc_AutoAck = False, sc_MaxRetries = 3, sc_ConsumerGroup = [],
     sc_AutoCommit = True, sc_StartOffset = OffsetEnd, sc_Durable = True, sc_AutoDelete = False, sc_Exclusive = False, sc_QueueGroup = []\<rparr>"

lemma sample_unconfigured:
  "\<exists>ops. describe_messaging sample_msg_documenter None sample_subscriptions [] [channelDoc (\<lambda>s. s) echo_channel] = Some (Inr ops)"
proof -
  have "(case describe_messaging sample_msg_documenter None sample_subscriptions [] [channelDoc (\<lambda>s. s) echo_channel] of
      Some (Inr ops) \<Rightarrow> True | _ \<Rightarrow> False)" by code_simp
  then show ?thesis by (auto split: option.splits sum.splits)
qed

lemma sample_common_error: "\<exists>c. CommonErrorSchema (mg_dg sample_msg_documenter) (Some (GoStruct ''dto.User'')) = Some (Inr c)"
proof -
  have "(case CommonErrorSchema (mg_dg sample_msg_documenter) (Some (GoStruct ''dto.User'')) of Some (Inr c) \<Rightarrow> True | _ \<Rightarrow> False)" by code_simp
  then show ?thesis by (auto split: option.splits sum.splits)
qed

lemma sample_document_built:
  "\<exists>spec. BuildMessaging sample_msg_documenter (GoStruct ''dto.User'') vc (\<lambda>_. None) sample_defaults (\<lambda>_. []) None
     (Inr sample_declared) (Inr sample_doc_params) ''local'' = Some (Inr spec)"
proof -
  from sample_unconfigured obtain ops where ops:
    "describe_messaging sample_msg_documenter None sample_subscriptions [] [channelDoc (\<lambda>s. s) echo_channel] = Some (Inr ops)" by blast
  from sample_common_error obtain c where c:
    "CommonErrorSchema (mg_dg sample_msg_documenter) (Some (GoStruct ''dto.User'')) = Some (Inr c)" by blast
  have broker: "BrokerConfig (Inr (dp_Broker sample_doc_params)) = Inr None" and auth: "dp_Auth sample_doc_params = None"
    by (simp_all add: sample_doc_params_def BrokerConfig_def brokerConfigFromParams_def)
  have schemes: "securitySchemes vc None = Some []" by (simp add: securitySchemes_def ConfiguredSchemes_def)
  show ?thesis
    by (simp add: BuildMessaging_def resolveModules_def sample_declared_def broker ops buildMessagingConventions_def c auth schemes)
qed

lemma documented_servers_witness:
  "\<forall>vc. \<exists>spec. BuildMessaging sample_msg_documenter (GoStruct ''dto.User'') vc (\<lambda>_. None) sample_defaults (\<lambda>_. []) None
     (Inr sample_declared) (Inr sample_doc_params) ''local'' = Some (Inr spec) \<and>
     brokerServerName \<notin> sv_Name ` set (ms_Servers spec) \<and>
     (\<exists>op \<in> set (ms_Operations spec). channelAddress op = ''user.created'' \<and> op_Protocol op = [])"
proof
  fix vc
  from sample_document_built [of vc] obtain spec where spec: "BuildMessaging sample_msg_documenter (GoStruct ''dto.User'') vc (\<lambda>_. None)
      sample_defaults (\<lambda>_. []) None (Inr sample_declared) (Inr sample_doc_params) ''local'' = Some (Inr spec)" by blast
  have "sample_subscription \<in> set (mm_Subscriptions sample_declared)" "\<not> bp_Configured (dp_Broker sample_doc_params)"
    "bk_Target sample_subscription = ''user.created''"
    by (simp_all add: sample_declared_def sample_subscriptions_def sample_doc_params_def sample_subscription_def)
  then show "\<exists>spec. BuildMessaging sample_msg_documenter (GoStruct ''dto.User'') vc (\<lambda>_. None) sample_defaults (\<lambda>_. []) None
     (Inr sample_declared) (Inr sample_doc_params) ''local'' = Some (Inr spec) \<and>
     brokerServerName \<notin> sv_Name ` set (ms_Servers spec) \<and>
     (\<exists>op \<in> set (ms_Operations spec). channelAddress op = ''user.created'' \<and> op_Protocol op = [])"
    using documented_servers [OF spec] spec by fastforce
qed

end
