(* ===== verification/Programs.thy ===== *)
theory Programs
  imports Documents Lifecycle Orders
begin

text \<open>
  The commands (\<open>cmd\<close>, \<open>internal/cli\<close>): the scheduler's program, the two that print the documents, the command line
  of the application; where the configuration is read from (\<open>embed.go\<close>); and the sample rows that are seeded.
\<close>

section \<open>Where the configuration comes from\<close>

text \<open>The working directory as it is, or what was embedded when the program was built.\<close>

datatype config_source = DirFS string | EmbeddedConfigFS

definition ConfigFS :: "string \<Rightarrow> config_source" where
  "ConfigFS envVal = (if envVal = ''local'' \<or> envVal = ''test'' then DirFS ''.'' else EmbeddedConfigFS)"

text \<open>The flag \<open>--env\<close> of every program, as it was given.\<close>

definition env_flag :: "string option \<Rightarrow> string" where
  "env_flag given = (case given of None \<Rightarrow> ''local'' | Some envVal \<Rightarrow> envVal)"

section \<open>The scheduler's program\<close>

definition scheduler_Start ::
  "goerr option \<Rightarrow> string \<Rightarrow> string \<Rightarrow> string result \<Rightarrow> (global_settings \<Rightarrow> 'w fx_app) \<Rightarrow> 'w \<Rightarrow> run_error option \<times> 'w" where
  "scheduler_Start init debugLevel env level new w =
     (case init of
        Some e \<Rightarrow> (Some (Failed (Errorf ''app initialization error: %w'' [] [e])), w)
      | None \<Rightarrow>
          (case ApplyGlobalSettings debugLevel env level of
             Inl e \<Rightarrow> (Some (Failed e), w)
           | Inr s \<Rightarrow> ProvideAndRun (new s) w))"

definition scheduler_main :: "run_error option \<Rightarrow> int \<times> logs" where
  "scheduler_main err =
     (case err of
        None \<Rightarrow> (0, [])
      | Some (ExitError code) \<Rightarrow> (code, [(Info, [])])
      | Some (Failed e) \<Rightarrow> (1, [(Error, [])]))"

lemma programs_end_alike: "scheduler_Start = Run" "scheduler_main = server_main"
  by (simp_all add: fun_eq_iff scheduler_Start_def Run_def scheduler_main_def server_main_def)

section \<open>The programs that print the documents\<close>

text \<open>
  What a program leaves behind. \<open>built\<close> is the document or why there is none, \<open>encode\<close> the indented JSON of it, of
  which nothing is written unless all of it could be. The log goes to the error output.
\<close>

record program_output =
  po_Stdout :: string
  po_Stderr :: "(string \<times> goerr) list"
  po_Status :: int

definition print_document :: "string \<Rightarrow> string \<Rightarrow> ('d \<Rightarrow> string result) \<Rightarrow> 'd result \<Rightarrow> program_output" where
  "print_document failed unencoded encode built =
     (case built of
        Inl e \<Rightarrow> \<lparr>po_Stdout = [], po_Stderr = [(failed, e)], po_Status = 1\<rparr>
      | Inr spec \<Rightarrow>
          (case encode spec of
             Inl e \<Rightarrow> \<lparr>po_Stdout = [], po_Stderr = [(unencoded, e)], po_Status = 1\<rparr>
           | Inr text \<Rightarrow> \<lparr>po_Stdout = text, po_Stderr = [], po_Status = 0\<rparr>))"

definition apidoc_main :: "(api_spec \<Rightarrow> string result) \<Rightarrow> api_spec result \<Rightarrow> program_output" where
  "apidoc_main = print_document ''apidoc-describe: '' ''apidoc-describe: encode: ''"

definition msgdoc_main :: "(messaging_spec \<Rightarrow> string result) \<Rightarrow> messaging_spec result \<Rightarrow> program_output" where
  "msgdoc_main = print_document ''msgdoc-describe: '' ''msgdoc-describe: encode: ''"

text \<open>The output is one whole document, or nothing with the reason on the error output and status 1.\<close>

lemma print_document_whole:
  fixes encode :: "'d \<Rightarrow> string result"
  assumes "out = print_document failed unencoded encode built"
  shows "po_Status out = 0 \<longleftrightarrow> (\<exists>spec text. built = Inr spec \<and> encode spec = Inr text)"
    and "po_Status out = 0 \<Longrightarrow> po_Stderr out = [] \<and> (\<exists>spec. built = Inr spec \<and> encode spec = Inr (po_Stdout out))"
    and "po_Status out \<noteq> 0 \<Longrightarrow> po_Status out = 1 \<and> po_Stdout out = [] \<and> length (po_Stderr out) = 1"
  using assms by (auto simp: print_document_def split: sum.splits)

text \<open>Put together with the building: configuration, the modules and the endpoints are what it can fail over.\<close>

lemma apidoc_program:
  assumes "BuildHTTP dg errorType vc middlewares missing init resolved params envVal = Some built"
  shows "po_Status (apidoc_main encode built) = 0 \<longleftrightarrow>
    init = None \<and> (\<exists>modules endpoints conv. resolved = Inr modules \<and> BuildAPI dg modules = Some (Inr endpoints) \<and>
      buildConventions dg errorType vc middlewares params envVal = Some (Inr conv) \<and>
      (\<exists>text. encode \<lparr>as_Info = doc_Info, as_Endpoints = endpoints, as_Conventions = conv\<rparr> = Inr text))"
  using assms
  by (auto simp: apidoc_main_def print_document_whole(1) [OF refl] BuildHTTP_def resolveModules_def Let_def and_then_def
      split: option.splits sum.splits)

section \<open>The command line\<close>

text \<open>The library prints the error itself.\<close>

definition Execute :: "goerr option \<Rightarrow> int" where
  "Execute err = (if err \<noteq> None then 1 else 0)"

definition helloworldCmd :: "string list \<Rightarrow> string" where
  "helloworldCmd args = ''helloworld called'' @ [char_of (10 :: nat)]"

section \<open>Sample rows\<close>

text \<open>The rows as given; the table numbers them from 1. A column left out is its zero value, a time \<open>no_time\<close>.\<close>

definition order_seed :: "string \<Rightarrow> int \<Rightarrow> int \<Rightarrow> int \<Rightarrow> string \<Rightarrow> time \<Rightarrow> order_model" where
  "order_seed owner user detail amount stage now = \<lparr>om_ID = 0, OwnerSubject = owner, om_UserID = word_of_int user,
     om_OrderDetailID = word_of_int detail, Total = word_of_int amount, Status = stage, OrderDetails = [],
     om_CreatedAt = now, UpdatedAt = now\<rparr>"

definition OrderSeeder_Seed :: "time \<Rightarrow> order_model list" where
  "OrderSeeder_Seed now =
     [order_seed ''alice'' 1 1 1000 ''pending'' now, order_seed ''bob'' 2 2 2000 ''pending'' now,
      order_seed ''carol'' 3 3 3000 ''paid'' now]"

definition detail_seed :: "int \<Rightarrow> int \<Rightarrow> string \<Rightarrow> int \<Rightarrow> int \<Rightarrow> time \<Rightarrow> order_detail" where
  "detail_seed user order name price quantity now = \<lparr>od_ID = 0, od_UserID = word_of_int user, od_OrderID = word_of_int order,
     od_ProductName = name, od_Price = word_of_int price, od_Quantity = word_of_int quantity, od_CreatedAt = now,
     od_UpdatedAt = now\<rparr>"

definition OrderDetailSeeder_Seed :: "time \<Rightarrow> time \<Rightarrow> order_detail list" where
  "OrderDetailSeeder_Seed no_time now =
     [detail_seed 1 1 ''Product A'' 1000 1 now, detail_seed 1 1 ''Product B'' 500 2 now,
      detail_seed 2 2 ''Product C'' 2000 1 now, detail_seed 3 3 ''Product D'' 1500 2 no_time]"

text \<open>The owners are different callers, so each of them may update one order and is refused the others.\<close>

lemma seeded_owners:
  "\<forall>o1 \<in> set (OrderSeeder_Seed now). \<forall>o2 \<in> set (OrderSeeder_Seed now).
     IsOwner (OwnerSubject o1) (ToOrder (Some o2)) \<longleftrightarrow> o1 = o2"
  by (simp add: OrderSeeder_Seed_def order_seed_def IsOwner_def ToOrder.simps)

text \<open>The total of an order against its lines, and the line an order names against the order that line is of.\<close>

definition lines_total :: "64 word \<Rightarrow> order_detail list \<Rightarrow> 64 word" where
  "lines_total i ds = sum_list (map (\<lambda>d. od_Price d * od_Quantity d) (filter (\<lambda>d. od_OrderID d = i) ds))"

lemma seeded_rows_disagree:
  "map Total (OrderSeeder_Seed now) = [1000, 2000, 3000]"
  "map (\<lambda>i. lines_total i (OrderDetailSeeder_Seed no_time now)) [1, 2, 3] = [2000, 2000, 3000]"
  "map (\<lambda>o'. od_OrderID (OrderDetailSeeder_Seed no_time now ! (unat (om_OrderDetailID o') - 1))) (OrderSeeder_Seed now) = [1, 1, 2]"
  by (simp_all add: OrderSeeder_Seed_def order_seed_def OrderDetailSeeder_Seed_def detail_seed_def lines_total_def)

end
