(* ===== verification/Declared.thy ===== *)
theory Declared
  imports MsgDoc
begin

text \<open>
  One declaration, two readers. An endpoint is written once (\<open>Endpoint\<close> of \<open>internal/plamo/restkit/endpoint.go\<close>):
  the adapter runs what of it takes effect and the documents are generated from \<open>EndpointDoc\<close> of it
  (\<open>controller.go\<close>). So it is with the publications and subscriptions of \<open>internal/plamo/mbkit\<close>. Here both
  views are taken of the same record and held against each other.

  A rule's check is the validator's and its descriptor what the documents show; the two views of the body and its
  types are \<open>Req\<close> and \<open>Res\<close>.
\<close>

section \<open>Endpoints\<close>

record ('w, 'v, 'q, 'r) declared_endpoint = "'v endpoint_doc" +
  dl_parse :: "request \<Rightarrow> validation_error list + 'q"
  dl_Handle :: "request \<Rightarrow> 'q \<Rightarrow> ('w, 'v, 'r result) handler"

definition EndpointDoc :: "('w, 'v, 'q, 'r) declared_endpoint \<Rightarrow> 'v endpoint_doc" where
  "EndpointDoc ep = \<lparr>dc_Summary = dc_Summary ep, dc_Description = dc_Description ep, dc_FieldDocs = dc_FieldDocs ep,
     dc_RequestFieldDocs = dc_RequestFieldDocs ep, dc_ResponseFieldDocs = dc_ResponseFieldDocs ep, dc_IDPrefix = dc_IDPrefix ep,
     dc_Task = dc_Task ep, dc_AlsoRead = dc_AlsoRead ep, dc_Related = dc_Related ep, dc_ReqType = dc_ReqType ep,
     dc_ResType = dc_ResType ep, dc_BodyRules = dc_BodyRules ep, dc_PathRules = dc_PathRules ep, dc_QueryRules = dc_QueryRules ep,
     dc_Success = dc_Success ep, dc_ResponseHeaders = dc_ResponseHeaders ep, dc_Produces = dc_Produces ep,
     dc_Responses = dc_Responses ep, dc_Errors = dc_Errors ep, dc_Security = dc_Security ep, dc_Behavior = dc_Behavior ep\<rparr>"

text \<open>What the adapter reads of it.\<close>

definition endpoint_of :: "('w, 'v, 'q, 'r) declared_endpoint \<Rightarrow> ('w, 'v, 'q, 'r) endpoint" where
  "endpoint_of ep = \<lparr>ep_Security = dc_Security ep, ep_Body = dl_parse ep,
     ep_PathRules = map (\<lambda>rs. \<lparr>rule_Field = fr_Field rs\<rparr>) (dc_PathRules ep),
     ep_QueryRules = map (\<lambda>rs. \<lparr>rule_Field = fr_Field rs\<rparr>) (dc_QueryRules ep), ep_Success = dc_Success ep,
     ep_Produces = dc_Produces ep, ep_Responses = map rp_Status (dc_Responses ep), ep_Handle = dl_Handle ep\<rparr>"

definition NewResourceCheck :: "string \<Rightarrow> string \<Rightarrow> (principal \<Rightarrow> 'v \<Rightarrow> bool) \<Rightarrow> 'v resource_check" where
  "NewResourceCheck description T check = \<lparr>rc_Description = description, rc_declared = T, rc_check = check\<rparr>"

section \<open>What the adapter answers\<close>

lemma Handle_answers:
  assumes "Handle strict lib ep r w = (Responded res, w', l)" "\<nexists>d. Body res = ErrorEnvelope d"
  shows "(isDeclaredStatus (Code res) (ep_Success ep) (ep_Responses ep) \<or> \<not> strict \<and> (Error, LogTypeDeclarationDrift) \<in> set l) \<and>
    (ep_Produces ep \<noteq> [] \<longrightarrow> ContentType res \<noteq> [])"
proof -
  have bodies: "res \<noteq> errorResponse e" "res \<noteq> internalErrorResponse" "res \<noteq> validationErrorResponse errs langs"
    "authorize security r \<noteq> Some res" for e errs langs and security :: "'v security option"
    using assms(2) errorResponse_envelope [of e] errorResponse_envelope [of "Sentinel ErrNoRows"] validation_envelope refusal_envelope by force+
  have "verify_state st r \<noteq> (Some res, l')" for st :: "'v auth_state" and l'
    using bodies(2) by (auto simp: verify_state_def split: if_splits)
  with assms(1) bodies obtain x l0 l1 where "finish strict lib ep r x = (Responded res, l1)" "l = l0 @ l1"
    by (fastforce simp: Handle_def Let_def split: option.splits sum.splits prod.splits if_splits)
  then show ?thesis by (auto simp: finish_def checkDeclaredStatus_def Let_def split: sum.splits if_splits)
qed

lemma Handle_panics:
  assumes "Handle strict lib ep r w = (Panicked v, w', l)"
  shows "strict \<and> (\<exists>status. v = DeclarationDrift (rq_Method r) (rq_Path r) status \<and> \<not> isDeclaredStatus status (ep_Success ep) (ep_Responses ep))"
proof -
  from assms obtain x l1 where "finish strict lib ep r x = (Panicked v, l1)"
    by (fastforce simp: Handle_def Let_def split: option.splits sum.splits prod.splits if_splits)
  then show ?thesis by (auto simp: finish_def checkDeclaredStatus_def Let_def split: sum.splits if_splits)
qed

section \<open>What the document says\<close>

definition documented_statuses :: "endpoint_spec \<Rightarrow> int set" where
  "documented_statuses e = insert (if es_SuccessStatus e = 0 then 200 else es_SuccessStatus e) (rd_Status ` set (es_Responses e))"

definition describes :: "endpoint_spec \<Rightarrow> string \<Rightarrow> string \<Rightarrow> 'v endpoint_doc \<Rightarrow> bool" where
  "describes e path meth doc \<longleftrightarrow> es_Path e = path \<and> es_Method e = meth \<and> es_Security e = convertSecurity (dc_Security doc) \<and>
     es_SuccessStatus e = dc_Success doc \<and> rd_Status ` set (es_Responses e) = rp_Status ` set (dc_Responses doc) \<and>
     es_ResponseMediaType e = dc_Produces doc"

lemma convertResponses_statuses:
  assumes "convertResponses dg opts rs = Some (Inr ds)"
  shows "map rd_Status ds = map rp_Status rs"
  using assms unfolding convertResponses_def each_done all2_map [symmetric]
  by (rule list_all2_mono) (auto simp: and_then_done)

lemma DescribeEndpoint_describes:
  assumes "DescribeEndpoint dg meth path doc ids = Some (Inr e)"
  shows "describes e path meth doc"
proof -
  from assms obtain opts ds where "convertResponses dg opts (dc_Responses doc) = Some (Inr ds)" "es_Responses e = ds"
    "es_Path e = path \<and> es_Method e = meth \<and> es_Security e = convertSecurity (dc_Security doc) \<and>
     es_SuccessStatus e = dc_Success doc \<and> es_ResponseMediaType e = dc_Produces doc"
    by (auto simp: DescribeEndpoint_def Let_def and_then_done)
  with convertResponses_statuses [OF this(1)] show ?thesis by (simp add: describes_def flip: set_map)
qed

lemma list_all2_in: "list_all2 P xs ys \<Longrightarrow> x \<in> set xs \<Longrightarrow> \<exists>y \<in> set ys. P x y"
  by (induction rule: list_all2_induct) auto

lemma BuildAPI_describes:
  assumes "BuildAPI dg modules = Some (Inr es)" "(path, meth, Documented doc) \<in> set (served modules)"
  shows "\<exists>e \<in> set es. describes e path meth doc"
proof -
  from assms(1) obtain specs where specs:
    "list_all2 (\<lambda>m s. DescribeModule dg m (collectIDPrefixes (dg_lower dg) modules) = Some (Inr s)) modules specs"
    "set es = set (concat specs)"
    by (auto simp: BuildAPI_def Let_def and_then_done each_done sortEndpoints_def)
  from assms(2) obtain m where m: "m \<in> set modules" "path = dm_Path m" "(meth, Documented doc) \<in> set (filter (\<lambda>(meth, c). mounted c) (doc_routes m))"
    by (auto simp: served_def)
  from list_all2_in [OF specs(1) m(1)] obtain s where s:
    "s \<in> set specs" "DescribeModule dg m (collectIDPrefixes (dg_lower dg) modules) = Some (Inr s)" by blast
  from list_all2_in [OF s(2) [unfolded DescribeModule_def each_done] m(3)] obtain e where
    "e \<in> set s" "DescribeEndpoint dg meth (dm_Path m) doc (collectIDPrefixes (dg_lower dg) modules) = Some (Inr e)"
    by auto
  with DescribeEndpoint_describes s(1) specs(2) m(2) show ?thesis by fastforce
qed

lemma documented_statuses_declared:
  "describes e path meth (EndpointDoc ep) \<Longrightarrow>
     isDeclaredStatus status (ep_Success (endpoint_of ep)) (ep_Responses (endpoint_of ep)) \<longleftrightarrow> status \<in> documented_statuses e"
  by (auto simp: describes_def documented_statuses_def isDeclaredStatus_def EndpointDoc_def endpoint_of_def list_ex_iff Let_def)

text \<open>
  C30. What an endpoint answers is what its document says. A caller the document does not admit is refused with nothing
  done; any answer that is not an error has a documented status, or the drift is logged, and is of a fixed media type
  where the document names one; a strict process panics over exactly an undocumented status.
\<close>

theorem answered_as_documented:
  assumes "BuildAPI dg modules = Some (Inr es)" "(path, meth, Documented (EndpointDoc ep)) \<in> set (served modules)"
  shows "\<exists>e \<in> set es. es_Path e = path \<and> es_Method e = meth \<and>
    (\<forall>strict (lib :: ('r, 'b) libs) r w. case Handle strict lib (endpoint_of ep) r w of (o', w', l) \<Rightarrow>
       (\<not> document_admits (es_Security e) r \<longrightarrow> w' = w \<and> l = [] \<and> o' \<in> {Responded UnauthenticatedResponse, Responded ForbiddenResponse}) \<and>
       (case o' of
          Responded res \<Rightarrow> (\<exists>d. Body res = ErrorEnvelope d) \<or>
            ((Code res \<in> documented_statuses e \<or> \<not> strict \<and> (Error, LogTypeDeclarationDrift) \<in> set l) \<and>
             (es_ResponseMediaType e \<noteq> [] \<longrightarrow> ContentType res \<noteq> []))
        | Panicked v \<Rightarrow> strict \<and>
            (\<exists>status. v = DeclarationDrift (rq_Method r) (rq_Path r) status \<and> status \<notin> documented_statuses e)))"
proof -
  from BuildAPI_describes [OF assms] obtain e where e: "e \<in> set es" "describes e path meth (EndpointDoc ep)" by blast
  note status = documented_statuses_declared [OF e(2)]
  have parts: "es_Path e = path" "es_Method e = meth" "es_Security e = convertSecurity (ep_Security (endpoint_of ep))"
    "es_ResponseMediaType e = ep_Produces (endpoint_of ep)"
    using e(2) by (simp_all add: describes_def EndpointDoc_def endpoint_of_def)
  have refused: "w' = w \<and> l = [] \<and> o' \<in> {Responded UnauthenticatedResponse, Responded ForbiddenResponse}"
    if "Handle strict lib (endpoint_of ep) r w = (o', w', l)" "\<not> document_admits (es_Security e) r"
    for strict r w o' w' l and lib :: "('r, 'b) libs"
  proof -
    from that(2) have "(authorize (ep_Security (endpoint_of ep)) r :: 'b response option) \<noteq> None"
      unfolding parts using document_admits_authorize by blast
    then obtain res :: "'b response" where res: "authorize (ep_Security (endpoint_of ep)) r = Some res" by blast
    with that(1) authorize_Some [OF res] show ?thesis by (auto simp: Handle_def split: if_splits)
  qed
  have answered: "case o' of
          Responded res \<Rightarrow> (\<exists>d. Body res = ErrorEnvelope d) \<or>
            ((Code res \<in> documented_statuses e \<or> \<not> strict \<and> (Error, LogTypeDeclarationDrift) \<in> set l) \<and>
             (es_ResponseMediaType e \<noteq> [] \<longrightarrow> ContentType res \<noteq> []))
        | Panicked v \<Rightarrow> strict \<and>
            (\<exists>status. v = DeclarationDrift (rq_Method r) (rq_Path r) status \<and> status \<notin> documented_statuses e)"
    if "Handle strict lib (endpoint_of ep) r w = (o', w', l)" for strict r w o' w' l and lib :: "('r, 'b) libs"
    using that Handle_answers [of strict lib "endpoint_of ep" r w _ w' l] Handle_panics [of strict lib "endpoint_of ep" r w _ w' l]
    by (cases o') (auto simp: status parts)
  show ?thesis
    by (intro bexI [OF _ e(1)] conjI parts(1,2) allI) (use refused answered in \<open>auto split: prod.split\<close>)
qed

text \<open>An endpoint that answers what it was handed, whatever is declared.\<close>

definition sample_endpoint :: "(nat, unit, unit, int) declared_endpoint" where
  "sample_endpoint = endpoint_doc.extend (sample_doc ''usr'' (Some (GoStruct ''dto.User'')) None)
     \<lparr>dl_parse = (\<lambda>_. Inr ()), dl_Handle = (\<lambda>r _. Return (Inr 299))\<rparr>"

definition status_libs :: "(int, unit) libs" where
  "status_libs = \<lparr>lib_vmap = (\<lambda>_ _. []), lib_langs = (\<lambda>_. []),
     lib_response = (\<lambda>x _. \<lparr>Code = x, AddHeaders = None, ReplaceHeaders = None, ContentType = [], Body = Nothing, Cookies = []\<rparr>)\<rparr>"

lemma sample_EndpointDoc: "EndpointDoc sample_endpoint = sample_doc ''usr'' (Some (GoStruct ''dto.User'')) None"
  by (simp add: EndpointDoc_def sample_endpoint_def endpoint_doc.defs sample_doc_def)

lemma sample_endpoint_drifts:
  "fst (Handle True status_libs (endpoint_of sample_endpoint) (request_as (Some (demo_caller []))) 0) =
     Panicked (DeclarationDrift (rq_Method (request_as (Some (demo_caller [])))) (rq_Path (request_as (Some (demo_caller [])))) 299)"
  by (simp add: Handle_def endpoint_of_def sample_endpoint_def endpoint_doc.defs sample_doc_def status_libs_def authorize_def
      HasScheme_def SatisfiesScopes_def validatePathParams_def validateQueryParams_def resourceCheckOf_def
      verify_state_def finish_def checkDeclaredStatus_def isDeclaredStatus_def)

lemma answered_as_documented_witness:
  "\<exists>e \<in> set sample_document. es_Path e = ''/users/{id}'' \<and> es_Method e = ''GET'' \<and> 299 \<notin> documented_statuses e"
proof -
  have route: "(''/users/{id}'', ''GET'', Documented (EndpointDoc sample_endpoint)) \<in> set (served sample_modules)"
    by (simp add: sample_EndpointDoc served_def sample_modules_def doc_routes_def mounted_def)
  let ?r = "request_as (Some (demo_caller []))"
  obtain o' w' l where run: "Handle True status_libs (endpoint_of sample_endpoint) ?r 0 = (o', w', l)"
    by (cases "Handle True status_libs (endpoint_of sample_endpoint) ?r 0")
  with sample_endpoint_drifts have o': "o' = Panicked (DeclarationDrift (rq_Method ?r) (rq_Path ?r) 299)" by simp
  from answered_as_documented [OF sample_built route] show ?thesis
  proof (elim bexE conjE, intro bexI conjI)
    fix e
    assume "\<forall>strict (lib :: (int, unit) libs) r w. case Handle strict lib (endpoint_of sample_endpoint) r w of (o', w', l) \<Rightarrow>
       (\<not> document_admits (es_Security e) r \<longrightarrow> w' = w \<and> l = [] \<and> o' \<in> {Responded UnauthenticatedResponse, Responded ForbiddenResponse}) \<and>
       (case o' of
          Responded res \<Rightarrow> (\<exists>d. Body res = ErrorEnvelope d) \<or>
            ((Code res \<in> documented_statuses e \<or> \<not> strict \<and> (Error, LogTypeDeclarationDrift) \<in> set l) \<and>
             (es_ResponseMediaType e \<noteq> [] \<longrightarrow> ContentType res \<noteq> []))
        | Panicked v \<Rightarrow> strict \<and>
            (\<exists>status. v = DeclarationDrift (rq_Method r) (rq_Path r) status \<and> status \<notin> documented_statuses e))"
    from this [THEN spec, of True, THEN spec, of status_libs, THEN spec, of ?r, THEN spec, of 0] show "299 \<notin> documented_statuses e" by (simp add: run o')
  qed
qed

section \<open>Messages\<close>

type_synonym publish_option = "publish_config \<Rightarrow> publish_config"
type_synonym subscribe_option = "subscribe_config \<Rightarrow> subscribe_config"

record 'm declared_publication = "(publish_option, 'm) publication_spec" +
  dp_Summary :: string
  dp_Description :: string
  dp_FieldDocs :: "(string \<times> string) list"
  dp_Task :: string
  dp_AlsoRead :: "string list"
  dp_Related :: "string list"
  dp_BodyRules :: "field_rules list"
  dp_Behavior :: mb_behavior

definition no_mb_behavior :: mb_behavior where
  "no_mb_behavior = \<lparr>mb_SideEffects = [], mb_Idempotent = None, mb_Preconditions = [], mb_Guarantee = [], mb_Notes = [], mb_Ordering = []\<rparr>"

text \<open>\<open>T\<close> is the type of the message, \<open>defaults\<close> are the broker library's.\<close>

definition PublicationDoc :: "publish_config \<Rightarrow> gotype option \<Rightarrow> 'm declared_publication option \<Rightarrow> publication_doc" where
  "PublicationDoc defaults T spec =
     (case spec of
        None \<Rightarrow> \<lparr>bk_Target = [], bk_Summary = [], bk_Description = [], bk_FieldDocs = [], bk_Task = [], bk_AlsoRead = [],
          bk_Related = [], bk_MsgType = T, bk_BodyRules = [], bk_Behavior = no_mb_behavior, bk_Config = None\<rparr>
      | Some s \<Rightarrow> \<lparr>bk_Target = ps_Target s, bk_Summary = dp_Summary s, bk_Description = dp_Description s, bk_FieldDocs = dp_FieldDocs s,
          bk_Task = dp_Task s, bk_AlsoRead = dp_AlsoRead s, bk_Related = dp_Related s, bk_MsgType = T,
          bk_BodyRules = dp_BodyRules s, bk_Behavior = dp_Behavior s, bk_Config = Some (ResolvePublishConfig defaults (ps_Options s))\<rparr>)"

record ('m, 'w) declared_subscription = "(subscribe_option, 'm, 'w) subscription" +
  ds_Summary :: string
  ds_Description :: string
  ds_FieldDocs :: "(string \<times> string) list"
  ds_Task :: string
  ds_AlsoRead :: "string list"
  ds_Related :: "string list"
  ds_BodyRules :: "field_rules list"
  ds_Behavior :: mb_behavior

definition SubscriptionDoc :: "subscribe_config \<Rightarrow> gotype option \<Rightarrow> ('m, 'w) declared_subscription \<Rightarrow> subscription_doc" where
  "SubscriptionDoc defaults T s = \<lparr>bk_Target = sb_Target s, bk_Summary = ds_Summary s, bk_Description = ds_Description s,
     bk_FieldDocs = ds_FieldDocs s, bk_Task = ds_Task s, bk_AlsoRead = ds_AlsoRead s, bk_Related = ds_Related s, bk_MsgType = T,
     bk_BodyRules = ds_BodyRules s, bk_Behavior = ds_Behavior s, bk_Config = Some (ResolveSubscribeConfig defaults (sb_Options s))\<rparr>"

lemma documented_target:
  assumes "DescribePublication mg (PublicationDoc defaults T (Some s)) protocol names = Some (Inr op)"
    and "ps_check s msg = []" "marshal msg = Inr data"
  shows "Publish marshal (NewPublication (Some publish) (Some (publication_spec.truncate s))) ctx msg meta opts b =
    publish ctx (channelAddress op) data meta (ps_Options s @ opts) b"
  using assms
  by (auto simp: DescribePublication_def describe_broker_def and_then_done channelAddress_def PublicationDoc_def Publish_def
      NewPublication_def publication_spec.defs)

text \<open>
  A message is sent where the document says, with the settings it shows: the options that reach the broker resolve to
  the documented ones, as far as a single call does not add its own.
\<close>

lemma documented_settings:
  "bk_Config (PublicationDoc defaults T (Some s)) = Some (ResolvePublishConfig defaults (ps_Options s @ []))"
  "bk_Config (SubscriptionDoc defaults' T s') = Some (ResolveSubscribeConfig defaults' (sm_options (NewSubscriptionModule (subscription.truncate s'))))"
  by (simp_all add: PublicationDoc_def SubscriptionDoc_def NewSubscriptionModule_def subscription.defs)

end
