(* ===== verification/Spec2Isabelle.thy ===== *)
theory Spec2Isabelle
  imports SessionApi Startup Wskit Broker Orders ApiDoc MsgDoc Describe AdminApi UserModule ExampleTypes Lifecycle
    Connections RpcServer HttpServer Application Deployment Rules Programs Documents Declared
begin

text \<open>
  A verification library for ensoria-template (Go, \<open>internal/\<close>): an application server with typed
  HTTP endpoints, WebSocket channels and broker messages, callers verified by token, API key or browser
  session, and documentation generated from the same declarations.

  \<^bold>\<open>How the parts work together.\<close> A request passes the global chain (CORS, the cross-site check,
  authentication), which turns its credentials into a caller with the application's scope policy
  attached and notes who started the work; the endpoint adapter then authorises it against the
  endpoint's declaration, parses and validates it and runs the handler, which may have to ask about the
  resource it touches. A WebSocket upgrade passes guards of its own, and each frame is dispatched to a
  declared receiver. What a handler publishes carries who started it, and a subscription reads that
  back. Two programs, the server and the scheduler, are built from constructors by a container: connecting leaves
  hooks with it that run when the program starts and stops. At startup the declarations and the configuration
  are checked against each other. The documentation is read off the declarations.

  \<^bold>\<open>Foundations.\<close>
  \<^item> \<open>Prelude\<close>: errors as trees with \<open>errors.Is\<close>, responses, logs, lists as Go maps. \<open>GoStrings\<close>: \<open>strings\<close>,
    \<open>strconv\<close> and \<open>url.PathEscape\<close> on byte sequences.

  \<^bold>\<open>Who is calling\<close> (\<open>internal/plamo/authkit\<close>, \<open>keystore\<close>, \<open>stub\<close>, \<open>internal/app/auth\<close>).
  \<^item> \<open>Scopes\<close> (\<open>scope.go\<close>): the implication table, its closure by a depth-first walk, \<open>Expand\<close>. Proved: the walk
    returns, refuses exactly the cyclic tables and computes the transitive closure.
  \<^item> \<open>Claims\<close> (\<open>claims.go\<close>), \<open>Principal\<close> (\<open>principal.go\<close>): typed claims and what a caller holds.
  \<^item> \<open>KeyStores\<close> (\<open>keystore\<close>, \<open>stub/apikey.go\<close>): the four key stores under one contract, the locale \<open>key_store\<close>.
  \<^item> \<open>Verifier\<close> (\<open>verifier.go\<close>, \<open>schemes.go\<close>, \<open>app/auth/auth.go\<close>): tokens, keys and sessions in their order,
    the wiring from the configuration and the shipped credentials. Proved: a header beats a cookie, an error
    is a bad credential or an unreachable store and never mistaken for the other, and what a caller may be.

  \<^bold>\<open>Browser sessions\<close> (\<open>internal/plamo/sessionkit\<close>, \<open>internal/app/auth/api\<close>, \<open>internal/infra/session\<close>).
  \<^item> \<open>SessionConfig\<close>: configuration, cookie, id, records. \<open>SessionStore\<close>: the store over a cache that may fail.
    Proved: soundness of a lookup, finality of signing out, revocation of a subject, and that not finding a
    session means that it is gone. \<open>SessionSpec\<close>: the store refines a table of sign-ins. \<open>SessionApi\<close>: the two
    endpoints, run by the adapter.

  \<^bold>\<open>HTTP\<close> (\<open>internal/plamo/restkit\<close>, \<open>vkit\<close>, \<open>internal/middleware\<close>, \<open>internal/app/http\<close>).
  \<^item> \<open>Restkit\<close>: the adapter \<open>Handle\<close> with a handler as a program over a world, authorisation, resource checks and
    the refusals. \<open>Lang\<close> (\<open>vkit/lang.go\<close>): the language of a message.
  \<^item> \<open>Origins\<close>: CORS, cross-site requests, upgrade origins. \<open>AuthMw\<close>: authentication and the global chain; the
    locale \<open>middleware\<close> is interpreted by all three. \<open>Startup\<close>: the checks before serving, and the pipeline.
  \<^item> \<open>Initiator\<close> (\<open>plamo/initiator\<close>): who started the work, written to and read from headers.

  \<^bold>\<open>Messages\<close> (\<open>internal/plamo/wskit\<close>, \<open>mbkit\<close>, \<open>internal/app/ws\<close>, \<open>internal/app/mb\<close>).
  \<^item> \<open>Wskit\<close>: judgements, dispatch, guards, router checks, and a connection as a step relation whose reachable
    states keep the caller of the handshake. \<open>Broker\<close>: publications, subscriptions and their binding; what may be sent is accepted under the same rules (\<open>vkit.go\<close>).

  \<^bold>\<open>Documentation\<close> (\<open>internal/plamo/apidoc\<close>, \<open>msgdoc\<close>, \<open>internal/app/bootstrap/describe\<close>).
  \<^item> \<open>ApiSchema\<close>, \<open>ApiExamples\<close>: the schema and the example of a type. \<open>ExampleTypes\<close>: \<open>fits\<close> types values by
    schemas, and an example fits the schema beside it. \<open>ApiDoc\<close>, \<open>MsgDoc\<close>: every route, channel,
    subscription and publication. \<open>Describe\<close>: credentials and servers. \<open>Documents\<close>: both documents as a whole,
    the conventions and titles (\<open>app/apiinfo\<close>), the stand-ins. \<open>Declared\<close>: one declaration as the adapter runs it and
    as the documents are generated from it. Proved: the documents name what is served,
    admit who is admitted, list what is answered and do not depend on the order of delivery; when documenting returns.

  \<^bold>\<open>The process\<close> (\<open>internal/plamo/dikit\<close>, \<open>internal/app/bootstrap\<close>, \<open>internal/infra\<close>, \<open>internal/app/grpc\<close>, \<open>cmd\<close>).
  \<^item> \<open>Lifecycle\<close>: annotations, the hooks of every server, running and ending a program, its exit status.
    \<open>Connections\<close>: the clients of \<open>infra\<close> with their hooks, data source names, the key store that is configured;
    an application that started has reached its key store.
  \<^item> \<open>HttpServer\<close> (\<open>app/http/http.go\<close>, \<open>logging.go\<close>), \<open>RpcServer\<close> (\<open>app/grpc\<close>): the two servers and the records they
    write, with the fields a record keeps and when their names are distinct.
  \<^item> \<open>Programs\<close> (\<open>cmd\<close>, \<open>cli\<close>, \<open>embed.go\<close>, the order seeder): how the scheduler's and the documenting programs end and what
    they print, where the configuration is read from, the sample rows.

  \<^bold>\<open>Modules.\<close>
  \<^item> \<open>Orders\<close> (\<open>internal/module/order\<close>), \<open>UserModule\<close> (\<open>internal/module/user\<close>, the shipped policy), \<open>AdminApi\<close>
    (\<open>internal/app/scheduler\<close>, \<open>internal/app/worker\<close>: the operators' endpoints).
  \<^item> \<open>Application\<close> (the \<open>module.go\<close> files, \<open>module/post\<close>, \<open>query/user_post\<close>, \<open>app/bootstrap/server\<close> and
    \<open>scheduler\<close>): the remaining sample code, the modules of both programs, and what the startup checks make of
    them as shipped.
  \<^item> \<open>Deployment\<close>: the access matrix of both programs, one line per endpoint, and that the modules, the pipeline, the
    shipped policy and the verifier together let a caller do exactly what its line says.
  \<^item> \<open>Rules\<close> (\<open>vkit.go\<close>, the \<open>dto\<close> packages and the \<open>BodyRules\<close> of the modules): the rules, the texts callers are told, and
    that what the documents call required or nullable is what validation enforces.

  \<^bold>\<open>Conventions.\<close> A Go error is \<open>goerr\<close>, a fallible result a sum with the error on the left; a nil pointer is
  \<open>None\<close>; a map that is ranged over is the list of its entries in the order of one run. An instant is an
  integer of nanoseconds, a duration 64 bits wide. Code outside \<open>src/\<close> is a parameter: the cache
  (\<open>cache_ops\<close>, with \<open>cache_laws\<close> for its documentation), \<open>jwt.Parse\<close>, the key set, JSON, \<open>url.Parse\<close>
  (\<open>url_laws\<close>), the validators, the fake data generator (\<open>faker_laws\<close>), the scheduler and worker libraries,
  the broker, the socket, the gRPC server and the clients of databases and Redis. The container
  is a parameter too: \<open>fx_laws\<close> is what its documentation says of hooks. Every such hypothesis has an instance in a witness.

  \<^bold>\<open>Bounds.\<close> The scope walk runs on \<open>walk_fuel\<close>, one more than the number of scopes named, and
  \<open>resolve_total\<close> shows that this is enough. Example generation follows a type as deep as it goes: it takes
  fuel and \<open>None\<close> is running out; \<open>document_comes_out\<close> shows that some fuel is enough for all types whose
  structs do not contain themselves, with the same result from there on, and \<open>recursive_type_never_documented\<close>
  that no fuel is for one that does.

  \<^bold>\<open>Not modelled.\<close> How the container finds the order of constructors. Generated protocol code (\<open>pb\<close>), test
  doubles, the seeders that draw fake data, the unused tea model. Parsing flags, reading and embedding configuration
  files, what sample code prints. What a validation rule accepts is the validator library's: \<open>Rules\<close> takes it from the comments of
  \<open>vkit.go\<close> as \<open>validator_laws\<close>. Concurrency appears where the store has it: as sequences of cache calls.
\<close>

end
